(* ===== verification/Prelude.thy ===== *)
theory Prelude
  imports "HOL-Library.Word" "HOL-Library.AList" "HOL-Library.List_Lexorder"
begin

text \<open>
  Shared vocabulary of the development: the machine types of the C++ sources, decimal text
  as \<^verbatim>\<open>std::to_string\<close> prints it, and the generic facts on words, association lists
  and sums that the component theories use. Unsigned integers are words of their width, so
  arithmetic wraps as it does in C++. \<^verbatim>\<open>Nanos\<close> (\<^verbatim>\<open>std::int64_t\<close>) is \<open>int\<close>: signed
  overflow is undefined in C++ and is not modelled. \<^verbatim>\<open>std::size_t\<close> counts are \<open>nat\<close>.
  A hash map is an association list whose list order stands for the (unspecified) iteration
  order; every theorem quantifies over the whole state and so over every such order.
\<close>

unbundle bit_operations_syntax

named_theorems unat_bounds \<open>sizes of words read as natural numbers\<close>

type_synonym u8 = "8 word"
type_synonym u32 = "32 word"
type_synonym u64 = "64 word"
type_synonym nanos = int
type_synonym bytes = "u8 list"

section \<open>Words read as natural numbers\<close>

lemma unat_u64_less [unat_bounds]: "unat (x :: u64) < 2 ^ 64"
  using unsigned_less [of x, where 'a = nat] by simp

lemma unat_u32_less [unat_bounds]: "unat (x :: u32) < 2 ^ 32"
  using unsigned_less [of x, where 'a = nat] by simp

lemma unat_u8_less [unat_bounds]: "unat (x :: u8) < 256"
  using unsigned_less [of x, where 'a = nat] by simp

lemma unat_of_nat_u64: "n < 2 ^ 64 \<Longrightarrow> unat (word_of_nat n :: u64) = n"
  by (simp add: unat_of_nat)

lemma unat_add_u64: "unat (a :: u64) + unat b < 2 ^ 64 \<Longrightarrow> unat (a + b) = unat a + unat b"
  by (simp add: unat_word_ariths)

lemma unat_mult_u64: "unat (a :: u64) * unat b < 2 ^ 64 \<Longrightarrow> unat (a * b) = unat a * unat b"
  by (simp add: unat_word_ariths)

lemma unat_sub_le: "(b :: 'a::len word) \<le> a \<Longrightarrow> unat (a - b) = unat a - unat b"
  by (rule unat_sub)

lemma unat_min: "unat (min a b :: 'a::len word) = min (unat a) (unat b)"
  by (simp add: min_def word_le_nat_alt)

lemma unat_max: "unat (max a b :: 'a::len word) = max (unat a) (unat b)"
  by (simp add: max_def word_le_nat_alt)

section \<open>Decimal text\<close>

definition digit_char :: "nat \<Rightarrow> char" where
  "digit_char d = char_of (48 + d)"

fun dec_string :: "nat \<Rightarrow> string" where
  "dec_string n = (if n < 10 then [digit_char n] else dec_string (n div 10) @ [digit_char (n mod 10)])"

declare dec_string.simps [simp del]

definition is_digit_char :: "char \<Rightarrow> bool" where
  "is_digit_char c \<longleftrightarrow> 48 \<le> (of_char c :: nat) \<and> (of_char c :: nat) \<le> 57"

definition digit_value :: "char \<Rightarrow> nat" where
  "digit_value c = of_char c - 48"

definition dec_value :: "nat \<Rightarrow> string \<Rightarrow> nat" where
  "dec_value acc cs = foldl (\<lambda>a c. a * 10 + digit_value c) acc cs"

lemma of_char_digit_char: "d < 10 \<Longrightarrow> (of_char (digit_char d) :: nat) = 48 + d"
  by (simp add: digit_char_def)

lemma digit_value_digit_char [simp]: "d < 10 \<Longrightarrow> digit_value (digit_char d) = d"
  by (simp add: digit_value_def of_char_digit_char)

lemma is_digit_digit_char [simp]: "d < 10 \<Longrightarrow> is_digit_char (digit_char d)"
  by (simp add: is_digit_char_def of_char_digit_char)

lemma digit_char_digit_value: "is_digit_char c \<Longrightarrow> digit_char (digit_value c) = c"
proof -
  assume "is_digit_char c"
  then have "48 + (of_char c - 48 :: nat) = of_char c"
    by (simp add: is_digit_char_def)
  then show ?thesis
    by (simp add: digit_char_def digit_value_def)
qed

lemma digit_value_less: "is_digit_char c \<Longrightarrow> digit_value c < 10"
  by (auto simp: is_digit_char_def digit_value_def)

lemma dec_value_Nil [simp]: "dec_value a [] = a"
  by (simp add: dec_value_def)

lemma dec_value_Cons [simp]: "dec_value a (c # cs) = dec_value (a * 10 + digit_value c) cs"
  by (simp add: dec_value_def)

lemma dec_value_append [simp]: "dec_value a (xs @ ys) = dec_value (dec_value a xs) ys"
  by (simp add: dec_value_def)

lemma dec_value_ge: "a \<le> dec_value a cs"
proof (induction cs arbitrary: a)
  case (Cons c cs)
  have "a \<le> a * 10 + digit_value c" by simp
  also have "\<dots> \<le> dec_value (a * 10 + digit_value c) cs" by (rule Cons.IH)
  finally show ?case by simp
qed simp

lemma dec_string_digits: "list_all is_digit_char (dec_string n)"
  by (induction n rule: dec_string.induct) (subst dec_string.simps, auto)

lemma dec_string_nonempty: "dec_string n \<noteq> []"
  by (subst dec_string.simps) simp

lemma dec_string_value: "dec_value 0 (dec_string n) = n"
proof (induction n rule: dec_string.induct)
  case (1 n)
  show ?case
  proof (cases "n < 10")
    case True
    then show ?thesis by (subst dec_string.simps) simp
  next
    case False
    with 1 show ?thesis by (subst dec_string.simps) simp
  qed
qed

lemma dec_string_length: "n < 10 ^ Suc k \<Longrightarrow> length (dec_string n) \<le> Suc k"
proof (induction k arbitrary: n)
  case 0
  then show ?case by (subst dec_string.simps) simp
next
  case (Suc k)
  have "n div 10 < 10 ^ Suc k"
    using Suc.prems by (simp add: less_mult_imp_div_less)
  then have "length (dec_string (n div 10)) \<le> Suc k"
    by (rule Suc.IH)
  then show ?case by (subst dec_string.simps) auto
qed

lemma dec_string_head: "0 < n \<Longrightarrow> hd (dec_string n) \<noteq> digit_char 0"
proof (induction n rule: dec_string.induct)
  case (1 n)
  show ?case
  proof (cases "n < 10")
    case True
    have "digit_value (digit_char n) \<noteq> digit_value (digit_char 0)"
      using True 1(2) by simp
    then have "digit_char n \<noteq> digit_char 0" by metis
    then show ?thesis using True by (subst dec_string.simps) simp
  next
    case False
    then have "0 < n div 10" by (simp add: div_greater_zero_iff)
    with 1(1) False show ?thesis
      by (subst dec_string.simps) (simp add: dec_string_nonempty)
  qed
qed

text \<open>A digit string without a leading zero is the decimal text of its value.\<close>

lemma dec_value_pos:
  assumes "cs \<noteq> []" and "list_all is_digit_char cs" and "hd cs \<noteq> digit_char 0"
  shows "0 < dec_value 0 cs"
proof -
  obtain c r where cs: "cs = c # r" using assms(1) by (cases cs) auto
  have "digit_value c \<noteq> 0"
    using assms(2,3) digit_char_digit_value [of c] by (metis cs list.pred_inject(2) list.sel(1))
  then have "0 < 0 * 10 + digit_value c" by simp
  also have "\<dots> \<le> dec_value (0 * 10 + digit_value c) r" by (rule dec_value_ge)
  finally show ?thesis by (simp add: cs)
qed

lemma dec_string_snoc:
  assumes "0 < v" and "d < 10"
  shows "dec_string (v * 10 + d) = dec_string v @ [digit_char d]"
  by (subst dec_string.simps) (use assms in simp)

lemma dec_string_canonical:
  assumes "cs \<noteq> []" and "list_all is_digit_char cs"
    and "length cs = 1 \<or> hd cs \<noteq> digit_char 0"
  shows "dec_string (dec_value 0 cs) = cs"
  using assms
proof (induction cs rule: rev_induct)
  case Nil
  then show ?case by simp
next
  case (snoc c cs)
  have dig: "is_digit_char c" and digs: "list_all is_digit_char cs"
    using snoc.prems by auto
  show ?case
  proof (cases "cs = []")
    case True
    then show ?thesis
      using dig digit_value_less [OF dig]
      by (subst dec_string.simps) (simp add: digit_char_digit_value)
  next
    case False
    then have hd: "hd cs \<noteq> digit_char 0"
      using snoc.prems(3) by simp
    then have "dec_string (dec_value 0 cs) = cs"
      using snoc.IH False digs by simp
    moreover have "0 < dec_value 0 cs"
      using dec_value_pos False digs hd by blast
    ultimately show ?thesis
      using dec_string_snoc [OF _ digit_value_less [OF dig]] dig
      by (simp add: digit_char_digit_value)
  qed
qed

section \<open>Canonical text forms\<close>

text \<open>
  The contract of a canonical text form: every value prints to a text that parses back to
  it, and a text is accepted only when it is exactly what its value prints to.
\<close>

locale canonical_text =
  fixes valid :: "'a \<Rightarrow> bool"
    and show_text :: "'a \<Rightarrow> string"
    and parse_text :: "string \<Rightarrow> 'a option"
  assumes parse_show: "valid x \<Longrightarrow> parse_text (show_text x) = Some x"
    and parse_canonical: "parse_text t = Some x \<Longrightarrow> valid x \<and> show_text x = t"
begin

lemma parse_iff: "parse_text t = Some x \<longleftrightarrow> valid x \<and> show_text x = t"
  using parse_show parse_canonical by blast

lemma show_inject: "valid x \<Longrightarrow> valid y \<Longrightarrow> show_text x = show_text y \<longleftrightarrow> x = y"
  using parse_show by (metis option.inject)

lemma parse_inject: "parse_text s = Some x \<Longrightarrow> parse_text t = Some x \<Longrightarrow> s = t"
  using parse_canonical by blast

lemma parse_reject: "parse_text t = None \<longleftrightarrow> (\<forall>x. valid x \<longrightarrow> show_text x \<noteq> t)"
  using parse_show parse_canonical by (metis not_None_eq)

end

end
