(* ===== verification/Status.thy ===== *)
theory Status
  imports Prelude
begin

text \<open>
  The error taxonomy of \<^verbatim>\<open>include/ctf/status.hpp\<close> and \<^verbatim>\<open>src/status.cpp\<close>. A \<^verbatim>\<open>Status\<close> is its
  code, with \<open>EC_Ok\<close> for success; a \<^verbatim>\<open>Result<T>\<close> is a sum whose left side is the code of
  the refusal. The human-readable detail text of a status carries no control flow and is not
  part of the model.
\<close>

datatype error_code =
    EC_Ok
  | EC_InvalidArgument
  | EC_InvalidSyntax
  | EC_OutOfRange
  | EC_PayloadTooLarge
  | EC_CollectionTooLarge
  | EC_StringTooLong
  | EC_InvalidUtf8
  | EC_NonCanonicalEncoding
  | EC_TrailingGarbage
  | EC_UnknownMessageType
  | EC_UnsupportedValue
  | EC_MissingField
  | EC_DuplicateIdentity
  | EC_IntegrityFailure
  | EC_TruncatedInput
  | EC_VersionIncompatible
  | EC_CorruptState
  | EC_ImpossibleState
  | EC_StaleEpoch
  | EC_ForeignEpoch
  | EC_StalePolicyGeneration
  | EC_StaleTopologyGeneration
  | EC_StaleContractGeneration
  | EC_StaleCheckpointGeneration
  | EC_StaleAttempt
  | EC_StaleEvidence
  | EC_Superseded
  | EC_ReplayDetected
  | EC_NotAuthorized
  | EC_RevalidationRequired
  | EC_SequenceViolation
  | EC_NotFound
  | EC_AlreadyExists
  | EC_InvalidStateTransition
  | EC_CapacityExceeded
  | EC_ResourceExhausted
  | EC_ShuttingDown
  | EC_NotReady
  | EC_Deferred
  | EC_Denied
  | EC_DeadlineUnreachable
  | EC_VerificationMismatch
  | EC_Cancelled
  | EC_AmbiguousOutcome
  | EC_EnvelopeExhausted
  | EC_NotDurable
  | EC_IoFailure
  | EC_PeerClosed
  | EC_ConnectionRefused
  | EC_Unsupported
  | EC_Internal
  | EC_AccountingImbalance

type_synonym status = error_code
type_synonym 'a result = "error_code + 'a"

definition status_ok :: "status \<Rightarrow> bool" where
  "status_ok s \<longleftrightarrow> s = EC_Ok"

primrec error_code_value :: "error_code \<Rightarrow> nat" where
  "error_code_value EC_Ok = 0"
| "error_code_value EC_InvalidArgument = 100"
| "error_code_value EC_InvalidSyntax = 101"
| "error_code_value EC_OutOfRange = 102"
| "error_code_value EC_PayloadTooLarge = 103"
| "error_code_value EC_CollectionTooLarge = 104"
| "error_code_value EC_StringTooLong = 105"
| "error_code_value EC_InvalidUtf8 = 106"
| "error_code_value EC_NonCanonicalEncoding = 107"
| "error_code_value EC_TrailingGarbage = 108"
| "error_code_value EC_UnknownMessageType = 109"
| "error_code_value EC_UnsupportedValue = 110"
| "error_code_value EC_MissingField = 111"
| "error_code_value EC_DuplicateIdentity = 112"
| "error_code_value EC_IntegrityFailure = 200"
| "error_code_value EC_TruncatedInput = 201"
| "error_code_value EC_VersionIncompatible = 202"
| "error_code_value EC_CorruptState = 203"
| "error_code_value EC_ImpossibleState = 204"
| "error_code_value EC_StaleEpoch = 300"
| "error_code_value EC_ForeignEpoch = 301"
| "error_code_value EC_StalePolicyGeneration = 302"
| "error_code_value EC_StaleTopologyGeneration = 303"
| "error_code_value EC_StaleContractGeneration = 304"
| "error_code_value EC_StaleCheckpointGeneration = 305"
| "error_code_value EC_StaleAttempt = 306"
| "error_code_value EC_StaleEvidence = 307"
| "error_code_value EC_Superseded = 308"
| "error_code_value EC_ReplayDetected = 309"
| "error_code_value EC_NotAuthorized = 310"
| "error_code_value EC_RevalidationRequired = 311"
| "error_code_value EC_SequenceViolation = 312"
| "error_code_value EC_NotFound = 400"
| "error_code_value EC_AlreadyExists = 401"
| "error_code_value EC_InvalidStateTransition = 402"
| "error_code_value EC_CapacityExceeded = 403"
| "error_code_value EC_ResourceExhausted = 404"
| "error_code_value EC_ShuttingDown = 405"
| "error_code_value EC_NotReady = 406"
| "error_code_value EC_Deferred = 407"
| "error_code_value EC_Denied = 408"
| "error_code_value EC_DeadlineUnreachable = 409"
| "error_code_value EC_VerificationMismatch = 410"
| "error_code_value EC_Cancelled = 411"
| "error_code_value EC_AmbiguousOutcome = 412"
| "error_code_value EC_EnvelopeExhausted = 413"
| "error_code_value EC_NotDurable = 414"
| "error_code_value EC_IoFailure = 500"
| "error_code_value EC_PeerClosed = 501"
| "error_code_value EC_ConnectionRefused = 502"
| "error_code_value EC_Unsupported = 503"
| "error_code_value EC_Internal = 504"
| "error_code_value EC_AccountingImbalance = 505"

primrec error_code_to_string :: "error_code \<Rightarrow> string" where
  "error_code_to_string EC_Ok = ''Ok''"
| "error_code_to_string EC_InvalidArgument = ''InvalidArgument''"
| "error_code_to_string EC_InvalidSyntax = ''InvalidSyntax''"
| "error_code_to_string EC_OutOfRange = ''OutOfRange''"
| "error_code_to_string EC_PayloadTooLarge = ''PayloadTooLarge''"
| "error_code_to_string EC_CollectionTooLarge = ''CollectionTooLarge''"
| "error_code_to_string EC_StringTooLong = ''StringTooLong''"
| "error_code_to_string EC_InvalidUtf8 = ''InvalidUtf8''"
| "error_code_to_string EC_NonCanonicalEncoding = ''NonCanonicalEncoding''"
| "error_code_to_string EC_TrailingGarbage = ''TrailingGarbage''"
| "error_code_to_string EC_UnknownMessageType = ''UnknownMessageType''"
| "error_code_to_string EC_UnsupportedValue = ''UnsupportedValue''"
| "error_code_to_string EC_MissingField = ''MissingField''"
| "error_code_to_string EC_DuplicateIdentity = ''DuplicateIdentity''"
| "error_code_to_string EC_IntegrityFailure = ''IntegrityFailure''"
| "error_code_to_string EC_TruncatedInput = ''TruncatedInput''"
| "error_code_to_string EC_VersionIncompatible = ''VersionIncompatible''"
| "error_code_to_string EC_CorruptState = ''CorruptState''"
| "error_code_to_string EC_ImpossibleState = ''ImpossibleState''"
| "error_code_to_string EC_StaleEpoch = ''StaleEpoch''"
| "error_code_to_string EC_ForeignEpoch = ''ForeignEpoch''"
| "error_code_to_string EC_StalePolicyGeneration = ''StalePolicyGeneration''"
| "error_code_to_string EC_StaleTopologyGeneration = ''StaleTopologyGeneration''"
| "error_code_to_string EC_StaleContractGeneration = ''StaleContractGeneration''"
| "error_code_to_string EC_StaleCheckpointGeneration = ''StaleCheckpointGeneration''"
| "error_code_to_string EC_StaleAttempt = ''StaleAttempt''"
| "error_code_to_string EC_StaleEvidence = ''StaleEvidence''"
| "error_code_to_string EC_Superseded = ''Superseded''"
| "error_code_to_string EC_ReplayDetected = ''ReplayDetected''"
| "error_code_to_string EC_NotAuthorized = ''NotAuthorized''"
| "error_code_to_string EC_RevalidationRequired = ''RevalidationRequired''"
| "error_code_to_string EC_SequenceViolation = ''SequenceViolation''"
| "error_code_to_string EC_NotFound = ''NotFound''"
| "error_code_to_string EC_AlreadyExists = ''AlreadyExists''"
| "error_code_to_string EC_InvalidStateTransition = ''InvalidStateTransition''"
| "error_code_to_string EC_CapacityExceeded = ''CapacityExceeded''"
| "error_code_to_string EC_ResourceExhausted = ''ResourceExhausted''"
| "error_code_to_string EC_ShuttingDown = ''ShuttingDown''"
| "error_code_to_string EC_NotReady = ''NotReady''"
| "error_code_to_string EC_Deferred = ''Deferred''"
| "error_code_to_string EC_Denied = ''Denied''"
| "error_code_to_string EC_DeadlineUnreachable = ''DeadlineUnreachable''"
| "error_code_to_string EC_VerificationMismatch = ''VerificationMismatch''"
| "error_code_to_string EC_Cancelled = ''Cancelled''"
| "error_code_to_string EC_AmbiguousOutcome = ''AmbiguousOutcome''"
| "error_code_to_string EC_EnvelopeExhausted = ''EnvelopeExhausted''"
| "error_code_to_string EC_NotDurable = ''NotDurable''"
| "error_code_to_string EC_IoFailure = ''IoFailure''"
| "error_code_to_string EC_PeerClosed = ''PeerClosed''"
| "error_code_to_string EC_ConnectionRefused = ''ConnectionRefused''"
| "error_code_to_string EC_Unsupported = ''Unsupported''"
| "error_code_to_string EC_Internal = ''Internal''"
| "error_code_to_string EC_AccountingImbalance = ''AccountingImbalance''"

definition is_fencing_code :: "error_code \<Rightarrow> bool" where
  "is_fencing_code c \<longleftrightarrow> c \<in> {EC_StaleEpoch, EC_ForeignEpoch, EC_StalePolicyGeneration,
     EC_StaleTopologyGeneration, EC_StaleContractGeneration, EC_StaleCheckpointGeneration,
     EC_StaleAttempt, EC_StaleEvidence, EC_Superseded, EC_ReplayDetected, EC_NotAuthorized,
     EC_SequenceViolation}"

definition requires_revalidation :: "error_code \<Rightarrow> bool" where
  "requires_revalidation c \<longleftrightarrow> c \<in> {EC_RevalidationRequired, EC_StaleEpoch, EC_ForeignEpoch,
     EC_AmbiguousOutcome}"

end
