(* ===== verification/Ids.thy ===== *)
theory Ids
  imports Status
begin

text \<open>
  Identities, generations and epochs: \<^verbatim>\<open>include/ctf/ids.hpp\<close> and \<^verbatim>\<open>src/ids.cpp\<close>. The tag
  types of \<^verbatim>\<open>StrongId\<close>, \<^verbatim>\<open>StrongScalar\<close> and \<^verbatim>\<open>Generation\<close> only separate names at compile
  time, so every identity is a \<open>uuid128\<close> and every scalar or generation a word of its width.
  The theorems are the canonical text forms (printing and strict parsing are inverse), the
  order of epochs, and that a generation never wraps.
\<close>

section \<open>Uuid128\<close>

datatype uuid128 = Uuid128 (uuid_bytes: "u8 list")

instantiation uuid128 :: linorder
begin

definition less_eq_uuid128 :: "uuid128 \<Rightarrow> uuid128 \<Rightarrow> bool" where
  "less_eq_uuid128 a b \<longleftrightarrow> uuid_bytes a \<le> uuid_bytes b"

definition less_uuid128 :: "uuid128 \<Rightarrow> uuid128 \<Rightarrow> bool" where
  "less_uuid128 a b \<longleftrightarrow> uuid_bytes a < uuid_bytes b"

instance
  by standard (auto simp: less_eq_uuid128_def less_uuid128_def uuid128.expand)

end

type_synonym checkpoint_id = uuid128
type_synonym session_id = uuid128
type_synonym attempt_id = uuid128
type_synonym workload_id = uuid128
type_synonym command_id = uuid128
type_synonym shard_index = u32
type_synonym wave_index = u32
type_synonym path_class_id = u32
type_synonym generation = u64
type_synonym attempt_sequence = u64

definition wf_uuid :: "uuid128 \<Rightarrow> bool" where
  "wf_uuid u \<longleftrightarrow> length (uuid_bytes u) = 16"

definition nil_uuid :: uuid128 where
  "nil_uuid = Uuid128 (replicate 16 0)"

definition is_nil :: "uuid128 \<Rightarrow> bool" where
  "is_nil u \<longleftrightarrow> list_all (\<lambda>b. b = 0) (uuid_bytes u)"

definition hex_digit_value :: "char \<Rightarrow> int" where
  "hex_digit_value c =
     (let n = int (of_char c) in
      if 48 \<le> n \<and> n \<le> 57 then n - 48
      else if 97 \<le> n \<and> n \<le> 102 then n - 97 + 10
      else -1)"

definition kHexDigits :: string where
  "kHexDigits = ''0123456789abcdef''"

definition hex_digit :: "u8 \<Rightarrow> char" where
  "hex_digit w = kHexDigits ! unat w"

fun uuid_parse_loop :: "nat \<Rightarrow> u8 list \<Rightarrow> int \<Rightarrow> string \<Rightarrow> u8 list option" where
  "uuid_parse_loop i bs high [] = (if length bs \<noteq> 16 then None else Some bs)"
| "uuid_parse_loop i bs high (c # cs) =
     (if i = 8 \<or> i = 13 \<or> i = 18 \<or> i = 23 then
        (if c \<noteq> CHR ''-'' then None else uuid_parse_loop (i + 1) bs high cs)
      else
        let value = hex_digit_value c in
        if value < 0 then None
        else if high < 0 then uuid_parse_loop (i + 1) bs value cs
        else if length bs \<ge> 16 then None
        else uuid_parse_loop (i + 1) (bs @ [word_of_int (push_bit 4 high OR value)]) (-1) cs)"

definition uuid_parse :: "string \<Rightarrow> uuid128 option" where
  "uuid_parse text =
     (if length text \<noteq> 36 then None
      else map_option Uuid128 (uuid_parse_loop 0 [] (-1) text))"

definition uuid_to_string :: "uuid128 \<Rightarrow> string" where
  "uuid_to_string u =
     concat (map (\<lambda>i. (if i = 4 \<or> i = 6 \<or> i = 8 \<or> i = 10 then ''-'' else []) @
                      [hex_digit (drop_bit 4 (uuid_bytes u ! i)),
                       hex_digit (uuid_bytes u ! i AND 0x0F)]) [0..<16])"

definition uuid_hash :: "uuid128 \<Rightarrow> u64" where
  "uuid_hash u =
     foldl (\<lambda>h b. (h XOR ucast b) * 0x100000001B3) 0xCBF29CE484222325 (uuid_bytes u)"

section \<open>Random identities\<close>

text \<open>
  \<^verbatim>\<open>std::mt19937_64\<close> as the C++ standard defines it: \<open>mt_x seed k\<close> is the \<open>k\<close>-th element of
  the state sequence, the first 312 of them from the seed, and the generator's \<open>i\<close>-th output
  is the tempered element \<open>312 + i\<close>. An \<^verbatim>\<open>IdFactory\<close> is that output stream and a position.
\<close>

fun mt_x :: "u64 \<Rightarrow> nat \<Rightarrow> u64" where
  "mt_x seed k =
     (if k = 0 then seed
      else if k < 312 then
        6364136223846793005 * (mt_x seed (k - 1) XOR drop_bit 62 (mt_x seed (k - 1))) + word_of_nat k
      else
        let y = (mt_x seed (k - 312) AND 0xFFFFFFFF80000000) OR (mt_x seed (k - 311) AND 0x7FFFFFFF)
        in mt_x seed (k - 156) XOR drop_bit 1 y XOR (if bit y 0 then 0xB5026F5AA96619E9 else 0))"

declare mt_x.simps [simp del]

definition mt_temper :: "u64 \<Rightarrow> u64" where
  "mt_temper z =
     (let z1 = z XOR (drop_bit 29 z AND 0x5555555555555555);
          z2 = z1 XOR (push_bit 17 z1 AND 0x71D67FFFEDA60000);
          z3 = z2 XOR (push_bit 37 z2 AND 0xFFF7EEE000000000)
      in z3 XOR drop_bit 43 z3)"

definition mt19937_64 :: "u64 \<Rightarrow> nat \<Rightarrow> u64" where
  "mt19937_64 seed i = mt_temper (mt_x seed (312 + i))"

record id_factory =
  idf_stream :: "nat \<Rightarrow> u64"
  idf_pos :: nat

definition id_factory_new :: "u64 \<Rightarrow> id_factory" where
  "id_factory_new seed = \<lparr>idf_stream = mt19937_64 seed, idf_pos = 0\<rparr>"

definition be_bytes8 :: "u64 \<Rightarrow> u8 list" where
  "be_bytes8 v = map (\<lambda>i. ucast (drop_bit (8 * (7 - i)) v AND 0xFF)) [0..<8]"

definition uuid_of_words :: "u64 \<Rightarrow> u64 \<Rightarrow> uuid128" where
  "uuid_of_words high low =
     (let raw = be_bytes8 high @ be_bytes8 low;
          raw6 = raw[6 := (raw ! 6 AND 0x0F) OR 0x40]
      in Uuid128 (raw6[8 := (raw6 ! 8 AND 0x3F) OR 0x80]))"

definition id_factory_next :: "id_factory \<Rightarrow> uuid128 \<times> id_factory" where
  "id_factory_next f =
     (uuid_of_words (idf_stream f (idf_pos f)) (idf_stream f (idf_pos f + 1)),
      f\<lparr>idf_pos := idf_pos f + 2\<rparr>)"

section \<open>Scalars and generations\<close>

definition scalar_to_string :: "u64 \<Rightarrow> string" where
  "scalar_to_string n = dec_string (unat n)"

fun scalar_parse_loop :: "u64 \<Rightarrow> u64 \<Rightarrow> string \<Rightarrow> u64 option" where
  "scalar_parse_loop limit acc [] = Some acc"
| "scalar_parse_loop limit acc (c # cs) =
     (if \<not> is_digit_char c then None
      else
        let digit = word_of_nat (digit_value c) in
        if acc > (limit - digit) div 10 then None
        else scalar_parse_loop limit (acc * 10 + digit) cs)"

definition scalar_parse :: "u64 \<Rightarrow> string \<Rightarrow> u64 option" where
  "scalar_parse limit text =
     (if text = [] \<or> length text > 20 then None
      else if length text > 1 \<and> hd text = CHR ''0'' then None
      else scalar_parse_loop limit 0 text)"

definition generation_parse :: "string \<Rightarrow> generation option" where
  "generation_parse text = scalar_parse 0xFFFFFFFFFFFFFFFF text"

definition generation_advance :: "generation \<Rightarrow> bool \<times> generation" where
  "generation_advance v = (if v = 0xFFFFFFFFFFFFFFFF then (False, v) else (True, v + 1))"

section \<open>Coordinator epochs\<close>

datatype coordinator_epoch = CoordinatorEpoch (incarnation: generation) (epoch_term: generation)

instantiation coordinator_epoch :: linorder
begin

definition less_eq_coordinator_epoch :: "coordinator_epoch \<Rightarrow> coordinator_epoch \<Rightarrow> bool" where
  "less_eq_coordinator_epoch a b \<longleftrightarrow>
     incarnation a < incarnation b \<or>
     incarnation a = incarnation b \<and> epoch_term a \<le> epoch_term b"

definition less_coordinator_epoch :: "coordinator_epoch \<Rightarrow> coordinator_epoch \<Rightarrow> bool" where
  "less_coordinator_epoch a b \<longleftrightarrow>
     incarnation a < incarnation b \<or>
     incarnation a = incarnation b \<and> epoch_term a < epoch_term b"

instance
  by standard
    (auto simp: less_eq_coordinator_epoch_def less_coordinator_epoch_def
      coordinator_epoch.expand)

end

definition epoch_to_string :: "coordinator_epoch \<Rightarrow> string" where
  "epoch_to_string e = scalar_to_string (incarnation e) @ ''.'' @ scalar_to_string (epoch_term e)"

definition epoch_parse :: "string \<Rightarrow> coordinator_epoch option" where
  "epoch_parse text =
     (let dot = length (takeWhile (\<lambda>c. c \<noteq> CHR ''.'') text) in
      if dot = length text \<or> dot = 0 \<or> dot + 1 \<ge> length text then None
      else if CHR ''.'' \<in> set (drop (dot + 1) text) then None
      else case generation_parse (take dot text) of
        None \<Rightarrow> None
      | Some inc \<Rightarrow>
          (case generation_parse (drop (dot + 1) text) of
            None \<Rightarrow> None
          | Some trm \<Rightarrow> Some (CoordinatorEpoch inc trm)))"

section \<open>Scalar text\<close>

lemma scalar_step:
  fixes limit acc d :: u64
  assumes "9 \<le> limit" and "unat d < 10"
  shows "acc > (limit - d) div 10 \<longleftrightarrow> unat limit < unat acc * 10 + unat d"
proof -
  have "d \<le> limit"
    using assms by (simp add: word_le_nat_alt)
  then have s: "unat (limit - d) = unat limit - unat d" by (rule unat_sub)
  have le: "unat d \<le> unat limit" using \<open>d \<le> limit\<close> by (simp add: word_le_nat_alt)
  have "unat ((limit - d) div 10) = (unat limit - unat d) div 10"
    by (simp add: unat_div s)
  then have "acc > (limit - d) div 10 \<longleftrightarrow> (unat limit - unat d) div 10 < unat acc"
    by (simp add: word_less_nat_alt)
  also have "\<dots> \<longleftrightarrow> unat limit - unat d < unat acc * 10"
    by (simp add: div_less_iff_less_mult)
  finally show ?thesis using le by linarith
qed

lemma scalar_parse_loop_eq:
  assumes "9 \<le> limit" and "unat acc \<le> unat limit"
  shows "scalar_parse_loop limit acc cs =
    (if list_all is_digit_char cs \<and> dec_value (unat acc) cs \<le> unat limit
     then Some (word_of_nat (dec_value (unat acc) cs)) else None)"
  using assms(2)
proof (induction cs arbitrary: acc)
  case Nil
  then show ?case by simp
next
  case (Cons c cs)
  let ?d = "word_of_nat (digit_value c) :: u64"
  show ?case
  proof (cases "is_digit_char c")
    case False
    then show ?thesis by simp
  next
    case True
    have d: "unat ?d = digit_value c" and d10: "unat ?d < 10"
      using digit_value_less [OF True] by (simp_all add: unat_of_nat_u64)
    show ?thesis
    proof (cases "unat limit < unat acc * 10 + digit_value c")
      case over: True
      then have "unat limit < dec_value (unat acc * 10 + digit_value c) cs"
        using dec_value_ge [of "unat acc * 10 + digit_value c" cs] by linarith
      then show ?thesis
        using True over scalar_step [OF assms(1) d10, of acc] by (simp add: d)
    next
      case fits: False
      have small: "unat acc * 10 + digit_value c < 2 ^ 64"
        using fits unat_u64_less [of limit] by simp
      have "acc * 10 + ?d = word_of_nat (unat acc * 10 + digit_value c)" by simp
      then have next_val: "unat (acc * 10 + ?d) = unat acc * 10 + digit_value c"
        using small by (simp only: unat_of_nat_u64)
      show ?thesis
        using True fits scalar_step [OF assms(1) d10, of acc] Cons.IH [of "acc * 10 + ?d"] next_val
        by (simp add: d)
    qed
  qed
qed

lemma digit_char_0: "digit_char 0 = CHR ''0''"
  by code_simp

lemma scalar_parse_show:
  assumes "9 \<le> limit" and "n \<le> limit"
  shows "scalar_parse limit (scalar_to_string n) = Some n"
proof -
  have len: "length (dec_string (unat n)) \<le> 20"
    using dec_string_length [of "unat n" 19] unat_u64_less [of n] by simp
  have lead: "\<not> (length (dec_string (unat n)) > 1 \<and> hd (dec_string (unat n)) = CHR ''0'')"
  proof (cases "unat n = 0")
    case True
    then show ?thesis by (subst dec_string.simps) simp
  next
    case False
    then show ?thesis using dec_string_head [of "unat n"] by (simp add: digit_char_0)
  qed
  have "unat n \<le> unat limit" using assms(2) by (simp add: word_le_nat_alt)
  then show ?thesis
    using len lead scalar_parse_loop_eq [OF assms(1), of 0 "dec_string (unat n)"]
    by (simp add: scalar_parse_def scalar_to_string_def dec_string_nonempty dec_string_digits dec_string_value)
qed

lemma scalar_parse_canonical:
  assumes "9 \<le> limit" and "scalar_parse limit t = Some n"
  shows "n \<le> limit \<and> scalar_to_string n = t"
proof -
  have ne: "t \<noteq> []" and lead: "length t = 1 \<or> hd t \<noteq> digit_char 0"
    using assms(2) by (auto simp: scalar_parse_def digit_char_0 neq_Nil_conv split: if_splits)
  have loop: "scalar_parse_loop limit 0 t = Some n"
    using assms(2) by (auto simp: scalar_parse_def split: if_splits)
  then have digs: "list_all is_digit_char t" and v: "dec_value 0 t \<le> unat limit"
    and n: "n = word_of_nat (dec_value 0 t)"
    using scalar_parse_loop_eq [OF assms(1), of 0 t] by (auto split: if_splits)
  have un: "unat n = dec_value 0 t"
    using v unat_u64_less [of limit] by (simp add: n unat_of_nat_u64)
  then show ?thesis
    using v dec_string_canonical [OF ne digs lead]
    by (simp add: scalar_to_string_def word_le_nat_alt)
qed

section \<open>Identity text\<close>

text \<open>
  The text of a run of bytes, and the positions of a canonical identity that hold no dash.
\<close>

definition hex_text :: "u8 list \<Rightarrow> string" where
  "hex_text bs = concat (map (\<lambda>b. [hex_digit (drop_bit 4 b), hex_digit (b AND 0x0F)]) bs)"

abbreviation dash_pos :: "nat \<Rightarrow> bool" where
  "dash_pos i \<equiv> i = 8 \<or> i = 13 \<or> i = 18 \<or> i = 23"

definition clear_run :: "nat \<Rightarrow> nat \<Rightarrow> bool" where
  "clear_run i k \<longleftrightarrow> i + k \<le> 8 \<or> 8 < i \<and> i + k \<le> 13 \<or> 13 < i \<and> i + k \<le> 18 \<or>
     18 < i \<and> i + k \<le> 23 \<or> 23 < i"

lemma hex_digit_table: "list_all (\<lambda>n. hex_digit_value (kHexDigits ! n) = int n) [0..<16]"
  by code_simp

lemma hex_digit_value_hex_digit:
  assumes "unat w < 16"
  shows "hex_digit_value (hex_digit w) = uint w"
proof -
  have "hex_digit_value (kHexDigits ! unat w) = int (unat w)"
    using hex_digit_table assms by (simp add: list_all_iff)
  then show ?thesis by (simp add: hex_digit_def)
qed

lemma hex_char_table:
  "list_all (\<lambda>i. kHexDigits ! i = char_of (if i < 10 then 48 + i else 87 + i)) [0..<16]"
  by code_simp

lemma hex_digit_of_value:
  assumes "0 \<le> hex_digit_value c"
  shows "hex_digit_value c < 16" and "hex_digit (word_of_int (hex_digit_value c)) = c"
proof -
  define i where "i = nat (hex_digit_value c)"
  have v: "hex_digit_value c = int i" using assms by (simp add: i_def)
  have i: "i < 16" and c: "(of_char c :: nat) = (if i < 10 then 48 + i else 87 + i)"
    using assms unfolding i_def hex_digit_value_def Let_def by (auto split: if_splits)
  have "kHexDigits ! i = char_of (if i < 10 then 48 + i else 87 + i)"
    using hex_char_table i by (simp add: list_all_iff)
  then have k: "kHexDigits ! i = c"
    unfolding c [symmetric] by simp
  show "hex_digit_value c < 16" using v i by simp
  have "unat (word_of_int (hex_digit_value c) :: u8) = i"
    using i by (simp add: v unat_of_nat)
  then show "hex_digit (word_of_int (hex_digit_value c)) = c"
    using k by (simp add: hex_digit_def)
qed

lemma low_nibble_mask: "(0x0F :: u8) = mask 4"
  by (simp add: mask_eq_exp_minus_1)

lemma byte_nibbles:
  fixes h l :: int
  assumes "0 \<le> h" "h < 16" "0 \<le> l" "l < 16"
  shows "drop_bit 4 (word_of_int (push_bit 4 h OR l) :: u8) = word_of_int h"
    and "(word_of_int (push_bit 4 h OR l) :: u8) AND 0x0F = word_of_int l"
proof -
  have h: "h = take_bit 4 h" and l: "l = take_bit 4 l"
    using assms by (simp_all add: take_bit_int_eq_self)
  show "drop_bit 4 (word_of_int (push_bit 4 h OR l) :: u8) = word_of_int h"
    by (rule bit_word_eqI, subst h, subst (2) h, subst l) (auto simp: bit_simps)
  show "(word_of_int (push_bit 4 h OR l) :: u8) AND 0x0F = word_of_int l"
    unfolding low_nibble_mask
    by (rule bit_word_eqI, subst l, subst (2) l) (auto simp: bit_simps)
qed

lemma nibbles_byte:
  fixes b :: u8
  shows "word_of_int (push_bit 4 (uint (drop_bit 4 b)) OR uint (b AND 0x0F)) = b"
  unfolding low_nibble_mask
  by (rule bit_word_eqI) (auto simp: bit_simps)

lemma hex_pair:
  fixes b :: u8
  shows "hex_digit_value (hex_digit (drop_bit 4 b)) = uint (drop_bit 4 b)"
    and "hex_digit_value (hex_digit (b AND 0x0F)) = uint (b AND 0x0F)"
proof -
  have "unat (drop_bit 4 b) < 16"
    using unat_u8_less [of b] by (simp add: unat_drop_bit_eq drop_bit_nat_def less_mult_imp_div_less del: drop_bit_eq_div)
  then show "hex_digit_value (hex_digit (drop_bit 4 b)) = uint (drop_bit 4 b)"
    by (rule hex_digit_value_hex_digit)
  have "unat (b AND 0x0F) \<le> unat (0x0F :: u8)"
    by (rule word_and_le1 [THEN word_le_nat_alt [THEN iffD1]])
  then have "unat (b AND 0x0F) < 16" by simp
  then show "hex_digit_value (hex_digit (b AND 0x0F)) = uint (b AND 0x0F)"
    by (rule hex_digit_value_hex_digit)
qed

lemma hex_pair_back:
  assumes "0 \<le> hex_digit_value h" and "0 \<le> hex_digit_value l"
  shows "hex_digit (drop_bit 4 (word_of_int (push_bit 4 (hex_digit_value h) OR hex_digit_value l))) = h"
    and "hex_digit (word_of_int (push_bit 4 (hex_digit_value h) OR hex_digit_value l) AND 0x0F) = l"
  using assms byte_nibbles [of "hex_digit_value h" "hex_digit_value l"]
    hex_digit_of_value [of h] hex_digit_of_value [of l] by simp_all

lemma length16:
  assumes "length xs = 16"
  obtains a b c d e f g h i j k l m n p q where "xs = [a, b, c, d, e, f, g, h, i, j, k, l, m, n, p, q]"
  using assms by (auto simp: numeral_eq_Suc length_Suc_conv)

lemma upt16: "[0..<16] = [0, 1, 2, 3, 4, 5, 6, 7, 8, 9, 10, 11, 12, 13, 14, 15 :: nat]"
  by code_simp

lemma uuid_parse_show:
  assumes "wf_uuid u"
  shows "uuid_parse (uuid_to_string u) = Some u"
proof -
  obtain a b c d e f g h i j k l m n p q
    where "uuid_bytes u = [a, b, c, d, e, f, g, h, i, j, k, l, m, n, p, q]"
    using assms by (auto simp: wf_uuid_def elim!: length16)
  then have u: "u = Uuid128 [a, b, c, d, e, f, g, h, i, j, k, l, m, n, p, q]"
    by (cases u) simp
  show ?thesis
    by (simp add: u uuid_parse_def uuid_to_string_def upt16 hex_pair nibbles_byte)
qed

lemma uuid_loop_pair:
  assumes "uuid_parse_loop i bs (-1) (h # l # cs) = Some r" and "\<not> dash_pos i" and "\<not> dash_pos (Suc i)"
  shows "\<exists>b. [h, l] = hex_text [b] \<and> uuid_parse_loop (i + 2) (bs @ [b]) (-1) cs = Some r"
proof -
  let ?b = "word_of_int (push_bit 4 (hex_digit_value h) OR hex_digit_value l) :: u8"
  have "0 \<le> hex_digit_value h" and "0 \<le> hex_digit_value l"
    and next_eq: "uuid_parse_loop (i + 2) (bs @ [?b]) (-1) cs = Some r"
    using assms by (auto simp: Let_def split: if_splits)
  then have "[h, l] = hex_text [?b]"
    by (simp add: hex_text_def hex_pair_back)
  with next_eq show ?thesis by blast
qed

lemma uuid_loop_group:
  assumes "uuid_parse_loop i bs (-1) (cs @ rest) = Some r" and "length cs = 2 * n"
    and "clear_run i (2 * n)"
  shows "\<exists>ws. length ws = n \<and> cs = hex_text ws \<and> uuid_parse_loop (i + 2 * n) (bs @ ws) (-1) rest = Some r"
  using assms
proof (induction n arbitrary: i bs cs)
  case 0
  then show ?case by (simp add: hex_text_def)
next
  case (Suc n)
  from Suc.prems(2) obtain h l cs' where cs: "cs = h # l # cs'" and len: "length cs' = 2 * n"
    by (auto simp: length_Suc_conv)
  have "\<not> dash_pos i" and "\<not> dash_pos (Suc i)"
    using Suc.prems(3) by (auto simp: clear_run_def)
  then obtain b where b: "[h, l] = hex_text [b]"
    and nxt: "uuid_parse_loop (i + 2) (bs @ [b]) (-1) (cs' @ rest) = Some r"
    using uuid_loop_pair Suc.prems(1) by (metis append_Cons cs)
  have "clear_run (i + 2) (2 * n)"
    using Suc.prems(3) by (auto simp: clear_run_def)
  then obtain ws where ws: "length ws = n" "cs' = hex_text ws"
    "uuid_parse_loop (i + 2 + 2 * n) ((bs @ [b]) @ ws) (-1) rest = Some r"
    using Suc.IH [OF nxt len] by blast
  then have "length (b # ws) = Suc n \<and> cs = hex_text (b # ws) \<and>
      uuid_parse_loop (i + 2 * Suc n) (bs @ (b # ws)) (-1) rest = Some r"
    using b by (simp add: cs hex_text_def)
  then show ?case by blast
qed

lemma uuid_loop_dash:
  assumes "uuid_parse_loop i bs high (c # cs) = Some r" and "dash_pos i"
  shows "c = CHR ''-'' \<and> uuid_parse_loop (Suc i) bs high cs = Some r"
  using assms by (auto split: if_splits)

lemma uuid_loop_field:
  assumes "uuid_parse_loop i bs (-1) t = Some r" and "2 * n < length t" and "dash_pos (i + 2 * n)"
    and "clear_run i (2 * n)"
  shows "\<exists>ws rest. length ws = n \<and> t = hex_text ws @ CHR ''-'' # rest \<and>
    length rest = length t - Suc (2 * n) \<and> uuid_parse_loop (Suc (i + 2 * n)) (bs @ ws) (-1) rest = Some r"
proof -
  let ?cs = "take (2 * n) t" and ?c = "t ! (2 * n)" and ?rest = "drop (Suc (2 * n)) t"
  have t: "t = ?cs @ ?c # ?rest"
    using assms(2) by (rule id_take_nth_drop)
  then have "uuid_parse_loop i bs (-1) (?cs @ ?c # ?rest) = Some r"
    using assms(1) by simp
  then obtain ws where ws: "length ws = n" "?cs = hex_text ws"
    "uuid_parse_loop (i + 2 * n) (bs @ ws) (-1) (?c # ?rest) = Some r"
    using uuid_loop_group [of i bs ?cs "?c # ?rest" r n] assms(2,4) by auto
  moreover have "?c = CHR ''-'' \<and> uuid_parse_loop (Suc (i + 2 * n)) (bs @ ws) (-1) ?rest = Some r"
    by (rule uuid_loop_dash [OF ws(3) assms(3)])
  ultimately have "t = hex_text ws @ CHR ''-'' # ?rest"
    using t by metis
  then show ?thesis
    using ws \<open>?c = CHR ''-'' \<and> _\<close> by (intro exI [of _ ws] exI [of _ ?rest]) simp
qed

lemma hex_text_append [simp]: "hex_text (xs @ ys) = hex_text xs @ hex_text ys"
  by (simp add: hex_text_def)

lemma uuid_to_string_groups:
  assumes "length a = 4" and "length b = 2" and "length c = 2" and "length d = 2" and "length e = 6"
  shows "uuid_to_string (Uuid128 (a @ b @ c @ d @ e)) =
    hex_text a @ ''-'' @ hex_text b @ ''-'' @ hex_text c @ ''-'' @ hex_text d @ ''-'' @ hex_text e"
proof -
  obtain a0 a1 a2 a3 where a: "a = [a0, a1, a2, a3]"
    using assms(1) by (auto simp: numeral_eq_Suc length_Suc_conv)
  obtain b0 b1 c0 c1 d0 d1 where bcd: "b = [b0, b1]" "c = [c0, c1]" "d = [d0, d1]"
    using assms(2-4) by (auto simp: numeral_eq_Suc length_Suc_conv)
  obtain e0 e1 e2 e3 e4 e5 where e: "e = [e0, e1, e2, e3, e4, e5]"
    using assms(5) by (auto simp: numeral_eq_Suc length_Suc_conv)
  show ?thesis
    by (simp add: a bcd e uuid_to_string_def hex_text_def upt16)
qed

lemma uuid_parse_canonical:
  assumes "uuid_parse t = Some u"
  shows "wf_uuid u \<and> uuid_to_string u = t"
proof -
  obtain r where len: "length t = 36" and r: "uuid_parse_loop 0 [] (-1) t = Some r" and u: "u = Uuid128 r"
    using assms by (auto simp: uuid_parse_def split: if_splits)
  obtain a s1 where a: "length a = 4" "t = hex_text a @ CHR ''-'' # s1" "length s1 = 27"
    and p1: "uuid_parse_loop 9 a (-1) s1 = Some r"
    using uuid_loop_field [OF r, of 4] len by (auto simp: clear_run_def)
  obtain b s2 where b: "length b = 2" "s1 = hex_text b @ CHR ''-'' # s2" "length s2 = 22"
    and p2: "uuid_parse_loop 14 (a @ b) (-1) s2 = Some r"
    using uuid_loop_field [OF p1, of 2] a(3) by (auto simp: clear_run_def)
  obtain c s3 where c: "length c = 2" "s2 = hex_text c @ CHR ''-'' # s3" "length s3 = 17"
    and p3: "uuid_parse_loop 19 ((a @ b) @ c) (-1) s3 = Some r"
    using uuid_loop_field [OF p2, of 2] b(3) by (auto simp: clear_run_def)
  obtain d s4 where d: "length d = 2" "s3 = hex_text d @ CHR ''-'' # s4" "length s4 = 12"
    and p4: "uuid_parse_loop 24 (((a @ b) @ c) @ d) (-1) s4 = Some r"
    using uuid_loop_field [OF p3, of 2] c(3) by (auto simp: clear_run_def)
  obtain e where e: "length e = 6" "s4 = hex_text e"
    and p5: "uuid_parse_loop 36 ((((a @ b) @ c) @ d) @ e) (-1) [] = Some r"
    using uuid_loop_group [of 24 "((a @ b) @ c) @ d" s4 "[]" r 6] p4 d(3) by (auto simp: clear_run_def)
  have "r = a @ b @ c @ d @ e"
    using p5 by (simp split: if_splits)
  then show ?thesis
    using uuid_to_string_groups [OF a(1) b(1) c(1) d(1) e(1)] a(1,2) b(1,2) c(1,2) d(1,2) e
    by (simp add: u wf_uuid_def)
qed

section \<open>The canonical forms as interpretations\<close>

lemma le_max_u64: "(n :: u64) \<le> 0xFFFFFFFFFFFFFFFF"
  using unat_u64_less [of n] by (simp add: word_le_nat_alt)

interpretation uuid_text: canonical_text wf_uuid uuid_to_string uuid_parse
  by unfold_locales (auto intro: uuid_parse_show dest: uuid_parse_canonical)

interpretation generation_text: canonical_text "\<lambda>_. True" scalar_to_string generation_parse
proof unfold_locales
  show "generation_parse (scalar_to_string n) = Some n" for n
    unfolding generation_parse_def by (rule scalar_parse_show) (simp_all add: le_max_u64)
  show "True \<and> scalar_to_string n = t" if "generation_parse t = Some n" for t n
    using that scalar_parse_canonical [of "0xFFFFFFFFFFFFFFFF" t n] by (simp add: generation_parse_def)
qed

interpretation index_text: canonical_text "\<lambda>n. n \<le> 0xFFFFFFFF" scalar_to_string "scalar_parse 0xFFFFFFFF"
  by unfold_locales (use scalar_parse_show [of "0xFFFFFFFF"] scalar_parse_canonical [of "0xFFFFFFFF"] in simp_all)

lemma dot_not_digit: "is_digit_char c \<Longrightarrow> c \<noteq> CHR ''.''"
  by (auto simp: is_digit_char_def)

lemma scalar_text_no_dot: "c \<in> set (scalar_to_string n) \<Longrightarrow> c \<noteq> CHR ''.''"
  using dec_string_digits [of "unat n"] dot_not_digit by (auto simp: scalar_to_string_def list_all_iff)

lemma takeWhile_dot:
  "takeWhile (\<lambda>c. c \<noteq> CHR ''.'') (scalar_to_string n @ CHR ''.'' # r) = scalar_to_string n"
  using scalar_text_no_dot [of _ n] by (subst takeWhile_append2) auto

lemma epoch_parse_show: "epoch_parse (epoch_to_string e) = Some e"
proof -
  have ne: "scalar_to_string n \<noteq> []" for n
    by (simp add: scalar_to_string_def dec_string_nonempty)
  have "CHR ''.'' \<notin> set (scalar_to_string n)" for n
    using scalar_text_no_dot by blast
  then show ?thesis
    using ne
    by (simp add: epoch_parse_def epoch_to_string_def takeWhile_dot generation_text.parse_show)
qed

lemma epoch_parse_canonical:
  assumes "epoch_parse t = Some e"
  shows "epoch_to_string e = t"
proof -
  let ?d = "length (takeWhile (\<lambda>c. c \<noteq> CHR ''.'') t)"
  have d: "?d < length t"
    using assms length_takeWhile_le [of "\<lambda>c. c \<noteq> CHR ''.''" t]
    by (auto simp: epoch_parse_def Let_def split: if_splits)
  then have "t ! ?d = CHR ''.''"
    using nth_length_takeWhile [of "\<lambda>c. c \<noteq> CHR ''.''" t] by simp
  then have t: "t = take ?d t @ CHR ''.'' # drop (?d + 1) t"
    using id_take_nth_drop [OF d] by simp
  from assms have "generation_parse (take ?d t) = Some (incarnation e)"
    and "generation_parse (drop (?d + 1) t) = Some (epoch_term e)"
    by (auto simp: epoch_parse_def Let_def split: if_splits option.splits)
  then have "scalar_to_string (incarnation e) = take ?d t"
    and "scalar_to_string (epoch_term e) = drop (?d + 1) t"
    using generation_text.parse_canonical by blast+
  then show ?thesis
    using t by (simp add: epoch_to_string_def)
qed

interpretation epoch_text: canonical_text "\<lambda>_. True" epoch_to_string epoch_parse
  by unfold_locales (simp_all add: epoch_parse_show epoch_parse_canonical)

lemma uuid_of_words_wf: "wf_uuid (uuid_of_words h l)"
  by (simp add: wf_uuid_def uuid_of_words_def be_bytes8_def Let_def)

lemma uuid_of_words_not_nil: "\<not> is_nil (uuid_of_words h l)"
proof
  assume "is_nil (uuid_of_words h l)"
  then have "uuid_bytes (uuid_of_words h l) ! 8 = 0"
    using uuid_of_words_wf [of h l] by (simp add: is_nil_def list_all_length wf_uuid_def)
  moreover have "bit (uuid_bytes (uuid_of_words h l) ! 8) 7"
    by (simp add: uuid_of_words_def be_bytes8_def Let_def bit_or_iff)
  ultimately show False by simp
qed

lemma generation_advance_cases:
  "generation_advance v = (b, v') \<Longrightarrow>
     (b \<longrightarrow> unat v' = unat v + 1) \<and> (\<not> b \<longrightarrow> v' = v \<and> v = 0xFFFFFFFFFFFFFFFF)"
proof -
  assume a: "generation_advance v = (b, v')"
  have "v \<noteq> 0xFFFFFFFFFFFFFFFF \<Longrightarrow> unat v + unat (1::u64) < 2 ^ 64"
    using unat_u64_less [of v] word_unat_eq_iff [of v "0xFFFFFFFFFFFFFFFF"] by auto
  then show ?thesis
    using a by (auto simp: generation_advance_def unat_add_u64 split: if_splits)
qed

section \<open>Properties\<close>

text \<open>
  C39. The identity parser and printer agree exactly: a text parses to an identity if and only
  if the identity has sixteen bytes and the text is its canonical rendering. No other
  spelling (upper case, missing dashes, extra characters) is accepted.
\<close>
theorem uuid_text_exact: "uuid_parse t = Some u \<longleftrightarrow> wf_uuid u \<and> uuid_to_string u = t"
  by (rule uuid_text.parse_iff)

text \<open>
  C40. The coordinator-epoch parser accepts exactly the canonical rendering of an epoch, so the
  textual form of an epoch is unique in both directions.
\<close>
theorem epoch_text_exact: "epoch_parse t = Some e \<longleftrightarrow> epoch_to_string e = t"
  using epoch_text.parse_iff by simp

text \<open>
  Advancing a generation either yields the successor with no wrap-around, or reports
  exhaustion and leaves the largest value in place: a wrapped generation is never produced.
\<close>
theorem generation_advance_never_wraps:
  "(fst (generation_advance v) = (unat v < 2 ^ 64 - 1)) \<and>
   unat (snd (generation_advance v)) = min (unat v + 1) (2 ^ 64 - 1)"
proof (cases "v = 0xFFFFFFFFFFFFFFFF")
  case True
  then show ?thesis by (simp add: generation_advance_def)
next
  case False
  then have less: "unat v < 2 ^ 64 - 1"
    using unat_u64_less [of v] word_unat_eq_iff [of v "0xFFFFFFFFFFFFFFFF"] by auto
  then show ?thesis
    using False by (simp add: generation_advance_def unat_add_u64)
qed

end
