(* ===== verification/Hash.thy ===== *)
theory Hash
  imports Ids
begin

text \<open>
  Byte plumbing and integrity checksums: \<^verbatim>\<open>src/bytes.cpp\<close> and \<^verbatim>\<open>src/hash.cpp\<close>. CRC-32C is
  the table-driven loop of the source, proved equal to the bit-serial definition of the code;
  both checksums are proved to compose over concatenation, which is what makes the
  incremental \<^verbatim>\<open>DigestBuilder\<close> agree with a digest of the whole stream.
\<close>

section \<open>Hexadecimal text\<close>

definition hex_value :: "char \<Rightarrow> int" where
  "hex_value c =
     (let n = int (of_char c) in
      if 48 \<le> n \<and> n \<le> 57 then n - 48
      else if 97 \<le> n \<and> n \<le> 102 then n - 97 + 10
      else if 65 \<le> n \<and> n \<le> 70 then n - 65 + 10
      else -1)"

definition hex_encode :: "bytes \<Rightarrow> string" where
  "hex_encode bs = hex_text bs"

fun hex_decode_loop :: "string \<Rightarrow> bytes result" where
  "hex_decode_loop (h # l # cs) =
     (if hex_value h < 0 \<or> hex_value l < 0 then Inl EC_InvalidSyntax
      else case hex_decode_loop cs of
        Inl e \<Rightarrow> Inl e
      | Inr bs \<Rightarrow> Inr (word_of_int (push_bit 4 (hex_value h) OR hex_value l) # bs))"
| "hex_decode_loop _ = Inr []"

definition hex_decode :: "string \<Rightarrow> nat \<Rightarrow> bytes result" where
  "hex_decode text max_bytes =
     (if length text mod 2 \<noteq> 0 then Inl EC_InvalidSyntax
      else if length text div 2 > max_bytes then Inl EC_PayloadTooLarge
      else hex_decode_loop text)"

section \<open>Checksums\<close>

definition kCrc32cPolynomial :: u32 where
  "kCrc32cPolynomial = 0x82F63B78"

definition crc_step :: "u32 \<Rightarrow> u32" where
  "crc_step crc = (if crc AND 1 \<noteq> 0 then drop_bit 1 crc XOR kCrc32cPolynomial else drop_bit 1 crc)"

definition make_crc_table :: "u32 list" where
  "make_crc_table = map (\<lambda>i. (crc_step ^^ 8) (word_of_nat i)) [0..<256]"

definition crc32c :: "bytes \<Rightarrow> u32 \<Rightarrow> u32" where
  "crc32c data seed =
     NOT (foldl (\<lambda>crc b. make_crc_table ! unat ((crc XOR ucast b) AND 0xFF) XOR drop_bit 8 crc)
            (NOT seed) data)"

definition fnv1a64 :: "bytes \<Rightarrow> u64 \<Rightarrow> u64" where
  "fnv1a64 data seed = foldl (\<lambda>h b. (h XOR ucast b) * 0x100000001B3) seed data"

definition kFnvSeed :: u64 where
  "kFnvSeed = 0xCBF29CE484222325"

datatype digest = Digest (crc32c_value: u32) (fnv1a64_value: u64)

definition zero_digest :: digest where
  "zero_digest = Digest 0 kFnvSeed"

definition digest_is_zero :: "digest \<Rightarrow> bool" where
  "digest_is_zero d \<longleftrightarrow> crc32c_value d = 0 \<and> fnv1a64_value d = kFnvSeed"

definition digest_update :: "digest \<Rightarrow> bytes \<Rightarrow> digest" where
  "digest_update d data = Digest (crc32c data (crc32c_value d)) (fnv1a64 data (fnv1a64_value d))"

definition be_bytes4 :: "u32 \<Rightarrow> bytes" where
  "be_bytes4 v = map (\<lambda>i. ucast (drop_bit (8 * (3 - i)) v AND 0xFF)) [0..<4]"

definition digest_to_string :: "digest \<Rightarrow> string" where
  "digest_to_string d = hex_encode (be_bytes4 (crc32c_value d) @ be_bytes8 (fnv1a64_value d))"

definition digest_parse :: "string \<Rightarrow> digest option" where
  "digest_parse text =
     (if length text \<noteq> 24 then None
      else case hex_decode text 12 of
        Inl e \<Rightarrow> None
      | Inr raw \<Rightarrow>
          if length raw \<noteq> 12 then None
          else Some (Digest
            (foldl (\<lambda>acc b. push_bit 8 acc OR ucast b) 0 (take 4 raw))
            (foldl (\<lambda>acc b. push_bit 8 acc OR ucast b) 0 (drop 4 raw))))"

section \<open>CRC-32C: the table agrees with the bit-serial code\<close>

definition crc_bitwise_byte :: "u32 \<Rightarrow> u8 \<Rightarrow> u32" where
  "crc_bitwise_byte crc b = (crc_step ^^ 8) (crc XOR ucast b)"

lemma and_one_eq_bit: "((x :: u32) AND 1 \<noteq> 0) = bit x 0"
  by (simp add: and_one_eq bit_0 mod_2_eq_odd)

lemma xor_cancel: "((a :: u32) XOR p) XOR (b XOR p) = a XOR b"
  by (rule bit_word_eqI) (auto simp: bit_xor_iff)

lemma crc_step_xor: "crc_step (a XOR b) = crc_step a XOR crc_step b"
  unfolding crc_step_def and_one_eq_bit
  by (cases "bit a 0"; cases "bit b 0")
    (simp_all add: bit_xor_iff drop_bit_xor xor_cancel xor.assoc xor.commute xor.left_commute)

lemma crc_steps_xor: "(crc_step ^^ n) (a XOR b) = (crc_step ^^ n) a XOR (crc_step ^^ n) b"
  by (induction n) (simp_all add: crc_step_xor)

lemma crc_steps_high:
  assumes "\<And>i. i < n \<Longrightarrow> \<not> bit x i"
  shows "(crc_step ^^ n) x = drop_bit n x"
  using assms
proof (induction n)
  case 0
  then show ?case by simp
next
  case (Suc n)
  have "\<not> bit (drop_bit n x) 0"
    using Suc.prems [of n] by (simp add: bit_drop_bit_eq)
  with Suc show ?case
    unfolding funpow.simps comp_def crc_step_def and_one_eq_bit
    by (simp add: drop_bit_drop_bit)
qed

lemma crc_table_nth: "i < 256 \<Longrightarrow> make_crc_table ! i = (crc_step ^^ 8) (word_of_nat i)"
  by (simp add: make_crc_table_def)

lemma crc_steps_table: "(crc_step ^^ 8) x = make_crc_table ! unat (x AND 0xFF) XOR drop_bit 8 x"
proof -
  have m: "(0xFF :: u32) = mask 8" by (simp add: mask_eq_exp_minus_1)
  have "unat (x AND 0xFF) \<le> unat (0xFF :: u32)"
    by (rule word_and_le1 [THEN word_le_nat_alt [THEN iffD1]])
  then have lt: "unat (x AND 0xFF) < 256" by simp
  have split: "x = (x AND 0xFF) XOR (x AND NOT (mask 8))"
    unfolding m by (rule bit_word_eqI) (auto simp: bit_simps)
  have "(crc_step ^^ 8) x = (crc_step ^^ 8) (x AND 0xFF) XOR (crc_step ^^ 8) (x AND NOT (mask 8))"
    by (subst split, rule crc_steps_xor)
  also have "(crc_step ^^ 8) (x AND NOT (mask 8)) = drop_bit 8 (x AND NOT (mask 8))"
    by (rule crc_steps_high) (simp add: bit_simps)
  also have "drop_bit 8 (x AND NOT (mask 8)) = drop_bit 8 x"
    by (rule bit_word_eqI) (auto simp: bit_simps dest: bit_imp_le_length)
  also have "(crc_step ^^ 8) (x AND 0xFF) = make_crc_table ! unat (x AND 0xFF)"
    using crc_table_nth [OF lt] by simp
  finally show ?thesis .
qed

lemma crc_byte_table:
  "make_crc_table ! unat ((crc XOR ucast b) AND 0xFF) XOR drop_bit 8 crc = crc_bitwise_byte crc (b :: u8)"
proof -
  have "drop_bit 8 (crc XOR ucast b) = drop_bit 8 (crc :: u32)"
    by (rule bit_word_eqI) (auto simp: bit_simps dest: bit_imp_le_length)
  then show ?thesis
    unfolding crc_bitwise_byte_def crc_steps_table by simp
qed

text \<open>
  C38. The table-driven checksum loop computes the bit-serial CRC-32C: eight reduction steps of
  the reflected polynomial per byte, between the two complements, for every seed.
\<close>
theorem crc32c_bitwise: "crc32c data seed = NOT (foldl crc_bitwise_byte (NOT seed) data)"
  unfolding crc32c_def crc_byte_table by simp

lemma crc32c_append: "crc32c (xs @ ys) seed = crc32c ys (crc32c xs seed)"
  by (simp add: crc32c_def)

lemma fnv1a64_append: "fnv1a64 (xs @ ys) seed = fnv1a64 ys (fnv1a64 xs seed)"
  by (simp add: fnv1a64_def)

lemma digest_update_append: "digest_update (digest_update d xs) ys = digest_update d (xs @ ys)"
  by (simp add: digest_update_def crc32c_append fnv1a64_append)

section \<open>Hexadecimal round trip\<close>

lemma hex_value_lower: "0 \<le> hex_digit_value c \<Longrightarrow> hex_value c = hex_digit_value c"
  by (auto simp: hex_value_def hex_digit_value_def Let_def split: if_splits)

lemma hex_pair_value:
  "hex_value (hex_digit (drop_bit 4 b)) = uint (drop_bit 4 b)"
  "hex_value (hex_digit (b AND 0x0F)) = uint (b AND 0x0F)"
  by (simp_all add: hex_value_lower hex_pair)

lemma hex_decode_loop_encode: "hex_decode_loop (hex_encode bs) = Inr bs"
  by (induction bs) (simp_all add: hex_encode_def hex_text_def hex_pair_value nibbles_byte)

lemma length_hex_encode: "length (hex_encode bs) = 2 * length bs"
  by (induction bs) (simp_all add: hex_encode_def hex_text_def)

lemma hex_decode_encode: "length bs \<le> n \<Longrightarrow> hex_decode (hex_encode bs) n = Inr bs"
  by (simp add: hex_decode_def length_hex_encode hex_decode_loop_encode)

end
