(* ===== verification/Model_Types.thy ===== *)
theory Model_Types
  imports Hash
begin

text \<open>
  The closed enumerations of \<^verbatim>\<open>include/ctf/model.hpp\<close> with their names
  (\<^verbatim>\<open>to_string\<close>) and the predicates of \<^verbatim>\<open>src/model.cpp\<close> on them. Each constructor carries
  a prefix that says which enumeration it belongs to.
\<close>

datatype isolation_class =
    IC_TrainingCritical
  | IC_ServingLatency
  | IC_TrainingBulk
  | IC_BestEffort

datatype destination_class =
    DC_LocalAttachedStore
  | DC_RemoteObjectStore
  | DC_PeerNodeMemory
  | DC_SyntheticLab

datatype evidence_level =
    EL_None
  | EL_SourceComplete
  | EL_Transferred
  | EL_VerifiedAtDestination

datatype durability_status =
    DS_NotEstablished
  | DS_ExternallyAsserted

datatype session_state =
    SS_Submitted
  | SS_Deferred
  | SS_Admitted
  | SS_Transferring
  | SS_Paused
  | SS_SourceComplete
  | SS_Transferred
  | SS_VerifiedAtDestination
  | SS_TrafficSessionComplete
  | SS_Cancelled
  | SS_Superseded
  | SS_Failed
  | SS_RevalidationRequired

datatype shard_state =
    SH_Pending
  | SH_Granted
  | SH_InFlight
  | SH_Transferred
  | SH_Verified
  | SH_Ambiguous
  | SH_Failed
  | SH_Cancelled

datatype attempt_outcome =
    AO_Granted
  | AO_InFlight
  | AO_DeliveredUnacked
  | AO_DeliveredAcked
  | AO_Verified
  | AO_Failed
  | AO_Ambiguous
  | AO_Released
  | AO_Superseded

datatype decision_kind =
    DK_Admit
  | DK_Defer
  | DK_Deny

datatype reason_code =
    RC_Admitted
  | RC_DuplicateCommand
  | RC_ClassCeilingSaturated
  | RC_WorkloadCeilingSaturated
  | RC_FabricSessionLimit
  | RC_PathCapacityUnavailable
  | RC_CreditUnavailable
  | RC_UnknownWorkload
  | RC_ContractGenerationStale
  | RC_PolicyGenerationStale
  | RC_TopologyGenerationStale
  | RC_CheckpointGenerationStale
  | RC_SupersessionDeniedByPolicy
  | RC_SessionLimitPerWorkload
  | RC_RequestedRateUnsupported
  | RC_ManifestInvalid
  | RC_ManifestMismatch
  | RC_DestinationNotPermitted
  | RC_CheckpointTooLarge
  | RC_DeadlineUnreachable
  | RC_FabricShuttingDown
  | RC_AuthorityStale
  | RC_AttemptStale
  | RC_VerificationRequired
  | RC_VerificationMismatch
  | RC_EvidenceStale
  | RC_SessionNotFound
  | RC_StateNotResumable
  | RC_AmbiguousSinkOutcome
  | RC_CancelledByOperator
  | RC_SupersededByNewerGeneration
  | RC_ResourceLimit
  | RC_Internal

datatype event_kind =
    EK_SessionSubmitted
  | EK_SessionAdmitted
  | EK_SessionDeferred
  | EK_SessionDenied
  | EK_SessionSuperseded
  | EK_SessionCancelled
  | EK_SessionCompleted
  | EK_WaveGranted
  | EK_TransferObserved
  | EK_VerificationObserved
  | EK_AmbiguityRecorded
  | EK_RevalidationRequired
  | EK_FenceRejected
  | EK_Shutdown
  | EK_SourceCompleteObserved
  | EK_SessionPaused
  | EK_SessionResumed
  | EK_DurabilityAsserted

datatype verification_outcome =
    VO_Verified
  | VO_DigestMismatch
  | VO_Truncated
  | VO_Ambiguous
  | VO_Rejected

primrec isolation_class_to_string :: "isolation_class \<Rightarrow> string" where
  "isolation_class_to_string IC_TrainingCritical = ''TrainingCritical''"
| "isolation_class_to_string IC_ServingLatency = ''ServingLatency''"
| "isolation_class_to_string IC_TrainingBulk = ''TrainingBulk''"
| "isolation_class_to_string IC_BestEffort = ''BestEffort''"

primrec destination_class_to_string :: "destination_class \<Rightarrow> string" where
  "destination_class_to_string DC_LocalAttachedStore = ''LocalAttachedStore''"
| "destination_class_to_string DC_RemoteObjectStore = ''RemoteObjectStore''"
| "destination_class_to_string DC_PeerNodeMemory = ''PeerNodeMemory''"
| "destination_class_to_string DC_SyntheticLab = ''SyntheticLab''"

primrec evidence_level_to_string :: "evidence_level \<Rightarrow> string" where
  "evidence_level_to_string EL_None = ''None''"
| "evidence_level_to_string EL_SourceComplete = ''SourceComplete''"
| "evidence_level_to_string EL_Transferred = ''Transferred''"
| "evidence_level_to_string EL_VerifiedAtDestination = ''VerifiedAtDestination''"

primrec durability_status_to_string :: "durability_status \<Rightarrow> string" where
  "durability_status_to_string DS_NotEstablished = ''NotEstablished''"
| "durability_status_to_string DS_ExternallyAsserted = ''ExternallyAsserted''"

primrec session_state_to_string :: "session_state \<Rightarrow> string" where
  "session_state_to_string SS_Submitted = ''Submitted''"
| "session_state_to_string SS_Deferred = ''Deferred''"
| "session_state_to_string SS_Admitted = ''Admitted''"
| "session_state_to_string SS_Transferring = ''Transferring''"
| "session_state_to_string SS_Paused = ''Paused''"
| "session_state_to_string SS_SourceComplete = ''SourceComplete''"
| "session_state_to_string SS_Transferred = ''Transferred''"
| "session_state_to_string SS_VerifiedAtDestination = ''VerifiedAtDestination''"
| "session_state_to_string SS_TrafficSessionComplete = ''TrafficSessionComplete''"
| "session_state_to_string SS_Cancelled = ''Cancelled''"
| "session_state_to_string SS_Superseded = ''Superseded''"
| "session_state_to_string SS_Failed = ''Failed''"
| "session_state_to_string SS_RevalidationRequired = ''RevalidationRequired''"

primrec shard_state_to_string :: "shard_state \<Rightarrow> string" where
  "shard_state_to_string SH_Pending = ''Pending''"
| "shard_state_to_string SH_Granted = ''Granted''"
| "shard_state_to_string SH_InFlight = ''InFlight''"
| "shard_state_to_string SH_Transferred = ''Transferred''"
| "shard_state_to_string SH_Verified = ''Verified''"
| "shard_state_to_string SH_Ambiguous = ''Ambiguous''"
| "shard_state_to_string SH_Failed = ''Failed''"
| "shard_state_to_string SH_Cancelled = ''Cancelled''"

primrec attempt_outcome_to_string :: "attempt_outcome \<Rightarrow> string" where
  "attempt_outcome_to_string AO_Granted = ''Granted''"
| "attempt_outcome_to_string AO_InFlight = ''InFlight''"
| "attempt_outcome_to_string AO_DeliveredUnacked = ''DeliveredUnacked''"
| "attempt_outcome_to_string AO_DeliveredAcked = ''DeliveredAcked''"
| "attempt_outcome_to_string AO_Verified = ''Verified''"
| "attempt_outcome_to_string AO_Failed = ''Failed''"
| "attempt_outcome_to_string AO_Ambiguous = ''Ambiguous''"
| "attempt_outcome_to_string AO_Released = ''Released''"
| "attempt_outcome_to_string AO_Superseded = ''Superseded''"

primrec decision_kind_to_string :: "decision_kind \<Rightarrow> string" where
  "decision_kind_to_string DK_Admit = ''Admit''"
| "decision_kind_to_string DK_Defer = ''Defer''"
| "decision_kind_to_string DK_Deny = ''Deny''"

primrec reason_code_to_string :: "reason_code \<Rightarrow> string" where
  "reason_code_to_string RC_Admitted = ''Admitted''"
| "reason_code_to_string RC_DuplicateCommand = ''DuplicateCommand''"
| "reason_code_to_string RC_ClassCeilingSaturated = ''ClassCeilingSaturated''"
| "reason_code_to_string RC_WorkloadCeilingSaturated = ''WorkloadCeilingSaturated''"
| "reason_code_to_string RC_FabricSessionLimit = ''FabricSessionLimit''"
| "reason_code_to_string RC_PathCapacityUnavailable = ''PathCapacityUnavailable''"
| "reason_code_to_string RC_CreditUnavailable = ''CreditUnavailable''"
| "reason_code_to_string RC_UnknownWorkload = ''UnknownWorkload''"
| "reason_code_to_string RC_ContractGenerationStale = ''ContractGenerationStale''"
| "reason_code_to_string RC_PolicyGenerationStale = ''PolicyGenerationStale''"
| "reason_code_to_string RC_TopologyGenerationStale = ''TopologyGenerationStale''"
| "reason_code_to_string RC_CheckpointGenerationStale = ''CheckpointGenerationStale''"
| "reason_code_to_string RC_SupersessionDeniedByPolicy = ''SupersessionDeniedByPolicy''"
| "reason_code_to_string RC_SessionLimitPerWorkload = ''SessionLimitPerWorkload''"
| "reason_code_to_string RC_RequestedRateUnsupported = ''RequestedRateUnsupported''"
| "reason_code_to_string RC_ManifestInvalid = ''ManifestInvalid''"
| "reason_code_to_string RC_ManifestMismatch = ''ManifestMismatch''"
| "reason_code_to_string RC_DestinationNotPermitted = ''DestinationNotPermitted''"
| "reason_code_to_string RC_CheckpointTooLarge = ''CheckpointTooLarge''"
| "reason_code_to_string RC_DeadlineUnreachable = ''DeadlineUnreachable''"
| "reason_code_to_string RC_FabricShuttingDown = ''FabricShuttingDown''"
| "reason_code_to_string RC_AuthorityStale = ''AuthorityStale''"
| "reason_code_to_string RC_AttemptStale = ''AttemptStale''"
| "reason_code_to_string RC_VerificationRequired = ''VerificationRequired''"
| "reason_code_to_string RC_VerificationMismatch = ''VerificationMismatch''"
| "reason_code_to_string RC_EvidenceStale = ''EvidenceStale''"
| "reason_code_to_string RC_SessionNotFound = ''SessionNotFound''"
| "reason_code_to_string RC_StateNotResumable = ''StateNotResumable''"
| "reason_code_to_string RC_AmbiguousSinkOutcome = ''AmbiguousSinkOutcome''"
| "reason_code_to_string RC_CancelledByOperator = ''CancelledByOperator''"
| "reason_code_to_string RC_SupersededByNewerGeneration = ''SupersededByNewerGeneration''"
| "reason_code_to_string RC_ResourceLimit = ''ResourceLimit''"
| "reason_code_to_string RC_Internal = ''Internal''"

primrec event_kind_to_string :: "event_kind \<Rightarrow> string" where
  "event_kind_to_string EK_SessionSubmitted = ''SessionSubmitted''"
| "event_kind_to_string EK_SessionAdmitted = ''SessionAdmitted''"
| "event_kind_to_string EK_SessionDeferred = ''SessionDeferred''"
| "event_kind_to_string EK_SessionDenied = ''SessionDenied''"
| "event_kind_to_string EK_SessionSuperseded = ''SessionSuperseded''"
| "event_kind_to_string EK_SessionCancelled = ''SessionCancelled''"
| "event_kind_to_string EK_SessionCompleted = ''SessionCompleted''"
| "event_kind_to_string EK_WaveGranted = ''WaveGranted''"
| "event_kind_to_string EK_TransferObserved = ''TransferObserved''"
| "event_kind_to_string EK_VerificationObserved = ''VerificationObserved''"
| "event_kind_to_string EK_AmbiguityRecorded = ''AmbiguityRecorded''"
| "event_kind_to_string EK_RevalidationRequired = ''RevalidationRequired''"
| "event_kind_to_string EK_FenceRejected = ''FenceRejected''"
| "event_kind_to_string EK_Shutdown = ''Shutdown''"
| "event_kind_to_string EK_SourceCompleteObserved = ''SourceCompleteObserved''"
| "event_kind_to_string EK_SessionPaused = ''SessionPaused''"
| "event_kind_to_string EK_SessionResumed = ''SessionResumed''"
| "event_kind_to_string EK_DurabilityAsserted = ''DurabilityAsserted''"

primrec verification_outcome_to_string :: "verification_outcome \<Rightarrow> string" where
  "verification_outcome_to_string VO_Verified = ''Verified''"
| "verification_outcome_to_string VO_DigestMismatch = ''DigestMismatch''"
| "verification_outcome_to_string VO_Truncated = ''Truncated''"
| "verification_outcome_to_string VO_Ambiguous = ''Ambiguous''"
| "verification_outcome_to_string VO_Rejected = ''Rejected''"

primrec isolation_rank :: "isolation_class \<Rightarrow> nat" where
  "isolation_rank IC_TrainingCritical = 0"
| "isolation_rank IC_ServingLatency = 1"
| "isolation_rank IC_TrainingBulk = 2"
| "isolation_rank IC_BestEffort = 3"

primrec destination_class_value :: "destination_class \<Rightarrow> nat" where
  "destination_class_value DC_LocalAttachedStore = 0"
| "destination_class_value DC_RemoteObjectStore = 1"
| "destination_class_value DC_PeerNodeMemory = 2"
| "destination_class_value DC_SyntheticLab = 3"

instantiation isolation_class :: linorder
begin

definition less_eq_isolation_class :: "isolation_class \<Rightarrow> isolation_class \<Rightarrow> bool" where
  "less_eq_isolation_class a b \<longleftrightarrow> isolation_rank a \<le> isolation_rank b"

definition less_isolation_class :: "isolation_class \<Rightarrow> isolation_class \<Rightarrow> bool" where
  "less_isolation_class a b \<longleftrightarrow> isolation_rank a < isolation_rank b"

lemma isolation_rank_inject: "isolation_rank a = isolation_rank b \<Longrightarrow> a = b"
  by (cases a; cases b) simp_all

instance
  by standard (auto simp: less_eq_isolation_class_def less_isolation_class_def intro: isolation_rank_inject)

end

definition isolation_class_from_string :: "string \<Rightarrow> isolation_class option" where
  "isolation_class_from_string text =
     (if text = ''TrainingCritical'' then Some IC_TrainingCritical
      else if text = ''ServingLatency'' then Some IC_ServingLatency
      else if text = ''TrainingBulk'' then Some IC_TrainingBulk
      else if text = ''BestEffort'' then Some IC_BestEffort
      else None)"

definition destination_class_from_string :: "string \<Rightarrow> destination_class option" where
  "destination_class_from_string text =
     (if text = ''LocalAttachedStore'' then Some DC_LocalAttachedStore
      else if text = ''RemoteObjectStore'' then Some DC_RemoteObjectStore
      else if text = ''PeerNodeMemory'' then Some DC_PeerNodeMemory
      else if text = ''SyntheticLab'' then Some DC_SyntheticLab
      else None)"

definition is_terminal :: "session_state \<Rightarrow> bool" where
  "is_terminal s \<longleftrightarrow> s \<in> {SS_TrafficSessionComplete, SS_Cancelled, SS_Superseded, SS_Failed}"

definition is_active :: "session_state \<Rightarrow> bool" where
  "is_active s \<longleftrightarrow> \<not> is_terminal s"

definition is_fencing_reason :: "reason_code \<Rightarrow> bool" where
  "is_fencing_reason r \<longleftrightarrow> r \<in> {RC_ContractGenerationStale, RC_PolicyGenerationStale,
     RC_TopologyGenerationStale, RC_CheckpointGenerationStale, RC_AuthorityStale, RC_AttemptStale,
     RC_EvidenceStale, RC_DuplicateCommand, RC_SupersededByNewerGeneration}"

interpretation isolation_text: canonical_text "\<lambda>_. True" isolation_class_to_string isolation_class_from_string
proof unfold_locales
  show "isolation_class_from_string (isolation_class_to_string c) = Some c" for c
    by (cases c) (simp_all add: isolation_class_from_string_def)
  show "True \<and> isolation_class_to_string c = t" if "isolation_class_from_string t = Some c" for t c
    using that by (auto simp: isolation_class_from_string_def split: if_splits)
qed

interpretation destination_text: canonical_text "\<lambda>_. True" destination_class_to_string destination_class_from_string
proof unfold_locales
  show "destination_class_from_string (destination_class_to_string c) = Some c" for c
    by (cases c) (simp_all add: destination_class_from_string_def)
  show "True \<and> destination_class_to_string c = t" if "destination_class_from_string t = Some c" for t c
    using that by (auto simp: destination_class_from_string_def split: if_splits)
qed

end
