(* ===== verification/Model.thy ===== *)
theory Model
  imports Model_Types
begin

text \<open>
  The domain model of \<^verbatim>\<open>include/ctf/model.hpp\<close> and the validators of \<^verbatim>\<open>src/model.cpp\<close>:
  manifests, limits, policies, topologies, contracts, requests, fences, decisions, grants
  and evidence. The validators are proved equivalent to declarative well-formedness
  predicates; in particular the running 64-bit sum of a manifest never wraps and an accepted
  manifest's shard sizes add up exactly.
\<close>

section \<open>Records\<close>

record shard_descriptor =
  sd_index :: shard_index
  sd_declared_bytes :: u64
  sd_declared_digest :: digest
  sd_path_class :: path_class_id

record checkpoint_manifest =
  mf_checkpoint :: checkpoint_id
  mf_generation :: generation
  mf_workload :: workload_id
  mf_contract_generation :: generation
  mf_total_bytes :: u64
  mf_shards :: "shard_descriptor list"
  mf_digest :: digest
  mf_declared_at :: nanos

record limits =
  lim_max_shards_per_checkpoint :: u32
  lim_max_checkpoint_bytes :: u64
  lim_max_sessions :: u32
  lim_max_attempts_in_flight :: u32
  lim_max_retained_history :: u32
  lim_max_wave_width :: u32
  lim_max_path_classes :: u32
  lim_max_sessions_per_workload :: u32
  lim_max_workloads :: u32
  lim_max_identity_text_bytes :: nat
  lim_max_string_bytes :: nat
  lim_max_supersession_chain :: u32

record isolation_envelope_config =
  ie_isolation :: isolation_class
  ie_ceiling_bps :: u64
  ie_burst_window_ns :: u64
  ie_max_in_flight_sessions :: u32

record policy_snapshot =
  po_generation :: generation
  po_envelopes :: "isolation_envelope_config list"
  po_max_wave_width :: u32
  po_max_session_bytes :: u64
  po_max_sessions :: u32
  po_max_attempts_in_flight :: u32
  po_retained_history :: u32
  po_require_destination_verification :: bool
  po_defer_horizon_ns :: nanos
  po_default_deadline_ns :: nanos
  po_minimum_rate_bps_for_admission :: nanos
  po_limits :: limits

record path_class =
  pc_id :: path_class_id
  pc_destination :: destination_class
  pc_capacity_bps :: u64
  pc_synthetic :: bool
  pc_label :: string

record topology_snapshot =
  to_generation :: generation
  to_path_classes :: "path_class list"

record workload_contract =
  wc_workload :: workload_id
  wc_generation :: generation
  wc_isolation :: isolation_class
  wc_ceiling_bps :: u64
  wc_floor_bps :: u64
  wc_max_in_flight_sessions :: u32
  wc_max_shards_per_wave :: u32
  wc_allow_supersession :: bool
  wc_deadline_budget_ns :: nanos

record session_request =
  rq_command :: command_id
  rq_workload :: workload_id
  rq_contract_generation :: generation
  rq_policy_generation :: generation
  rq_topology_generation :: generation
  rq_checkpoint :: checkpoint_id
  rq_checkpoint_generation :: generation
  rq_requested_isolation :: isolation_class
  rq_destination :: destination_class
  rq_requested_rate_bps :: u64
  rq_deadline_horizon_ns :: nanos
  rq_manifest :: checkpoint_manifest

record command_fence =
  cf_epoch :: coordinator_epoch
  cf_policy_generation :: generation
  cf_topology_generation :: generation
  cf_contract_generation :: generation
  cf_checkpoint_generation :: "generation option"
  cf_attempt_sequence :: "attempt_sequence option"

record wave_plan =
  wp_index :: wave_index
  wp_shards :: "shard_index list"
  wp_planned_bytes :: u64

record traffic_envelope =
  te_session :: session_id
  te_sequence :: attempt_sequence
  te_isolation :: isolation_class
  te_rate_bps :: u64
  te_burst_bytes :: u64
  te_wave_width :: u32
  te_waves :: "wave_plan list"
  te_path_class :: "path_class_id option"
  te_issued_at :: nanos
  te_deadline_target :: nanos

record admission_decision =
  ad_kind :: decision_kind
  ad_reason :: reason_code
  ad_session :: session_id
  ad_envelope :: "traffic_envelope option"
  ad_superseded :: "session_id list"
  ad_retry_after :: "nanos option"
  ad_epoch :: coordinator_epoch
  ad_decided_at :: nanos

record wave_grant =
  wg_session :: session_id
  wg_attempt :: attempt_id
  wg_sequence :: attempt_sequence
  wg_shard :: shard_index
  wg_wave :: wave_index
  wg_max_bytes :: u64
  wg_rate_bps :: u64
  wg_burst_bytes :: u64
  wg_issued_at :: nanos
  wg_expires_at :: nanos
  wg_epoch :: coordinator_epoch

record wave_outcome =
  wo_granted :: bool
  wo_reason :: reason_code
  wo_grant :: "wave_grant option"
  wo_retry_after :: "nanos option"
  wo_decided_at :: nanos

record source_complete_evidence =
  sc_session :: session_id
  sc_attempt :: attempt_id
  sc_sequence :: attempt_sequence
  sc_wave :: wave_index
  sc_shard :: shard_index
  sc_source_bytes :: u64
  sc_source_digest :: digest
  sc_observed_at :: nanos

record transfer_evidence =
  tr_session :: session_id
  tr_attempt :: attempt_id
  tr_sequence :: attempt_sequence
  tr_shard :: shard_index
  tr_arrived_bytes :: u64
  tr_arrived_digest :: digest
  tr_sink_acknowledged :: bool
  tr_observed_at :: nanos

record verification_evidence =
  vf_session :: session_id
  vf_attempt :: attempt_id
  vf_sequence :: attempt_sequence
  vf_shard :: shard_index
  vf_verified_bytes :: u64
  vf_verified_digest :: digest
  vf_outcome :: verification_outcome
  vf_verifier_identity :: string
  vf_observed_at :: nanos

record durability_assertion =
  da_status :: durability_status
  da_backend_identity :: string
  da_evidence_digest :: digest
  da_observed_at :: nanos

record accounting_snapshot =
  ac_bytes_admitted :: u64
  ac_bytes_transferred :: u64
  ac_bytes_verified :: u64
  ac_bytes_cancelled :: u64
  ac_bytes_wasted :: u64
  ac_bytes_unproven :: u64
  ac_bytes_deferred :: u64
  ac_granted_outstanding_bytes :: u64
  ac_sessions_admitted :: u64
  ac_sessions_deferred :: u64
  ac_sessions_denied :: u64
  ac_sessions_completed :: u64
  ac_sessions_cancelled :: u64
  ac_sessions_superseded :: u64
  ac_sessions_failed :: u64
  ac_commands_processed :: u64
  ac_active_sessions :: u32
  ac_active_attempts :: u32

record fabric_event =
  fe_kind :: event_kind
  fe_session :: session_id
  fe_reason :: reason_code
  fe_at :: nanos

definition at_baseline :: "accounting_snapshot \<Rightarrow> bool" where
  "at_baseline a \<longleftrightarrow>
     ac_active_sessions a = 0 \<and> ac_active_attempts a = 0 \<and> ac_granted_outstanding_bytes a = 0"

definition conserves :: "accounting_snapshot \<Rightarrow> bool" where
  "conserves a \<longleftrightarrow>
     ac_bytes_admitted a = ac_bytes_transferred a + ac_bytes_wasted a + ac_bytes_cancelled a +
       ac_bytes_unproven a + ac_granted_outstanding_bytes a"

definition zero_accounting :: accounting_snapshot where
  "zero_accounting = \<lparr>ac_bytes_admitted = 0, ac_bytes_transferred = 0, ac_bytes_verified = 0,
     ac_bytes_cancelled = 0, ac_bytes_wasted = 0, ac_bytes_unproven = 0, ac_bytes_deferred = 0,
     ac_granted_outstanding_bytes = 0, ac_sessions_admitted = 0, ac_sessions_deferred = 0,
     ac_sessions_denied = 0, ac_sessions_completed = 0, ac_sessions_cancelled = 0,
     ac_sessions_superseded = 0, ac_sessions_failed = 0, ac_commands_processed = 0,
     ac_active_sessions = 0, ac_active_attempts = 0\<rparr>"

section \<open>Manifest digest and validation\<close>

definition kHardLimits :: limits where
  "kHardLimits = \<lparr>
     lim_max_shards_per_checkpoint = 65536,
     lim_max_checkpoint_bytes = push_bit 44 1,
     lim_max_sessions = push_bit 20 1,
     lim_max_attempts_in_flight = push_bit 16 1,
     lim_max_retained_history = 4096,
     lim_max_wave_width = 256,
     lim_max_path_classes = 256,
     lim_max_sessions_per_workload = 1024,
     lim_max_workloads = 65536,
     lim_max_identity_text_bytes = 128,
     lim_max_string_bytes = 256,
     lim_max_supersession_chain = 16\<rparr>"

definition append_u32 :: "u32 \<Rightarrow> digest \<Rightarrow> digest" where
  "append_u32 v d = digest_update d (be_bytes4 v)"

definition append_u64 :: "u64 \<Rightarrow> digest \<Rightarrow> digest" where
  "append_u64 v d = digest_update d (be_bytes8 v)"

definition append_uuid :: "uuid128 \<Rightarrow> digest \<Rightarrow> digest" where
  "append_uuid u d = digest_update d (uuid_bytes u)"

definition append_digest :: "digest \<Rightarrow> digest \<Rightarrow> digest" where
  "append_digest x d = append_u64 (fnv1a64_value x) (append_u32 (crc32c_value x) d)"

definition append_shard :: "digest \<Rightarrow> shard_descriptor \<Rightarrow> digest" where
  "append_shard d s =
     append_u32 (sd_path_class s) (append_digest (sd_declared_digest s)
       (append_u64 (sd_declared_bytes s) (append_u32 (sd_index s) d)))"

definition compute_manifest_digest :: "checkpoint_manifest \<Rightarrow> digest" where
  "compute_manifest_digest m =
     foldl append_shard
       (append_u32 (word_of_nat (length (mf_shards m)))
         (append_u64 (mf_total_bytes m)
           (append_u64 (mf_contract_generation m)
             (append_uuid (mf_workload m)
               (append_u64 (mf_generation m)
                 (append_uuid (mf_checkpoint m) zero_digest))))))
       (mf_shards m)"

fun validate_shards :: "u64 \<Rightarrow> u64 \<Rightarrow> shard_index option \<Rightarrow> shard_descriptor list \<Rightarrow> status" where
  "validate_shards ttl acc previous [] = (if acc \<noteq> ttl then EC_ImpossibleState else EC_Ok)"
| "validate_shards ttl acc previous (s # ss) =
     (if sd_declared_bytes s = 0 then EC_InvalidArgument
      else if (case previous of None \<Rightarrow> False | Some p \<Rightarrow> \<not> (p < sd_index s)) then EC_InvalidArgument
      else if acc > ttl \<or> sd_declared_bytes s > ttl - acc then EC_ImpossibleState
      else validate_shards ttl (acc + sd_declared_bytes s) (Some (sd_index s)) ss)"

definition validate_manifest :: "checkpoint_manifest \<Rightarrow> limits \<Rightarrow> status" where
  "validate_manifest m lim =
     (if is_nil (mf_checkpoint m) then EC_MissingField
      else if is_nil (mf_workload m) then EC_MissingField
      else if mf_generation m = 0 then EC_OutOfRange
      else if mf_contract_generation m = 0 then EC_OutOfRange
      else if mf_shards m = [] then EC_InvalidArgument
      else if length (mf_shards m) > unat (lim_max_shards_per_checkpoint lim) then EC_CollectionTooLarge
      else if mf_total_bytes m = 0 then EC_InvalidArgument
      else if mf_total_bytes m > lim_max_checkpoint_bytes lim then EC_OutOfRange
      else case validate_shards (mf_total_bytes m) 0 None (mf_shards m) of
        EC_Ok \<Rightarrow> (if mf_digest m \<noteq> compute_manifest_digest m then EC_IntegrityFailure else EC_Ok)
      | err \<Rightarrow> err)"

definition manifests_equivalent :: "checkpoint_manifest \<Rightarrow> checkpoint_manifest \<Rightarrow> bool" where
  "manifests_equivalent a b \<longleftrightarrow>
     mf_checkpoint a = mf_checkpoint b \<and> mf_generation a = mf_generation b \<and>
     mf_workload a = mf_workload b \<and> mf_contract_generation a = mf_contract_generation b \<and>
     mf_total_bytes a = mf_total_bytes b \<and> length (mf_shards a) = length (mf_shards b) \<and>
     list_all2 (=) (mf_shards a) (mf_shards b)"

section \<open>Policy, topology and contract validation\<close>

definition is_bounded_label :: "string \<Rightarrow> nat \<Rightarrow> bool" where
  "is_bounded_label text max_bytes \<longleftrightarrow>
     text \<noteq> [] \<and> length text \<le> max_bytes \<and>
     list_all (\<lambda>c. let v = of_char c :: nat in
        (97 \<le> v \<and> v \<le> 122) \<or> (65 \<le> v \<and> v \<le> 90) \<or> (48 \<le> v \<and> v \<le> 57) \<or>
        c = CHR ''.'' \<or> c = CHR ''_'' \<or> c = CHR ''-'' \<or> c = CHR '':'') text"

definition check_limit :: "nat \<Rightarrow> nat \<Rightarrow> status" where
  "check_limit value cap = (if value > cap then EC_OutOfRange else EC_Ok)"

fun first_error :: "status list \<Rightarrow> status" where
  "first_error [] = EC_Ok"
| "first_error (s # ss) = (if s \<noteq> EC_Ok then s else first_error ss)"

fun validate_envelopes :: "isolation_class list \<Rightarrow> isolation_envelope_config list \<Rightarrow> status" where
  "validate_envelopes seen [] =
     (if \<exists>c \<in> set [IC_TrainingCritical, IC_ServingLatency, IC_TrainingBulk, IC_BestEffort]. c \<notin> set seen
      then EC_InvalidArgument else EC_Ok)"
| "validate_envelopes seen (e # es) =
     (if ie_isolation e \<in> set seen then EC_InvalidArgument
      else if ie_ceiling_bps e = 0 then EC_InvalidArgument
      else if ie_burst_window_ns e \<le> 0 then EC_InvalidArgument
      else if ie_max_in_flight_sessions e = 0 then EC_InvalidArgument
      else if check_limit (unat (ie_max_in_flight_sessions e)) (unat (lim_max_sessions kHardLimits)) \<noteq> EC_Ok
        then check_limit (unat (ie_max_in_flight_sessions e)) (unat (lim_max_sessions kHardLimits))
      else validate_envelopes (ie_isolation e # seen) es)"

definition validate_policy :: "policy_snapshot \<Rightarrow> limits \<Rightarrow> status" where
  "validate_policy p lim =
     (if po_generation p = 0 then EC_OutOfRange
      else if length (po_envelopes p) \<noteq> 4 then EC_InvalidArgument
      else if validate_envelopes [] (po_envelopes p) \<noteq> EC_Ok then validate_envelopes [] (po_envelopes p)
      else if po_max_wave_width p = 0 then EC_InvalidArgument
      else if po_max_session_bytes p = 0 then EC_InvalidArgument
      else if po_max_attempts_in_flight p = 0 then EC_InvalidArgument
      else if po_retained_history p = 0 then EC_InvalidArgument
      else if po_defer_horizon_ns p \<le> 0 then EC_InvalidArgument
      else if po_default_deadline_ns p \<le> 0 then EC_InvalidArgument
      else first_error
        [check_limit (unat (po_max_wave_width p)) (unat (lim_max_wave_width kHardLimits)),
         check_limit (unat (po_max_sessions p)) (unat (lim_max_sessions kHardLimits)),
         check_limit (unat (po_max_attempts_in_flight p)) (unat (lim_max_attempts_in_flight kHardLimits)),
         check_limit (unat (po_retained_history p)) (unat (lim_max_retained_history kHardLimits)),
         check_limit (unat (po_max_session_bytes p)) (unat (lim_max_checkpoint_bytes kHardLimits)),
         check_limit (unat (lim_max_shards_per_checkpoint (po_limits p)))
           (unat (lim_max_shards_per_checkpoint kHardLimits)),
         check_limit (unat (lim_max_checkpoint_bytes (po_limits p))) (unat (lim_max_checkpoint_bytes kHardLimits)),
         check_limit (unat (lim_max_sessions (po_limits p))) (unat (lim_max_sessions kHardLimits)),
         check_limit (unat (lim_max_attempts_in_flight (po_limits p)))
           (unat (lim_max_attempts_in_flight kHardLimits)),
         check_limit (unat (lim_max_retained_history (po_limits p))) (unat (lim_max_retained_history kHardLimits)),
         check_limit (unat (lim_max_wave_width (po_limits p))) (unat (lim_max_wave_width kHardLimits)),
         check_limit (unat (lim_max_path_classes (po_limits p))) (unat (lim_max_path_classes kHardLimits)),
         check_limit (unat (lim_max_sessions_per_workload (po_limits p)))
           (unat (lim_max_sessions_per_workload kHardLimits)),
         check_limit (unat (lim_max_workloads (po_limits p))) (unat (lim_max_workloads kHardLimits)),
         check_limit (lim_max_string_bytes (po_limits p)) (lim_max_string_bytes kHardLimits),
         check_limit (unat (lim_max_supersession_chain (po_limits p)))
           (unat (lim_max_supersession_chain kHardLimits))])"

fun validate_paths :: "nat \<Rightarrow> path_class_id list \<Rightarrow> path_class list \<Rightarrow> status" where
  "validate_paths max_label ids [] = EC_Ok"
| "validate_paths max_label ids (p # ps) =
     (if pc_id p = 0 then EC_InvalidArgument
      else if pc_id p \<in> set ids then EC_DuplicateIdentity
      else if pc_capacity_bps p = 0 then EC_InvalidArgument
      else if pc_label p \<noteq> [] \<and> \<not> is_bounded_label (pc_label p) max_label then EC_InvalidSyntax
      else validate_paths max_label (pc_id p # ids) ps)"

definition validate_topology :: "topology_snapshot \<Rightarrow> limits \<Rightarrow> status" where
  "validate_topology t lim =
     (if to_generation t = 0 then EC_OutOfRange
      else if to_path_classes t = [] then EC_InvalidArgument
      else if length (to_path_classes t) > unat (lim_max_path_classes lim) then EC_CollectionTooLarge
      else validate_paths (lim_max_string_bytes lim) [] (to_path_classes t))"

definition validate_contract :: "workload_contract \<Rightarrow> limits \<Rightarrow> status" where
  "validate_contract c lim =
     (if is_nil (wc_workload c) then EC_MissingField
      else if wc_generation c = 0 then EC_OutOfRange
      else if wc_ceiling_bps c = 0 then EC_InvalidArgument
      else if wc_floor_bps c > wc_ceiling_bps c then EC_InvalidArgument
      else if wc_max_in_flight_sessions c = 0 then EC_InvalidArgument
      else if wc_max_in_flight_sessions c > lim_max_sessions_per_workload lim then EC_OutOfRange
      else if wc_max_shards_per_wave c = 0 then EC_InvalidArgument
      else if wc_max_shards_per_wave c > lim_max_shards_per_checkpoint lim then EC_OutOfRange
      else if wc_deadline_budget_ns c \<le> 0 then EC_InvalidArgument
      else EC_Ok)"

definition find_envelope :: "policy_snapshot \<Rightarrow> isolation_class \<Rightarrow> isolation_envelope_config option" where
  "find_envelope p c = find (\<lambda>e. ie_isolation e = c) (po_envelopes p)"

definition find_path_class :: "topology_snapshot \<Rightarrow> path_class_id \<Rightarrow> path_class option" where
  "find_path_class t i = find (\<lambda>p. pc_id p = i) (to_path_classes t)"

definition default_path_class_for :: "topology_snapshot \<Rightarrow> destination_class \<Rightarrow> path_class_id option" where
  "default_path_class_for t d =
     foldl (\<lambda>best p. if pc_destination p \<noteq> d then best
                     else if (case best of None \<Rightarrow> True | Some b \<Rightarrow> pc_id p < b) then Some (pc_id p)
                     else best) None (to_path_classes t)"

section \<open>What the validators accept\<close>

definition manifest_wf :: "checkpoint_manifest \<Rightarrow> limits \<Rightarrow> bool" where
  "manifest_wf m lim \<longleftrightarrow>
     \<not> is_nil (mf_checkpoint m) \<and> \<not> is_nil (mf_workload m) \<and>
     mf_generation m \<noteq> 0 \<and> mf_contract_generation m \<noteq> 0 \<and>
     mf_shards m \<noteq> [] \<and> length (mf_shards m) \<le> unat (lim_max_shards_per_checkpoint lim) \<and>
     mf_total_bytes m \<noteq> 0 \<and> mf_total_bytes m \<le> lim_max_checkpoint_bytes lim \<and>
     (\<forall>s \<in> set (mf_shards m). sd_declared_bytes s \<noteq> 0) \<and>
     sorted_wrt (<) (map sd_index (mf_shards m)) \<and>
     (\<Sum>s\<leftarrow>mf_shards m. unat (sd_declared_bytes s)) = unat (mf_total_bytes m) \<and>
     mf_digest m = compute_manifest_digest m"

lemma validate_shards_ok_iff:
  assumes "acc \<le> ttl"
  shows "validate_shards ttl acc prev ss = EC_Ok \<longleftrightarrow>
    (\<forall>s \<in> set ss. sd_declared_bytes s \<noteq> 0) \<and>
    (\<forall>p. prev = Some p \<longrightarrow> (\<forall>s \<in> set ss. p < sd_index s)) \<and>
    sorted_wrt (<) (map sd_index ss) \<and>
    unat acc + (\<Sum>s\<leftarrow>ss. unat (sd_declared_bytes s)) = unat ttl"
  using assms
proof (induction ss arbitrary: acc prev)
  case Nil
  then show ?case by (auto simp: word_unat_eq_iff)
next
  case (Cons s ss)
  let ?d = "sd_declared_bytes s"
  have sub: "unat (ttl - acc) = unat ttl - unat acc" and le: "unat acc \<le> unat ttl"
    using Cons.prems by (simp_all add: unat_sub_le word_le_nat_alt)
  show ?case
  proof (cases "?d > ttl - acc")
    case True
    then have "unat ttl < unat acc + unat ?d"
      using le by (simp add: word_less_nat_alt sub)
    with True Cons.prems show ?thesis by auto
  next
    case False
    then have fits: "unat acc + unat ?d \<le> unat ttl"
      using le by (simp add: word_less_nat_alt sub)
    then have sum: "unat (acc + ?d) = unat acc + unat ?d"
      using unat_u64_less [of ttl] by (intro unat_add_u64) simp
    then have "acc + ?d \<le> ttl" using fits by (simp add: word_le_nat_alt)
    from Cons.IH [OF this, of "Some (sd_index s)"] False Cons.prems show ?thesis
      by (cases prev) (auto simp: sum not_less not_le add.assoc intro: order.strict_trans)
  qed
qed

lemma validate_manifest_ok_iff: "validate_manifest m lim = EC_Ok \<longleftrightarrow> manifest_wf m lim"
proof -
  let ?v = "validate_shards (mf_total_bytes m) 0 None (mf_shards m)"
  have "(case ?v of EC_Ok \<Rightarrow> (if mf_digest m \<noteq> compute_manifest_digest m then EC_IntegrityFailure else EC_Ok)
      | err \<Rightarrow> err) = EC_Ok \<longleftrightarrow> ?v = EC_Ok \<and> mf_digest m = compute_manifest_digest m"
    by (cases ?v) auto
  then show ?thesis
    using validate_shards_ok_iff [of 0 "mf_total_bytes m" None "mf_shards m"]
    by (auto simp: validate_manifest_def manifest_wf_def)
qed

lemma manifests_equivalent_digest:
  "manifests_equivalent a b \<Longrightarrow> compute_manifest_digest a = compute_manifest_digest b"
  by (simp add: manifests_equivalent_def list_all2_eq [symmetric] compute_manifest_digest_def)

lemma first_error_ok_iff: "first_error ss = EC_Ok \<longleftrightarrow> (\<forall>s \<in> set ss. s = EC_Ok)"
  by (induction ss) auto

lemma check_limit_ok_iff [simp]: "check_limit v cap = EC_Ok \<longleftrightarrow> v \<le> cap"
  by (simp add: check_limit_def)

lemma validate_envelopes_ok:
  "validate_envelopes seen es = EC_Ok \<Longrightarrow>
     distinct (map ie_isolation es) \<and> set (map ie_isolation es) \<inter> set seen = {} \<and>
     set (map ie_isolation es) \<union> set seen = UNIV \<and>
     (\<forall>e \<in> set es. 0 < ie_ceiling_bps e \<and> 0 < ie_burst_window_ns e \<and> 0 < ie_max_in_flight_sessions e)"
proof (induction es arbitrary: seen)
  case Nil
  have "c \<in> set seen" for c
    using Nil by (cases c) (auto split: if_splits)
  then show ?case by auto
next
  case (Cons e es)
  from Cons.prems have "validate_envelopes (ie_isolation e # seen) es = EC_Ok"
    and "ie_isolation e \<notin> set seen" and "ie_ceiling_bps e \<noteq> 0" and "ie_burst_window_ns e \<noteq> 0"
    and "ie_max_in_flight_sessions e \<noteq> 0"
    by (auto split: if_splits)
  with Cons.IH [of "ie_isolation e # seen"] show ?case
    by (auto simp: word_neq_0_conv)
qed

lemma validate_policy_envelope:
  assumes "validate_policy p lim = EC_Ok"
  shows "\<exists>e. find_envelope p c = Some e \<and> ie_isolation e = c \<and> 0 < ie_ceiling_bps e \<and>
    0 < ie_burst_window_ns e \<and> 0 < ie_max_in_flight_sessions e"
proof -
  have ok: "validate_envelopes [] (po_envelopes p) = EC_Ok"
    using assms by (auto simp: validate_policy_def split: if_splits)
  have "c \<in> ie_isolation ` set (po_envelopes p)"
    using validate_envelopes_ok [OF ok] by auto
  then obtain e where e: "find_envelope p c = Some e"
    unfolding find_envelope_def by (metis (mono_tags, lifting) find_None_iff image_iff not_None_eq)
  then have "e \<in> set (po_envelopes p)" and "ie_isolation e = c"
    by (auto simp: find_envelope_def find_Some_iff)
  then show ?thesis using e validate_envelopes_ok [OF ok] by blast
qed

lemma validate_policy_bounds:
  assumes "validate_policy p lim = EC_Ok"
  shows "po_generation p \<noteq> 0" and "0 < po_max_wave_width p" and "0 < po_retained_history p"
    and "unat (po_retained_history p) \<le> 4096" and "0 < po_defer_horizon_ns p"
    and "unat (po_max_session_bytes p) \<le> 2 ^ 44"
  using assms
  by (auto simp: validate_policy_def first_error_ok_iff word_neq_0_conv kHardLimits_def split: if_splits)

lemma validate_paths_ok_iff:
  "validate_paths n ids ps = EC_Ok \<longleftrightarrow>
     distinct (map pc_id ps) \<and> set (map pc_id ps) \<inter> set ids = {} \<and>
     (\<forall>p \<in> set ps. pc_id p \<noteq> 0 \<and> pc_capacity_bps p \<noteq> 0 \<and>
        (pc_label p = [] \<or> is_bounded_label (pc_label p) n))"
  by (induction ps arbitrary: ids) auto

lemma Min_insert2: "finite S \<Longrightarrow> Min (insert b (insert x S)) = Min (insert (min b x) S)"
  by (cases "S = {}") (simp_all add: min.assoc)

lemma default_path_fold:
  "foldl (\<lambda>best p. if pc_destination p \<noteq> d then best
            else if (case best of None \<Rightarrow> True | Some b \<Rightarrow> pc_id p < b) then Some (pc_id p)
            else best) best ps =
   (case best of
      None \<Rightarrow> (if filter (\<lambda>p. pc_destination p = d) ps = [] then None
               else Some (Min (pc_id ` {p \<in> set ps. pc_destination p = d})))
    | Some b \<Rightarrow> Some (Min (insert b (pc_id ` {p \<in> set ps. pc_destination p = d}))))"
proof (induction ps arbitrary: best)
  case Nil
  then show ?case by (cases best) auto
next
  case (Cons p ps)
  let ?S = "pc_id ` {p \<in> set ps. pc_destination p = d}"
  have set_eq: "pc_id ` {q \<in> set (p # ps). pc_destination q = d} =
      (if pc_destination p = d then insert (pc_id p) ?S else ?S)"
    by auto
  have fin: "finite ?S" by simp
  show ?case
    unfolding foldl.simps Cons.IH set_eq
    by (auto simp: Min_insert2 [OF fin] min_def not_less split: option.splits)
qed

lemma default_path_class_for_min:
  "default_path_class_for t d =
     (if \<forall>p \<in> set (to_path_classes t). pc_destination p \<noteq> d then None
      else Some (Min (pc_id ` {p \<in> set (to_path_classes t). pc_destination p = d})))"
  unfolding default_path_class_for_def default_path_fold by (simp add: filter_empty_conv)

lemma default_path_class_resolves:
  assumes "validate_topology t lim = EC_Ok" and "default_path_class_for t d = Some i"
  shows "\<exists>p. find_path_class t i = Some p \<and> pc_id p = i \<and> pc_destination p = d \<and> 0 < pc_capacity_bps p"
proof -
  let ?S = "{p \<in> set (to_path_classes t). pc_destination p = d}"
  have i: "i = Min (pc_id ` ?S)" and ne: "?S \<noteq> {}"
    using assms(2) by (auto simp: default_path_class_for_min split: if_splits)
  have "Min (pc_id ` ?S) \<in> pc_id ` ?S"
    using ne by (intro Min_in) auto
  then obtain p where p: "p \<in> set (to_path_classes t)" "pc_destination p = d" "pc_id p = i"
    by (auto simp: i)
  have v: "validate_paths (lim_max_string_bytes lim) [] (to_path_classes t) = EC_Ok"
    using assms(1) by (auto simp: validate_topology_def split: if_splits)
  then have dist: "distinct (map pc_id (to_path_classes t))"
    by (simp add: validate_paths_ok_iff)
  obtain q where q: "find_path_class t i = Some q"
    using p unfolding find_path_class_def by (metis (mono_tags, lifting) find_None_iff not_None_eq)
  then have "q \<in> set (to_path_classes t)" and "pc_id q = i"
    by (auto simp: find_path_class_def find_Some_iff)
  with p dist have "q = p" by (auto simp: distinct_map dest: inj_onD)
  then show ?thesis
    using q p v by (auto simp: validate_paths_ok_iff word_neq_0_conv)
qed

section \<open>Properties\<close>

text \<open>
  C34. Manifest validation accepts exactly the well-formed manifests: identities and generations
  present, shard count and total within the limits, strictly increasing shard indices, positive
  shard sizes whose unbounded sum (not the sum modulo two to the sixty-four) is the declared
  total, and a digest that matches the content.
\<close>
theorem validate_manifest_exact: "(validate_manifest m lim = EC_Ok) = manifest_wf m lim"
  by (rule validate_manifest_ok_iff)

text \<open>
  C36. Under a validated topology the default path for a destination, when there is one, is the
  smallest path identifier that serves the destination, and it resolves to a path of that
  destination with positive capacity.
\<close>
theorem default_path_class_correct:
  assumes "validate_topology t lim = EC_Ok" and "default_path_class_for t d = Some i"
  shows "i = Min (pc_id ` {p \<in> set (to_path_classes t). pc_destination p = d}) \<and>
    (\<exists>p. find_path_class t i = Some p \<and> pc_destination p = d \<and> 0 < pc_capacity_bps p)"
proof
  show "i = Min (pc_id ` {p \<in> set (to_path_classes t). pc_destination p = d})"
    using assms(2) by (simp add: default_path_class_for_min split: if_splits)
  show "\<exists>p. find_path_class t i = Some p \<and> pc_destination p = d \<and> 0 < pc_capacity_bps p"
    using default_path_class_resolves [OF assms] by blast
qed

definition sample_topology :: topology_snapshot where
  "sample_topology =
     \<lparr>to_generation = 1,
      to_path_classes =
        [\<lparr>pc_id = 7, pc_destination = DC_RemoteObjectStore, pc_capacity_bps = 1000000, pc_synthetic = True, pc_label = []\<rparr>,
         \<lparr>pc_id = 3, pc_destination = DC_RemoteObjectStore, pc_capacity_bps = 2000000, pc_synthetic = True, pc_label = []\<rparr>]\<rparr>"

theorem default_path_class_correct_witness:
  "validate_topology sample_topology kHardLimits = EC_Ok \<and>
   default_path_class_for sample_topology DC_RemoteObjectStore = Some 3 \<and>
   (\<exists>p. find_path_class sample_topology 3 = Some p \<and> 0 < pc_capacity_bps p)"
proof -
  have v: "validate_topology sample_topology kHardLimits = EC_Ok"
    by (simp add: sample_topology_def validate_topology_def kHardLimits_def)
  have d: "default_path_class_for sample_topology DC_RemoteObjectStore = Some 3"
    by (simp add: sample_topology_def default_path_class_for_def)
  show ?thesis
    using v d default_path_class_correct [OF v d] by blast
qed

end
