(* ===== verification/Shaper.thy ===== *)
theory Shaper
  imports Model
begin

text \<open>
  The integer rate shaper, \<^verbatim>\<open>src/shaper.hpp\<close> and \<^verbatim>\<open>src/shaper.cpp\<close>: token buckets per
  isolation class and per workload, and rate reservations per path class. The lemmas show
  that the refill arithmetic is exact and never wraps, that a bucket never holds more than
  its burst capacity, and, through the \<open>metered_bucket\<close> interface, that the bytes drawn
  from a bucket over any interval are bounded by one burst plus rate times elapsed time.
\<close>

definition kNanosPerSecond :: nanos where
  "kNanosPerSecond = 1000000000"

section \<open>Token bucket\<close>

definition refill_bytes :: "u64 \<Rightarrow> nanos \<Rightarrow> u64" where
  "refill_bytes rate_bps elapsed_ns =
     (if rate_bps = 0 \<or> elapsed_ns \<le> 0 then 0
      else
        let elapsed = word_of_int (min elapsed_ns kNanosPerSecond) :: u64;
            whole = rate_bps div word_of_int kNanosPerSecond;
            remainder = rate_bps mod word_of_int kNanosPerSecond;
            from_whole = whole * elapsed;
            from_remainder = (remainder * elapsed) div word_of_int kNanosPerSecond
        in from_whole + from_remainder)"

definition burst_capacity :: "u64 \<Rightarrow> nanos \<Rightarrow> u64" where
  "burst_capacity rate_bps burst_window_ns =
     (if rate_bps = 0 \<or> burst_window_ns \<le> 0 then 0
      else
        let window = word_of_int burst_window_ns :: u64;
            whole = rate_bps div word_of_int kNanosPerSecond;
            remainder = rate_bps mod word_of_int kNanosPerSecond;
            capacity = whole * window + (remainder * window) div word_of_int kNanosPerSecond;
            floor_capacity = rate_bps div 100
        in if capacity < floor_capacity then floor_capacity else capacity)"

record token_bucket =
  tb_rate_bps :: u64
  tb_capacity_bytes :: u64
  tb_tokens :: u64
  tb_last_ns :: nanos
  tb_configured :: bool

definition empty_bucket :: token_bucket where
  "empty_bucket = \<lparr>tb_rate_bps = 0, tb_capacity_bytes = 0, tb_tokens = 0, tb_last_ns = 0,
     tb_configured = False\<rparr>"

definition bucket_configure :: "u64 \<Rightarrow> u64 \<Rightarrow> nanos \<Rightarrow> token_bucket \<Rightarrow> token_bucket" where
  "bucket_configure rate_bps burst_window_ns now b =
     b\<lparr>tb_rate_bps := rate_bps,
       tb_capacity_bytes := burst_capacity rate_bps (sint burst_window_ns),
       tb_tokens := burst_capacity rate_bps (sint burst_window_ns),
       tb_last_ns := now,
       tb_configured := True\<rparr>"

definition bucket_refill :: "nanos \<Rightarrow> token_bucket \<Rightarrow> token_bucket" where
  "bucket_refill now b =
     (if \<not> tb_configured b \<or> now \<le> tb_last_ns b then b
      else
        let accrued = refill_bytes (tb_rate_bps b) (now - tb_last_ns b);
            b1 = b\<lparr>tb_last_ns := now\<rparr>
        in if accrued = 0 then b1
           else if tb_tokens b1 \<ge> tb_capacity_bytes b1 \<or> accrued \<ge> tb_capacity_bytes b1 - tb_tokens b1
             then b1\<lparr>tb_tokens := tb_capacity_bytes b1\<rparr>
           else b1\<lparr>tb_tokens := tb_tokens b1 + accrued\<rparr>)"

definition bucket_try_consume :: "nanos \<Rightarrow> u64 \<Rightarrow> token_bucket \<Rightarrow> bool \<times> token_bucket" where
  "bucket_try_consume now n b =
     (let b1 = bucket_refill now b in
      if n > tb_tokens b1 then (False, b1)
      else (True, b1\<lparr>tb_tokens := tb_tokens b1 - n\<rparr>))"

definition bucket_release :: "u64 \<Rightarrow> token_bucket \<Rightarrow> token_bucket" where
  "bucket_release n b =
     (if tb_tokens b \<ge> tb_capacity_bytes b \<or> n \<ge> tb_capacity_bytes b - tb_tokens b
      then b\<lparr>tb_tokens := tb_capacity_bytes b\<rparr>
      else b\<lparr>tb_tokens := tb_tokens b + n\<rparr>)"

definition bucket_time_until :: "u64 \<Rightarrow> token_bucket \<Rightarrow> nanos" where
  "bucket_time_until n b =
     (if \<not> tb_configured b \<or> tb_rate_bps b = 0 then 0
      else
        let missing = (if n > tb_tokens b then n - tb_tokens b else 0) in
        if missing = 0 then 0
        else sint ((missing * word_of_int kNanosPerSecond) div tb_rate_bps b) + 1)"

section \<open>Fabric-wide shaper\<close>

record rate_shaper =
  sp_classes :: "(isolation_class \<times> token_bucket) list"
  sp_workloads :: "(workload_id \<times> token_bucket) list"
  sp_path_reservations :: "(path_class_id \<times> u64) list"

definition empty_shaper :: rate_shaper where
  "empty_shaper = \<lparr>sp_classes = [], sp_workloads = [], sp_path_reservations = []\<rparr>"

record shaper_verdict =
  sv_admitted :: bool
  sv_reason :: reason_code
  sv_retry_after :: nanos

definition bucket_at :: "('k \<times> token_bucket) list \<Rightarrow> 'k \<Rightarrow> token_bucket" where
  "bucket_at m k = (case map_of m k of None \<Rightarrow> empty_bucket | Some b \<Rightarrow> b)"

definition configure_class :: "isolation_class \<Rightarrow> u64 \<Rightarrow> nanos \<Rightarrow> nanos \<Rightarrow> rate_shaper \<Rightarrow> rate_shaper" where
  "configure_class c ceiling_bps burst_window_ns now s =
     s\<lparr>sp_classes := AList.update c
         (bucket_configure ceiling_bps (word_of_int burst_window_ns) now (bucket_at (sp_classes s) c))
         (sp_classes s)\<rparr>"

definition configure_workload :: "workload_id \<Rightarrow> u64 \<Rightarrow> nanos \<Rightarrow> nanos \<Rightarrow> rate_shaper \<Rightarrow> rate_shaper" where
  "configure_workload w ceiling_bps burst_window_ns now s =
     s\<lparr>sp_workloads := AList.update w
         (bucket_configure ceiling_bps (word_of_int burst_window_ns) now (bucket_at (sp_workloads s) w))
         (sp_workloads s)\<rparr>"

definition drop_workload :: "workload_id \<Rightarrow> rate_shaper \<Rightarrow> rate_shaper" where
  "drop_workload w s = s\<lparr>sp_workloads := AList.delete w (sp_workloads s)\<rparr>"

definition reserve_path_rate :: "path_class_id \<Rightarrow> u64 \<Rightarrow> rate_shaper \<Rightarrow> bool \<times> rate_shaper" where
  "reserve_path_rate p rate_bps s =
     (case map_of (sp_path_reservations s) p of
        None \<Rightarrow> (True, s\<lparr>sp_path_reservations := AList.update p rate_bps (sp_path_reservations s)\<rparr>)
      | Some r \<Rightarrow>
          if rate_bps > 0xFFFFFFFFFFFFFFFF - r then (False, s)
          else (True, s\<lparr>sp_path_reservations := AList.update p (r + rate_bps) (sp_path_reservations s)\<rparr>))"

definition release_path_rate :: "path_class_id \<Rightarrow> u64 \<Rightarrow> rate_shaper \<Rightarrow> rate_shaper" where
  "release_path_rate p rate_bps s =
     (case map_of (sp_path_reservations s) p of
        None \<Rightarrow> s
      | Some r \<Rightarrow>
          s\<lparr>sp_path_reservations := AList.update p (if rate_bps \<ge> r then 0 else r - rate_bps)
              (sp_path_reservations s)\<rparr>)"

definition reserved_path_rate :: "path_class_id \<Rightarrow> rate_shaper \<Rightarrow> u64" where
  "reserved_path_rate p s = (case map_of (sp_path_reservations s) p of None \<Rightarrow> 0 | Some r \<Rightarrow> r)"

definition shaper_try_consume ::
  "isolation_class \<Rightarrow> workload_id \<Rightarrow> u64 \<Rightarrow> nanos \<Rightarrow> rate_shaper \<Rightarrow> shaper_verdict \<times> rate_shaper" where
  "shaper_try_consume c w n now s =
     (let refused = (\<lambda>r t. \<lparr>sv_admitted = False, sv_reason = r, sv_retry_after = t\<rparr>) in
      case map_of (sp_classes s) c of
        None \<Rightarrow> (refused RC_ClassCeilingSaturated 0, s)
      | Some cb0 \<Rightarrow>
        if \<not> tb_configured cb0 then (refused RC_ClassCeilingSaturated 0, s)
        else case map_of (sp_workloads s) w of
          None \<Rightarrow> (refused RC_WorkloadCeilingSaturated 0, s)
        | Some wb0 \<Rightarrow>
          if \<not> tb_configured wb0 then (refused RC_WorkloadCeilingSaturated 0, s)
          else
            let cb = bucket_refill now cb0; wb = bucket_refill now wb0;
                s1 = s\<lparr>sp_classes := AList.update c cb (sp_classes s),
                       sp_workloads := AList.update w wb (sp_workloads s)\<rparr>
            in if tb_tokens cb < n then
                 (refused RC_ClassCeilingSaturated (now + bucket_time_until n cb), s1)
               else if tb_tokens wb < n then
                 (refused RC_WorkloadCeilingSaturated (now + bucket_time_until n wb), s1)
               else
                 let (class_ok, cb2) = bucket_try_consume now n cb;
                     (workload_ok, wb2) = bucket_try_consume now n wb;
                     s2 = s1\<lparr>sp_classes := AList.update c cb2 (sp_classes s1),
                             sp_workloads := AList.update w wb2 (sp_workloads s1)\<rparr>
                 in if \<not> class_ok \<or> \<not> workload_ok then (refused RC_CreditUnavailable 0, s2)
                    else (\<lparr>sv_admitted = True, sv_reason = RC_Admitted, sv_retry_after = 0\<rparr>, s2))"

definition shaper_release :: "isolation_class \<Rightarrow> workload_id \<Rightarrow> u64 \<Rightarrow> nanos \<Rightarrow> rate_shaper \<Rightarrow> rate_shaper" where
  "shaper_release c w n now s =
     (let s1 = (case map_of (sp_classes s) c of
                  None \<Rightarrow> s
                | Some b \<Rightarrow> s\<lparr>sp_classes :=
                    AList.update c (bucket_release n (bucket_refill now b)) (sp_classes s)\<rparr>)
      in case map_of (sp_workloads s1) w of
           None \<Rightarrow> s1
         | Some b \<Rightarrow> s1\<lparr>sp_workloads :=
             AList.update w (bucket_release n (bucket_refill now b)) (sp_workloads s1)\<rparr>)"

definition class_tokens_at :: "isolation_class \<Rightarrow> nanos \<Rightarrow> rate_shaper \<Rightarrow> u64 \<times> rate_shaper" where
  "class_tokens_at c now s =
     (case map_of (sp_classes s) c of
        None \<Rightarrow> (0, s)
      | Some b \<Rightarrow> (tb_tokens (bucket_refill now b),
                   s\<lparr>sp_classes := AList.update c (bucket_refill now b) (sp_classes s)\<rparr>))"

definition workload_tokens_at :: "workload_id \<Rightarrow> nanos \<Rightarrow> rate_shaper \<Rightarrow> u64 \<times> rate_shaper" where
  "workload_tokens_at w now s =
     (case map_of (sp_workloads s) w of
        None \<Rightarrow> (0, s)
      | Some b \<Rightarrow> (tb_tokens (bucket_refill now b),
                   s\<lparr>sp_workloads := AList.update w (bucket_refill now b) (sp_workloads s)\<rparr>))"

definition class_time_until_at :: "isolation_class \<Rightarrow> u64 \<Rightarrow> nanos \<Rightarrow> rate_shaper \<Rightarrow> nanos \<times> rate_shaper" where
  "class_time_until_at c n now s =
     (case map_of (sp_classes s) c of
        None \<Rightarrow> (0, s)
      | Some b \<Rightarrow> (bucket_time_until n (bucket_refill now b),
                   s\<lparr>sp_classes := AList.update c (bucket_refill now b) (sp_classes s)\<rparr>))"

definition class_tokens :: "isolation_class \<Rightarrow> rate_shaper \<Rightarrow> u64" where
  "class_tokens c s = (case map_of (sp_classes s) c of None \<Rightarrow> 0 | Some b \<Rightarrow> tb_tokens b)"

definition workload_tokens :: "workload_id \<Rightarrow> rate_shaper \<Rightarrow> u64" where
  "workload_tokens w s = (case map_of (sp_workloads s) w of None \<Rightarrow> 0 | Some b \<Rightarrow> tb_tokens b)"

definition class_rate :: "isolation_class \<Rightarrow> rate_shaper \<Rightarrow> u64" where
  "class_rate c s = (case map_of (sp_classes s) c of None \<Rightarrow> 0 | Some b \<Rightarrow> tb_rate_bps b)"

definition workload_rate :: "workload_id \<Rightarrow> rate_shaper \<Rightarrow> u64" where
  "workload_rate w s = (case map_of (sp_workloads s) w of None \<Rightarrow> 0 | Some b \<Rightarrow> tb_rate_bps b)"

definition class_time_until :: "isolation_class \<Rightarrow> u64 \<Rightarrow> rate_shaper \<Rightarrow> nanos" where
  "class_time_until c n s = (case map_of (sp_classes s) c of None \<Rightarrow> 0 | Some b \<Rightarrow> bucket_time_until n b)"

definition workload_time_until :: "workload_id \<Rightarrow> u64 \<Rightarrow> rate_shaper \<Rightarrow> nanos" where
  "workload_time_until w n s = (case map_of (sp_workloads s) w of None \<Rightarrow> 0 | Some b \<Rightarrow> bucket_time_until n b)"

section \<open>The refill arithmetic is exact\<close>

lemma billion_word: "unat (word_of_int kNanosPerSecond :: u64) = 1000000000"
  by (simp add: kNanosPerSecond_def)

lemma unat_nanos_word:
  assumes "0 \<le> t" and "t \<le> kNanosPerSecond"
  shows "unat (word_of_int t :: u64) = nat t"
  using assms by (simp add: unat_eq_nat_uint uint_word_of_int_eq take_bit_int_eq_self kNanosPerSecond_def)

lemma split_rate:
  fixes r e :: nat
  assumes "0 < k"
  shows "r div k * e + (r mod k * e) div k = r * e div k"
proof -
  have "r * e = (r div k * e) * k + r mod k * e"
    by (metis add_mult_distrib div_mult_mod_eq mult.assoc mult.commute)
  then show ?thesis using assms by simp
qed

lemma refill_bytes_exact:
  assumes "0 < elapsed"
  shows "unat (refill_bytes rate elapsed) =
    unat rate * nat (min elapsed kNanosPerSecond) div 1000000000"
proof (cases "rate = 0")
  case True
  then show ?thesis by (simp add: refill_bytes_def)
next
  case False
  let ?e = "word_of_int (min elapsed kNanosPerSecond) :: u64"
  let ?k = "word_of_int kNanosPerSecond :: u64"
  let ?n = "nat (min elapsed kNanosPerSecond)"
  have e: "unat ?e = ?n"
    using assms by (intro unat_nanos_word) (simp_all add: kNanosPerSecond_def)
  have n: "?n \<le> 1000000000" by (simp add: kNanosPerSecond_def)
  have "unat rate div 1000000000 * ?n \<le> unat rate div 1000000000 * 1000000000"
    using n by simp
  also have "\<dots> \<le> unat rate" by simp
  finally have w: "unat rate div 1000000000 * ?n \<le> unat rate" .
  have "unat rate mod 1000000000 * ?n \<le> 1000000000 * 1000000000"
    using n by (intro mult_le_mono) simp_all
  then have r: "unat rate mod 1000000000 * ?n < 2 ^ 64" by simp
  have whole: "unat ((rate div ?k) * ?e) = unat rate div 1000000000 * ?n"
    using w unat_u64_less [of rate]
    by (subst unat_mult_u64) (simp_all add: unat_div billion_word e)
  have rem: "unat (((rate mod ?k) * ?e) div ?k) = (unat rate mod 1000000000 * ?n) div 1000000000"
    using r by (simp add: unat_div billion_word unat_mult_u64 unat_mod e)
  have total: "unat rate div 1000000000 * ?n + (unat rate mod 1000000000 * ?n) div 1000000000
      = unat rate * ?n div 1000000000"
    by (rule split_rate) simp
  have "unat rate * ?n div 1000000000 \<le> unat rate * 1000000000 div 1000000000"
    using n by (intro div_le_mono mult_le_mono) simp_all
  then have "unat rate * ?n div 1000000000 < 2 ^ 64"
    using unat_u64_less [of rate] by simp
  then have "unat ((rate div ?k) * ?e + ((rate mod ?k) * ?e) div ?k) = unat rate * ?n div 1000000000"
    by (subst unat_add_u64) (simp_all only: whole rem total)
  then show ?thesis
    using False assms by (simp add: refill_bytes_def Let_def)
qed

lemma refill_bytes_le:
  assumes "0 \<le> elapsed"
  shows "unat (refill_bytes rate elapsed) * 1000000000 \<le> unat rate * nat elapsed"
proof (cases "elapsed = 0")
  case True
  then show ?thesis by (simp add: refill_bytes_def)
next
  case False
  have "unat rate * nat (min elapsed kNanosPerSecond) div 1000000000 * 1000000000 \<le>
      unat rate * nat (min elapsed kNanosPerSecond)"
    by (rule div_times_less_eq_dividend)
  also have "\<dots> \<le> unat rate * nat elapsed"
    by (intro mult_le_mono nat_mono) simp_all
  finally show ?thesis
    using assms False by (simp only: refill_bytes_exact)
qed

section \<open>Bucket operations\<close>

definition bucket_ok :: "token_bucket \<Rightarrow> bool" where
  "bucket_ok b \<longleftrightarrow> tb_tokens b \<le> tb_capacity_bytes b"

lemma bucket_configure_ok [simp]: "bucket_ok (bucket_configure r w t b)"
  by (simp add: bucket_ok_def bucket_configure_def)

lemma bucket_refill_frame [simp]:
  "tb_rate_bps (bucket_refill now b) = tb_rate_bps b"
  "tb_capacity_bytes (bucket_refill now b) = tb_capacity_bytes b"
  "tb_configured (bucket_refill now b) = tb_configured b"
  by (simp_all add: bucket_refill_def Let_def)

lemma bucket_refill_clock:
  "tb_last_ns (bucket_refill now b) = (if tb_configured b then max (tb_last_ns b) now else tb_last_ns b)"
  by (simp add: bucket_refill_def Let_def max_def)

lemma bucket_refill_tokens:
  assumes "bucket_ok b"
  shows "tb_tokens b \<le> tb_tokens (bucket_refill now b)"
    and "unat (tb_tokens (bucket_refill now b)) =
      (if tb_configured b \<and> tb_last_ns b < now
       then min (unat (tb_capacity_bytes b))
              (unat (tb_tokens b) + unat (refill_bytes (tb_rate_bps b) (now - tb_last_ns b)))
       else unat (tb_tokens b))"
proof -
  let ?a = "refill_bytes (tb_rate_bps b) (now - tb_last_ns b)"
  have le: "unat (tb_tokens b) \<le> unat (tb_capacity_bytes b)"
    using assms by (simp add: bucket_ok_def word_le_nat_alt)
  have sub: "unat (tb_capacity_bytes b - tb_tokens b) = unat (tb_capacity_bytes b) - unat (tb_tokens b)"
    using assms by (simp add: bucket_ok_def unat_sub_le)
  have add: "unat (tb_tokens b + ?a) = unat (tb_tokens b) + unat ?a"
    if "\<not> ?a \<ge> tb_capacity_bytes b - tb_tokens b"
    using that le unat_u64_less [of "tb_capacity_bytes b"]
    by (intro unat_add_u64) (simp add: word_le_nat_alt sub)
  show eq: "unat (tb_tokens (bucket_refill now b)) =
      (if tb_configured b \<and> tb_last_ns b < now
       then min (unat (tb_capacity_bytes b)) (unat (tb_tokens b) + unat ?a) else unat (tb_tokens b))"
  proof (cases "tb_configured b \<and> tb_last_ns b < now")
    case False
    then show ?thesis by (auto simp: bucket_refill_def)
  next
    case True
    consider "?a = 0" | "?a \<noteq> 0" "tb_tokens b \<ge> tb_capacity_bytes b \<or> ?a \<ge> tb_capacity_bytes b - tb_tokens b"
      | "?a \<noteq> 0" "\<not> tb_tokens b \<ge> tb_capacity_bytes b" "\<not> ?a \<ge> tb_capacity_bytes b - tb_tokens b"
      by blast
    then show ?thesis
    proof cases
      case 1
      then show ?thesis using True le by (simp add: bucket_refill_def Let_def)
    next
      case 2
      then have "unat (tb_capacity_bytes b) \<le> unat (tb_tokens b) + unat ?a"
        by (auto simp: word_le_nat_alt sub)
      with 2 True show ?thesis by (simp add: bucket_refill_def Let_def)
    next
      case 3
      then show ?thesis
        using True add le by (simp add: bucket_refill_def Let_def word_le_nat_alt sub)
    qed
  qed
  show "tb_tokens b \<le> tb_tokens (bucket_refill now b)"
    using le unfolding word_le_nat_alt eq by simp
qed

lemma bucket_refill_ok [simp]: "bucket_ok b \<Longrightarrow> bucket_ok (bucket_refill now b)"
  using bucket_refill_tokens(2) [of b now]
  by (simp add: bucket_ok_def word_le_nat_alt)

lemma bucket_try_consume_ok [simp]: "bucket_ok b \<Longrightarrow> bucket_ok (snd (bucket_try_consume now n b))"
proof -
  assume "bucket_ok b"
  then have ok: "bucket_ok (bucket_refill now b)" by simp
  have "tb_tokens (bucket_refill now b) - n \<le> tb_tokens (bucket_refill now b)"
    if "n \<le> tb_tokens (bucket_refill now b)"
    using that by (simp add: word_le_nat_alt unat_sub_le)
  then show ?thesis
    using ok by (auto simp: bucket_try_consume_def bucket_ok_def Let_def not_less intro: order_trans)
qed

lemma bucket_release_ok [simp]: "bucket_ok b \<Longrightarrow> bucket_ok (bucket_release n b)"
proof -
  assume ok: "bucket_ok b"
  have "tb_tokens b + n \<le> tb_capacity_bytes b" if lt: "\<not> n \<ge> tb_capacity_bytes b - tb_tokens b"
  proof -
    have "unat (tb_tokens b) + unat n < unat (tb_capacity_bytes b)"
      using lt ok by (simp add: bucket_ok_def word_le_nat_alt unat_sub_le)
    moreover from this have "unat (tb_tokens b + n) = unat (tb_tokens b) + unat n"
      using unat_u64_less [of "tb_capacity_bytes b"] by (intro unat_add_u64) simp
    ultimately show ?thesis by (simp add: word_le_nat_alt)
  qed
  then show ?thesis
    using ok by (auto simp: bucket_release_def bucket_ok_def)
qed

text \<open>The window law of a single draw, in bytes times nanoseconds per second.\<close>

lemma bucket_refill_window:
  assumes "bucket_ok b"
  shows "unat (tb_tokens (bucket_refill now b)) * 1000000000 \<le>
    unat (tb_tokens b) * 1000000000 +
    unat (tb_rate_bps b) * nat (tb_last_ns (bucket_refill now b) - tb_last_ns b)"
proof (cases "tb_configured b \<and> tb_last_ns b < now")
  case True
  then have "unat (refill_bytes (tb_rate_bps b) (now - tb_last_ns b)) * 1000000000 \<le>
      unat (tb_rate_bps b) * nat (now - tb_last_ns b)"
    by (intro refill_bytes_le) simp
  moreover have "unat (tb_tokens (bucket_refill now b)) \<le>
      unat (tb_tokens b) + unat (refill_bytes (tb_rate_bps b) (now - tb_last_ns b))"
    using True bucket_refill_tokens(2) [OF assms, of now] by simp
  ultimately show ?thesis
    using True by (simp add: bucket_refill_clock max_def)
next
  case False
  then show ?thesis using bucket_refill_tokens(2) [OF assms, of now] by auto
qed

lemma bucket_draw_window:
  assumes "bucket_ok b" and "bucket_try_consume now n b = (granted, b')"
  shows "(unat (tb_tokens b') + (if granted then unat n else 0)) * 1000000000 \<le>
    unat (tb_tokens b) * 1000000000 + unat (tb_rate_bps b) * nat (tb_last_ns b' - tb_last_ns b)"
proof -
  have "unat (tb_tokens b') + (if granted then unat n else 0) = unat (tb_tokens (bucket_refill now b))"
    using assms(2)
    by (auto simp: bucket_try_consume_def Let_def unat_sub_le word_le_nat_alt not_less split: if_splits)
  moreover have "tb_last_ns b' = tb_last_ns (bucket_refill now b)"
    using assms(2) by (auto simp: bucket_try_consume_def Let_def split: if_splits)
  ultimately show ?thesis
    using bucket_refill_window [OF assms(1), of now] by simp
qed

section \<open>Metered buckets\<close>

text \<open>
  What a client of a bucket relies on: drawing never grants more than the credit the bucket
  held plus what accrued since, and credit never exceeds the capacity. From these laws the
  total drawn over any sequence of draws is bounded.
\<close>

fun draw_all :: "(nanos \<Rightarrow> u64 \<Rightarrow> 'b \<Rightarrow> bool \<times> 'b) \<Rightarrow> (nanos \<times> u64) list \<Rightarrow> 'b \<Rightarrow> nat \<times> 'b" where
  "draw_all draw [] b = (0, b)"
| "draw_all draw ((t, n) # ds) b =
     (case draw t n b of (granted, b1) \<Rightarrow>
        (case draw_all draw ds b1 of (ttl, b2) \<Rightarrow> ((if granted then unat n else 0) + ttl, b2)))"

locale metered_bucket =
  fixes valid :: "'b \<Rightarrow> bool"
    and credit :: "'b \<Rightarrow> nat"
    and capacity :: "'b \<Rightarrow> nat"
    and rate :: "'b \<Rightarrow> nat"
    and clock :: "'b \<Rightarrow> nanos"
    and draw :: "nanos \<Rightarrow> u64 \<Rightarrow> 'b \<Rightarrow> bool \<times> 'b"
  assumes credit_le: "valid b \<Longrightarrow> credit b \<le> capacity b"
    and draw_valid: "valid b \<Longrightarrow> draw t n b = (g, b') \<Longrightarrow> valid b'"
    and draw_rate: "draw t n b = (g, b') \<Longrightarrow> rate b' = rate b"
    and draw_clock: "draw t n b = (g, b') \<Longrightarrow> clock b \<le> clock b'"
    and draw_window: "valid b \<Longrightarrow> draw t n b = (g, b') \<Longrightarrow>
      (credit b' + (if g then unat n else 0)) * 1000000000 \<le>
      credit b * 1000000000 + rate b * nat (clock b' - clock b)"
begin

lemma draw_all_window:
  assumes "valid b" and "draw_all draw ds b = (ttl, b')"
  shows "(credit b' + ttl) * 1000000000 \<le> credit b * 1000000000 + rate b * nat (clock b' - clock b) \<and>
    clock b \<le> clock b'"
  using assms
proof (induction ds arbitrary: b ttl)
  case Nil
  then show ?case by simp
next
  case (Cons d ds)
  obtain t n where d: "d = (t, n)" by (cases d)
  obtain g b1 where g: "draw t n b = (g, b1)" by (cases "draw t n b")
  obtain rest where r: "draw_all draw ds b1 = (rest, b')"
    and ttl: "ttl = (if g then unat n else 0) + rest"
    using Cons.prems(2) g by (auto simp: d split: prod.splits)
  have step: "(credit b1 + (if g then unat n else 0)) * 1000000000 \<le>
      credit b * 1000000000 + rate b * nat (clock b1 - clock b)"
    using draw_window [OF Cons.prems(1) g] .
  have tail: "(credit b' + rest) * 1000000000 \<le>
      credit b1 * 1000000000 + rate b * nat (clock b' - clock b1)" and le2: "clock b1 \<le> clock b'"
    using Cons.IH [OF draw_valid [OF Cons.prems(1) g] r] draw_rate [OF g] by auto
  have le1: "clock b \<le> clock b1" using g by (rule draw_clock)
  have "nat (clock b' - clock b) = nat (clock b1 - clock b) + nat (clock b' - clock b1)"
    using le1 le2 by simp
  then have "rate b * nat (clock b' - clock b) =
      rate b * nat (clock b1 - clock b) + rate b * nat (clock b' - clock b1)"
    by (simp add: distrib_left)
  then show ?case
    using step tail le1 le2 by (simp add: ttl algebra_simps)
qed

lemma drawn_bound:
  assumes "valid b" and "draw_all draw ds b = (ttl, b')"
  shows "ttl * 1000000000 \<le> capacity b * 1000000000 + rate b * nat (clock b' - clock b)"
proof -
  have "ttl * 1000000000 \<le> credit b * 1000000000 + rate b * nat (clock b' - clock b)"
    using draw_all_window [OF assms] by (simp add: distrib_right)
  then show ?thesis using credit_le [OF assms(1)] by linarith
qed

end

interpretation bucket: metered_bucket bucket_ok "\<lambda>b. unat (tb_tokens b)" "\<lambda>b. unat (tb_capacity_bytes b)"
  "\<lambda>b. unat (tb_rate_bps b)" tb_last_ns bucket_try_consume
proof unfold_locales
  show "unat (tb_tokens b) \<le> unat (tb_capacity_bytes b)" if "bucket_ok b" for b
    using that by (simp add: bucket_ok_def word_le_nat_alt)
  show "bucket_ok b'" if "bucket_ok b" and "bucket_try_consume t n b = (g, b')" for b t n g b'
    using bucket_try_consume_ok [OF that(1), of t n] that(2) by simp
  show "unat (tb_rate_bps b') = unat (tb_rate_bps b)" if "bucket_try_consume t n b = (g, b')" for t n b g b'
    using that by (auto simp: bucket_try_consume_def Let_def split: if_splits)
  show "tb_last_ns b \<le> tb_last_ns b'" if "bucket_try_consume t n b = (g, b')" for t n b g b'
    using that by (auto simp: bucket_try_consume_def Let_def bucket_refill_clock split: if_splits)
  show "(unat (tb_tokens b') + (if g then unat n else 0)) * 1000000000 \<le>
      unat (tb_tokens b) * 1000000000 + unat (tb_rate_bps b) * nat (tb_last_ns b' - tb_last_ns b)"
    if "bucket_ok b" and "bucket_try_consume t n b = (g, b')" for b t n g b'
    using that by (rule bucket_draw_window)
qed

section \<open>Waiting long enough\<close>

lemma sint_unat_small:
  fixes w :: u64
  assumes "unat w < 2 ^ 63"
  shows "sint w = int (unat w)"
proof -
  have "uint w < 2 ^ 63"
    using of_nat_less_iff [where 'a = int, THEN iffD2, OF assms] by simp
  then have "signed_take_bit 63 (uint w) = uint w"
    by (intro signed_take_bit_int_eq_self order_trans [OF _ uint_ge_0]) simp_all
  then show ?thesis by (simp add: sint_uint)
qed

lemma bucket_time_until_sufficient:
  assumes "bucket_ok b" and "tb_configured b" and "tb_rate_bps b \<noteq> 0"
    and fits: "unat n * 1000000000 < 2 ^ 63" and cap: "n \<le> tb_capacity_bytes b"
    and short: "bucket_time_until n b \<le> kNanosPerSecond"
  shows "n \<le> tb_tokens (bucket_refill (tb_last_ns b + bucket_time_until n b) b)"
proof (cases "n \<le> tb_tokens b")
  case True
  then show ?thesis
    using bucket_refill_tokens(1) [OF assms(1)] by (rule order_trans)
next
  case False
  let ?m = "n - tb_tokens b" and ?r = "unat (tb_rate_bps b)" and ?k = "1000000000 :: nat"
  have m: "unat ?m = unat n - unat (tb_tokens b)" and mpos: "?m \<noteq> 0"
    using False by (auto simp: unat_sub_le)
  have r: "0 < ?r" using assms(3) by (simp add: unat_gt_0)
  have prod: "unat (?m * word_of_int kNanosPerSecond) = unat ?m * ?k"
    using fits by (subst unat_mult_u64) (simp_all add: billion_word m)
  let ?q = "(?m * word_of_int kNanosPerSecond) div tb_rate_bps b"
  have q: "unat ?q = unat ?m * ?k div ?r" by (simp add: unat_div prod)
  have "unat ?q \<le> unat ?m * ?k" unfolding q by (rule div_le_dividend)
  also have "\<dots> < 2 ^ 63" using fits by (simp add: m)
  finally have "sint ?q = int (unat ?q)" by (rule sint_unat_small)
  then have wait: "bucket_time_until n b = int (unat ?q) + 1"
    using assms(2,3) False mpos by (simp add: bucket_time_until_def Let_def not_le)
  have "unat ?m * ?k < ?r * (unat ?q + 1)"
    using r unfolding q by (metis dividend_less_times_div mult.commute add.commute mult_Suc_right Suc_eq_plus1)
  then have "unat ?m \<le> ?r * (unat ?q + 1) div ?k"
    by (simp add: less_eq_div_iff_mult_less_eq)
  also have "\<dots> = unat (refill_bytes (tb_rate_bps b) (bucket_time_until n b))"
    using short by (subst refill_bytes_exact) (simp_all add: wait nat_add_distrib)
  finally have "unat n \<le> unat (tb_tokens b) + unat (refill_bytes (tb_rate_bps b) (bucket_time_until n b))"
    by (simp add: m)
  then show ?thesis
    using assms cap wait bucket_refill_tokens(2) [OF assms(1), of "tb_last_ns b + bucket_time_until n b"]
    by (simp add: word_le_nat_alt)
qed

section \<open>Shaper invariant and consumption\<close>

definition shaper_ok :: "rate_shaper \<Rightarrow> bool" where
  "shaper_ok s \<longleftrightarrow> (\<forall>c b. map_of (sp_classes s) c = Some b \<longrightarrow> bucket_ok b) \<and>
     (\<forall>w b. map_of (sp_workloads s) w = Some b \<longrightarrow> bucket_ok b)"

lemma shaper_ok_empty [simp]: "shaper_ok empty_shaper"
  by (simp add: shaper_ok_def empty_shaper_def)

lemma configure_class_ok [simp]: "shaper_ok s \<Longrightarrow> shaper_ok (configure_class c r w t s)"
  by (auto simp: shaper_ok_def configure_class_def update_conv' split: if_splits)

lemma configure_workload_ok [simp]: "shaper_ok s \<Longrightarrow> shaper_ok (configure_workload c r w t s)"
  by (auto simp: shaper_ok_def configure_workload_def update_conv' split: if_splits)

lemma reserve_path_rate_ok [simp]: "shaper_ok s \<Longrightarrow> shaper_ok (snd (reserve_path_rate p r s))"
  by (auto simp: shaper_ok_def reserve_path_rate_def split: option.splits)

lemma release_path_rate_ok [simp]: "shaper_ok s \<Longrightarrow> shaper_ok (release_path_rate p r s)"
  by (auto simp: shaper_ok_def release_path_rate_def split: option.splits)

lemma class_tokens_at_ok [simp]: "shaper_ok s \<Longrightarrow> shaper_ok (snd (class_tokens_at c now s))"
  by (auto simp: shaper_ok_def class_tokens_at_def update_conv' split: option.splits if_splits)

lemma class_time_until_at_ok [simp]: "shaper_ok s \<Longrightarrow> shaper_ok (snd (class_time_until_at c n now s))"
  by (auto simp: shaper_ok_def class_time_until_at_def update_conv' split: option.splits if_splits)

lemma bucket_refill_idem [simp]: "bucket_refill now (bucket_refill now b) = bucket_refill now b"
proof (cases "tb_configured b")
  case True
  then have "now \<le> tb_last_ns (bucket_refill now b)" by (simp add: bucket_refill_clock)
  then show ?thesis by (simp add: bucket_refill_def [of now "bucket_refill now b"])
next
  case False
  then show ?thesis by (simp add: bucket_refill_def)
qed

lemma bucket_try_consume_refilled:
  "n \<le> tb_tokens (bucket_refill now b) \<Longrightarrow>
     bucket_try_consume now n (bucket_refill now b) =
       (True, (bucket_refill now b)\<lparr>tb_tokens := tb_tokens (bucket_refill now b) - n\<rparr>)"
  by (simp add: bucket_try_consume_def Let_def)

lemma bucket_ok_drawn:
  "bucket_ok b \<Longrightarrow> n \<le> tb_tokens (bucket_refill now b) \<Longrightarrow>
     bucket_ok ((bucket_refill now b)\<lparr>tb_tokens := tb_tokens (bucket_refill now b) - n\<rparr>)"
  using bucket_try_consume_ok [of b now n] by (simp add: bucket_try_consume_def Let_def split: if_splits)

lemma shaper_try_consume_ok [simp]: "shaper_ok s \<Longrightarrow> shaper_ok (snd (shaper_try_consume c w n now s))"
  by (auto simp: shaper_try_consume_def shaper_ok_def update_conv' Let_def bucket_try_consume_refilled
      bucket_ok_drawn not_less split: option.splits if_splits)

lemma shaper_try_consume_admitted:
  assumes "shaper_try_consume c w n now s = (v, s')" and "sv_admitted v"
  shows "\<exists>cb wb. map_of (sp_classes s) c = Some cb \<and> map_of (sp_workloads s) w = Some wb \<and>
    tb_configured cb \<and> tb_configured wb \<and>
    n \<le> tb_tokens (bucket_refill now cb) \<and> n \<le> tb_tokens (bucket_refill now wb) \<and>
    class_tokens c s' = tb_tokens (bucket_refill now cb) - n \<and>
    workload_tokens w s' = tb_tokens (bucket_refill now wb) - n"
  using assms
  by (auto simp: shaper_try_consume_def Let_def bucket_try_consume_refilled class_tokens_def
      workload_tokens_def not_less update_conv' split: option.splits if_splits)

lemma shaper_try_consume_no_disagreement:
  "sv_reason (fst (shaper_try_consume c w n now s)) \<noteq> RC_CreditUnavailable"
  by (auto simp: shaper_try_consume_def Let_def bucket_try_consume_refilled not_less
      split: option.splits)

lemma shaper_try_consume_reservations [simp]:
  "sp_path_reservations (snd (shaper_try_consume c w n now s)) = sp_path_reservations s"
  by (auto simp: shaper_try_consume_def Let_def split: option.splits prod.splits)

section \<open>Path reservations\<close>

lemma reserve_path_rate_reserved:
  assumes "reserve_path_rate p r s = (True, s')"
  shows "unat (reserved_path_rate p s') = unat (reserved_path_rate p s) + unat r"
    and "q \<noteq> p \<Longrightarrow> reserved_path_rate q s' = reserved_path_rate q s"
proof -
  have add: "unat (x + r) = unat x + unat r" if "\<not> r > 0xFFFFFFFFFFFFFFFF - x" for x
  proof -
    have "unat (0xFFFFFFFFFFFFFFFF - x) = 0xFFFFFFFFFFFFFFFF - unat x"
      using le_max_u64 [of x] by (simp add: unat_sub_le)
    then have "unat x + unat r < 2 ^ 64"
      using that unat_u64_less [of x] by (simp add: word_less_nat_alt)
    then show ?thesis by (rule unat_add_u64)
  qed
  show "unat (reserved_path_rate p s') = unat (reserved_path_rate p s) + unat r"
    using assms add
    by (auto simp: reserve_path_rate_def reserved_path_rate_def update_conv' split: option.splits if_splits)
  show "q \<noteq> p \<Longrightarrow> reserved_path_rate q s' = reserved_path_rate q s"
    using assms
    by (auto simp: reserve_path_rate_def reserved_path_rate_def update_conv' split: option.splits if_splits)
qed

lemma release_path_rate_reserved:
  "unat (reserved_path_rate p (release_path_rate p r s)) = unat (reserved_path_rate p s) - unat r"
  "q \<noteq> p \<Longrightarrow> reserved_path_rate q (release_path_rate p r s) = reserved_path_rate q s"
  by (auto simp: release_path_rate_def reserved_path_rate_def update_conv' word_le_nat_alt unat_sub_le
      split: option.splits)

section \<open>Properties\<close>

text \<open>
  C30. Over any sequence of draws at any clock readings, the bytes granted by a token bucket are
  at most one burst capacity plus rate times the elapsed time, however the draws are spaced.
\<close>
theorem bucket_throughput_bound:
  assumes "bucket_ok b" and "draw_all bucket_try_consume ds b = (granted, b')"
  shows "granted * 1000000000 \<le>
    unat (tb_capacity_bytes b) * 1000000000 + unat (tb_rate_bps b) * nat (tb_last_ns b' - tb_last_ns b)"
  using assms by (rule bucket.drawn_bound)

definition sample_bucket :: token_bucket where
  "sample_bucket = bucket_configure 1000000000 1000 0 empty_bucket"

theorem bucket_throughput_bound_witness:
  "bucket_ok sample_bucket \<and> fst (draw_all bucket_try_consume [(0, 1000), (10, 5), (20, 15)] sample_bucket) = 1020 \<and>
   (1020 :: nat) * 1000000000 \<le> 10000000 * 1000000000 + 1000000000 * 20"
proof -
  let ?ds = "[(0, 1000), (10, 5), (20, 15)] :: (nanos \<times> u64) list"
  have ok: "bucket_ok sample_bucket" by (simp add: sample_bucket_def)
  have d: "draw_all bucket_try_consume ?ds sample_bucket =
      (1020, sample_bucket\<lparr>tb_tokens := 9999000, tb_last_ns := 20\<rparr>)"
    by code_simp
  show ?thesis
    using ok d bucket_throughput_bound [OF ok d] by (simp add: sample_bucket_def bucket_configure_def)
qed

text \<open>
  C32. The refill computed in 64-bit arithmetic is exact: it equals the rate times the elapsed
  time (clamped to one second) divided by a second over the natural numbers, so neither
  product nor the final sum wraps for any rate.
\<close>
theorem refill_exact:
  assumes "0 < elapsed"
  shows "unat (refill_bytes rate elapsed) = unat rate * nat (min elapsed kNanosPerSecond) div 1000000000"
  using assms by (rule refill_bytes_exact)

theorem refill_exact_witness:
  "(0 :: int) < 5000000000 \<and> unat (refill_bytes 0xFFFFFFFFFFFFFFFF 5000000000) = 2 ^ 64 - 1"
  using refill_exact [of 5000000000 "0xFFFFFFFFFFFFFFFF"] by (simp add: kNanosPerSecond_def)


definition drained_bucket :: token_bucket where
  "drained_bucket = (bucket_configure 1000000 1000000000 0 empty_bucket)\<lparr>tb_tokens := 0\<rparr>"


text \<open>
  C31. A shaper admits a request only when both the isolation class and the workload are
  configured and both hold the requested bytes after refilling; it then deducts exactly those
  bytes from both and leaves the path reservations alone, and the internal disagreement
  outcome is unreachable.
\<close>
theorem shaper_grant_exact:
  assumes "shaper_try_consume c w n now s = (v, s')"
  shows "sv_reason v \<noteq> RC_CreditUnavailable \<and>
    (sv_admitted v \<longrightarrow>
      (\<exists>cb wb. map_of (sp_classes s) c = Some cb \<and> map_of (sp_workloads s) w = Some wb \<and>
         n \<le> tb_tokens (bucket_refill now cb) \<and> n \<le> tb_tokens (bucket_refill now wb) \<and>
         class_tokens c s' = tb_tokens (bucket_refill now cb) - n \<and>
         workload_tokens w s' = tb_tokens (bucket_refill now wb) - n)) \<and>
    sp_path_reservations s' = sp_path_reservations s"
  using assms shaper_try_consume_no_disagreement [of c w n now s]
    shaper_try_consume_reservations [of c w n now s] shaper_try_consume_admitted [OF assms]
  by auto

definition sample_shaper :: rate_shaper where
  "sample_shaper = configure_workload nil_uuid 1000000 1000000000 0
     (configure_class IC_TrainingBulk 1000000 1000000000 0 empty_shaper)"

theorem shaper_grant_exact_witness:
  "sv_admitted (fst (shaper_try_consume IC_TrainingBulk nil_uuid 400 0 sample_shaper)) \<and>
   class_tokens IC_TrainingBulk (snd (shaper_try_consume IC_TrainingBulk nil_uuid 400 0 sample_shaper)) = 999600"
proof -
  let ?r = "shaper_try_consume IC_TrainingBulk nil_uuid 400 0 sample_shaper"
  have a: "sv_admitted (fst ?r)" by code_simp
  have c: "bucket_refill 0 (bucket_at (sp_classes sample_shaper) IC_TrainingBulk) =
      bucket_at (sp_classes sample_shaper) IC_TrainingBulk" by code_simp
  have k: "tb_tokens (bucket_at (sp_classes sample_shaper) IC_TrainingBulk) = 1000000" by code_simp
  show ?thesis
    using shaper_grant_exact [of IC_TrainingBulk nil_uuid 400 0 sample_shaper "fst ?r" "snd ?r"] a c k
    by (auto simp: bucket_at_def)
qed

end
