(* ===== verification/Fence.thy ===== *)
theory Fence
  imports Model
begin

text \<open>
  Fencing, \<^verbatim>\<open>include/ctf/fence.hpp\<close> and \<^verbatim>\<open>src/fence.cpp\<close>: a command is accepted only when
  every generation it carries is exactly the current one. The lemmas give the acceptance
  condition and the code of every refusal.
\<close>

record fence_context =
  fc_epoch :: coordinator_epoch
  fc_policy_generation :: generation
  fc_topology_generation :: generation
  fc_contract_generation :: generation

record fence_verdict =
  fv_status :: status
  fv_reason :: reason_code

definition reject :: "error_code \<Rightarrow> reason_code \<Rightarrow> fence_verdict" where
  "reject c r = \<lparr>fv_status = c, fv_reason = r\<rparr>"

definition validate_fence :: "command_fence \<Rightarrow> fence_context \<Rightarrow> fence_verdict" where
  "validate_fence f cur =
     (if incarnation (cf_epoch f) \<noteq> incarnation (fc_epoch cur) then reject EC_ForeignEpoch RC_AuthorityStale
      else if epoch_term (cf_epoch f) < epoch_term (fc_epoch cur) then reject EC_StaleEpoch RC_AuthorityStale
      else if epoch_term (fc_epoch cur) < epoch_term (cf_epoch f) then reject EC_ForeignEpoch RC_AuthorityStale
      else if cf_policy_generation f < fc_policy_generation cur
        then reject EC_StalePolicyGeneration RC_PolicyGenerationStale
      else if fc_policy_generation cur < cf_policy_generation f
        then reject EC_NotAuthorized RC_PolicyGenerationStale
      else if cf_topology_generation f < fc_topology_generation cur
        then reject EC_StaleTopologyGeneration RC_TopologyGenerationStale
      else if fc_topology_generation cur < cf_topology_generation f
        then reject EC_NotAuthorized RC_TopologyGenerationStale
      else if cf_contract_generation f < fc_contract_generation cur
        then reject EC_StaleContractGeneration RC_ContractGenerationStale
      else if fc_contract_generation cur < cf_contract_generation f
        then reject EC_NotAuthorized RC_ContractGenerationStale
      else \<lparr>fv_status = EC_Ok, fv_reason = RC_Admitted\<rparr>)"

fun reason_for_fence_code :: "error_code \<Rightarrow> reason_code" where
  "reason_for_fence_code EC_StalePolicyGeneration = RC_PolicyGenerationStale"
| "reason_for_fence_code EC_StaleTopologyGeneration = RC_TopologyGenerationStale"
| "reason_for_fence_code EC_StaleContractGeneration = RC_ContractGenerationStale"
| "reason_for_fence_code EC_StaleCheckpointGeneration = RC_CheckpointGenerationStale"
| "reason_for_fence_code EC_StaleAttempt = RC_AttemptStale"
| "reason_for_fence_code EC_StaleEvidence = RC_EvidenceStale"
| "reason_for_fence_code EC_StaleEpoch = RC_AuthorityStale"
| "reason_for_fence_code EC_ForeignEpoch = RC_AuthorityStale"
| "reason_for_fence_code EC_VerificationMismatch = RC_VerificationMismatch"
| "reason_for_fence_code _ = RC_Internal"

lemma validate_fence_ok_iff:
  "fv_status (validate_fence f cur) = EC_Ok \<longleftrightarrow>
     cf_epoch f = fc_epoch cur \<and> cf_policy_generation f = fc_policy_generation cur \<and>
     cf_topology_generation f = fc_topology_generation cur \<and>
     cf_contract_generation f = fc_contract_generation cur"
  by (auto simp: validate_fence_def reject_def coordinator_epoch.expand)

lemma validate_fence_refusal:
  assumes "fv_status (validate_fence f cur) \<noteq> EC_Ok"
  shows "is_fencing_code (fv_status (validate_fence f cur)) \<and> is_fencing_reason (fv_reason (validate_fence f cur))"
  using assms by (auto simp: validate_fence_def reject_def is_fencing_code_def is_fencing_reason_def)

section \<open>Properties\<close>

text \<open>
  C35. A fence is accepted exactly when its epoch and its three generations equal the current
  ones: older and never-issued values are both refused, and every refusal carries a fencing
  error code and a fencing reason.
\<close>
theorem fence_exact:
  "(fv_status (validate_fence f cur) = EC_Ok) =
     (cf_epoch f = fc_epoch cur \<and> cf_policy_generation f = fc_policy_generation cur \<and>
      cf_topology_generation f = fc_topology_generation cur \<and>
      cf_contract_generation f = fc_contract_generation cur) \<and>
   (fv_status (validate_fence f cur) = EC_Ok \<or>
    is_fencing_code (fv_status (validate_fence f cur)) \<and> is_fencing_reason (fv_reason (validate_fence f cur)))"
  using validate_fence_ok_iff validate_fence_refusal by blast

end
