(* ===== verification/Engine_State.thy ===== *)
theory Engine_State
  imports Shaper Fence
begin

text \<open>
  The state of the session engine and its lock-held helpers, \<^verbatim>\<open>src/engine.cpp\<close> lines 24 to
  791: shard, attempt, session and command records, the engine's private state, byte
  accounting moves, terminal settlement, history eviction, the deadline index, the command
  replay index and envelope construction.

  A C++ reference into the session table is a session identity here; using a reference whose
  session has been erased sets \<open>en_dangling\<close>. An unordered map is an association list whose
  order is the (unspecified) iteration order. Event sinks are the list \<open>en_events\<close>; the
  human-readable detail of decisions, events and errors is left out, the text stored in
  session state is kept. A clock reading is an argument, one per operation.
\<close>

section \<open>Records\<close>

definition kMinGrantChunk :: u64 where
  "kMinGrantChunk = 16 * 1024"

definition kMaxGrantChunk :: u64 where
  "kMaxGrantChunk = 1024 * 1024"

definition mix64 :: "u64 \<Rightarrow> u64 \<Rightarrow> u64" where
  "mix64 hash v = (hash XOR v) * 0x100000001B3"

record shard_record =
  sh_index :: shard_index
  sh_declared_bytes :: u64
  sh_declared_digest :: digest
  sh_path_class :: path_class_id
  sh_state :: shard_state
  sh_sequence :: attempt_sequence
  sh_attempt :: "attempt_id option"
  sh_granted_bytes :: u64
  sh_transferred_bytes :: u64
  sh_verified_bytes :: u64
  sh_observed_digest :: digest
  sh_has_observed_digest :: bool
  sh_source_complete :: bool
  sh_source_bytes :: u64

record attempt_record =
  at_id :: attempt_id
  at_sequence :: attempt_sequence
  at_shard :: shard_index
  at_wave :: wave_index
  at_outcome :: attempt_outcome
  at_granted_bytes :: u64
  at_delivered_bytes :: u64
  at_observed_digest :: digest
  at_has_observed_digest :: bool
  at_outstanding :: bool
  at_granted_at :: nanos
  at_updated_at :: nanos

definition default_durability :: durability_assertion where
  "default_durability =
     \<lparr>da_status = DS_NotEstablished, da_backend_identity = [], da_evidence_digest = zero_digest, da_observed_at = 0\<rparr>"

record session_record =
  se_id :: session_id
  se_request :: session_request
  se_state :: session_state
  se_evidence :: evidence_level
  se_durability :: durability_assertion
  se_envelope :: traffic_envelope
  se_envelope_sequence :: u64
  se_attempt_counter :: u64
  se_shards :: "shard_record list"
  se_attempts :: "attempt_record list"
  se_timeline :: "string list"
  se_admitted_bytes :: u64
  se_transferred_bytes :: u64
  se_verified_bytes :: u64
  se_cancelled_bytes :: u64
  se_wasted_bytes :: u64
  se_unproven_bytes :: u64
  se_outstanding_bytes :: u64
  se_active_attempts :: u32
  se_source_complete :: bool
  se_paused :: bool
  se_paused_from :: session_state
  se_reserved_path :: "path_class_id option"
  se_reserved_rate_bps :: u64
  se_created_at :: nanos
  se_updated_at :: nanos
  se_last_reason :: reason_code
  se_last_detail :: string
  se_stale_reason :: string
  se_superseded_by :: "session_id option"

record command_record =
  cr_session :: session_id
  cr_kind :: decision_kind
  cr_reason :: reason_code
  cr_fingerprint :: u64
  cr_has_session :: bool

record pruned_totals =
  pt_admitted :: u64
  pt_transferred :: u64
  pt_verified :: u64
  pt_cancelled :: u64
  pt_wasted :: u64
  pt_unproven :: u64

record engine =
  en_limits :: limits
  en_policy :: policy_snapshot
  en_topology :: topology_snapshot
  en_contracts :: "(workload_id \<times> workload_contract) list"
  en_epoch :: coordinator_epoch
  en_shaper :: rate_shaper
  en_sessions :: "(session_id \<times> session_record) list"
  en_by_workload :: "(workload_id \<times> session_id list) list"
  en_by_checkpoint :: "(checkpoint_id \<times> session_id list) list"
  en_command_index :: "(command_id \<times> command_record) list"
  en_command_order :: "command_id list"
  en_command_index_bound :: nat
  en_accounting :: accounting_snapshot
  en_commands_processed :: u64
  en_shutting_down :: bool
  en_class_active :: "(isolation_class \<times> u32) list"
  en_workload_active :: "(workload_id \<times> u32) list"
  en_terminal_order :: "session_id list"
  en_pruned :: pruned_totals
  en_retention_bound :: nat
  en_id_factory :: id_factory
  en_config_status :: status
  en_deadlines :: "(nanos \<times> session_id list) list"
  en_events :: "fabric_event list"
  en_dangling :: bool

section \<open>Access to the state\<close>

definition lookup_session :: "session_id \<Rightarrow> engine \<Rightarrow> session_record option" where
  "lookup_session sid e = map_of (en_sessions e) sid"

definition put_session :: "session_id \<Rightarrow> session_record \<Rightarrow> engine \<Rightarrow> engine" where
  "put_session sid s e = e\<lparr>en_sessions := AList.update sid s (en_sessions e)\<rparr>"

definition on_session :: "session_id \<Rightarrow> (session_record \<Rightarrow> engine \<Rightarrow> engine) \<Rightarrow> engine \<Rightarrow> engine" where
  "on_session sid f e = (case lookup_session sid e of None \<Rightarrow> e\<lparr>en_dangling := True\<rparr> | Some s \<Rightarrow> f s e)"

definition modify_session :: "session_id \<Rightarrow> (session_record \<Rightarrow> session_record) \<Rightarrow> engine \<Rightarrow> engine" where
  "modify_session sid f e = on_session sid (\<lambda>s. put_session sid (f s)) e"

definition account :: "(accounting_snapshot \<Rightarrow> accounting_snapshot) \<Rightarrow> engine \<Rightarrow> engine" where
  "account f e = e\<lparr>en_accounting := f (en_accounting e)\<rparr>"

definition emit :: "event_kind \<Rightarrow> session_id \<Rightarrow> reason_code \<Rightarrow> nanos \<Rightarrow> engine \<Rightarrow> engine" where
  "emit kind sid reason at e =
     e\<lparr>en_events := en_events e @ [\<lparr>fe_kind = kind, fe_session = sid, fe_reason = reason, fe_at = at\<rparr>]\<rparr>"

definition emit_for :: "event_kind \<Rightarrow> session_id \<Rightarrow> reason_code \<Rightarrow> nanos \<Rightarrow> engine \<Rightarrow> engine" where
  "emit_for kind sid reason at e = on_session sid (\<lambda>s. emit kind (se_id s) reason at) e"

definition int_to_string :: "int \<Rightarrow> string" where
  "int_to_string i = (if i < 0 then ''-'' @ dec_string (nat (- i)) else dec_string (nat i))"

definition index_to_string :: "u32 \<Rightarrow> string" where
  "index_to_string i = dec_string (unat i)"

definition class_active :: "isolation_class \<Rightarrow> engine \<Rightarrow> u32" where
  "class_active c e = (case map_of (en_class_active e) c of None \<Rightarrow> 0 | Some n \<Rightarrow> n)"

definition workload_active :: "workload_id \<Rightarrow> engine \<Rightarrow> u32" where
  "workload_active w e = (case map_of (en_workload_active e) w of None \<Rightarrow> 0 | Some n \<Rightarrow> n)"

definition configure_shaper :: "nanos \<Rightarrow> engine \<Rightarrow> engine" where
  "configure_shaper at e =
     e\<lparr>en_shaper :=
         foldl (\<lambda>s (w, c). configure_workload w (wc_ceiling_bps c) (1000000 * 100) at s)
           (foldl (\<lambda>s v. configure_class (ie_isolation v) (ie_ceiling_bps v) (sint (ie_burst_window_ns v)) at s)
              (en_shaper e) (po_envelopes (en_policy e)))
           (en_contracts e)\<rparr>"

definition timeline_bound :: "engine \<Rightarrow> nat" where
  "timeline_bound e = (let bound = unat (po_retained_history (en_policy e)) in if bound = 0 then 1 else bound)"

definition append_timeline :: "nat \<Rightarrow> nanos \<Rightarrow> string \<Rightarrow> session_record \<Rightarrow> session_record" where
  "append_timeline bound at text s =
     (let timeline = se_timeline s @ [int_to_string at @ '' '' @ text] in
      s\<lparr>se_timeline := (if length timeline > bound then drop (length timeline - bound) timeline else timeline)\<rparr>)"

definition note_timeline :: "session_id \<Rightarrow> nanos \<Rightarrow> string \<Rightarrow> engine \<Rightarrow> engine" where
  "note_timeline sid at text e = modify_session sid (append_timeline (timeline_bound e) at text) e"

section \<open>Shards, waves and attempts\<close>

function shard_search :: "shard_record list \<Rightarrow> shard_index \<Rightarrow> nat \<Rightarrow> nat \<Rightarrow> nat" where
  "shard_search shards index low high =
     (if low < high then
        let mid = low + (high - low) div 2 in
        if sh_index (shards ! mid) < index then shard_search shards index (mid + 1) high
        else shard_search shards index low mid
      else low)"
  by pat_completeness auto
termination
  by (relation "measure (\<lambda>(shards, index, low, high). high - low)") auto

definition shard_position :: "session_record \<Rightarrow> shard_index \<Rightarrow> nat option" where
  "shard_position s index =
     (let low = shard_search (se_shards s) index 0 (length (se_shards s)) in
      if low < length (se_shards s) \<and> sh_index (se_shards s ! low) = index then Some low else None)"

definition wave_for_shard :: "traffic_envelope \<Rightarrow> shard_index \<Rightarrow> wave_index option" where
  "wave_for_shard envelope index =
     map_option wp_index (find (\<lambda>plan. index \<in> set (wp_shards plan)) (te_waves envelope))"

definition find_attempt :: "session_record \<Rightarrow> attempt_id \<Rightarrow> attempt_record option" where
  "find_attempt s aid = find (\<lambda>a. at_id a = aid) (se_attempts s)"

fun update_attempt :: "attempt_id \<Rightarrow> (attempt_record \<Rightarrow> attempt_record) \<Rightarrow> attempt_record list \<Rightarrow> attempt_record list" where
  "update_attempt aid f [] = []"
| "update_attempt aid f (a # as) = (if at_id a = aid then f a # as else a # update_attempt aid f as)"

section \<open>Byte accounting moves\<close>

definition release_path_reservation :: "session_id \<Rightarrow> engine \<Rightarrow> engine" where
  "release_path_reservation sid e =
     on_session sid (\<lambda>s e.
       case se_reserved_path s of
         None \<Rightarrow> e
       | Some p \<Rightarrow>
           put_session sid (s\<lparr>se_reserved_path := None, se_reserved_rate_bps := 0\<rparr>)
             (e\<lparr>en_shaper := release_path_rate p (se_reserved_rate_bps s) (en_shaper e)\<rparr>)) e"

definition settle_reason :: "reason_code \<Rightarrow> string \<Rightarrow> session_record \<Rightarrow> session_record" where
  "settle_reason reason detail s = s\<lparr>se_last_reason := reason, se_last_detail := detail\<rparr>"

definition mark_unproven :: "session_id \<Rightarrow> u64 \<Rightarrow> engine \<Rightarrow> engine" where
  "mark_unproven sid n e =
     on_session sid (\<lambda>s e.
       let bounded = min n (se_outstanding_bytes s) in
       account (\<lambda>a. a\<lparr>ac_granted_outstanding_bytes := ac_granted_outstanding_bytes a - bounded,
                      ac_bytes_unproven := ac_bytes_unproven a + bounded\<rparr>)
         (put_session sid (s\<lparr>se_outstanding_bytes := se_outstanding_bytes s - bounded,
                             se_unproven_bytes := se_unproven_bytes s + bounded\<rparr>) e)) e"

definition settle_outstanding_as_cancelled :: "session_id \<Rightarrow> engine \<Rightarrow> engine" where
  "settle_outstanding_as_cancelled sid e =
     on_session sid (\<lambda>s e.
       let remaining = se_outstanding_bytes s in
       account (\<lambda>a. a\<lparr>ac_granted_outstanding_bytes := ac_granted_outstanding_bytes a - remaining,
                      ac_bytes_cancelled := ac_bytes_cancelled a + remaining\<rparr>)
         (put_session sid (s\<lparr>se_outstanding_bytes := 0,
                             se_cancelled_bytes := se_cancelled_bytes s + remaining\<rparr>) e)) e"

definition release_active_attempts :: "session_id \<Rightarrow> attempt_outcome \<Rightarrow> engine \<Rightarrow> engine" where
  "release_active_attempts sid outcome e =
     on_session sid (\<lambda>s e.
       account (\<lambda>a. a\<lparr>ac_active_attempts := ac_active_attempts a - se_active_attempts s\<rparr>)
         (put_session sid
            (s\<lparr>se_attempts := map (\<lambda>a. if at_outstanding a then a\<lparr>at_outstanding := False, at_outcome := outcome\<rparr>
                                      else a) (se_attempts s),
               se_active_attempts := 0\<rparr>) e)) e"

definition waste_unverified :: "session_id \<Rightarrow> engine \<Rightarrow> engine" where
  "waste_unverified sid e =
     on_session sid (\<lambda>s e.
       let unverified = (if se_transferred_bytes s > se_verified_bytes s
                         then se_transferred_bytes s - se_verified_bytes s else 0) in
       account (\<lambda>a. a\<lparr>ac_bytes_transferred := ac_bytes_transferred a - unverified,
                      ac_bytes_wasted := ac_bytes_wasted a + unverified\<rparr>)
         (put_session sid (s\<lparr>se_transferred_bytes := se_transferred_bytes s - unverified,
                             se_wasted_bytes := se_wasted_bytes s + unverified\<rparr>) e)) e"

section \<open>Active-session bookkeeping and history\<close>

definition activate :: "session_record \<Rightarrow> engine \<Rightarrow> engine" where
  "activate s e =
     (let c = te_isolation (se_envelope s); w = rq_workload (se_request s) in
      account (\<lambda>a. a\<lparr>ac_active_sessions := ac_active_sessions a + 1\<rparr>)
        (e\<lparr>en_class_active := AList.update c (class_active c e + 1) (en_class_active e),
           en_workload_active := AList.update w (workload_active w e + 1) (en_workload_active e)\<rparr>))"

definition deactivate :: "session_record \<Rightarrow> engine \<Rightarrow> engine" where
  "deactivate s e =
     (let c = te_isolation (se_envelope s); w = rq_workload (se_request s) in
      account (\<lambda>a. a\<lparr>ac_active_sessions :=
                        (if ac_active_sessions a > 0 then ac_active_sessions a - 1 else ac_active_sessions a)\<rparr>)
        (e\<lparr>en_class_active :=
             (if class_active c e > 0 then AList.update c (class_active c e - 1) (en_class_active e)
              else en_class_active e),
           en_workload_active :=
             (case map_of (en_workload_active e) w of
                None \<Rightarrow> en_workload_active e
              | Some n \<Rightarrow>
                  let n1 = (if n > 0 then n - 1 else n) in
                  if n1 = 0 then AList.delete w (en_workload_active e)
                  else AList.update w n1 (en_workload_active e))\<rparr>))"

definition note_terminal :: "session_id \<Rightarrow> engine \<Rightarrow> engine" where
  "note_terminal sid e =
     on_session sid (\<lambda>s e. (deactivate s e)\<lparr>en_terminal_order := en_terminal_order e @ [se_id s]\<rparr>) e"

definition index_push :: "'k \<Rightarrow> 'v \<Rightarrow> ('k \<times> 'v list) list \<Rightarrow> ('k \<times> 'v list) list" where
  "index_push k v m = AList.update k ((case map_of m k of None \<Rightarrow> [] | Some vs \<Rightarrow> vs) @ [v]) m"

definition rebuild_indexes :: "engine \<Rightarrow> engine" where
  "rebuild_indexes e =
     e\<lparr>en_by_workload := foldl (\<lambda>m (sid, s). index_push (rq_workload (se_request s)) sid m) [] (en_sessions e),
       en_by_checkpoint := foldl (\<lambda>m (sid, s). index_push (rq_checkpoint (se_request s)) sid m) [] (en_sessions e)\<rparr>"

definition add_pruned :: "session_record \<Rightarrow> pruned_totals \<Rightarrow> pruned_totals" where
  "add_pruned s p =
     \<lparr>pt_admitted = pt_admitted p + se_admitted_bytes s,
      pt_transferred = pt_transferred p + se_transferred_bytes s,
      pt_verified = pt_verified p + se_verified_bytes s,
      pt_cancelled = pt_cancelled p + se_cancelled_bytes s,
      pt_wasted = pt_wasted p + se_wasted_bytes s,
      pt_unproven = pt_unproven p + se_unproven_bytes s\<rparr>"

fun prune_loop :: "nat \<Rightarrow> session_id list \<Rightarrow> bool \<Rightarrow> engine \<Rightarrow> bool \<times> engine" where
  "prune_loop target [] erased e = (erased, e\<lparr>en_terminal_order := []\<rparr>)"
| "prune_loop target (sid # order) erased e =
     (if length (en_sessions e) > target then
        case lookup_session sid e of
          None \<Rightarrow> prune_loop target order erased e
        | Some s \<Rightarrow>
            if \<not> is_terminal (se_state s) then prune_loop target order erased e
            else prune_loop target order True
              (e\<lparr>en_pruned := add_pruned s (en_pruned e), en_sessions := AList.delete sid (en_sessions e)\<rparr>)
      else (erased, e\<lparr>en_terminal_order := sid # order\<rparr>))"

definition prune_history :: "engine \<Rightarrow> engine" where
  "prune_history e =
     (if length (en_sessions e) \<le> en_retention_bound e then e
      else
        let (erased, e1) = prune_loop (en_retention_bound e * 3 div 4) (en_terminal_order e) False e in
        if erased then rebuild_indexes e1 else e1)"

section \<open>Terminal settlement and progress\<close>

definition settle_terminal ::
    "session_id \<Rightarrow> session_state \<Rightarrow> reason_code \<Rightarrow> string \<Rightarrow> nanos \<Rightarrow> engine \<Rightarrow> engine" where
  "settle_terminal sid state reason detail at e =
     (let e1 = release_active_attempts sid
                 (if state = SS_Superseded then AO_Superseded else AO_Released) e;
          e2 = (if state = SS_Superseded \<or> state = SS_Cancelled \<or> state = SS_Failed
                then waste_unverified sid e1 else e1);
          e3 = on_session sid (\<lambda>s e. if \<not> is_terminal (se_state s) then note_terminal sid e else e) e2;
          e4 = modify_session sid
                 (\<lambda>s. (settle_reason reason detail (s\<lparr>se_state := state, se_paused := False\<rparr>))\<lparr>se_updated_at := at\<rparr>) e3
      in prune_history (release_path_reservation sid e4))"

definition count_shards :: "shard_state set \<Rightarrow> session_record \<Rightarrow> nat" where
  "count_shards states s = length (filter (\<lambda>h. sh_state h \<in> states) (se_shards s))"

definition all_verified :: "session_record \<Rightarrow> bool" where
  "all_verified s \<longleftrightarrow>
     count_shards {SH_Verified} s = length (se_shards s) \<and> length (se_shards s) > 0"

definition all_settled :: "session_record \<Rightarrow> bool" where
  "all_settled s \<longleftrightarrow>
     count_shards {SH_Verified, SH_Transferred} s = length (se_shards s) \<and> length (se_shards s) > 0"

definition progress_evidence :: "session_record \<Rightarrow> evidence_level" where
  "progress_evidence s =
     (if all_verified s then EL_VerifiedAtDestination
      else if all_settled s then EL_Transferred
      else if se_source_complete s then EL_SourceComplete
      else EL_None)"

definition progress_state :: "session_record \<Rightarrow> session_state" where
  "progress_state s =
     (if \<not> is_terminal (se_state s) \<and> se_state s \<noteq> SS_RevalidationRequired \<and>
         se_state s \<noteq> SS_Paused \<and> se_state s \<noteq> SS_Deferred then
        if all_verified s then SS_VerifiedAtDestination
        else if all_settled s then SS_Transferred
        else if count_shards {SH_Ambiguous} s > 0 \<or> count_shards {SH_InFlight, SH_Granted} s > 0
          then SS_Transferring
        else if se_source_complete s then SS_SourceComplete
        else SS_Admitted
      else se_state s)"

definition complete_session :: "session_id \<Rightarrow> nanos \<Rightarrow> engine \<Rightarrow> engine" where
  "complete_session sid at e =
     (let e1 = modify_session sid
                 (\<lambda>s. (settle_reason RC_Admitted
                        (if po_require_destination_verification (en_policy e)
                         then ''all shards verified at destination''
                         else ''all shards transferred (destination verification not required by policy)'')
                        (s\<lparr>se_state := SS_TrafficSessionComplete,
                           se_evidence := (if all_verified s then EL_VerifiedAtDestination else EL_Transferred)\<rparr>))
                      \<lparr>se_updated_at := at\<rparr>) e;
          e2 = release_path_reservation sid e1;
          e3 = account (\<lambda>a. a\<lparr>ac_sessions_completed := ac_sessions_completed a + 1\<rparr>) e2;
          e4 = modify_session sid (\<lambda>s. s\<lparr>se_outstanding_bytes := 0\<rparr>) e3
      in prune_history (note_terminal sid e4))"

definition recompute_progress :: "session_id \<Rightarrow> nanos \<Rightarrow> engine \<Rightarrow> engine" where
  "recompute_progress sid at e =
     (let e1 = modify_session sid
                 (\<lambda>s. s\<lparr>se_evidence := progress_evidence s, se_state := progress_state s\<rparr>) e
      in on_session sid
           (\<lambda>s e. if (if po_require_destination_verification (en_policy e) then all_verified s else all_settled s) \<and>
                     \<not> is_terminal (se_state s)
                  then complete_session sid at e else e) e1)"

end
