(* ===== verification/Engine_Support.thy ===== *)
theory Engine_Support
  imports Engine_State
begin

text \<open>
  The remaining lock-held helpers of \<^verbatim>\<open>src/engine.cpp\<close>: deadline index and expiry, request
  fingerprint and command replay index, envelope and rate planning, supersession, fence
  checks, and the engine's construction.
\<close>

section \<open>Attempts at risk\<close>

definition at_risk_bytes :: "session_record \<Rightarrow> u64" where
  "at_risk_bytes s =
     foldl (\<lambda>at_risk a.
       if \<not> at_outstanding a then at_risk
       else at_risk + (if at_granted_bytes a > at_delivered_bytes a
                       then at_granted_bytes a - at_delivered_bytes a else 0)) 0 (se_attempts s)"

definition release_attempts :: "session_record \<Rightarrow> session_record" where
  "release_attempts s =
     s\<lparr>se_attempts := map (\<lambda>a. a\<lparr>at_outstanding := False\<rparr>) (se_attempts s), se_active_attempts := 0\<rparr>"

section \<open>Deadlines\<close>

fun deadline_insert :: "nanos \<Rightarrow> session_id \<Rightarrow> (nanos \<times> session_id list) list \<Rightarrow> (nanos \<times> session_id list) list" where
  "deadline_insert d sid [] = [(d, [sid])]"
| "deadline_insert d sid ((k, ids) # rest) =
     (if d < k then (d, [sid]) # (k, ids) # rest
      else if d = k then (k, ids @ [sid]) # rest
      else (k, ids) # deadline_insert d sid rest)"

definition index_deadline :: "session_record \<Rightarrow> engine \<Rightarrow> engine" where
  "index_deadline s e =
     (if te_deadline_target (se_envelope s) > 0
      then e\<lparr>en_deadlines := deadline_insert (te_deadline_target (se_envelope s)) (se_id s) (en_deadlines e)\<rparr>
      else e)"

definition expire_session :: "nanos \<Rightarrow> nanos \<Rightarrow> engine \<Rightarrow> session_id \<Rightarrow> engine" where
  "expire_session deadline at e sid =
     (case lookup_session sid e of
        None \<Rightarrow> e
      | Some s \<Rightarrow>
          if is_terminal (se_state s) \<or> te_deadline_target (se_envelope s) \<noteq> deadline then e
          else
            let e1 = mark_unproven sid (se_outstanding_bytes s) e;
                e2 = settle_terminal sid SS_Failed RC_DeadlineUnreachable
                       ''checkpoint deadline elapsed before completion'' at e1;
                e3 = account (\<lambda>a. a\<lparr>ac_sessions_failed := ac_sessions_failed a + 1\<rparr>) e2;
                e4 = note_timeline sid at ''failed reason=DeadlineUnreachable'' e3
            in emit EK_SessionDenied sid RC_DeadlineUnreachable at e4)"

fun expire_due :: "nanos \<Rightarrow> (nanos \<times> session_id list) list \<Rightarrow> engine \<Rightarrow> engine" where
  "expire_due at [] e = e\<lparr>en_deadlines := []\<rparr>"
| "expire_due at ((deadline, due) # rest) e =
     (if deadline > at then e\<lparr>en_deadlines := (deadline, due) # rest\<rparr>
      else expire_due at rest (foldl (expire_session deadline at) (e\<lparr>en_deadlines := rest\<rparr>) due))"

definition enforce_deadlines :: "nanos \<Rightarrow> engine \<Rightarrow> engine" where
  "enforce_deadlines at e = expire_due at (en_deadlines e) e"

section \<open>Command replay index\<close>

definition fingerprint_request :: "session_request \<Rightarrow> u64" where
  "fingerprint_request r =
     (let d = compute_manifest_digest (rq_manifest r) in
      foldl mix64 0xCBF29CE484222325
        (map ucast (uuid_bytes (rq_checkpoint r)) @
         [rq_checkpoint_generation r] @
         map ucast (uuid_bytes (rq_workload r)) @
         [rq_contract_generation r, rq_policy_generation r, rq_topology_generation r,
          word_of_nat (isolation_rank (rq_requested_isolation r)),
          word_of_nat (destination_class_value (rq_destination r)),
          rq_requested_rate_bps r, word_of_int (rq_deadline_horizon_ns r),
          mf_total_bytes (rq_manifest r), word_of_nat (length (mf_shards (rq_manifest r))),
          ucast (crc32c_value d), fnv1a64_value d]))"

fun evict_commands ::
    "nat \<Rightarrow> command_id list \<Rightarrow> (command_id \<times> command_record) list \<Rightarrow>
     command_id list \<times> (command_id \<times> command_record) list" where
  "evict_commands bound [] index = ([], index)"
| "evict_commands bound (c # order) index =
     (if length (c # order) > bound then evict_commands bound order (AList.delete c index)
      else (c # order, index))"

definition command_bound :: "engine \<Rightarrow> nat" where
  "command_bound e = max 64 (min (timeline_bound e * 4) 4096)"

definition remember_command :: "command_id \<Rightarrow> command_record \<Rightarrow> engine \<Rightarrow> engine" where
  "remember_command c r e =
     (let bound = command_bound e;
          (order, index) =
            (if map_of (en_command_index e) c = None
             then evict_commands bound (en_command_order e @ [c]) (en_command_index e)
             else (en_command_order e, en_command_index e))
      in e\<lparr>en_command_index_bound := bound, en_command_order := order,
           en_command_index := AList.update c r index\<rparr>)"

definition make_decision :: "decision_kind \<Rightarrow> reason_code \<Rightarrow> session_id \<Rightarrow> nanos \<Rightarrow> engine \<Rightarrow> admission_decision" where
  "make_decision kind reason sid at e =
     \<lparr>ad_kind = kind, ad_reason = reason, ad_session = sid, ad_envelope = None, ad_superseded = [],
      ad_retry_after = None, ad_epoch = en_epoch e, ad_decided_at = at\<rparr>"

section \<open>Envelopes and rates\<close>

definition empty_wave :: wave_plan where
  "empty_wave = \<lparr>wp_index = 0, wp_shards = [], wp_planned_bytes = 0\<rparr>"

definition wave_add :: "shard_descriptor \<Rightarrow> wave_plan \<Rightarrow> wave_plan" where
  "wave_add d plan = plan\<lparr>wp_shards := wp_shards plan @ [sd_index d],
                          wp_planned_bytes := wp_planned_bytes plan + sd_declared_bytes d\<rparr>"

fun build_waves :: "u32 \<Rightarrow> shard_descriptor list \<Rightarrow> wave_plan \<Rightarrow> u32 \<Rightarrow> wave_plan list \<Rightarrow> wave_plan list" where
  "build_waves wave_width [] plan in_wave waves =
     (if wp_shards plan \<noteq> [] then waves @ [plan] else waves)"
| "build_waves wave_width (d # ds) plan in_wave waves =
     (if in_wave = wave_width then
        let fresh = empty_wave\<lparr>wp_index := wp_index empty_wave + 1\<rparr>
        in build_waves wave_width ds (wave_add d fresh) 1 (waves @ [plan])
      else build_waves wave_width ds (wave_add d plan) (in_wave + 1) waves)"

definition build_envelope ::
    "session_request \<Rightarrow> session_id \<Rightarrow> isolation_class \<Rightarrow> path_class_id \<Rightarrow> u64 \<Rightarrow> u64 \<Rightarrow> u32 \<Rightarrow>
     nanos \<Rightarrow> nanos \<Rightarrow> u64 \<Rightarrow> traffic_envelope" where
  "build_envelope request session isolation path rate_bps burst_bytes wave_width now deadline_target
     envelope_sequence =
     \<lparr>te_session = session, te_sequence = envelope_sequence, te_isolation = isolation,
      te_rate_bps = rate_bps, te_burst_bytes = burst_bytes, te_wave_width = wave_width,
      te_waves = build_waves wave_width (mf_shards (rq_manifest request)) empty_wave 0 [],
      te_path_class = Some path, te_issued_at = now, te_deadline_target = deadline_target\<rparr>"

definition ceil_rate :: "u64 \<Rightarrow> nanos \<Rightarrow> u64" where
  "ceil_rate n horizon_ns =
     (if horizon_ns \<le> 0 then 0xFFFFFFFFFFFFFFFF
      else
        let horizon = word_of_int horizon_ns;
            whole = n div horizon;
            remainder = n mod horizon
        in whole * word_of_int kNanosPerSecond +
           (remainder * word_of_int kNanosPerSecond + horizon - 1) div horizon)"

record rate_plan =
  rp_ok :: bool
  rp_rate_bps :: u64
  rp_reason :: reason_code
  rp_detail :: string
  rp_retry_after :: "nanos option"

definition refuse_rate :: "reason_code \<Rightarrow> string \<Rightarrow> nanos option \<Rightarrow> rate_plan" where
  "refuse_rate reason detail retry_after =
     \<lparr>rp_ok = False, rp_rate_bps = 0, rp_reason = reason, rp_detail = detail, rp_retry_after = retry_after\<rparr>"

definition deadline_horizon :: "session_request \<Rightarrow> workload_contract \<Rightarrow> nanos" where
  "deadline_horizon request contract =
     (if rq_deadline_horizon_ns request > 0 then rq_deadline_horizon_ns request
      else wc_deadline_budget_ns contract)"

definition plan_rate ::
    "session_request \<Rightarrow> workload_contract \<Rightarrow> isolation_envelope_config \<Rightarrow> path_class \<Rightarrow> nanos \<Rightarrow> engine \<Rightarrow> rate_plan" where
  "plan_rate request contract envelope path now e =
     (let class_ceiling = ie_ceiling_bps envelope;
          workload_ceiling = wc_ceiling_bps contract;
          hard_ceiling = min class_ceiling workload_ceiling;
          path_reserved = reserved_path_rate (pc_id path) (en_shaper e);
          path_headroom = (if pc_capacity_bps path > path_reserved
                           then pc_capacity_bps path - path_reserved else 0);
          requested = (if rq_requested_rate_bps request = 0 then hard_ceiling else rq_requested_rate_bps request);
          horizon = word_of_int (deadline_horizon request contract) :: u64;
          required = ceil_rate (mf_total_bytes (rq_manifest request)) (sint horizon);
          rate = min (max requested required) hard_ceiling;
          retry = Some (now + po_defer_horizon_ns (en_policy e))
      in if requested > class_ceiling then
           refuse_rate RC_RequestedRateUnsupported ''requested rate exceeds the isolation-class ceiling'' None
         else if requested > workload_ceiling then
           refuse_rate RC_RequestedRateUnsupported ''requested rate exceeds the workload-contract ceiling'' None
         else if required > class_ceiling then
           refuse_rate RC_DeadlineUnreachable ''deadline cannot be met even at the isolation-class ceiling'' None
         else if rate > path_headroom then
           refuse_rate RC_PathCapacityUnavailable ''path class has no unreserved capacity for this session'' retry
         else if rate = 0 then
           refuse_rate RC_CreditUnavailable ''no rate can be granted under current obligations'' retry
         else \<lparr>rp_ok = True, rp_rate_bps = rate, rp_reason = RC_Admitted, rp_detail = [], rp_retry_after = None\<rparr>)"

definition wave_width_for :: "workload_contract \<Rightarrow> nat \<Rightarrow> engine \<Rightarrow> u32" where
  "wave_width_for contract shards e =
     max 1 (min (min (wc_max_shards_per_wave contract) (po_max_wave_width (en_policy e))) (word_of_nat shards))"

definition burst_bytes_for :: "u64 \<Rightarrow> u64" where
  "burst_bytes_for rate_bps = max (rate_bps div 10) (64 * 1024)"

section \<open>Supersession and fences\<close>

definition apply_supersession :: "session_id \<Rightarrow> nanos \<Rightarrow> engine \<Rightarrow> session_id \<Rightarrow> engine" where
  "apply_supersession by_session at e target =
     (let e1 = on_session target (\<lambda>s. mark_unproven target (se_outstanding_bytes s)) e;
          e2 = settle_terminal target SS_Superseded RC_SupersededByNewerGeneration
                 (''superseded by checkpoint generation of session '' @ uuid_to_string by_session) at e1;
          e3 = modify_session target (\<lambda>s. s\<lparr>se_superseded_by := Some by_session\<rparr>) e2;
          e4 = account (\<lambda>a. a\<lparr>ac_sessions_superseded := ac_sessions_superseded a + 1\<rparr>) e3;
          e5 = note_timeline target at (''superseded by='' @ uuid_to_string by_session) e4
      in emit EK_SessionSuperseded target RC_SupersededByNewerGeneration at e5)"

definition fabric_context :: "generation \<Rightarrow> engine \<Rightarrow> fence_context" where
  "fabric_context contract_generation e =
     \<lparr>fc_epoch = en_epoch e, fc_policy_generation = po_generation (en_policy e),
      fc_topology_generation = to_generation (en_topology e), fc_contract_generation = contract_generation\<rparr>"

definition check_fence_status :: "command_fence \<Rightarrow> engine \<Rightarrow> status" where
  "check_fence_status f e = fv_status (validate_fence f (fabric_context (cf_contract_generation f) e))"

definition validate_workload_fence :: "session_record \<Rightarrow> command_fence \<Rightarrow> engine \<Rightarrow> status" where
  "validate_workload_fence s f e =
     (case map_of (en_contracts e) (rq_workload (se_request s)) of
        None \<Rightarrow> EC_StaleContractGeneration
      | Some c \<Rightarrow>
          if cf_contract_generation f \<noteq> wc_generation c then
            (if cf_contract_generation f < wc_generation c then EC_StaleContractGeneration else EC_NotAuthorized)
          else EC_Ok)"

definition validate_checkpoint_generation :: "session_record \<Rightarrow> command_fence \<Rightarrow> status" where
  "validate_checkpoint_generation s f =
     (case cf_checkpoint_generation f of
        None \<Rightarrow> EC_Ok
      | Some g \<Rightarrow> if g \<noteq> rq_checkpoint_generation (se_request s) then EC_StaleCheckpointGeneration else EC_Ok)"

section \<open>Construction\<close>

record engine_config =
  ec_policy :: policy_snapshot
  ec_topology :: topology_snapshot
  ec_contracts :: "workload_contract list"
  ec_epoch :: coordinator_epoch
  ec_limits :: limits
  ec_identity_seed :: u64

definition emplace :: "'k \<Rightarrow> 'v \<Rightarrow> ('k \<times> 'v) list \<Rightarrow> ('k \<times> 'v) list" where
  "emplace k v m = (if map_of m k = None then m @ [(k, v)] else m)"

definition validate_config :: "policy_snapshot \<Rightarrow> topology_snapshot \<Rightarrow> (workload_id \<times> workload_contract) list \<Rightarrow>
    coordinator_epoch \<Rightarrow> limits \<Rightarrow> status" where
  "validate_config policy topology contracts epoch lim =
     first_error
       ([validate_policy policy lim, validate_topology topology lim,
         if contracts = [] then EC_InvalidArgument else EC_Ok] @
        map (\<lambda>(w, c). validate_contract c lim) contracts @
        [if incarnation epoch = 0 \<or> epoch_term epoch = 0 then EC_InvalidArgument else EC_Ok])"

definition engine_new :: "engine_config \<Rightarrow> nanos \<Rightarrow> engine" where
  "engine_new cfg at =
     (let contracts = foldl (\<lambda>m c. emplace (wc_workload c) c m) [] (ec_contracts cfg);
          status = validate_config (ec_policy cfg) (ec_topology cfg) contracts (ec_epoch cfg) (ec_limits cfg);
          e = \<lparr>en_limits = ec_limits cfg, en_policy = ec_policy cfg, en_topology = ec_topology cfg,
               en_contracts = contracts, en_epoch = ec_epoch cfg, en_shaper = empty_shaper,
               en_sessions = [], en_by_workload = [], en_by_checkpoint = [], en_command_index = [],
               en_command_order = [], en_command_index_bound = 256, en_accounting = zero_accounting,
               en_commands_processed = 0, en_shutting_down = False, en_class_active = [],
               en_workload_active = [], en_terminal_order = [],
               en_pruned = \<lparr>pt_admitted = 0, pt_transferred = 0, pt_verified = 0, pt_cancelled = 0,
                            pt_wasted = 0, pt_unproven = 0\<rparr>,
               en_retention_bound = 2048, en_id_factory = id_factory_new (ec_identity_seed cfg),
               en_config_status = status, en_deadlines = [], en_events = [], en_dangling = False\<rparr>
      in if status \<noteq> EC_Ok then e\<lparr>en_shutting_down := True\<rparr>
         else configure_shaper at
           (e\<lparr>en_retention_bound :=
                max 64 (min (unat (lim_max_sessions (ec_limits cfg)))
                            (unat (po_retained_history (ec_policy cfg)) * 8)),
              en_command_index_bound := command_bound e\<rparr>))"

end
