(* ===== verification/Engine_Authority.thy ===== *)
theory Engine_Authority
  imports Engine_Support
begin

text \<open>
  Authority changes, \<^verbatim>\<open>src/engine.cpp\<close> lines 802 to 1029: policy, topology, contract and epoch
  updates, and the read-only accessors of the current authority. Each update demands a
  strictly larger generation and moves the active sessions it affects to
  \<open>SS_RevalidationRequired\<close>.
\<close>

section \<open>Accessors\<close>

definition fence_context_of :: "engine \<Rightarrow> fence_context" where
  "fence_context_of e = fabric_context 0 e"

definition contract_of :: "workload_id \<Rightarrow> engine \<Rightarrow> workload_contract option" where
  "contract_of w e = map_of (en_contracts e) w"

definition contracts_sorted :: "engine \<Rightarrow> workload_contract list" where
  "contracts_sorted e = sort_key wc_workload (map snd (en_contracts e))"

definition current_fence :: "workload_id \<Rightarrow> generation option \<Rightarrow> attempt_sequence option \<Rightarrow> engine \<Rightarrow> command_fence" where
  "current_fence w checkpoint_generation attempt_sequence e =
     \<lparr>cf_epoch = en_epoch e, cf_policy_generation = po_generation (en_policy e),
      cf_topology_generation = to_generation (en_topology e),
      cf_contract_generation = (case map_of (en_contracts e) w of None \<Rightarrow> 0 | Some c \<Rightarrow> wc_generation c),
      cf_checkpoint_generation = checkpoint_generation, cf_attempt_sequence = attempt_sequence\<rparr>"

section \<open>Policy, topology and contracts\<close>

definition mark_stale :: "string \<Rightarrow> nanos \<Rightarrow> session_record \<Rightarrow> session_record" where
  "mark_stale reason at s =
     s\<lparr>se_state := SS_RevalidationRequired, se_stale_reason := reason, se_updated_at := at\<rparr>"

definition stale_one :: "string \<Rightarrow> string \<Rightarrow> reason_code \<Rightarrow> nanos \<Rightarrow> engine \<Rightarrow> session_id \<Rightarrow> engine" where
  "stale_one stale_reason timeline_text reason at e sid =
     (case lookup_session sid e of
        None \<Rightarrow> e
      | Some s \<Rightarrow>
          if \<not> is_active (se_state s) \<or> se_state s = SS_RevalidationRequired then e
          else emit EK_RevalidationRequired (se_id s) reason at
                 (note_timeline sid at timeline_text (modify_session sid (mark_stale stale_reason at) e)))"

definition apply_policy :: "policy_snapshot \<Rightarrow> nanos \<Rightarrow> engine \<Rightarrow> status \<times> engine" where
  "apply_policy policy at e =
     (if \<not> po_generation (en_policy e) < po_generation policy then (EC_StalePolicyGeneration, e)
      else if validate_policy policy (en_limits e) \<noteq> EC_Ok then (validate_policy policy (en_limits e), e)
      else
        let e1 = configure_shaper at (e\<lparr>en_policy := policy\<rparr>)
        in (EC_Ok, foldl (stale_one ''policy generation advanced after this envelope was issued''
                            ''revalidation required: policy generation'' RC_PolicyGenerationStale at)
                     e1 (map fst (en_sessions e1))))"

definition apply_topology :: "topology_snapshot \<Rightarrow> nanos \<Rightarrow> engine \<Rightarrow> status \<times> engine" where
  "apply_topology topology at e =
     (if \<not> to_generation (en_topology e) < to_generation topology then (EC_StaleTopologyGeneration, e)
      else if validate_topology topology (en_limits e) \<noteq> EC_Ok then (validate_topology topology (en_limits e), e)
      else
        let e1 = e\<lparr>en_topology := topology\<rparr>
        in (EC_Ok, foldl (stale_one ''topology generation advanced after this envelope was issued''
                            ''revalidation required: topology generation'' RC_TopologyGenerationStale at)
                     e1 (map fst (en_sessions e1))))"

definition contract_not_newer :: "workload_contract \<Rightarrow> engine \<Rightarrow> bool" where
  "contract_not_newer c e \<longleftrightarrow>
     (case map_of (en_contracts e) (wc_workload c) of
        None \<Rightarrow> False | Some existing \<Rightarrow> \<not> wc_generation existing < wc_generation c)"

definition upsert_contract :: "workload_contract \<Rightarrow> nanos \<Rightarrow> engine \<Rightarrow> status \<times> engine" where
  "upsert_contract c at e =
     (if contract_not_newer c e then (EC_StaleContractGeneration, e)
      else if validate_contract c (en_limits e) \<noteq> EC_Ok then (validate_contract c (en_limits e), e)
      else if length (en_contracts e) \<ge> unat (lim_max_workloads (en_limits e)) \<and>
              map_of (en_contracts e) (wc_workload c) = None then (EC_ResourceExhausted, e)
      else
        let w = wc_workload c;
            e1 = emit EK_RevalidationRequired nil_uuid RC_ContractGenerationStale at
                   (e\<lparr>en_shaper := configure_workload w (wc_ceiling_bps c) (1000000 * 100) at (en_shaper e),
                      en_contracts := AList.update w c (en_contracts e)\<rparr>)
        in (EC_Ok, foldl (stale_one ''workload contract generation advanced after this envelope was issued''
                            ''revalidation required: contract generation'' RC_ContractGenerationStale at)
                     e1 (case map_of (en_by_workload e1) w of None \<Rightarrow> [] | Some ids \<Rightarrow> ids)))"

section \<open>Coordinator epoch\<close>

definition ambiguate_attempt :: "nanos \<Rightarrow> attempt_record \<Rightarrow> attempt_record" where
  "ambiguate_attempt at a =
     (if at_outcome a = AO_Granted \<or> at_outcome a = AO_InFlight \<or> at_outcome a = AO_DeliveredUnacked
      then a\<lparr>at_outcome := AO_Ambiguous, at_updated_at := at\<rparr> else a)"

definition rearm_shard :: "shard_record \<Rightarrow> shard_record" where
  "rearm_shard h =
     (if sh_state h = SH_Granted \<or> sh_state h = SH_InFlight
      then h\<lparr>sh_state := SH_Pending, sh_sequence := 0, sh_attempt := None, sh_granted_bytes := 0\<rparr> else h)"

definition restart_text :: string where
  "restart_text = ''coordinator restarted: authority must be re-established''"

definition restart_one :: "nanos \<Rightarrow> engine \<Rightarrow> session_id \<Rightarrow> engine" where
  "restart_one at e sid =
     (case lookup_session sid e of
        None \<Rightarrow> e
      | Some s \<Rightarrow>
          if is_terminal (se_state s) then e
          else
            let e1 = mark_unproven sid (at_risk_bytes s) e;
                e2 = modify_session sid (\<lambda>s. s\<lparr>se_attempts := map (ambiguate_attempt at) (se_attempts s)\<rparr>) e1;
                e3 = on_session sid
                       (\<lambda>s. account (\<lambda>a. a\<lparr>ac_active_attempts := ac_active_attempts a - se_active_attempts s\<rparr>)) e2;
                e4 = modify_session sid
                       (\<lambda>s. (mark_stale restart_text at
                              ((release_attempts s)\<lparr>se_shards := map rearm_shard (se_shards s)\<rparr>))\<lparr>se_paused := False\<rparr>) e3;
                e5 = note_timeline sid at ''revalidation required: coordinator restart'' e4
            in emit EK_RevalidationRequired (se_id s) RC_AuthorityStale at e5)"

definition advance_epoch :: "coordinator_epoch \<Rightarrow> nanos \<Rightarrow> engine \<Rightarrow> status \<times> engine" where
  "advance_epoch epoch at e =
     (if \<not> en_epoch e < epoch then (EC_StaleEpoch, e)
      else
        let e1 = e\<lparr>en_epoch := epoch, en_deadlines := []\<rparr>
        in (EC_Ok, foldl (restart_one at) e1 (map fst (en_sessions e1))))"

end
