(* ===== verification/Engine_Snapshot.thy ===== *)
theory Engine_Snapshot
  imports Engine_Authority
begin

text \<open>
  Persisted state, \<^verbatim>\<open>include/ctf/engine.hpp\<close> lines 45 to 117 and \<^verbatim>\<open>src/engine.cpp\<close> lines 1031
  to 1305: exporting a snapshot of the engine and restoring one conservatively. A restore
  re-derives the outstanding bytes, the active counters and every index from the session
  table.
\<close>

record persisted_shard =
  ps_index :: shard_index
  ps_state :: shard_state
  ps_sequence :: attempt_sequence
  ps_granted_bytes :: u64
  ps_transferred_bytes :: u64
  ps_verified_bytes :: u64
  ps_observed_digest :: digest
  ps_has_observed_digest :: bool
  ps_attempt :: "attempt_id option"
  ps_source_complete :: bool
  ps_source_bytes :: u64

record persisted_attempt =
  pa_id :: attempt_id
  pa_sequence :: attempt_sequence
  pa_shard :: shard_index
  pa_wave :: wave_index
  pa_outcome :: attempt_outcome
  pa_granted_bytes :: u64
  pa_delivered_bytes :: u64
  pa_observed_digest :: digest
  pa_has_observed_digest :: bool
  pa_outstanding :: bool
  pa_granted_at :: nanos
  pa_updated_at :: nanos

record persisted_session =
  pe_session :: session_id
  pe_request :: session_request
  pe_state :: session_state
  pe_evidence :: evidence_level
  pe_envelope :: traffic_envelope
  pe_envelope_sequence :: u64
  pe_attempt_counter :: u64
  pe_shards :: "persisted_shard list"
  pe_attempts :: "persisted_attempt list"
  pe_timeline :: "string list"
  pe_admitted_bytes :: u64
  pe_transferred_bytes :: u64
  pe_verified_bytes :: u64
  pe_cancelled_bytes :: u64
  pe_wasted_bytes :: u64
  pe_unproven_bytes :: u64
  pe_outstanding_bytes :: u64
  pe_active_attempts :: u32
  pe_source_complete :: bool
  pe_paused :: bool
  pe_created_at :: nanos
  pe_updated_at :: nanos
  pe_last_reason :: reason_code
  pe_last_detail :: string
  pe_stale_reason :: string
  pe_superseded_by :: "session_id option"

record contract_generation_record =
  cg_workload :: workload_id
  cg_generation :: generation

record engine_snapshot =
  es_epoch :: coordinator_epoch
  es_policy_generation :: generation
  es_topology_generation :: generation
  es_contract_generations :: "contract_generation_record list"
  es_sessions :: "persisted_session list"
  es_accounting :: accounting_snapshot
  es_commands_processed :: u64

section \<open>Export\<close>

definition persist_shard :: "shard_record \<Rightarrow> persisted_shard" where
  "persist_shard h =
     \<lparr>ps_index = sh_index h, ps_state = sh_state h, ps_sequence = sh_sequence h,
      ps_granted_bytes = sh_granted_bytes h, ps_transferred_bytes = sh_transferred_bytes h,
      ps_verified_bytes = sh_verified_bytes h, ps_observed_digest = sh_observed_digest h,
      ps_has_observed_digest = sh_has_observed_digest h, ps_attempt = sh_attempt h,
      ps_source_complete = sh_source_complete h, ps_source_bytes = sh_source_bytes h\<rparr>"

definition persist_attempt :: "attempt_record \<Rightarrow> persisted_attempt" where
  "persist_attempt a =
     \<lparr>pa_id = at_id a, pa_sequence = at_sequence a, pa_shard = at_shard a, pa_wave = at_wave a,
      pa_outcome = at_outcome a, pa_granted_bytes = at_granted_bytes a,
      pa_delivered_bytes = at_delivered_bytes a, pa_observed_digest = at_observed_digest a,
      pa_has_observed_digest = at_has_observed_digest a, pa_outstanding = at_outstanding a,
      pa_granted_at = at_granted_at a, pa_updated_at = at_updated_at a\<rparr>"

definition persist_session :: "session_record \<Rightarrow> persisted_session" where
  "persist_session s =
     \<lparr>pe_session = se_id s, pe_request = se_request s, pe_state = se_state s, pe_evidence = se_evidence s,
      pe_envelope = se_envelope s, pe_envelope_sequence = se_envelope_sequence s,
      pe_attempt_counter = se_attempt_counter s, pe_shards = map persist_shard (se_shards s),
      pe_attempts = map persist_attempt (se_attempts s), pe_timeline = se_timeline s,
      pe_admitted_bytes = se_admitted_bytes s, pe_transferred_bytes = se_transferred_bytes s,
      pe_verified_bytes = se_verified_bytes s, pe_cancelled_bytes = se_cancelled_bytes s,
      pe_wasted_bytes = se_wasted_bytes s, pe_unproven_bytes = se_unproven_bytes s,
      pe_outstanding_bytes = se_outstanding_bytes s, pe_active_attempts = se_active_attempts s,
      pe_source_complete = se_source_complete s, pe_paused = se_paused s,
      pe_created_at = se_created_at s, pe_updated_at = se_updated_at s,
      pe_last_reason = se_last_reason s, pe_last_detail = se_last_detail s,
      pe_stale_reason = se_stale_reason s, pe_superseded_by = se_superseded_by s\<rparr>"

definition note_generation ::
    "workload_id \<Rightarrow> generation \<Rightarrow> contract_generation_record list \<Rightarrow> contract_generation_record list" where
  "note_generation w g seen =
     (if w \<in> cg_workload ` set seen then seen else seen @ [\<lparr>cg_workload = w, cg_generation = g\<rparr>])"

definition export_snapshot :: "engine \<Rightarrow> engine_snapshot" where
  "export_snapshot e =
     \<lparr>es_epoch = en_epoch e, es_policy_generation = po_generation (en_policy e),
      es_topology_generation = to_generation (en_topology e),
      es_contract_generations =
        foldl (\<lambda>seen (w, c). note_generation w (wc_generation c) seen)
          (foldl (\<lambda>seen (sid, s). note_generation (rq_workload (se_request s))
                    (rq_contract_generation (se_request s)) seen) [] (en_sessions e))
          (en_contracts e),
      es_sessions = map (\<lambda>(sid, s). persist_session s) (en_sessions e),
      es_accounting = en_accounting e, es_commands_processed = en_commands_processed e\<rparr>"

section \<open>Restore\<close>

definition unpersist_shard :: "persisted_shard \<Rightarrow> shard_descriptor \<Rightarrow> shard_record" where
  "unpersist_shard p d =
     \<lparr>sh_index = ps_index p, sh_declared_bytes = sd_declared_bytes d,
      sh_declared_digest = sd_declared_digest d, sh_path_class = sd_path_class d,
      sh_state = ps_state p, sh_sequence = ps_sequence p, sh_attempt = ps_attempt p,
      sh_granted_bytes = ps_granted_bytes p, sh_transferred_bytes = ps_transferred_bytes p,
      sh_verified_bytes = ps_verified_bytes p, sh_observed_digest = ps_observed_digest p,
      sh_has_observed_digest = ps_has_observed_digest p, sh_source_complete = ps_source_complete p,
      sh_source_bytes = ps_source_bytes p\<rparr>"

definition unsettled_outcome :: "attempt_outcome \<Rightarrow> bool" where
  "unsettled_outcome x \<longleftrightarrow> x = AO_Granted \<or> x = AO_InFlight \<or> x = AO_DeliveredUnacked"

definition unpersist_attempt :: "persisted_attempt \<Rightarrow> attempt_record" where
  "unpersist_attempt p =
     \<lparr>at_id = pa_id p, at_sequence = pa_sequence p, at_shard = pa_shard p, at_wave = pa_wave p,
      at_outcome = (if unsettled_outcome (pa_outcome p) then AO_Ambiguous else pa_outcome p),
      at_granted_bytes = pa_granted_bytes p, at_delivered_bytes = pa_delivered_bytes p,
      at_observed_digest = pa_observed_digest p, at_has_observed_digest = pa_has_observed_digest p,
      at_outstanding = unsettled_outcome (pa_outcome p),
      at_granted_at = pa_granted_at p, at_updated_at = pa_updated_at p\<rparr>"

definition unpersist_session :: "persisted_session \<Rightarrow> session_record" where
  "unpersist_session p =
     \<lparr>se_id = pe_session p, se_request = pe_request p, se_state = pe_state p, se_evidence = pe_evidence p,
      se_durability = default_durability, se_envelope = pe_envelope p,
      se_envelope_sequence = pe_envelope_sequence p, se_attempt_counter = pe_attempt_counter p,
      se_shards = map2 unpersist_shard (pe_shards p) (mf_shards (rq_manifest (pe_request p))),
      se_attempts = map unpersist_attempt (pe_attempts p), se_timeline = pe_timeline p,
      se_admitted_bytes = pe_admitted_bytes p, se_transferred_bytes = pe_transferred_bytes p,
      se_verified_bytes = pe_verified_bytes p, se_cancelled_bytes = pe_cancelled_bytes p,
      se_wasted_bytes = pe_wasted_bytes p, se_unproven_bytes = pe_unproven_bytes p,
      se_outstanding_bytes = pe_outstanding_bytes p, se_active_attempts = 0,
      se_source_complete = pe_source_complete p, se_paused = False, se_paused_from = SS_Admitted,
      se_reserved_path = None, se_reserved_rate_bps = 0,
      se_created_at = pe_created_at p, se_updated_at = pe_updated_at p,
      se_last_reason = pe_last_reason p, se_last_detail = pe_last_detail p,
      se_stale_reason = pe_stale_reason p, se_superseded_by = pe_superseded_by p\<rparr>"

fun load_sessions ::
    "limits \<Rightarrow> (session_id \<times> session_record) list \<Rightarrow> persisted_session list \<Rightarrow>
     (session_id \<times> session_record) list result" where
  "load_sessions lim restored [] = Inr restored"
| "load_sessions lim restored (p # ps) =
     (if is_nil (pe_session p) then Inl EC_CorruptState
      else if map_of restored (pe_session p) \<noteq> None then Inl EC_DuplicateIdentity
      else if validate_manifest (rq_manifest (pe_request p)) lim \<noteq> EC_Ok then Inl EC_CorruptState
      else if length (pe_shards p) \<noteq> length (mf_shards (rq_manifest (pe_request p))) then Inl EC_CorruptState
      else if is_terminal (pe_state p) \<and> pe_outstanding_bytes p \<noteq> 0 then Inl EC_CorruptState
      else if map ps_index (pe_shards p) \<noteq> map sd_index (mf_shards (rq_manifest (pe_request p)))
        then Inl EC_CorruptState
      else load_sessions lim (restored @ [(pe_session p, unpersist_session p)]) ps)"

definition reopen_one :: "nanos \<Rightarrow> engine \<Rightarrow> session_id \<Rightarrow> engine" where
  "reopen_one at e sid =
     (case lookup_session sid e of
        None \<Rightarrow> e
      | Some s \<Rightarrow>
          if is_terminal (se_state s) then e
          else
            let e1 = mark_unproven sid (at_risk_bytes s) e;
                e2 = modify_session sid
                       (\<lambda>s. (mark_stale (if se_stale_reason s = [] then restart_text else se_stale_reason s) at
                              ((release_attempts s)\<lparr>se_shards := map rearm_shard (se_shards s)\<rparr>))\<lparr>se_paused := False\<rparr>) e1;
                e3 = note_timeline sid at ''restored: revalidation required'' e2
            in emit EK_RevalidationRequired (se_id s) RC_AuthorityStale at e3)"

definition count_one :: "engine \<Rightarrow> session_id \<times> session_record \<Rightarrow> engine" where
  "count_one e x =
     (let s = snd x;
          e1 = account (\<lambda>a. a\<lparr>ac_granted_outstanding_bytes :=
                                 ac_granted_outstanding_bytes a + se_outstanding_bytes s\<rparr>) e
      in if is_active (se_state s) then activate s e1
         else e1\<lparr>en_terminal_order := en_terminal_order e1 @ [se_id s]\<rparr>)"

definition recount :: "engine \<Rightarrow> engine" where
  "recount e =
     foldl count_one
       (account (\<lambda>a. a\<lparr>ac_active_sessions := 0, ac_granted_outstanding_bytes := 0\<rparr>)
         (e\<lparr>en_class_active := [], en_workload_active := [], en_terminal_order := []\<rparr>))
       (en_sessions e)"

definition reindex_deadlines :: "engine \<Rightarrow> engine" where
  "reindex_deadlines e =
     foldl (\<lambda>e (sid, s). if \<not> is_terminal (se_state s) then index_deadline s e else e)
       (e\<lparr>en_deadlines := []\<rparr>) (en_sessions e)"

definition restore :: "engine_snapshot \<Rightarrow> nanos \<Rightarrow> engine \<Rightarrow> status \<times> engine" where
  "restore snap at e =
     (if \<not> conserves (es_accounting snap) then (EC_CorruptState, e)
      else if es_policy_generation snap > po_generation (en_policy e) then (EC_StalePolicyGeneration, e)
      else if es_topology_generation snap > to_generation (en_topology e) then (EC_StaleTopologyGeneration, e)
      else if length (es_sessions snap) > unat (lim_max_sessions (en_limits e)) then (EC_ResourceExhausted, e)
      else case load_sessions (en_limits e) [] (es_sessions snap) of
        Inl err \<Rightarrow> (err, e)
      | Inr restored \<Rightarrow>
          let e1 = (rebuild_indexes (e\<lparr>en_sessions := restored\<rparr>))
                     \<lparr>en_accounting := (es_accounting snap)\<lparr>ac_active_attempts := 0\<rparr>,
                      en_commands_processed := es_commands_processed snap,
                      en_epoch := es_epoch snap, en_command_index := [], en_command_order := []\<rparr>;
              e2 = foldl (reopen_one at) e1 (map fst (en_sessions e1))
          in (EC_Ok, reindex_deadlines (recount e2)))"

end
