(* ===== verification/Engine_Admission.thy ===== *)
theory Engine_Admission
  imports Engine_Authority
begin

text \<open>
  Admission, \<^verbatim>\<open>src/engine.cpp\<close> lines 1311 to 1715: submitting a session (fence, replay index,
  request checks, supersession scan, capacity limits, rate plan, envelope issue) and
  revalidating one under current authority.
\<close>

section \<open>Decisions recorded in the replay index\<close>

definition begin_command :: "nanos \<Rightarrow> engine \<Rightarrow> engine" where
  "begin_command at e = enforce_deadlines at (e\<lparr>en_commands_processed := en_commands_processed e + 1\<rparr>)"

definition decided :: "session_id \<Rightarrow> decision_kind \<Rightarrow> reason_code \<Rightarrow> session_request \<Rightarrow> bool \<Rightarrow> command_record" where
  "decided sid kind reason request has_session =
     \<lparr>cr_session = sid, cr_kind = kind, cr_reason = reason, cr_fingerprint = fingerprint_request request,
      cr_has_session = has_session\<rparr>"

definition deny ::
    "session_request \<Rightarrow> reason_code \<Rightarrow> nanos \<Rightarrow> engine \<Rightarrow> admission_decision result \<times> engine" where
  "deny request reason at e =
     (Inr (make_decision DK_Deny reason nil_uuid at e),
      emit EK_SessionDenied nil_uuid reason at
        (remember_command (rq_command request) (decided nil_uuid DK_Deny reason request False)
          (account (\<lambda>a. a\<lparr>ac_sessions_denied := ac_sessions_denied a + 1\<rparr>) e)))"

definition defer_admission ::
    "session_request \<Rightarrow> reason_code \<Rightarrow> nanos \<Rightarrow> u64 \<Rightarrow> nanos \<Rightarrow> engine \<Rightarrow> admission_decision result \<times> engine" where
  "defer_admission request reason retry_after deferred_bytes at e =
     (Inr ((make_decision DK_Defer reason nil_uuid at e)\<lparr>ad_retry_after := Some retry_after\<rparr>),
      emit EK_SessionDeferred nil_uuid reason at
        (remember_command (rq_command request) (decided nil_uuid DK_Defer reason request False)
          (account (\<lambda>a. a\<lparr>ac_sessions_deferred := ac_sessions_deferred a + 1,
                          ac_bytes_deferred := ac_bytes_deferred a + deferred_bytes\<rparr>) e)))"

definition replay_decision :: "command_record \<Rightarrow> nanos \<Rightarrow> engine \<Rightarrow> admission_decision" where
  "replay_decision r at e =
     (let d = make_decision (cr_kind r) RC_DuplicateCommand (cr_session r) at e in
      if cr_has_session r then
        case lookup_session (cr_session r) e of None \<Rightarrow> d | Some s \<Rightarrow> d\<lparr>ad_envelope := Some (se_envelope s)\<rparr>
      else d)"

section \<open>Request checks\<close>

record admission_context =
  ax_contract :: workload_contract
  ax_isolation :: isolation_class
  ax_envelope :: isolation_envelope_config
  ax_path_id :: path_class_id
  ax_path :: path_class

definition admitted_isolation :: "session_request \<Rightarrow> workload_contract \<Rightarrow> isolation_class" where
  "admitted_isolation request contract =
     (if isolation_rank (rq_requested_isolation request) \<le> isolation_rank (wc_isolation contract)
      then rq_requested_isolation request else wc_isolation contract)"

definition manifest_contradicts :: "session_request \<Rightarrow> bool" where
  "manifest_contradicts r \<longleftrightarrow>
     mf_checkpoint (rq_manifest r) \<noteq> rq_checkpoint r \<or>
     mf_generation (rq_manifest r) \<noteq> rq_checkpoint_generation r \<or>
     mf_workload (rq_manifest r) \<noteq> rq_workload r \<or>
     mf_contract_generation (rq_manifest r) \<noteq> rq_contract_generation r"

definition shard_paths_ok :: "session_request \<Rightarrow> topology_snapshot \<Rightarrow> bool" where
  "shard_paths_ok r topology \<longleftrightarrow>
     list_all (\<lambda>d. sd_path_class d = 0 \<or>
                   (case find_path_class topology (sd_path_class d) of
                      None \<Rightarrow> False | Some p \<Rightarrow> pc_destination p = rq_destination r))
       (mf_shards (rq_manifest r))"

definition resolve_admission :: "session_request \<Rightarrow> engine \<Rightarrow> reason_code + admission_context" where
  "resolve_admission r e =
     (if en_shutting_down e then Inl RC_FabricShuttingDown
      else case map_of (en_contracts e) (rq_workload r) of
        None \<Rightarrow> Inl RC_UnknownWorkload
      | Some contract \<Rightarrow>
          if rq_contract_generation r \<noteq> wc_generation contract then Inl RC_ContractGenerationStale
          else if validate_manifest (rq_manifest r) (en_limits e) \<noteq> EC_Ok then Inl RC_ManifestInvalid
          else if manifest_contradicts r then Inl RC_ManifestMismatch
          else case find_envelope (en_policy e) (admitted_isolation r contract) of
            None \<Rightarrow> Inl RC_Internal
          | Some envelope \<Rightarrow>
              (case default_path_class_for (en_topology e) (rq_destination r) of
                 None \<Rightarrow> Inl RC_DestinationNotPermitted
               | Some path_id \<Rightarrow>
                   if \<not> shard_paths_ok r (en_topology e) then Inl RC_DestinationNotPermitted
                   else case find_path_class (en_topology e) path_id of
                     None \<Rightarrow> Inl RC_DestinationNotPermitted
                   | Some path \<Rightarrow>
                       Inr \<lparr>ax_contract = contract, ax_isolation = admitted_isolation r contract,
                            ax_envelope = envelope, ax_path_id = path_id, ax_path = path\<rparr>))"

datatype scan_result =
    ScanDeny reason_code
  | ScanDuplicate session_record
  | ScanTargets "session_id list"

fun scan_checkpoint :: "session_request \<Rightarrow> engine \<Rightarrow> session_id list \<Rightarrow> session_id list \<Rightarrow> scan_result" where
  "scan_checkpoint r e [] targets = ScanTargets targets"
| "scan_checkpoint r e (sid # ids) targets =
     (case lookup_session sid e of
        None \<Rightarrow> scan_checkpoint r e ids targets
      | Some existing \<Rightarrow>
          if rq_checkpoint_generation r < rq_checkpoint_generation (se_request existing)
            then ScanDeny RC_CheckpointGenerationStale
          else if \<not> is_active (se_state existing) then scan_checkpoint r e ids targets
          else if rq_checkpoint_generation (se_request existing) = rq_checkpoint_generation r then
            (if manifests_equivalent (rq_manifest (se_request existing)) (rq_manifest r)
             then ScanDuplicate existing else ScanDeny RC_ManifestMismatch)
          else scan_checkpoint r e ids (targets @ [sid]))"

definition checkpoint_sessions :: "checkpoint_id \<Rightarrow> engine \<Rightarrow> session_id list" where
  "checkpoint_sessions c e = (case map_of (en_by_checkpoint e) c of None \<Rightarrow> [] | Some ids \<Rightarrow> ids)"

section \<open>Admitting a session\<close>

definition new_shard :: "path_class_id \<Rightarrow> shard_descriptor \<Rightarrow> shard_record" where
  "new_shard path_id d =
     \<lparr>sh_index = sd_index d, sh_declared_bytes = sd_declared_bytes d, sh_declared_digest = sd_declared_digest d,
      sh_path_class = (if sd_path_class d = 0 then path_id else sd_path_class d),
      sh_state = SH_Pending, sh_sequence = 0, sh_attempt = None, sh_granted_bytes = 0,
      sh_transferred_bytes = 0, sh_verified_bytes = 0, sh_observed_digest = zero_digest,
      sh_has_observed_digest = False, sh_source_complete = False, sh_source_bytes = 0\<rparr>"

definition new_session ::
    "session_id \<Rightarrow> session_request \<Rightarrow> traffic_envelope \<Rightarrow> path_class_id \<Rightarrow> nanos \<Rightarrow> session_record" where
  "new_session sid r envelope path_id at =
     \<lparr>se_id = sid, se_request = r, se_state = SS_Admitted, se_evidence = EL_None,
      se_durability = default_durability,
      se_envelope = envelope, se_envelope_sequence = 1, se_attempt_counter = 0,
      se_shards = map (new_shard path_id) (mf_shards (rq_manifest r)), se_attempts = [], se_timeline = [],
      se_admitted_bytes = mf_total_bytes (rq_manifest r), se_transferred_bytes = 0, se_verified_bytes = 0,
      se_cancelled_bytes = 0, se_wasted_bytes = 0, se_unproven_bytes = 0,
      se_outstanding_bytes = mf_total_bytes (rq_manifest r), se_active_attempts = 0,
      se_source_complete = False, se_paused = False, se_paused_from = SS_Admitted,
      se_reserved_path = Some path_id, se_reserved_rate_bps = te_rate_bps envelope,
      se_created_at = at, se_updated_at = at, se_last_reason = RC_Admitted, se_last_detail = ''admitted'',
      se_stale_reason = [], se_superseded_by = None\<rparr>"

definition issue_session ::
    "session_id \<Rightarrow> session_request \<Rightarrow> admission_context \<Rightarrow> u64 \<Rightarrow> nanos \<Rightarrow> engine \<Rightarrow> session_record" where
  "issue_session sid r x rate_bps at e =
     (let envelope = build_envelope r sid (ax_isolation x) (ax_path_id x) rate_bps (burst_bytes_for rate_bps)
                       (wave_width_for (ax_contract x) (length (mf_shards (rq_manifest r))) e) at
                       (at + deadline_horizon r (ax_contract x)) 1
      in append_timeline (timeline_bound e) at
           (''admitted class='' @ isolation_class_to_string (ax_isolation x) @
            '' rate='' @ dec_string (unat rate_bps) @ ''B/s waves='' @ dec_string (length (te_waves envelope)))
           (new_session sid r envelope (ax_path_id x) at))"

definition register_session :: "session_record \<Rightarrow> engine \<Rightarrow> engine" where
  "register_session s e =
     (let r = se_request s; sid = se_id s; ttl = mf_total_bytes (rq_manifest r);
          e1 = account (\<lambda>a. a\<lparr>ac_bytes_admitted := ac_bytes_admitted a + ttl,
                              ac_granted_outstanding_bytes := ac_granted_outstanding_bytes a + ttl,
                              ac_sessions_admitted := ac_sessions_admitted a + 1\<rparr>) e;
          e2 = activate s e1;
          e3 = e2\<lparr>en_by_workload := index_push (rq_workload r) sid (en_by_workload e2),
                  en_by_checkpoint := index_push (rq_checkpoint r) sid (en_by_checkpoint e2)\<rparr>;
          e4 = index_deadline s e3
      in e4\<lparr>en_sessions := emplace sid s (en_sessions e4)\<rparr>)"

definition admit_session ::
    "session_request \<Rightarrow> admission_context \<Rightarrow> u64 \<Rightarrow> session_id list \<Rightarrow> nanos \<Rightarrow> engine \<Rightarrow>
     admission_decision result \<times> engine" where
  "admit_session r x rate_bps targets at e =
     (let (sid, factory) = id_factory_next (en_id_factory e);
          e1 = e\<lparr>en_id_factory := factory\<rparr>;
          s = issue_session sid r x rate_bps at e1;
          (reserved, shaper) = reserve_path_rate (ax_path_id x) rate_bps (en_shaper e1)
      in if \<not> reserved then deny r RC_ResourceLimit at e1
         else
           let e2 = foldl (apply_supersession sid at) (e1\<lparr>en_shaper := shaper\<rparr>) targets;
               e3 = register_session s e2;
               e4 = remember_command (rq_command r) (decided sid DK_Admit RC_Admitted r True) e3
           in (Inr ((make_decision DK_Admit RC_Admitted sid at e4)
                      \<lparr>ad_envelope := map_option se_envelope (lookup_session sid e4), ad_superseded := targets\<rparr>),
               emit EK_SessionAdmitted sid RC_Admitted at e4))"

definition admit_within_limits ::
    "session_request \<Rightarrow> admission_context \<Rightarrow> session_id list \<Rightarrow> nanos \<Rightarrow> engine \<Rightarrow> admission_decision result \<times> engine" where
  "admit_within_limits r x targets at e =
     (let ttl = mf_total_bytes (rq_manifest r);
          retry = at + po_defer_horizon_ns (en_policy e);
          plan = plan_rate r (ax_contract x) (ax_envelope x) (ax_path x) at e
      in if targets \<noteq> [] \<and> \<not> wc_allow_supersession (ax_contract x) then deny r RC_SupersessionDeniedByPolicy at e
         else if length targets > unat (lim_max_supersession_chain (en_limits e)) then deny r RC_ResourceLimit at e
         else if ttl > po_max_session_bytes (en_policy e) then deny r RC_CheckpointTooLarge at e
         else if \<not> ac_active_sessions (en_accounting e) < po_max_sessions (en_policy e)
           then defer_admission r RC_FabricSessionLimit retry ttl at e
         else if workload_active (rq_workload r) e \<ge> wc_max_in_flight_sessions (ax_contract x)
           then defer_admission r RC_SessionLimitPerWorkload retry ttl at e
         else if class_active (ax_isolation x) e \<ge> ie_max_in_flight_sessions (ax_envelope x)
           then defer_admission r RC_ClassCeilingSaturated retry ttl at e
         else if \<not> rp_ok plan then
           (if rp_reason plan = RC_RequestedRateUnsupported \<or> rp_reason plan = RC_DeadlineUnreachable
            then deny r (rp_reason plan) at e
            else defer_admission r (rp_reason plan)
                   (case rp_retry_after plan of None \<Rightarrow> retry | Some t \<Rightarrow> t) ttl at e)
         else admit_session r x (rp_rate_bps plan) targets at e)"

definition decide_admission :: "session_request \<Rightarrow> nanos \<Rightarrow> engine \<Rightarrow> admission_decision result \<times> engine" where
  "decide_admission r at e =
     (case resolve_admission r e of
        Inl reason \<Rightarrow> deny r reason at e
      | Inr x \<Rightarrow>
          (case scan_checkpoint r e (checkpoint_sessions (rq_checkpoint r) e) [] of
             ScanDeny reason \<Rightarrow> deny r reason at e
           | ScanDuplicate existing \<Rightarrow>
               (Inr ((make_decision DK_Admit RC_DuplicateCommand (se_id existing) at e)
                       \<lparr>ad_envelope := Some (se_envelope existing)\<rparr>),
                remember_command (rq_command r) (decided (se_id existing) DK_Admit RC_Admitted r True) e)
           | ScanTargets targets \<Rightarrow> admit_within_limits r x targets at e))"

definition submit_session ::
    "session_request \<Rightarrow> command_fence \<Rightarrow> nanos \<Rightarrow> engine \<Rightarrow> admission_decision result \<times> engine" where
  "submit_session r f at e0 =
     (let e = begin_command at e0;
          verdict = validate_fence f (fabric_context (cf_contract_generation f) e)
      in if fv_status verdict \<noteq> EC_Ok
           then (Inl (fv_status verdict), emit EK_FenceRejected nil_uuid (fv_reason verdict) at e)
         else if rq_policy_generation r \<noteq> cf_policy_generation f then (Inl EC_StalePolicyGeneration, e)
         else if rq_topology_generation r \<noteq> cf_topology_generation f then (Inl EC_StaleTopologyGeneration, e)
         else if rq_contract_generation r \<noteq> cf_contract_generation f then (Inl EC_StaleContractGeneration, e)
         else case map_of (en_command_index e) (rq_command r) of
           Some c \<Rightarrow>
             if cr_fingerprint c \<noteq> fingerprint_request r then (Inl EC_ReplayDetected, e)
             else (Inr (replay_decision c at e), e)
         | None \<Rightarrow> decide_admission r at e)"

section \<open>Revalidation\<close>

definition fail_revalidation ::
    "session_id \<Rightarrow> reason_code \<Rightarrow> string \<Rightarrow> nanos \<Rightarrow> engine \<Rightarrow> admission_decision result \<times> engine" where
  "fail_revalidation sid reason detail at e =
     (let e1 = settle_terminal sid SS_Failed reason detail at e;
          e2 = account (\<lambda>a. a\<lparr>ac_sessions_failed := ac_sessions_failed a + 1\<rparr>) e1
      in (Inr (make_decision DK_Deny reason sid at e2), e2))"

definition fail_state :: "session_record \<Rightarrow> session_record" where
  "fail_state s = s\<lparr>se_state := SS_Failed, se_stale_reason := []\<rparr>"

definition reissue_envelope ::
    "session_id \<Rightarrow> session_record \<Rightarrow> workload_contract \<Rightarrow> path_class_id \<Rightarrow> u64 \<Rightarrow> nanos \<Rightarrow> engine \<Rightarrow>
     admission_decision result \<times> engine" where
  "reissue_envelope sid s0 contract path_id rate_bps at e =
     (let e1 = release_path_reservation sid e;
          (reserved, shaper) = reserve_path_rate path_id rate_bps (en_shaper e1)
      in if \<not> reserved then (Inl EC_ResourceExhausted, e1)
         else
           let seq = se_envelope_sequence s0 + 1;
               envelope = build_envelope (se_request s0) (se_id s0) (te_isolation (se_envelope s0)) path_id rate_bps
                            (burst_bytes_for rate_bps) (wave_width_for contract (length (se_shards s0)) e1) at
                            (at + deadline_horizon (se_request s0) contract) seq;
               e2 = modify_session sid
                      (\<lambda>s. s\<lparr>se_reserved_path := Some path_id, se_reserved_rate_bps := rate_bps,
                             se_envelope_sequence := seq, se_envelope := envelope, se_state := SS_Admitted,
                             se_paused := False, se_stale_reason := [], se_updated_at := at,
                             se_last_reason := RC_Admitted, se_last_detail := ''revalidated''\<rparr>)
                      (e1\<lparr>en_shaper := shaper\<rparr>);
               e3 = on_session sid index_deadline e2;
               e4 = note_timeline sid at (''revalidated envelope_sequence='' @ dec_string (unat seq)) e3
           in (Inr ((make_decision DK_Admit RC_Admitted sid at e4)\<lparr>ad_envelope := Some envelope\<rparr>),
               emit EK_SessionAdmitted sid RC_Admitted at e4))"

definition replan_session ::
    "session_id \<Rightarrow> session_record \<Rightarrow> workload_contract \<Rightarrow> nanos \<Rightarrow> engine \<Rightarrow> admission_decision result \<times> engine" where
  "replan_session sid s contract at e =
     (let path_id = (case te_path_class (se_envelope s) of None \<Rightarrow> 0 | Some p \<Rightarrow> p) in
      case (find_envelope (en_policy e) (te_isolation (se_envelope s)), find_path_class (en_topology e) path_id) of
        (Some envelope, Some path) \<Rightarrow>
          let plan = plan_rate (se_request s) contract envelope path at e in
          if \<not> rp_ok plan then
            if rp_reason plan = RC_RequestedRateUnsupported \<or> rp_reason plan = RC_DeadlineUnreachable then
              fail_revalidation sid (rp_reason plan) (rp_detail plan) at
                (mark_unproven sid (se_outstanding_bytes s) (modify_session sid fail_state e))
            else
              (Inr ((make_decision DK_Defer (rp_reason plan) sid at e)
                      \<lparr>ad_retry_after := Some (case rp_retry_after plan of
                          None \<Rightarrow> at + po_defer_horizon_ns (en_policy e) | Some t \<Rightarrow> t)\<rparr>),
               modify_session sid
                 (\<lambda>s. s\<lparr>se_state := SS_Deferred,
                        se_stale_reason := ''revalidation deferred: '' @ rp_detail plan,
                        se_updated_at := at\<rparr>) e)
          else reissue_envelope sid s contract path_id (rp_rate_bps plan) at e
      | _ \<Rightarrow> (Inr (make_decision DK_Defer RC_DestinationNotPermitted sid at e), e))"

definition revalidate_session ::
    "session_id \<Rightarrow> command_fence \<Rightarrow> nanos \<Rightarrow> engine \<Rightarrow> admission_decision result \<times> engine" where
  "revalidate_session sid f at e0 =
     (let e = begin_command at e0 in
      case lookup_session sid e of
        None \<Rightarrow> (Inl EC_NotFound, e)
      | Some s \<Rightarrow>
          let contract = map_of (en_contracts e) (rq_workload (se_request s));
              verdict = validate_fence f
                (fabric_context (case contract of None \<Rightarrow> 0 | Some c \<Rightarrow> wc_generation c) e)
          in if fv_status verdict \<noteq> EC_Ok
               then (Inl (fv_status verdict), emit EK_FenceRejected sid (fv_reason verdict) at e)
             else if validate_checkpoint_generation s f \<noteq> EC_Ok
               then (Inl (validate_checkpoint_generation s f), e)
             else if se_state s \<noteq> SS_RevalidationRequired \<and> se_state s \<noteq> SS_Deferred
               then (Inl EC_InvalidStateTransition, e)
             else if en_shutting_down e then (Inl EC_ShuttingDown, e)
             else case contract of
               None \<Rightarrow> fail_revalidation sid RC_UnknownWorkload ''workload contract is no longer configured'' at
                         (modify_session sid fail_state e)
             | Some c \<Rightarrow> replan_session sid s c at e)"

end
