(* ===== verification/Engine_Lifecycle.thy ===== *)
theory Engine_Lifecycle
  imports Engine_Admission
begin

text \<open>
  Lifecycle and wave credit, \<^verbatim>\<open>src/engine.cpp\<close> lines 1721 to 2005: pausing, resuming and
  cancelling a session, and granting bounded credit for one shard.
\<close>

section \<open>Pause, resume and cancel\<close>

definition pause_session :: "session_id \<Rightarrow> command_fence \<Rightarrow> string \<Rightarrow> nanos \<Rightarrow> engine \<Rightarrow> status \<times> engine" where
  "pause_session sid f reason at e0 =
     (let e = begin_command at e0 in
      case lookup_session sid e of
        None \<Rightarrow> (EC_NotFound, e)
      | Some s \<Rightarrow>
          if check_fence_status f e \<noteq> EC_Ok then (check_fence_status f e, e)
          else if validate_workload_fence s f e \<noteq> EC_Ok then (validate_workload_fence s f e, e)
          else if is_terminal (se_state s) then (EC_InvalidStateTransition, e)
          else if se_state s = SS_RevalidationRequired then (EC_RevalidationRequired, e)
          else if se_paused s then (EC_AlreadyExists, e)
          else
            (EC_Ok,
             emit EK_SessionPaused sid RC_Admitted at
               (note_timeline sid at ''paused''
                 (modify_session sid
                   (\<lambda>s. settle_reason RC_Admitted reason
                          (s\<lparr>se_paused := True, se_paused_from := se_state s, se_state := SS_Paused,
                             se_updated_at := at\<rparr>)) e))))"

definition resume_session :: "session_id \<Rightarrow> command_fence \<Rightarrow> nanos \<Rightarrow> engine \<Rightarrow> status \<times> engine" where
  "resume_session sid f at e0 =
     (let e = begin_command at e0 in
      case lookup_session sid e of
        None \<Rightarrow> (EC_NotFound, e)
      | Some s \<Rightarrow>
          if check_fence_status f e \<noteq> EC_Ok then (check_fence_status f e, e)
          else if validate_workload_fence s f e \<noteq> EC_Ok then (validate_workload_fence s f e, e)
          else if \<not> se_paused s then (EC_InvalidStateTransition, e)
          else
            (EC_Ok,
             emit EK_SessionResumed sid RC_Admitted at
               (note_timeline sid at ''resumed''
                 (modify_session sid
                   (\<lambda>s. s\<lparr>se_paused := False, se_state := se_paused_from s, se_updated_at := at\<rparr>) e))))"

definition cancel_session ::
    "session_id \<Rightarrow> command_fence \<Rightarrow> reason_code \<Rightarrow> string \<Rightarrow> nanos \<Rightarrow> engine \<Rightarrow> status \<times> engine" where
  "cancel_session sid f reason detail at e0 =
     (let e = begin_command at e0 in
      case lookup_session sid e of
        None \<Rightarrow> (EC_NotFound, e)
      | Some s \<Rightarrow>
          if check_fence_status f e \<noteq> EC_Ok then (check_fence_status f e, e)
          else if is_terminal (se_state s) then (EC_InvalidStateTransition, e)
          else
            let e1 = settle_outstanding_as_cancelled sid e;
                e2 = settle_terminal sid SS_Cancelled reason detail at e1;
                e3 = account (\<lambda>a. a\<lparr>ac_sessions_cancelled := ac_sessions_cancelled a + 1\<rparr>) e2;
                e4 = note_timeline sid at (''cancelled reason='' @ reason_code_to_string reason) e3
            in (EC_Ok, emit EK_SessionCancelled sid reason at e4))"

section \<open>Wave credit\<close>

definition wave_session_status :: "session_record \<Rightarrow> command_fence \<Rightarrow> nanos \<Rightarrow> engine \<Rightarrow> status" where
  "wave_session_status s f at e =
     (if check_fence_status f e \<noteq> EC_Ok then check_fence_status f e
      else if validate_workload_fence s f e \<noteq> EC_Ok then validate_workload_fence s f e
      else if validate_checkpoint_generation s f \<noteq> EC_Ok then validate_checkpoint_generation s f
      else if se_state s = SS_RevalidationRequired \<or> se_state s = SS_Deferred then EC_RevalidationRequired
      else if se_paused s \<or> se_state s = SS_Paused then EC_Deferred
      else if is_terminal (se_state s) then
        (if se_superseded_by s \<noteq> None then EC_Superseded else EC_InvalidStateTransition)
      else if at \<ge> te_deadline_target (se_envelope s) then EC_DeadlineUnreachable
      else EC_Ok)"

definition previous_outstanding :: "session_record \<Rightarrow> shard_record \<Rightarrow> bool" where
  "previous_outstanding s h \<longleftrightarrow>
     (case sh_attempt h of
        None \<Rightarrow> False
      | Some aid \<Rightarrow> (case find_attempt s aid of None \<Rightarrow> False | Some a \<Rightarrow> at_outstanding a))"

definition remaining_bytes :: "shard_record \<Rightarrow> u64" where
  "remaining_bytes h =
     (if sh_declared_bytes h > sh_transferred_bytes h then sh_declared_bytes h - sh_transferred_bytes h else 0)"

definition wave_shard_status :: "session_record \<Rightarrow> shard_record \<Rightarrow> command_fence \<Rightarrow> status" where
  "wave_shard_status s h f =
     (if sh_state h = SH_Verified \<or> sh_state h = SH_Transferred then EC_InvalidStateTransition
      else if sh_state h = SH_Ambiguous then EC_AmbiguousOutcome
      else if cf_attempt_sequence f \<noteq> None \<and> sh_attempt h \<noteq> None \<and>
              cf_attempt_sequence f \<noteq> Some (sh_sequence h) then EC_StaleAttempt
      else if previous_outstanding s h then EC_AmbiguousOutcome
      else if remaining_bytes h = 0 then EC_InvalidStateTransition
      else EC_Ok)"

definition wave_refusal :: "reason_code \<Rightarrow> nanos \<Rightarrow> nanos \<Rightarrow> wave_outcome" where
  "wave_refusal reason retry_after at =
     \<lparr>wo_granted = False, wo_reason = reason, wo_grant = None, wo_retry_after = Some retry_after, wo_decided_at = at\<rparr>"

definition trim_attempts :: "nat \<Rightarrow> attempt_record list \<Rightarrow> attempt_record list" where
  "trim_attempts bound attempts = (if length attempts > bound then drop (length attempts - bound) attempts else attempts)"

definition grant_of ::
    "session_id \<Rightarrow> session_record \<Rightarrow> attempt_id \<Rightarrow> shard_index \<Rightarrow> u64 \<Rightarrow> nanos \<Rightarrow> engine \<Rightarrow> wave_grant" where
  "grant_of sid s aid index chunk at e =
     \<lparr>wg_session = sid, wg_attempt = aid, wg_sequence = se_attempt_counter s + 1, wg_shard = index,
      wg_wave = (case wave_for_shard (se_envelope s) index of None \<Rightarrow> 0 | Some w \<Rightarrow> w),
      wg_max_bytes = chunk, wg_rate_bps = te_rate_bps (se_envelope s),
      wg_burst_bytes = te_burst_bytes (se_envelope s), wg_issued_at = at,
      wg_expires_at = at + kNanosPerSecond, wg_epoch = en_epoch e\<rparr>"

definition granted_attempt :: "wave_grant \<Rightarrow> nanos \<Rightarrow> attempt_record" where
  "granted_attempt g at =
     \<lparr>at_id = wg_attempt g, at_sequence = wg_sequence g, at_shard = wg_shard g, at_wave = wg_wave g,
      at_outcome = AO_InFlight, at_granted_bytes = wg_max_bytes g, at_delivered_bytes = 0,
      at_observed_digest = zero_digest, at_has_observed_digest = False, at_outstanding = True,
      at_granted_at = at, at_updated_at = at\<rparr>"

definition grant_session :: "nat \<Rightarrow> nat \<Rightarrow> wave_grant \<Rightarrow> nanos \<Rightarrow> session_record \<Rightarrow> session_record" where
  "grant_session bound pos g at s =
     s\<lparr>se_attempt_counter := wg_sequence g,
       se_attempts := trim_attempts bound (se_attempts s @ [granted_attempt g at]),
       se_shards := (se_shards s)[pos := (se_shards s ! pos)
         \<lparr>sh_state := SH_InFlight, sh_sequence := wg_sequence g, sh_attempt := Some (wg_attempt g),
          sh_granted_bytes := wg_max_bytes g\<rparr>],
       se_active_attempts := se_active_attempts s + 1,
       se_state := (if se_state s = SS_Admitted \<or> se_state s = SS_SourceComplete then SS_Transferring else se_state s),
       se_updated_at := at\<rparr>"

definition record_grant ::
    "session_id \<Rightarrow> session_record \<Rightarrow> nat \<Rightarrow> shard_index \<Rightarrow> u64 \<Rightarrow> nanos \<Rightarrow> engine \<Rightarrow> wave_outcome result \<times> engine" where
  "record_grant sid s pos index chunk at e =
     (let (aid, factory) = id_factory_next (en_id_factory e);
          g = grant_of sid s aid index chunk at e;
          e1 = put_session sid (grant_session (timeline_bound e) pos g at s) (e\<lparr>en_id_factory := factory\<rparr>);
          e2 = account (\<lambda>a. a\<lparr>ac_active_attempts := ac_active_attempts a + 1\<rparr>) e1;
          e3 = note_timeline sid at (''grant shard='' @ index_to_string index @ '' bytes='' @ dec_string (unat chunk) @
                 '' attempt='' @ uuid_to_string aid) e2
      in (Inr \<lparr>wo_granted = True, wo_reason = RC_Admitted, wo_grant = Some g, wo_retry_after = None, wo_decided_at = at\<rparr>,
          emit EK_WaveGranted sid RC_Admitted at e3))"

definition grant_credit ::
    "session_id \<Rightarrow> session_record \<Rightarrow> nat \<Rightarrow> shard_index \<Rightarrow> nanos \<Rightarrow> engine \<Rightarrow> wave_outcome result \<times> engine" where
  "grant_credit sid s pos index at e =
     (let c = te_isolation (se_envelope s);
          remaining = remaining_bytes (se_shards s ! pos);
          useful = min remaining kMinGrantChunk;
          (available, sp1) = class_tokens_at c at (en_shaper e);
          e1 = e\<lparr>en_shaper := sp1\<rparr>
      in if available < useful then
           let (wait, sp2) = class_time_until_at c useful at (en_shaper e1)
           in (Inr (wave_refusal RC_ClassCeilingSaturated (at + wait) at),
               emit EK_SessionDeferred sid RC_ClassCeilingSaturated at (e1\<lparr>en_shaper := sp2\<rparr>))
         else
           let chunk = min (min remaining kMaxGrantChunk) available;
               (verdict, sp2) = shaper_try_consume c (rq_workload (se_request s)) chunk at (en_shaper e1);
               e2 = e1\<lparr>en_shaper := sp2\<rparr>
           in if \<not> sv_admitted verdict
              then (Inr (wave_refusal (sv_reason verdict) (sv_retry_after verdict) at),
                    emit EK_SessionDeferred sid (sv_reason verdict) at e2)
              else record_grant sid s pos index chunk at e2)"

definition request_wave ::
    "session_id \<Rightarrow> shard_index \<Rightarrow> command_fence \<Rightarrow> nanos \<Rightarrow> engine \<Rightarrow> wave_outcome result \<times> engine" where
  "request_wave sid index f at e0 =
     (let e = begin_command at e0 in
      case lookup_session sid e of
        None \<Rightarrow> (Inl EC_NotFound, e)
      | Some s \<Rightarrow>
          if wave_session_status s f at e \<noteq> EC_Ok then (Inl (wave_session_status s f at e), e)
          else if ac_active_attempts (en_accounting e) \<ge> po_max_attempts_in_flight (en_policy e)
            then (Inr (wave_refusal RC_ResourceLimit (at + po_defer_horizon_ns (en_policy e)) at), e)
          else case shard_position s index of
            None \<Rightarrow> (Inl EC_NotFound, e)
          | Some pos \<Rightarrow>
              if wave_shard_status s (se_shards s ! pos) f \<noteq> EC_Ok
                then (Inl (wave_shard_status s (se_shards s ! pos) f), e)
              else grant_credit sid s pos index at e)"

end
