(* ===== verification/Engine_Evidence.thy ===== *)
theory Engine_Evidence
  imports Engine_Lifecycle
begin

text \<open>
  Evidence, \<^verbatim>\<open>src/engine.cpp\<close> lines 2011 to 2478: source completion, transfer, verification,
  ambiguity and external durability reports. Each report is fenced, correlated with the
  current attempt of its shard, and only then moves bytes between the accounting buckets.
\<close>

section \<open>Shared steps\<close>

definition set_shard :: "nat \<Rightarrow> (shard_record \<Rightarrow> shard_record) \<Rightarrow> session_record \<Rightarrow> session_record" where
  "set_shard pos f s = s\<lparr>se_shards := (se_shards s)[pos := f (se_shards s ! pos)]\<rparr>"

definition set_attempt :: "attempt_id \<Rightarrow> (attempt_record \<Rightarrow> attempt_record) \<Rightarrow> session_record \<Rightarrow> session_record" where
  "set_attempt aid f s = s\<lparr>se_attempts := update_attempt aid f (se_attempts s)\<rparr>"

definition drop_active_attempt :: "session_id \<Rightarrow> engine \<Rightarrow> engine" where
  "drop_active_attempt sid e =
     on_session sid (\<lambda>s e.
       if se_active_attempts s > 0
       then account (\<lambda>a. a\<lparr>ac_active_attempts := ac_active_attempts a - 1\<rparr>)
              (put_session sid (s\<lparr>se_active_attempts := se_active_attempts s - 1\<rparr>) e)
       else e) e"

definition evidence_status :: "session_record \<Rightarrow> command_fence \<Rightarrow> engine \<Rightarrow> status" where
  "evidence_status s f e =
     (if check_fence_status f e \<noteq> EC_Ok then check_fence_status f e
      else if validate_workload_fence s f e \<noteq> EC_Ok then validate_workload_fence s f e
      else if is_terminal (se_state s) then EC_InvalidStateTransition
      else EC_Ok)"

definition announce_completion :: "session_id \<Rightarrow> nanos \<Rightarrow> engine \<Rightarrow> engine" where
  "announce_completion sid at e =
     on_session sid (\<lambda>s e.
       if se_state s = SS_TrafficSessionComplete
       then emit EK_SessionCompleted sid RC_Admitted at (note_timeline sid at ''completed'' e)
       else e) e"

definition progress_and_announce :: "session_id \<Rightarrow> nanos \<Rightarrow> engine \<Rightarrow> engine" where
  "progress_and_announce sid at e =
     on_session sid (\<lambda>s e.
       if is_terminal (se_state s) then recompute_progress sid at e
       else announce_completion sid at (recompute_progress sid at e)) e"

definition undelivered_bytes :: "attempt_record \<Rightarrow> u64" where
  "undelivered_bytes a =
     (if at_granted_bytes a > at_delivered_bytes a then at_granted_bytes a - at_delivered_bytes a else 0)"

section \<open>Source completion\<close>

definition source_complete_shard :: "u64 \<Rightarrow> shard_record \<Rightarrow> shard_record" where
  "source_complete_shard n h =
     h\<lparr>sh_source_complete := True, sh_source_bytes := n,
       sh_state := (if sh_state h = SH_Pending \<or> sh_state h = SH_Granted then SH_InFlight else sh_state h)\<rparr>"

definition note_source :: "nanos \<Rightarrow> session_record \<Rightarrow> session_record" where
  "note_source at s = s\<lparr>se_source_complete := list_all sh_source_complete (se_shards s), se_updated_at := at\<rparr>"

definition report_source_complete ::
    "source_complete_evidence \<Rightarrow> command_fence \<Rightarrow> nanos \<Rightarrow> engine \<Rightarrow> status \<times> engine" where
  "report_source_complete ev f at e0 =
     (let e = begin_command at e0; sid = sc_session ev in
      case lookup_session sid e of
        None \<Rightarrow> (EC_NotFound, e)
      | Some s \<Rightarrow>
          if evidence_status s f e \<noteq> EC_Ok then (evidence_status s f e, e)
          else case shard_position s (sc_shard ev) of
            None \<Rightarrow> (EC_NotFound, e)
          | Some pos \<Rightarrow>
              let h = se_shards s ! pos in
              if sc_source_bytes ev > sh_declared_bytes h then (EC_ImpossibleState, e)
              else if sh_source_complete h \<and> sh_source_bytes h \<noteq> sc_source_bytes ev then (EC_ImpossibleState, e)
              else
                let e1 = put_session sid
                           (note_source at (set_shard pos (source_complete_shard (sc_source_bytes ev)) s)) e
                in (EC_Ok, emit EK_SourceCompleteObserved sid RC_Admitted at (progress_and_announce sid at e1)))"

section \<open>Transfer\<close>

definition transfer_attempt_status :: "attempt_record \<Rightarrow> transfer_evidence \<Rightarrow> status" where
  "transfer_attempt_status a ev =
     (if at_sequence a \<noteq> tr_sequence ev then EC_StaleAttempt
      else if at_outcome a = AO_Ambiguous then EC_AmbiguousOutcome
      else if at_outcome a = AO_Failed then EC_InvalidStateTransition
      else if at_outcome a = AO_Released \<or> at_outcome a = AO_Superseded then EC_StaleEvidence
      else if tr_arrived_bytes ev > at_granted_bytes a then EC_ImpossibleState
      else if at_delivered_bytes a > tr_arrived_bytes ev then EC_ImpossibleState
      else EC_Ok)"

definition observe_delivery :: "transfer_evidence \<Rightarrow> nanos \<Rightarrow> attempt_record \<Rightarrow> attempt_record" where
  "observe_delivery ev at a =
     a\<lparr>at_delivered_bytes := tr_arrived_bytes ev, at_observed_digest := tr_arrived_digest ev,
       at_has_observed_digest := True, at_updated_at := at\<rparr>"

definition receive_bytes :: "u64 \<Rightarrow> digest \<Rightarrow> shard_record \<Rightarrow> shard_record" where
  "receive_bytes n d h = h\<lparr>sh_transferred_bytes := sh_transferred_bytes h + n,
                           sh_observed_digest := d, sh_has_observed_digest := True\<rparr>"

definition settle_received :: "shard_record \<Rightarrow> shard_record" where
  "settle_received h =
     (if sh_transferred_bytes h \<ge> sh_declared_bytes h \<and> sh_state h \<noteq> SH_Verified
      then h\<lparr>sh_state := SH_Transferred\<rparr> else h)"

definition acknowledge_transfer ::
    "session_id \<Rightarrow> nat \<Rightarrow> transfer_evidence \<Rightarrow> u64 \<Rightarrow> engine \<Rightarrow> engine" where
  "acknowledge_transfer sid pos ev newly e =
     (let e1 = modify_session sid
                 (\<lambda>s. set_shard pos (receive_bytes newly (tr_arrived_digest ev))
                   (set_attempt (tr_attempt ev) (\<lambda>a. a\<lparr>at_outcome := AO_DeliveredAcked, at_outstanding := False\<rparr>)
                     (s\<lparr>se_outstanding_bytes :=
                          (if newly > se_outstanding_bytes s then 0 else se_outstanding_bytes s - newly),
                        se_transferred_bytes := se_transferred_bytes s + newly\<rparr>))) e;
          e2 = account (\<lambda>a. a\<lparr>ac_granted_outstanding_bytes :=
                                 ac_granted_outstanding_bytes a - min newly (ac_granted_outstanding_bytes a),
                              ac_bytes_transferred := ac_bytes_transferred a + newly\<rparr>) e1;
          e3 = drop_active_attempt sid e2
      in modify_session sid (set_shard pos settle_received) e3)"

definition report_transfer :: "transfer_evidence \<Rightarrow> command_fence \<Rightarrow> nanos \<Rightarrow> engine \<Rightarrow> status \<times> engine" where
  "report_transfer ev f at e0 =
     (let e = begin_command at e0; sid = tr_session ev in
      case lookup_session sid e of
        None \<Rightarrow> (EC_NotFound, e)
      | Some s \<Rightarrow>
          if evidence_status s f e \<noteq> EC_Ok then (evidence_status s f e, e)
          else case shard_position s (tr_shard ev) of
            None \<Rightarrow> (EC_NotFound, e)
          | Some pos \<Rightarrow>
              if sh_attempt (se_shards s ! pos) \<noteq> Some (tr_attempt ev) then (EC_StaleAttempt, e)
              else case find_attempt s (tr_attempt ev) of
                None \<Rightarrow> (EC_NotFound, e)
              | Some a \<Rightarrow>
                  if transfer_attempt_status a ev \<noteq> EC_Ok then (transfer_attempt_status a ev, e)
                  else
                    let newly = tr_arrived_bytes ev - at_delivered_bytes a;
                        e1 = put_session sid (set_attempt (tr_attempt ev) (observe_delivery ev at) s) e
                    in if tr_sink_acknowledged ev \<and> newly > se_outstanding_bytes s then (EC_ImpossibleState, e1)
                       else
                         let e2 = (if tr_sink_acknowledged ev then acknowledge_transfer sid pos ev newly e1
                                   else modify_session sid
                                     (set_attempt (tr_attempt ev) (\<lambda>a. a\<lparr>at_outcome := AO_DeliveredUnacked\<rparr>)) e1)
                         in (EC_Ok, emit EK_TransferObserved sid RC_Admitted at (progress_and_announce sid at e2)))"

section \<open>Verification\<close>

definition fail_verification :: "session_id \<Rightarrow> nat \<Rightarrow> attempt_id \<Rightarrow> string \<Rightarrow> nanos \<Rightarrow> engine \<Rightarrow> engine" where
  "fail_verification sid pos aid detail at e =
     account (\<lambda>a. a\<lparr>ac_sessions_failed := ac_sessions_failed a + 1\<rparr>)
       (settle_terminal sid SS_Failed RC_VerificationMismatch detail at
         (modify_session sid
           (\<lambda>s. set_shard pos (\<lambda>h. h\<lparr>sh_state := SH_Failed\<rparr>)
                  (set_attempt aid (\<lambda>a. a\<lparr>at_outcome := AO_Failed\<rparr>) s)) e))"

definition verify_shard :: "verification_evidence \<Rightarrow> shard_record \<Rightarrow> shard_record" where
  "verify_shard ev h =
     h\<lparr>sh_verified_bytes := vf_verified_bytes ev, sh_observed_digest := vf_verified_digest ev,
       sh_has_observed_digest := True, sh_state := SH_Verified\<rparr>"

definition accept_verification :: "session_id \<Rightarrow> nat \<Rightarrow> verification_evidence \<Rightarrow> engine \<Rightarrow> engine" where
  "accept_verification sid pos ev e =
     on_session sid (\<lambda>s e.
       let previously = sh_verified_bytes (se_shards s ! pos);
           delta = (if vf_verified_bytes ev > previously then vf_verified_bytes ev - previously else 0)
       in account (\<lambda>a. a\<lparr>ac_bytes_verified := ac_bytes_verified a + delta\<rparr>)
            (put_session sid
              (set_shard pos (verify_shard ev)
                (set_attempt (vf_attempt ev) (\<lambda>a. a\<lparr>at_outcome := AO_Verified\<rparr>)
                  (s\<lparr>se_verified_bytes := se_verified_bytes s + delta\<rparr>))) e)) e"

definition rearm_truncated :: "session_id \<Rightarrow> nat \<Rightarrow> verification_evidence \<Rightarrow> nanos \<Rightarrow> engine \<Rightarrow> engine" where
  "rearm_truncated sid pos ev at e =
     (let aid = vf_attempt ev;
          e1 = modify_session sid
                 (\<lambda>s. set_shard pos (\<lambda>h. h\<lparr>sh_state := SH_Pending, sh_sequence := 0\<rparr>)
                        (set_attempt aid (\<lambda>a. a\<lparr>at_outcome := AO_Failed\<rparr>) s)) e;
          e2 = on_session sid (\<lambda>s e.
                 case find_attempt s aid of
                   Some a \<Rightarrow>
                     if at_outstanding a
                     then drop_active_attempt sid
                            (put_session sid (set_attempt aid (\<lambda>a. a\<lparr>at_outstanding := False\<rparr>) s) e)
                     else e
                 | None \<Rightarrow> e) e1
      in on_session sid (\<lambda>s e.
           let already = sh_transferred_bytes (se_shards s ! pos) in
           account (\<lambda>a. a\<lparr>ac_bytes_transferred := ac_bytes_transferred a - min already (ac_bytes_transferred a),
                          ac_bytes_wasted := ac_bytes_wasted a + already,
                          ac_granted_outstanding_bytes := ac_granted_outstanding_bytes a + already,
                          ac_bytes_admitted := ac_bytes_admitted a + already\<rparr>)
             (put_session sid
               (set_shard pos (\<lambda>h. h\<lparr>sh_transferred_bytes := 0, sh_granted_bytes := 0, sh_attempt := None\<rparr>)
                 (s\<lparr>se_transferred_bytes :=
                      (if se_transferred_bytes s > already then se_transferred_bytes s - already else 0),
                    se_wasted_bytes := se_wasted_bytes s + already,
                    se_outstanding_bytes := se_outstanding_bytes s + already,
                    se_admitted_bytes := se_admitted_bytes s + already,
                    se_updated_at := at\<rparr>)) e)) e2)"

definition record_ambiguity :: "session_id \<Rightarrow> attempt_id \<Rightarrow> string \<Rightarrow> string \<Rightarrow> nanos \<Rightarrow> engine \<Rightarrow> engine" where
  "record_ambiguity sid aid detail timeline_text at e =
     (let e1 = on_session sid (\<lambda>s.
                 case find_attempt s aid of
                   Some a \<Rightarrow> mark_unproven sid (undelivered_bytes a)
                 | None \<Rightarrow> (\<lambda>e. e)) e;
          e2 = modify_session sid (\<lambda>s. settle_reason RC_AmbiguousSinkOutcome detail (s\<lparr>se_updated_at := at\<rparr>)) e1;
          e3 = note_timeline sid at timeline_text e2
      in recompute_progress sid at e3)"

definition report_verified ::
    "verification_evidence \<Rightarrow> nat \<Rightarrow> session_record \<Rightarrow> nanos \<Rightarrow> engine \<Rightarrow> status \<times> engine" where
  "report_verified ev pos s at e =
     (let sid = vf_session ev; h = se_shards s ! pos in
      if vf_verified_bytes ev \<noteq> sh_declared_bytes h then
        (EC_VerificationMismatch,
         fail_verification sid pos (vf_attempt ev) ''verified byte count does not match the declared shard size'' at e)
      else if \<not> digest_is_zero (sh_declared_digest h) \<and> vf_verified_digest ev \<noteq> sh_declared_digest h then
        (EC_VerificationMismatch,
         emit_for EK_VerificationObserved sid RC_VerificationMismatch at
           (fail_verification sid pos (vf_attempt ev) ''destination digest does not match the declared digest'' at e))
      else
        (EC_Ok, emit EK_VerificationObserved sid RC_Admitted at
                  (progress_and_announce sid at (accept_verification sid pos ev e))))"

definition report_truncated ::
    "verification_evidence \<Rightarrow> nat \<Rightarrow> nanos \<Rightarrow> engine \<Rightarrow> status \<times> engine" where
  "report_truncated ev pos at e =
     (let sid = vf_session ev;
          e1 = rearm_truncated sid pos ev at e;
          e2 = note_timeline sid at (''shard '' @ index_to_string (vf_shard ev) @ '' truncated; retry permitted'') e1
      in (EC_Ok, emit EK_VerificationObserved sid RC_VerificationMismatch at (recompute_progress sid at e2)))"

definition report_unresolved ::
    "verification_evidence \<Rightarrow> nat \<Rightarrow> nanos \<Rightarrow> engine \<Rightarrow> status \<times> engine" where
  "report_unresolved ev pos at e =
     (let sid = vf_session ev; aid = vf_attempt ev;
          e1 = modify_session sid
                 (\<lambda>s. set_shard pos (\<lambda>h. h\<lparr>sh_state := SH_Ambiguous\<rparr>)
                        (set_attempt aid (\<lambda>a. a\<lparr>at_outcome := AO_Ambiguous, at_outstanding := False\<rparr>) s)) e;
          e2 = drop_active_attempt sid e1;
          e3 = record_ambiguity sid aid ''destination outcome is ambiguous''
                 (''shard '' @ index_to_string (vf_shard ev) @ '' outcome ambiguous; unproven bytes recorded'') at e2
      in (EC_Ok, emit EK_AmbiguityRecorded sid RC_AmbiguousSinkOutcome at e3))"

definition report_verification :: "verification_evidence \<Rightarrow> command_fence \<Rightarrow> nanos \<Rightarrow> engine \<Rightarrow> status \<times> engine" where
  "report_verification ev f at e0 =
     (let e = begin_command at e0; sid = vf_session ev in
      case lookup_session sid e of
        None \<Rightarrow> (EC_NotFound, e)
      | Some s \<Rightarrow>
          if evidence_status s f e \<noteq> EC_Ok then (evidence_status s f e, e)
          else case shard_position s (vf_shard ev) of
            None \<Rightarrow> (EC_NotFound, e)
          | Some pos \<Rightarrow>
              if sh_attempt (se_shards s ! pos) \<noteq> Some (vf_attempt ev) then (EC_StaleAttempt, e)
              else case find_attempt s (vf_attempt ev) of
                None \<Rightarrow> (EC_StaleAttempt, e)
              | Some a \<Rightarrow>
                  if at_sequence a \<noteq> vf_sequence ev then (EC_StaleAttempt, e)
                  else if at_outcome a \<noteq> AO_DeliveredAcked \<and> at_outcome a \<noteq> AO_Verified \<and>
                          vf_outcome ev = VO_Verified then (EC_StaleEvidence, e)
                  else (case vf_outcome ev of
                     VO_Verified \<Rightarrow> report_verified ev pos s at e
                   | VO_DigestMismatch \<Rightarrow>
                       (EC_Ok, emit_for EK_VerificationObserved sid RC_VerificationMismatch at
                          (fail_verification sid pos (vf_attempt ev) ''destination reported a digest mismatch'' at e))
                   | VO_Truncated \<Rightarrow> report_truncated ev pos at e
                   | VO_Ambiguous \<Rightarrow> report_unresolved ev pos at e
                   | VO_Rejected \<Rightarrow> report_unresolved ev pos at e))"

section \<open>Ambiguity and durability\<close>

definition ambiguous_session :: "attempt_record \<Rightarrow> nanos \<Rightarrow> session_record \<Rightarrow> session_record" where
  "ambiguous_session a at s =
     set_attempt (at_id a) (\<lambda>a. a\<lparr>at_outcome := AO_Ambiguous, at_updated_at := at\<rparr>)
       (case shard_position s (at_shard a) of
          None \<Rightarrow> s
        | Some pos \<Rightarrow>
            set_shard pos (\<lambda>h. if sh_state h \<noteq> SH_Verified \<and> sh_state h \<noteq> SH_Transferred
                                then h\<lparr>sh_state := SH_Ambiguous\<rparr> else h) s)"

definition report_ambiguous ::
    "session_id \<Rightarrow> attempt_id \<Rightarrow> attempt_sequence \<Rightarrow> string \<Rightarrow> command_fence \<Rightarrow> nanos \<Rightarrow> engine \<Rightarrow> status \<times> engine" where
  "report_ambiguous sid aid sequence cause f at e0 =
     (let e = begin_command at e0 in
      case lookup_session sid e of
        None \<Rightarrow> (EC_NotFound, e)
      | Some s \<Rightarrow>
          if check_fence_status f e \<noteq> EC_Ok then (check_fence_status f e, e)
          else if is_terminal (se_state s) then (EC_InvalidStateTransition, e)
          else case find_attempt s aid of
            None \<Rightarrow> (EC_NotFound, e)
          | Some a \<Rightarrow>
              if at_sequence a \<noteq> sequence then (EC_StaleAttempt, e)
              else
                let e1 = (if at_outstanding a
                          then drop_active_attempt sid
                                 (put_session sid (set_attempt aid (\<lambda>a. a\<lparr>at_outstanding := False\<rparr>) s) e)
                          else e);
                    e2 = modify_session sid (ambiguous_session a at) e1;
                    e3 = record_ambiguity sid aid cause (''ambiguity recorded: '' @ cause) at e2
                in (EC_Ok, emit EK_AmbiguityRecorded sid RC_AmbiguousSinkOutcome at e3))"

definition record_durability_assertion ::
    "session_id \<Rightarrow> durability_assertion \<Rightarrow> command_fence \<Rightarrow> nanos \<Rightarrow> engine \<Rightarrow> status \<times> engine" where
  "record_durability_assertion sid d f at e0 =
     (let e = e0\<lparr>en_commands_processed := en_commands_processed e0 + 1\<rparr> in
      case lookup_session sid e of
        None \<Rightarrow> (EC_NotFound, e)
      | Some s \<Rightarrow>
          if check_fence_status f e \<noteq> EC_Ok then (check_fence_status f e, e)
          else if da_status d = DS_ExternallyAsserted \<and>
                  (da_backend_identity d = [] \<or> length (da_backend_identity d) > lim_max_string_bytes (en_limits e))
            then (EC_InvalidArgument, e)
          else if da_status d = DS_ExternallyAsserted \<and> se_evidence s \<noteq> EL_VerifiedAtDestination \<and>
                  se_evidence s \<noteq> EL_Transferred
            then (EC_NotDurable, e)
          else
            (EC_Ok,
             emit EK_DurabilityAsserted sid RC_Admitted at
               (note_timeline sid at (''durability assertion recorded: '' @ durability_status_to_string (da_status d) @
                    '' backend='' @ da_backend_identity d)
                 (modify_session sid
                   (\<lambda>s. s\<lparr>se_durability := d\<lparr>da_observed_at := at\<rparr>, se_updated_at := at\<rparr>) e))))"

end
