(* ===== verification/Engine_Inspect.thy ===== *)
theory Engine_Inspect
  imports Engine_Snapshot Engine_Evidence
begin

text \<open>
  Inspection, shutdown and the engine's own consistency check, \<^verbatim>\<open>src/engine.cpp\<close> lines 2484 to
  2788. \<open>check_invariants\<close> is the code's own self-check, translated so that theorems can say
  which states pass it.
\<close>

section \<open>Views\<close>

record shard_progress =
  sg_index :: shard_index
  sg_state :: shard_state
  sg_declared_bytes :: u64
  sg_transferred_bytes :: u64
  sg_verified_bytes :: u64
  sg_sequence :: attempt_sequence
  sg_attempt :: "attempt_id option"
  sg_declared_digest :: digest
  sg_observed_digest :: "digest option"

record session_view =
  vw_session :: session_id
  vw_checkpoint :: checkpoint_id
  vw_checkpoint_generation :: generation
  vw_workload :: workload_id
  vw_contract_generation :: generation
  vw_isolation :: isolation_class
  vw_destination :: destination_class
  vw_state :: session_state
  vw_evidence :: evidence_level
  vw_durability :: durability_status
  vw_declared_bytes :: u64
  vw_transferred_bytes :: u64
  vw_verified_bytes :: u64
  vw_shards_total :: nat
  vw_shards_transferred :: nat
  vw_shards_verified :: nat
  vw_shards_ambiguous :: nat
  vw_last_reason :: "reason_code option"
  vw_last_detail :: string
  vw_stale_reason :: string
  vw_superseded_by :: "session_id option"
  vw_envelope :: "traffic_envelope option"
  vw_shards :: "shard_progress list"
  vw_created_at :: nanos
  vw_updated_at :: nanos
  vw_deadline_target :: "nanos option"

record session_summary =
  su_session :: session_id
  su_checkpoint :: checkpoint_id
  su_checkpoint_generation :: generation
  su_workload :: workload_id
  su_state :: session_state
  su_evidence :: evidence_level
  su_declared_bytes :: u64
  su_transferred_bytes :: u64
  su_verified_bytes :: u64
  su_updated_at :: nanos

record explanation =
  xp_session :: session_id
  xp_summary :: string
  xp_timeline :: "string list"

definition progress_of :: "shard_record \<Rightarrow> shard_progress" where
  "progress_of h =
     \<lparr>sg_index = sh_index h, sg_state = sh_state h, sg_declared_bytes = sh_declared_bytes h,
      sg_transferred_bytes = sh_transferred_bytes h, sg_verified_bytes = sh_verified_bytes h,
      sg_sequence = sh_sequence h, sg_attempt = sh_attempt h, sg_declared_digest = sh_declared_digest h,
      sg_observed_digest = (if sh_has_observed_digest h then Some (sh_observed_digest h) else None)\<rparr>"

definition view_of :: "session_record \<Rightarrow> session_view" where
  "view_of s =
     \<lparr>vw_session = se_id s, vw_checkpoint = rq_checkpoint (se_request s),
      vw_checkpoint_generation = rq_checkpoint_generation (se_request s),
      vw_workload = rq_workload (se_request s),
      vw_contract_generation = rq_contract_generation (se_request s),
      vw_isolation = te_isolation (se_envelope s), vw_destination = rq_destination (se_request s),
      vw_state = se_state s, vw_evidence = se_evidence s, vw_durability = da_status (se_durability s),
      vw_declared_bytes = mf_total_bytes (rq_manifest (se_request s)),
      vw_transferred_bytes = se_transferred_bytes s, vw_verified_bytes = se_verified_bytes s,
      vw_shards_total = length (se_shards s),
      vw_shards_transferred = count_shards {SH_Transferred, SH_Verified} s,
      vw_shards_verified = count_shards {SH_Verified} s,
      vw_shards_ambiguous = count_shards {SH_Ambiguous} s,
      vw_last_reason = Some (se_last_reason s), vw_last_detail = se_last_detail s,
      vw_stale_reason = se_stale_reason s, vw_superseded_by = se_superseded_by s,
      vw_envelope = Some (se_envelope s), vw_shards = map progress_of (se_shards s),
      vw_created_at = se_created_at s, vw_updated_at = se_updated_at s,
      vw_deadline_target = (if te_deadline_target (se_envelope s) > 0
                            then Some (te_deadline_target (se_envelope s)) else None)\<rparr>"

definition view_session :: "session_id \<Rightarrow> engine \<Rightarrow> session_view result" where
  "view_session sid e = (case lookup_session sid e of None \<Rightarrow> Inl EC_NotFound | Some s \<Rightarrow> Inr (view_of s))"

definition summary_of :: "session_record \<Rightarrow> session_summary" where
  "summary_of s =
     \<lparr>su_session = se_id s, su_checkpoint = rq_checkpoint (se_request s),
      su_checkpoint_generation = rq_checkpoint_generation (se_request s),
      su_workload = rq_workload (se_request s), su_state = se_state s, su_evidence = se_evidence s,
      su_declared_bytes = mf_total_bytes (rq_manifest (se_request s)),
      su_transferred_bytes = se_transferred_bytes s, su_verified_bytes = se_verified_bytes s,
      su_updated_at = se_updated_at s\<rparr>"

definition list_bound :: "nat \<Rightarrow> engine \<Rightarrow> nat" where
  "list_bound limit e = min (if limit = 0 then 64 else limit) (unat (lim_max_sessions (en_limits e)))"

definition list_sessions :: "workload_id option \<Rightarrow> nat \<Rightarrow> engine \<Rightarrow> session_summary list" where
  "list_sessions workload limit e =
     (case workload of
        Some w \<Rightarrow>
          take (list_bound limit e)
            (map summary_of (List.map_filter (\<lambda>sid. lookup_session sid e)
               (case map_of (en_by_workload e) w of None \<Rightarrow> [] | Some ids \<Rightarrow> ids)))
      | None \<Rightarrow>
          sort_key su_updated_at (sort_key su_session
            (take (list_bound limit e) (map (\<lambda>(sid, s). summary_of s) (en_sessions e)))))"

definition explain :: "session_id \<Rightarrow> engine \<Rightarrow> explanation result" where
  "explain sid e =
     (case lookup_session sid e of
        None \<Rightarrow> Inl EC_NotFound
      | Some s \<Rightarrow>
          Inr \<lparr>xp_session = se_id s,
               xp_summary =
                 ''state='' @ session_state_to_string (se_state s) @
                 '' evidence='' @ evidence_level_to_string (se_evidence s) @
                 '' declared='' @ dec_string (unat (mf_total_bytes (rq_manifest (se_request s)))) @
                 '' transferred='' @ dec_string (unat (se_transferred_bytes s)) @
                 '' verified='' @ dec_string (unat (se_verified_bytes s)) @
                 '' outstanding='' @ dec_string (unat (se_outstanding_bytes s)) @
                 '' cancelled='' @ dec_string (unat (se_cancelled_bytes s)) @
                 '' unproven='' @ dec_string (unat (se_unproven_bytes s)) @
                 '' wasted='' @ dec_string (unat (se_wasted_bytes s)) @
                 '' durability='' @ durability_status_to_string (da_status (se_durability s)),
               xp_timeline = se_timeline s\<rparr>)"

definition timeline_entries :: "engine \<Rightarrow> nat" where
  "timeline_entries e = (\<Sum>(sid, s)\<leftarrow>en_sessions e. length (se_timeline s) + length (se_attempts s))"

section \<open>Time and shutdown\<close>

definition poll_deadlines :: "nanos \<Rightarrow> engine \<Rightarrow> status \<times> engine" where
  "poll_deadlines at e = (EC_Ok, enforce_deadlines at e)"

definition begin_shutdown :: "nanos \<Rightarrow> engine \<Rightarrow> status \<times> engine" where
  "begin_shutdown at e =
     (if en_shutting_down e then (EC_ShuttingDown, e)
      else (EC_Ok, emit EK_Shutdown nil_uuid RC_FabricShuttingDown at (e\<lparr>en_shutting_down := True\<rparr>)))"

section \<open>Self-check\<close>

definition session_balances :: "session_record \<Rightarrow> bool" where
  "session_balances s \<longleftrightarrow>
     se_transferred_bytes s + se_wasted_bytes s + se_cancelled_bytes s + se_unproven_bytes s +
       se_outstanding_bytes s = se_admitted_bytes s"

definition all_shards_verified :: "session_record \<Rightarrow> bool" where
  "all_shards_verified s \<longleftrightarrow> list_all (\<lambda>h. sh_state h = SH_Verified) (se_shards s)"

definition session_check :: "policy_snapshot \<Rightarrow> session_record \<Rightarrow> status" where
  "session_check policy s =
     (if map sh_index (se_shards s) \<noteq> map sd_index (mf_shards (rq_manifest (se_request s))) then EC_CorruptState
      else if se_transferred_bytes s > se_admitted_bytes s then EC_AccountingImbalance
      else if se_verified_bytes s > se_transferred_bytes s then EC_AccountingImbalance
      else if \<not> session_balances s then EC_AccountingImbalance
      else if se_outstanding_bytes s > se_admitted_bytes s then EC_AccountingImbalance
      else if is_terminal (se_state s) \<and> (se_outstanding_bytes s \<noteq> 0 \<or> se_active_attempts s \<noteq> 0)
        then EC_AccountingImbalance
      else if \<not> is_nil (te_session (se_envelope s)) \<and> te_session (se_envelope s) \<noteq> se_id s then EC_CorruptState
      else if se_evidence s = EL_VerifiedAtDestination \<and> \<not> all_shards_verified s then EC_CorruptState
      else if se_state s = SS_TrafficSessionComplete \<and> po_require_destination_verification policy \<and>
              \<not> all_shards_verified s then EC_CorruptState
      else EC_Ok)"

definition sum_sessions :: "(session_record \<Rightarrow> 'a::comm_monoid_add) \<Rightarrow> engine \<Rightarrow> 'a" where
  "sum_sessions f e = (\<Sum>(sid, s)\<leftarrow>en_sessions e. f s)"

definition aggregate_check :: "engine \<Rightarrow> status" where
  "aggregate_check e =
     (let a = en_accounting e; p = en_pruned e in
      if pt_admitted p + sum_sessions se_admitted_bytes e \<noteq> ac_bytes_admitted a \<or>
         pt_transferred p + sum_sessions se_transferred_bytes e \<noteq> ac_bytes_transferred a \<or>
         pt_verified p + sum_sessions se_verified_bytes e \<noteq> ac_bytes_verified a \<or>
         pt_cancelled p + sum_sessions se_cancelled_bytes e \<noteq> ac_bytes_cancelled a \<or>
         pt_wasted p + sum_sessions se_wasted_bytes e \<noteq> ac_bytes_wasted a \<or>
         pt_unproven p + sum_sessions se_unproven_bytes e \<noteq> ac_bytes_unproven a \<or>
         sum_sessions se_outstanding_bytes e \<noteq> ac_granted_outstanding_bytes a then EC_AccountingImbalance
      else if sum_sessions (\<lambda>s. if is_active (se_state s) then 1 else 0) e \<noteq> ac_active_sessions a \<or>
              sum_sessions se_active_attempts e \<noteq> ac_active_attempts a then EC_AccountingImbalance
      else EC_Ok)"

definition index_check :: "engine \<Rightarrow> status" where
  "index_check e =
     (if \<not> list_all (\<lambda>(w, ids). list_all (\<lambda>sid. lookup_session sid e \<noteq> None) ids) (en_by_workload e)
        then EC_CorruptState
      else if \<not> list_all (\<lambda>(c, ids). list_all (\<lambda>sid. lookup_session sid e \<noteq> None) ids) (en_by_checkpoint e)
        then EC_CorruptState
      else if (\<Sum>(w, ids)\<leftarrow>en_by_workload e. length ids) \<noteq> length (en_sessions e) then EC_CorruptState
      else if length (en_command_index e) > en_command_index_bound e then EC_ResourceExhausted
      else EC_Ok)"

definition check_invariants :: "engine \<Rightarrow> status" where
  "check_invariants e =
     (if \<not> conserves (en_accounting e) then EC_AccountingImbalance
      else first_error (map (\<lambda>(sid, s). session_check (en_policy e) s) (en_sessions e) @
                        [aggregate_check e, index_check e]))"

end
