(* ===== verification/Tables.thy ===== *)
theory Tables
  imports Prelude "HOL-Library.Multiset"
begin

text \<open>
  Keyed tables with additive weights: the interface the byte-accounting proofs use. A table
  maps keys to values, and every weight function on values has a total over the table. The
  interface is interpreted on association lists with distinct keys, the model of the
  engine's hash maps.
\<close>

locale weighted_table =
  fixes valid :: "'t \<Rightarrow> bool"
    and get :: "'t \<Rightarrow> 'k \<Rightarrow> 'v option"
    and put :: "'k \<Rightarrow> 'v \<Rightarrow> 't \<Rightarrow> 't"
    and erase :: "'k \<Rightarrow> 't \<Rightarrow> 't"
    and weight :: "('v \<Rightarrow> nat) \<Rightarrow> 't \<Rightarrow> nat"
  assumes valid_put: "valid t \<Longrightarrow> valid (put k v t)"
    and valid_erase: "valid t \<Longrightarrow> valid (erase k t)"
    and get_put: "get (put k v t) j = (if j = k then Some v else get t j)"
    and get_erase: "get (erase k t) j = (if j = k then None else get t j)"
    and weight_put: "valid t \<Longrightarrow> get t k = Some w \<Longrightarrow> weight f (put k v t) + f w = weight f t + f v"
    and weight_put_new: "valid t \<Longrightarrow> get t k = None \<Longrightarrow> weight f (put k v t) = weight f t + f v"
    and weight_erase: "valid t \<Longrightarrow> get t k = Some w \<Longrightarrow> weight f (erase k t) + f w = weight f t"
begin

lemma weight_ge: "valid t \<Longrightarrow> get t k = Some w \<Longrightarrow> f w \<le> weight f t"
  using weight_erase [of t k w f] by linarith

lemma put_within:
  assumes "valid t" and "get t k = Some w" and "weight f t \<le> n" and "f v + n \<le> f w + n'"
  shows "weight f (put k v t) \<le> n'"
  using weight_put [OF assms(1,2), of f v] weight_ge [OF assms(1,2), of f] assms(3,4) by linarith

lemma put_new_within:
  assumes "valid t" and "get t k = None" and "weight f t \<le> n" and "f v + n \<le> n'"
  shows "weight f (put k v t) \<le> n'"
  using weight_put_new [OF assms(1,2), of f v] assms(3,4) by linarith

lemma erase_within:
  assumes "valid t" and "get t k = Some w" and "weight f t \<le> n"
  shows "weight f (erase k t) \<le> n"
  using weight_erase [OF assms(1,2), of f] assms(3) by linarith

lemma put_same: "valid t \<Longrightarrow> get t k = Some w \<Longrightarrow> f v = f w \<Longrightarrow> weight f (put k v t) = weight f t"
  using weight_put [of t k w f v] by simp

end

definition alist_valid :: "('k \<times> 'v) list \<Rightarrow> bool" where
  "alist_valid al \<longleftrightarrow> distinct (map fst al)"

definition alist_weight :: "('v \<Rightarrow> nat) \<Rightarrow> ('k \<times> 'v) list \<Rightarrow> nat" where
  "alist_weight f al = (\<Sum>(k, v)\<leftarrow>al. f v)"

lemma alist_weight_simps [simp]:
  "alist_weight f [] = 0"
  "alist_weight f (x # al) = f (snd x) + alist_weight f al"
  "alist_weight f (al @ bl) = alist_weight f al + alist_weight f bl"
  by (simp_all add: alist_weight_def case_prod_beta)

lemma alist_weight_update:
  "map_of al k = Some w \<Longrightarrow> alist_weight f (AList.update k v al) + f w = alist_weight f al + f v"
  by (induction al) (auto split: if_splits)

lemma alist_weight_update_new:
  "map_of al k = None \<Longrightarrow> alist_weight f (AList.update k v al) = alist_weight f al + f v"
  by (induction al) (auto split: if_splits)

lemma alist_delete_absent: "map_of al k = None \<Longrightarrow> AList.delete k al = al"
  by (induction al) (auto split: if_splits)

lemma alist_weight_delete:
  "distinct (map fst al) \<Longrightarrow> map_of al k = Some w \<Longrightarrow> alist_weight f (AList.delete k al) + f w = alist_weight f al"
proof (induction al)
  case (Cons x al)
  show ?case
  proof (cases "fst x = k")
    case True
    then have "map_of al k = None" using Cons.prems by (simp add: map_of_eq_None_iff)
    then show ?thesis using True Cons.prems by (cases x) (auto simp: alist_delete_absent)
  next
    case False
    then show ?thesis using Cons by (cases x) auto
  qed
qed simp

lemma alist_weight_mset: "mset al = mset bl \<Longrightarrow> alist_weight f al = alist_weight f bl"
  unfolding alist_weight_def by (metis mset_map sum_mset_sum_list)

lemma alist_valid_mset: "mset al = mset bl \<Longrightarrow> alist_valid al \<Longrightarrow> alist_valid bl"
  unfolding alist_valid_def by (metis mset_eq_imp_distinct_iff mset_map)

lemma map_of_mset: "mset al = mset bl \<Longrightarrow> alist_valid al \<Longrightarrow> map_of al = map_of bl"
  using alist_valid_mset [of al bl] unfolding alist_valid_def
  by (metis map_of_eqI map_of_inject_set mset_eq_setD)

interpretation alist_table: weighted_table alist_valid map_of AList.update AList.delete alist_weight
proof unfold_locales
  fix t :: "('k \<times> 'v) list" and k j v w f
  show "alist_valid t \<Longrightarrow> alist_valid (AList.update k v t)"
    by (simp add: alist_valid_def distinct_update)
  show "alist_valid t \<Longrightarrow> alist_valid (AList.delete k t)"
    by (simp add: alist_valid_def distinct_delete)
  show "map_of (AList.update k v t) j = (if j = k then Some v else map_of t j)"
    by (simp add: update_conv')
  show "map_of (AList.delete k t) j = (if j = k then None else map_of t j)"
    by (simp add: delete_conv')
  show "alist_valid t \<Longrightarrow> map_of t k = Some w \<Longrightarrow>
      alist_weight f (AList.update k v t) + f w = alist_weight f t + f v"
    by (rule alist_weight_update)
  show "alist_valid t \<Longrightarrow> map_of t k = None \<Longrightarrow> alist_weight f (AList.update k v t) = alist_weight f t + f v"
    by (rule alist_weight_update_new)
  show "alist_valid t \<Longrightarrow> map_of t k = Some w \<Longrightarrow> alist_weight f (AList.delete k t) + f w = alist_weight f t"
    by (simp add: alist_valid_def alist_weight_delete)
qed

end
