(* ===== verification/Engine_Books.thy ===== *)
theory Engine_Books
  imports Engine_Inspect Tables
begin

text \<open>
  The books of the engine: the byte ledger as an exact equation over the natural numbers, and
  how the session table is covered by it. The lemmas show that every lock-held helper keeps
  the books: moving bytes between buckets, settling and completing sessions, evicting history
  and expiring deadlines. The set parameter of \<open>books\<close> names sessions whose own books are
  temporarily open in the middle of an operation.
\<close>

section \<open>Reading a state after an update\<close>

lemma lookup_put [simp]: "lookup_session k (put_session sid s e) = (if k = sid then Some s else lookup_session k e)"
  by (simp add: lookup_session_def put_session_def update_conv')

lemma lookup_frame: "en_sessions e' = en_sessions e \<Longrightarrow> lookup_session k e' = lookup_session k e"
  by (simp add: lookup_session_def)

lemma lookup_account [simp]: "lookup_session k (account f e) = lookup_session k e"
  by (simp add: lookup_session_def account_def)

lemma lookup_emit [simp]: "lookup_session k (emit kind sid r at e) = lookup_session k e"
  by (simp add: lookup_session_def emit_def)

lemma put_session_fields [simp]:
  "en_sessions (put_session sid s e) = AList.update sid s (en_sessions e)"
  "en_accounting (put_session sid s e) = en_accounting e"
  "en_policy (put_session sid s e) = en_policy e"
  "en_limits (put_session sid s e) = en_limits e"
  "en_shaper (put_session sid s e) = en_shaper e"
  "en_retention_bound (put_session sid s e) = en_retention_bound e"
  "en_terminal_order (put_session sid s e) = en_terminal_order e"
  by (simp_all add: put_session_def)

lemma account_fields [simp]:
  "en_sessions (account f e) = en_sessions e"
  "en_accounting (account f e) = f (en_accounting e)"
  "en_policy (account f e) = en_policy e"
  "en_limits (account f e) = en_limits e"
  "en_shaper (account f e) = en_shaper e"
  "en_retention_bound (account f e) = en_retention_bound e"
  "en_terminal_order (account f e) = en_terminal_order e"
  by (simp_all add: account_def)

lemma emit_fields [simp]:
  "en_sessions (emit kind sid r at e) = en_sessions e"
  "en_accounting (emit kind sid r at e) = en_accounting e"
  "en_policy (emit kind sid r at e) = en_policy e"
  "en_limits (emit kind sid r at e) = en_limits e"
  "en_shaper (emit kind sid r at e) = en_shaper e"
  by (simp_all add: emit_def)

lemma on_session_rule:
  assumes "lookup_session sid e = None \<Longrightarrow> P (e\<lparr>en_dangling := True\<rparr>)"
    and "\<And>s. lookup_session sid e = Some s \<Longrightarrow> P (f s e)"
  shows "P (on_session sid f e)"
  using assms by (cases "lookup_session sid e") (simp_all add: on_session_def)

section \<open>The books\<close>

definition byte_ledger :: "accounting_snapshot \<Rightarrow> bool" where
  "byte_ledger a \<longleftrightarrow>
     unat (ac_bytes_admitted a) = unat (ac_bytes_transferred a) + unat (ac_bytes_wasted a) +
       unat (ac_bytes_cancelled a) + unat (ac_bytes_unproven a) + unat (ac_granted_outstanding_bytes a)"

definition dead :: "session_record \<Rightarrow> bool" where
  "dead s \<longleftrightarrow> se_state s = SS_Cancelled \<or> se_state s = SS_Superseded \<or> se_state s = SS_Failed"

definition shard_bytes :: "session_record \<Rightarrow> nat" where
  "shard_bytes s = (\<Sum>h\<leftarrow>se_shards s. unat (sh_transferred_bytes h))"

definition session_books :: "session_record \<Rightarrow> bool" where
  "session_books s \<longleftrightarrow>
     (if dead s then \<not> se_paused s else shard_bytes s \<le> unat (se_transferred_bytes s))"

definition outstanding_total :: "engine \<Rightarrow> nat" where
  "outstanding_total e = alist_weight (\<lambda>s. unat (se_outstanding_bytes s)) (en_sessions e)"

definition transferred_total :: "engine \<Rightarrow> nat" where
  "transferred_total e = alist_weight (\<lambda>s. unat (se_transferred_bytes s)) (en_sessions e)"

definition books :: "session_id set \<Rightarrow> engine \<Rightarrow> bool" where
  "books X e \<longleftrightarrow>
     byte_ledger (en_accounting e) \<and> alist_valid (en_sessions e) \<and>
     outstanding_total e \<le> unat (ac_granted_outstanding_bytes (en_accounting e)) \<and>
     transferred_total e \<le> unat (ac_bytes_transferred (en_accounting e)) \<and>
     (\<forall>k s. lookup_session k e = Some s \<longrightarrow> k \<notin> X \<longrightarrow> session_books s)"

lemma byte_ledger_conserves: "byte_ledger a \<Longrightarrow> conserves a"
proof -
  assume l: "byte_ledger a"
  have "unat (ac_bytes_transferred a + ac_bytes_wasted a + ac_bytes_cancelled a + ac_bytes_unproven a +
      ac_granted_outstanding_bytes a) = unat (ac_bytes_admitted a)"
    using l unat_u64_less [of "ac_bytes_admitted a"] by (simp add: byte_ledger_def unat_add_u64)
  then show ?thesis by (simp add: conserves_def word_unat_eq_iff)
qed

lemma books_mono: "books X e \<Longrightarrow> X \<subseteq> Y \<Longrightarrow> books Y e"
  by (auto simp: books_def)

definition ledger_fields :: "accounting_snapshot \<Rightarrow> u64 \<times> u64 \<times> u64 \<times> u64 \<times> u64 \<times> u64" where
  "ledger_fields a = (ac_bytes_admitted a, ac_bytes_transferred a, ac_bytes_wasted a, ac_bytes_cancelled a,
     ac_bytes_unproven a, ac_granted_outstanding_bytes a)"

lemma books_frame:
  assumes "en_sessions e' = en_sessions e" and "ledger_fields (en_accounting e') = ledger_fields (en_accounting e)"
  shows "books X e' = books X e"
  using assms
  by (simp add: books_def byte_ledger_def outstanding_total_def transferred_total_def ledger_fields_def
      lookup_session_def)

lemma books_step:
  assumes b: "books X e" and s: "lookup_session sid e = Some s"
    and l: "byte_ledger (en_accounting e')"
    and out: "unat (se_outstanding_bytes s') + unat (ac_granted_outstanding_bytes (en_accounting e)) \<le>
       unat (se_outstanding_bytes s) + unat (ac_granted_outstanding_bytes (en_accounting e'))"
    and tr: "unat (se_transferred_bytes s') + unat (ac_bytes_transferred (en_accounting e)) \<le>
       unat (se_transferred_bytes s) + unat (ac_bytes_transferred (en_accounting e'))"
    and ok: "sid \<in> Y \<or> session_books s'" and sub: "X \<subseteq> insert sid Y"
    and upd: "en_sessions e' = AList.update sid s' (en_sessions e)"
  shows "books Y e'"
proof -
  have v: "alist_valid (en_sessions e)" and m: "map_of (en_sessions e) sid = Some s"
    using b s by (simp_all add: books_def lookup_session_def)
  have "outstanding_total e' \<le> unat (ac_granted_outstanding_bytes (en_accounting e'))"
    unfolding outstanding_total_def upd
    by (rule alist_table.put_within [OF v m _ out]) (use b in \<open>simp add: books_def outstanding_total_def\<close>)
  moreover have "transferred_total e' \<le> unat (ac_bytes_transferred (en_accounting e'))"
    unfolding transferred_total_def upd
    by (rule alist_table.put_within [OF v m _ tr]) (use b in \<open>simp add: books_def transferred_total_def\<close>)
  moreover have "alist_valid (en_sessions e')"
    unfolding upd by (rule alist_table.valid_put [OF v])
  moreover have "session_books t" if "lookup_session k e' = Some t" and "k \<notin> Y" for k t
  proof (cases "k = sid")
    case True
    then show ?thesis using that ok by (simp add: lookup_session_def upd update_conv')
  next
    case False
    then have "lookup_session k e = Some t" and "k \<notin> X"
      using that sub by (auto simp: lookup_session_def upd update_conv')
    then show ?thesis using b by (simp add: books_def)
  qed
  ultimately show ?thesis using l by (simp add: books_def)
qed

lemma books_bounds:
  assumes "books X e" and "lookup_session sid e = Some s"
  shows "unat (se_outstanding_bytes s) \<le> unat (ac_granted_outstanding_bytes (en_accounting e))"
    and "unat (se_transferred_bytes s) \<le> unat (ac_bytes_transferred (en_accounting e))"
proof -
  have v: "alist_valid (en_sessions e)" and m: "map_of (en_sessions e) sid = Some s"
    using assms by (simp_all add: books_def lookup_session_def)
  have "unat (se_outstanding_bytes s) \<le> outstanding_total e"
    unfolding outstanding_total_def by (rule alist_table.weight_ge [OF v m])
  then show "unat (se_outstanding_bytes s) \<le> unat (ac_granted_outstanding_bytes (en_accounting e))"
    using assms(1) by (simp add: books_def)
  have "unat (se_transferred_bytes s) \<le> transferred_total e"
    unfolding transferred_total_def by (rule alist_table.weight_ge [OF v m])
  then show "unat (se_transferred_bytes s) \<le> unat (ac_bytes_transferred (en_accounting e))"
    using assms(1) by (simp add: books_def)
qed

lemma books_ledger: "books X e \<Longrightarrow> byte_ledger (en_accounting e)"
  by (simp add: books_def)

lemma books_dangling [simp]: "books X (e\<lparr>en_dangling := True\<rparr>) = books X e"
  by (rule books_frame) simp_all

lemma books_emit [simp]: "books X (emit kind sid r at e) = books X e"
  by (rule books_frame) simp_all

text \<open>A session update that keeps its bytes, its shards and its liveness keeps the books.\<close>

definition same_books :: "session_record \<Rightarrow> session_record \<Rightarrow> bool" where
  "same_books s s' \<longleftrightarrow>
     se_outstanding_bytes s' = se_outstanding_bytes s \<and> se_transferred_bytes s' = se_transferred_bytes s \<and>
     (session_books s \<longrightarrow> session_books s')"

lemma books_put_same:
  assumes "books X e" and "lookup_session sid e = Some s" and "same_books s s'"
  shows "books X (put_session sid s' e)"
proof (rule books_step [where s = s and s' = s' and sid = sid, OF assms(1,2)])
  show "sid \<in> X \<or> session_books s'"
    using assms by (auto simp: books_def same_books_def)
qed (use assms in \<open>auto simp: same_books_def books_def\<close>)

lemma books_modify_same:
  assumes "books X e" and "\<And>s. lookup_session sid e = Some s \<Longrightarrow> same_books s (f s)"
  shows "books X (modify_session sid f e)"
  unfolding modify_session_def
  by (rule on_session_rule) (use assms books_put_same in auto)

section \<open>Primitive moves keep the books\<close>

lemma append_timeline_fields [simp]:
  "se_outstanding_bytes (append_timeline b at t s) = se_outstanding_bytes s"
  "se_transferred_bytes (append_timeline b at t s) = se_transferred_bytes s"
  "se_verified_bytes (append_timeline b at t s) = se_verified_bytes s"
  "se_state (append_timeline b at t s) = se_state s"
  "se_paused (append_timeline b at t s) = se_paused s"
  "se_shards (append_timeline b at t s) = se_shards s"
  "se_attempts (append_timeline b at t s) = se_attempts s"
  "se_id (append_timeline b at t s) = se_id s"
  "se_request (append_timeline b at t s) = se_request s"
  "se_envelope (append_timeline b at t s) = se_envelope s"
  "se_evidence (append_timeline b at t s) = se_evidence s"
  by (simp_all add: append_timeline_def Let_def)

lemma settle_reason_fields [simp]:
  "se_outstanding_bytes (settle_reason r d s) = se_outstanding_bytes s"
  "se_transferred_bytes (settle_reason r d s) = se_transferred_bytes s"
  "se_verified_bytes (settle_reason r d s) = se_verified_bytes s"
  "se_state (settle_reason r d s) = se_state s"
  "se_paused (settle_reason r d s) = se_paused s"
  "se_shards (settle_reason r d s) = se_shards s"
  "se_attempts (settle_reason r d s) = se_attempts s"
  "se_id (settle_reason r d s) = se_id s"
  "se_request (settle_reason r d s) = se_request s"
  "se_envelope (settle_reason r d s) = se_envelope s"
  "se_evidence (settle_reason r d s) = se_evidence s"
  by (simp_all add: settle_reason_def)

lemmas session_books_defs = session_books_def dead_def shard_bytes_def

lemma session_books_cong:
  "se_state s' = se_state s \<Longrightarrow> se_paused s' = se_paused s \<Longrightarrow> se_shards s' = se_shards s \<Longrightarrow>
   se_transferred_bytes s' = se_transferred_bytes s \<Longrightarrow> session_books s' = session_books s"
  by (simp add: session_books_defs)

lemma books_session: "books X e \<Longrightarrow> lookup_session sid e = Some s \<Longrightarrow> sid \<in> X \<or> session_books s"
  by (auto simp: books_def)

lemma books_note_timeline [simp]: "books X e \<Longrightarrow> books X (note_timeline sid at t e)"
  unfolding note_timeline_def
  by (erule books_modify_same) (simp add: same_books_def session_books_defs)

lemma books_account [simp]:
  "ledger_fields (f (en_accounting e)) = ledger_fields (en_accounting e) \<Longrightarrow> books X (account f e) = books X e"
  by (rule books_frame) simp_all

lemma books_put_account_same:
  assumes "books X e" and "lookup_session sid e = Some s" and "same_books s s'"
    and "ledger_fields (f (en_accounting e)) = ledger_fields (en_accounting e)"
  shows "books X (account f (put_session sid s' e))"
  using books_put_same [OF assms(1-3)] assms(4) by simp

lemma books_mark_unproven [simp]:
  assumes b: "books X e"
  shows "books X (mark_unproven sid n e)"
  unfolding mark_unproven_def
proof (rule on_session_rule)
  fix s assume s: "lookup_session sid e = Some s"
  let ?b = "min n (se_outstanding_bytes s)" and ?a = "en_accounting e"
  have le: "unat ?b \<le> unat (se_outstanding_bytes s)" by (simp add: unat_min)
  then have leo: "unat ?b \<le> unat (ac_granted_outstanding_bytes ?a)"
    using books_bounds(1) [OF b s] by simp
  have o: "unat (ac_granted_outstanding_bytes ?a - ?b) = unat (ac_granted_outstanding_bytes ?a) - unat ?b"
    using leo by (simp add: unat_sub_le word_le_nat_alt)
  have so: "unat (se_outstanding_bytes s - ?b) = unat (se_outstanding_bytes s) - unat ?b"
    using le by (simp add: unat_sub_le word_le_nat_alt)
  have u: "unat (ac_bytes_unproven ?a + ?b) = unat (ac_bytes_unproven ?a) + unat ?b"
    using leo books_ledger [OF b] unat_u64_less [of "ac_bytes_admitted ?a"]
    by (intro unat_add_u64) (simp add: byte_ledger_def)
  show "books X (let bounded = ?b in
     account (\<lambda>a. a\<lparr>ac_granted_outstanding_bytes := ac_granted_outstanding_bytes a - bounded,
                    ac_bytes_unproven := ac_bytes_unproven a + bounded\<rparr>)
       (put_session sid (s\<lparr>se_outstanding_bytes := se_outstanding_bytes s - bounded,
                           se_unproven_bytes := se_unproven_bytes s + bounded\<rparr>) e))"
    unfolding Let_def
  proof (rule books_step [OF b s])
    show "sid \<in> X \<or> session_books (s\<lparr>se_outstanding_bytes := se_outstanding_bytes s - ?b,
        se_unproven_bytes := se_unproven_bytes s + ?b\<rparr>)"
      using books_session [OF b s] by (subst session_books_cong [of _ s]) simp_all
  qed (use b le leo o so u in \<open>auto simp: byte_ledger_def books_def\<close>)
qed (use b in simp)

lemma books_settle_cancelled [simp]:
  assumes b: "books X e"
  shows "books X (settle_outstanding_as_cancelled sid e)"
  unfolding settle_outstanding_as_cancelled_def
proof (rule on_session_rule)
  fix s assume s: "lookup_session sid e = Some s"
  let ?b = "se_outstanding_bytes s" and ?a = "en_accounting e"
  have leo: "unat ?b \<le> unat (ac_granted_outstanding_bytes ?a)"
    using books_bounds(1) [OF b s] .
  have o: "unat (ac_granted_outstanding_bytes ?a - ?b) = unat (ac_granted_outstanding_bytes ?a) - unat ?b"
    using leo by (simp add: unat_sub_le word_le_nat_alt)
  have u: "unat (ac_bytes_cancelled ?a + ?b) = unat (ac_bytes_cancelled ?a) + unat ?b"
    using leo books_ledger [OF b] unat_u64_less [of "ac_bytes_admitted ?a"]
    by (intro unat_add_u64) (simp add: byte_ledger_def)
  show "books X (let remaining = ?b in
     account (\<lambda>a. a\<lparr>ac_granted_outstanding_bytes := ac_granted_outstanding_bytes a - remaining,
                    ac_bytes_cancelled := ac_bytes_cancelled a + remaining\<rparr>)
       (put_session sid (s\<lparr>se_outstanding_bytes := 0,
                           se_cancelled_bytes := se_cancelled_bytes s + remaining\<rparr>) e))"
    unfolding Let_def
  proof (rule books_step [OF b s])
    show "sid \<in> X \<or> session_books (s\<lparr>se_outstanding_bytes := 0, se_cancelled_bytes := se_cancelled_bytes s + ?b\<rparr>)"
      using books_session [OF b s] by (subst session_books_cong [of _ s]) simp_all
  qed (use b leo o u in \<open>auto simp: byte_ledger_def books_def\<close>)
qed (use b in simp)

lemma books_waste_unverified:
  assumes b: "books X e"
  shows "books (insert sid X) (waste_unverified sid e)"
  unfolding waste_unverified_def
proof (rule on_session_rule)
  fix s assume s: "lookup_session sid e = Some s"
  let ?v = "if se_transferred_bytes s > se_verified_bytes s
            then se_transferred_bytes s - se_verified_bytes s else 0" and ?a = "en_accounting e"
  have le: "unat ?v \<le> unat (se_transferred_bytes s)"
    by (simp add: unat_sub_le less_imp_le)
  then have lta: "unat ?v \<le> unat (ac_bytes_transferred ?a)"
    using books_bounds(2) [OF b s] by simp
  have t: "unat (ac_bytes_transferred ?a - ?v) = unat (ac_bytes_transferred ?a) - unat ?v"
    using lta by (subst unat_sub_le) (simp_all only: word_le_nat_alt)
  have st: "unat (se_transferred_bytes s - ?v) = unat (se_transferred_bytes s) - unat ?v"
    using le by (subst unat_sub_le) (simp_all only: word_le_nat_alt)
  have w: "unat (ac_bytes_wasted ?a + ?v) = unat (ac_bytes_wasted ?a) + unat ?v"
    using lta books_ledger [OF b] unat_u64_less [of "ac_bytes_admitted ?a"]
    by (intro unat_add_u64) (unfold byte_ledger_def, linarith)
  show "books (insert sid X) (let unverified = ?v in
     account (\<lambda>a. a\<lparr>ac_bytes_transferred := ac_bytes_transferred a - unverified,
                    ac_bytes_wasted := ac_bytes_wasted a + unverified\<rparr>)
       (put_session sid (s\<lparr>se_transferred_bytes := se_transferred_bytes s - unverified,
                           se_wasted_bytes := se_wasted_bytes s + unverified\<rparr>) e))"
    unfolding Let_def
  proof (rule books_step [OF b s])
    show "byte_ledger (en_accounting (account (\<lambda>a. a\<lparr>ac_bytes_transferred := ac_bytes_transferred a - ?v,
                    ac_bytes_wasted := ac_bytes_wasted a + ?v\<rparr>)
       (put_session sid (s\<lparr>se_transferred_bytes := se_transferred_bytes s - ?v,
                           se_wasted_bytes := se_wasted_bytes s + ?v\<rparr>) e)))"
      using books_ledger [OF b] lta t w by (simp add: byte_ledger_def)
  qed (use le lta t st in auto)
qed (use b books_mono [of X e "insert sid X"] in auto)

lemma books_release_active_attempts [simp]: "books X e \<Longrightarrow> books X (release_active_attempts sid o' e)"
  unfolding release_active_attempts_def
  by (rule on_session_rule)
    (auto intro!: books_put_same simp: same_books_def session_books_defs ledger_fields_def)

lemma deactivate_fields [simp]:
  "en_sessions (deactivate s e) = en_sessions e"
  "ledger_fields (en_accounting (deactivate s e)) = ledger_fields (en_accounting e)"
  by (simp_all add: deactivate_def account_def Let_def ledger_fields_def)

lemma activate_fields [simp]:
  "en_sessions (activate s e) = en_sessions e"
  "ledger_fields (en_accounting (activate s e)) = ledger_fields (en_accounting e)"
  by (simp_all add: activate_def account_def Let_def ledger_fields_def)

lemma books_activate [simp]: "books X (activate s e) = books X e"
  by (rule books_frame) simp_all

lemma books_note_terminal [simp]: "books X e \<Longrightarrow> books X (note_terminal sid e)"
  unfolding note_terminal_def
  by (rule on_session_rule) (simp_all add: books_frame [of "(deactivate _ _)\<lparr>en_terminal_order := _\<rparr>" e])

lemma books_shaper [simp]: "books X (e\<lparr>en_shaper := x\<rparr>) = books X e"
  by (rule books_frame) simp_all

lemma lookup_shaper [simp]: "lookup_session k (e\<lparr>en_shaper := x\<rparr>) = lookup_session k e"
  by (simp add: lookup_session_def)

lemma books_release_path_reservation [simp]: "books X e \<Longrightarrow> books X (release_path_reservation sid e)"
  unfolding release_path_reservation_def
  by (rule on_session_rule)
    (auto split: option.split intro!: books_put_same simp: same_books_def session_books_defs)

lemma books_erase:
  assumes b: "books X e" and s: "lookup_session sid e = Some s"
    and upd: "en_sessions e' = AList.delete sid (en_sessions e)"
    and l: "en_accounting e' = en_accounting e"
  shows "books X e'"
proof -
  have v: "alist_valid (en_sessions e)" and m: "map_of (en_sessions e) sid = Some s"
    using b s by (simp_all add: books_def lookup_session_def)
  have "outstanding_total e' \<le> unat (ac_granted_outstanding_bytes (en_accounting e'))"
    unfolding outstanding_total_def upd l
    by (rule alist_table.erase_within [OF v m]) (use b in \<open>simp add: books_def outstanding_total_def\<close>)
  moreover have "transferred_total e' \<le> unat (ac_bytes_transferred (en_accounting e'))"
    unfolding transferred_total_def upd l
    by (rule alist_table.erase_within [OF v m]) (use b in \<open>simp add: books_def transferred_total_def\<close>)
  moreover have "alist_valid (en_sessions e')"
    unfolding upd by (rule alist_table.valid_erase [OF v])
  moreover have "lookup_session k e = Some t" if "lookup_session k e' = Some t" for k t
    using that by (auto simp: lookup_session_def upd delete_conv' split: if_splits)
  ultimately show ?thesis using b by (auto simp: books_def l)
qed

lemma books_terminal_order [simp]: "books X (e\<lparr>en_terminal_order := x\<rparr>) = books X e"
  by (rule books_frame) simp_all

lemma books_rebuild_indexes [simp]: "books X (rebuild_indexes e) = books X e"
  by (rule books_frame) (simp_all add: rebuild_indexes_def)

lemma books_prune_loop: "books X e \<Longrightarrow> books X (snd (prune_loop target order erased e))"
proof (induction target order erased e rule: prune_loop.induct)
  case (2 target sid order erased e)
  show ?case
  proof (cases "lookup_session sid e")
    case None
    then show ?thesis using 2 by simp
  next
    case (Some s)
    have "books X (e\<lparr>en_pruned := add_pruned s (en_pruned e), en_sessions := AList.delete sid (en_sessions e)\<rparr>)"
      by (rule books_erase [OF "2.prems" Some]) simp_all
    then show ?thesis using 2 Some by simp
  qed
qed simp

lemma books_prune_history [simp]: "books X e \<Longrightarrow> books X (prune_history e)"
  using books_prune_loop [of X e "en_retention_bound e * 3 div 4" "en_terminal_order e" False]
  by (auto simp: prune_history_def split: prod.splits)

lemma books_on_session_test:
  "books X e \<Longrightarrow> (\<And>s. books X (f s e)) \<Longrightarrow> books X (on_session sid f e)"
  by (rule on_session_rule) simp_all

lemma books_modify_settled:
  assumes b: "books (insert sid X) e"
    and f: "\<And>s. se_outstanding_bytes (f s) = se_outstanding_bytes s \<and>
      se_transferred_bytes (f s) = se_transferred_bytes s \<and> session_books (f s)"
  shows "books X (modify_session sid f e)"
  unfolding modify_session_def
proof (rule on_session_rule)
  assume n: "lookup_session sid e = None"
  have "k \<noteq> sid" if "lookup_session k e = Some t" for k t
    using that n by auto
  then have "books X e"
    using b unfolding books_def by blast
  then show "books X (e\<lparr>en_dangling := True\<rparr>)" by simp
next
  fix s assume s: "lookup_session sid e = Some s"
  show "books X (put_session sid (f s) e)"
    by (rule books_step [OF b s]) (use f [of s] b in \<open>auto simp: books_def\<close>)
qed

lemma books_settle_exempt:
  assumes b: "books (insert sid X) e" and st: "st = SS_Superseded \<or> st = SS_Cancelled \<or> st = SS_Failed"
  shows "books X (settle_terminal sid st r d at e)"
proof -
  let ?e1 = "release_active_attempts sid (if st = SS_Superseded then AO_Superseded else AO_Released) e"
  let ?e2 = "waste_unverified sid ?e1"
  let ?e3 = "on_session sid (\<lambda>s e. if \<not> is_terminal (se_state s) then note_terminal sid e else e) ?e2"
  have "books (insert sid X) ?e2"
    using books_waste_unverified [of "insert sid X" ?e1 sid] b by simp
  then have "books (insert sid X) ?e3"
    by (intro books_on_session_test) simp_all
  then have "books X (modify_session sid
      (\<lambda>s. (settle_reason r d (s\<lparr>se_state := st, se_paused := False\<rparr>))\<lparr>se_updated_at := at\<rparr>) ?e3)"
    using st by (rule_tac books_modify_settled) (auto simp: session_books_defs)
  then show ?thesis using st by (simp add: settle_terminal_def Let_def)
qed

lemma books_settle_terminal [simp]:
  "books X e \<Longrightarrow> st = SS_Superseded \<or> st = SS_Cancelled \<or> st = SS_Failed \<Longrightarrow>
     books X (settle_terminal sid st r d at e)"
  by (rule books_settle_exempt) (auto intro: books_mono)

lemma books_complete_session [simp]:
  assumes b: "books X e" and nd: "\<And>s. lookup_session sid e = Some s \<Longrightarrow> \<not> dead s"
  shows "books X (complete_session sid at e)"
proof -
  have zero: "books X (modify_session sid (\<lambda>s. s\<lparr>se_outstanding_bytes := 0\<rparr>) e')" if "books X e'" for e'
    unfolding modify_session_def
  proof (rule on_session_rule)
    fix s assume s: "lookup_session sid e' = Some s"
    have "sid \<in> X \<or> session_books (s\<lparr>se_outstanding_bytes := 0\<rparr>)"
      using books_session [OF that s] by (subst session_books_cong [of _ s]) simp_all
    then show "books X (put_session sid (s\<lparr>se_outstanding_bytes := 0\<rparr>) e')"
      by (rule_tac books_step [OF that s]) (use that in \<open>auto simp: books_def\<close>)
  qed (use that in simp)
  show ?thesis
    unfolding complete_session_def Let_def
    by (intro books_prune_history books_note_terminal zero)
      (use b nd in \<open>auto intro!: books_release_path_reservation books_modify_same
         simp: ledger_fields_def same_books_def session_books_defs\<close>)
qed

lemma progress_state_dead: "progress_state s = st \<Longrightarrow> st = SS_Cancelled \<or> st = SS_Superseded \<or> st = SS_Failed \<Longrightarrow> se_state s = st"
  by (auto simp: progress_state_def is_terminal_def split: if_splits)

lemma progress_session_books:
  "session_books s \<Longrightarrow> session_books (s\<lparr>se_evidence := progress_evidence s, se_state := progress_state s\<rparr>)"
  by (auto simp: session_books_defs progress_state_def is_terminal_def)

lemma books_recompute_progress [simp]:
  assumes b: "books X e"
  shows "books X (recompute_progress sid at e)"
proof -
  let ?e1 = "modify_session sid (\<lambda>s. s\<lparr>se_evidence := progress_evidence s, se_state := progress_state s\<rparr>) e"
  have b1: "books X ?e1"
    using b by (rule books_modify_same) (simp add: same_books_def progress_session_books)
  show ?thesis
    unfolding recompute_progress_def Let_def
    by (rule on_session_rule)
      (use b1 in \<open>auto intro!: books_complete_session simp: dead_def is_terminal_def\<close>)
qed

lemma books_expire_session [simp]: "books X e \<Longrightarrow> books X (expire_session d at e sid)"
  by (auto simp: expire_session_def Let_def ledger_fields_def
      split: option.split)

lemma books_fold: "books X e \<Longrightarrow> (\<And>e x. books X e \<Longrightarrow> books X (g e x)) \<Longrightarrow> books X (foldl g e xs)"
  by (induction xs arbitrary: e) simp_all

lemma books_deadlines [simp]: "books X (e\<lparr>en_deadlines := x\<rparr>) = books X e"
  by (rule books_frame) simp_all

lemma books_expire_due: "books X e \<Longrightarrow> books X (expire_due at ds e)"
proof (induction at ds e rule: expire_due.induct)
  case (2 at deadline due rest e)
  have "books X (foldl (expire_session deadline at) (e\<lparr>en_deadlines := rest\<rparr>) due)"
    by (rule books_fold) (use "2.prems" in simp_all)
  then show ?case using 2 by simp
qed simp

lemma books_begin_command [simp]: "books X e \<Longrightarrow> books X (begin_command at e)"
  unfolding begin_command_def enforce_deadlines_def
  by (rule books_expire_due) (simp add: books_frame [of "e\<lparr>en_commands_processed := _\<rparr>" e])

end
