(* ===== verification/Engine_Books_Ops.thy ===== *)
theory Engine_Books_Ops
  imports Engine_Books
begin

text \<open>
  Every public operation of the engine keeps the books. The two operations that authorise new
  bytes, submitting a session and re-arming a truncated shard, do so as long as the 64-bit
  counter of admitted bytes does not wrap.
\<close>

section \<open>Authority changes\<close>

lemma books_stale_one [simp]: "books X e \<Longrightarrow> books X (stale_one a b r at e sid)"
  unfolding stale_one_def
  by (auto split: option.split intro!: books_note_timeline books_modify_same
      simp: same_books_def session_books_defs mark_stale_def is_active_def is_terminal_def)

lemma books_policy [simp]: "books X (e\<lparr>en_policy := x\<rparr>) = books X e"
  by (rule books_frame) simp_all

lemma books_configure_shaper [simp]: "books X (configure_shaper at e) = books X e"
  by (rule books_frame) (simp_all add: configure_shaper_def)

lemma books_apply_policy: "books X e \<Longrightarrow> books X (snd (apply_policy p at e))"
  by (auto simp: apply_policy_def Let_def intro!: books_fold)

lemma books_apply_topology: "books X e \<Longrightarrow> books X (snd (apply_topology t at e))"
  by (auto simp: apply_topology_def Let_def books_frame [of "e\<lparr>en_topology := _\<rparr>" e] intro!: books_fold)

lemma books_upsert_contract: "books X e \<Longrightarrow> books X (snd (upsert_contract c at e))"
  by (auto simp: upsert_contract_def Let_def books_frame [of "e\<lparr>en_shaper := _, en_contracts := _\<rparr>" e]
      intro!: books_fold)

lemma shard_bytes_map:
  assumes "\<And>h. sh_transferred_bytes (f h) = sh_transferred_bytes h" and "se_shards s' = map f (se_shards s)"
  shows "shard_bytes s' = shard_bytes s"
  using assms by (simp add: shard_bytes_def comp_def)

lemma rearm_shard_transferred [simp]: "sh_transferred_bytes (rearm_shard h) = sh_transferred_bytes h"
  by (simp add: rearm_shard_def)

lemma restart_same_books:
  "\<not> dead s \<Longrightarrow> same_books s ((mark_stale text at ((release_attempts s)\<lparr>se_shards := map rearm_shard (se_shards s)\<rparr>))\<lparr>se_paused := False\<rparr>)"
  by (auto simp: same_books_def session_books_def dead_def mark_stale_def release_attempts_def
      shard_bytes_map [of rearm_shard _ s])

text \<open>State and shards of a session are untouched by the byte moves and the attempt counters.\<close>

lemma mark_unproven_lookup:
  "lookup_session k (mark_unproven sid n e) = Some s' \<Longrightarrow>
     \<exists>s. lookup_session k e = Some s \<and> se_state s' = se_state s \<and> se_shards s' = se_shards s \<and>
       se_transferred_bytes s' = se_transferred_bytes s \<and> se_attempts s' = se_attempts s \<and> se_id s' = se_id s"
  by (auto simp: mark_unproven_def on_session_def Let_def lookup_frame [of "e\<lparr>en_dangling := True\<rparr>" e]
      split: option.splits if_splits)

lemma modify_lookup:
  "lookup_session k (modify_session sid f e) =
     (if k = sid then map_option f (lookup_session sid e) else lookup_session k e)"
  by (auto simp: modify_session_def on_session_def lookup_frame [of "e\<lparr>en_dangling := True\<rparr>" e]
      split: option.splits)

lemma on_session_account_lookup:
  "lookup_session k (on_session sid (\<lambda>s. account (f s)) e) = lookup_session k e"
  by (auto simp: on_session_def lookup_frame [of "e\<lparr>en_dangling := True\<rparr>" e] split: option.splits)

lemma books_restart_one [simp]:
  assumes b: "books X e"
  shows "books X (restart_one at e sid)"
proof (cases "lookup_session sid e")
  case None
  then show ?thesis using b by (simp add: restart_one_def)
next
  case (Some s)
  show ?thesis
  proof (cases "is_terminal (se_state s)")
    case True
    then show ?thesis using b Some by (simp add: restart_one_def)
  next
    case False
    let ?e1 = "mark_unproven sid (at_risk_bytes s) e"
    let ?e2 = "modify_session sid (\<lambda>s. s\<lparr>se_attempts := map (ambiguate_attempt at) (se_attempts s)\<rparr>) ?e1"
    let ?e3 = "on_session sid
        (\<lambda>s. account (\<lambda>a. a\<lparr>ac_active_attempts := ac_active_attempts a - se_active_attempts s\<rparr>)) ?e2"
    have b2: "books X ?e2"
      by (rule books_modify_same) (use b in \<open>auto simp: same_books_def session_books_defs\<close>)
    have b3: "books X ?e3"
      by (rule on_session_rule) (use b2 in \<open>simp_all add: ledger_fields_def\<close>)
    have nd: "\<not> dead t" if "lookup_session sid ?e3 = Some t" for t
      using that False Some
      by (auto simp: on_session_account_lookup modify_lookup dead_def is_terminal_def
          dest!: mark_unproven_lookup)
    have "books X (modify_session sid (\<lambda>s. (mark_stale restart_text at
        ((release_attempts s)\<lparr>se_shards := map rearm_shard (se_shards s)\<rparr>))\<lparr>se_paused := False\<rparr>) ?e3)"
      using b3 by (rule books_modify_same) (simp add: restart_same_books nd)
    then show ?thesis using False Some by (simp add: restart_one_def Let_def)
  qed
qed

lemma books_advance_epoch: "books X e \<Longrightarrow> books X (snd (advance_epoch ep at e))"
  by (auto simp: advance_epoch_def Let_def books_frame [of "e\<lparr>en_epoch := _\<rparr>" e]
      intro!: books_fold)

section \<open>Admission\<close>

lemma remember_command_fields [simp]:
  "en_sessions (remember_command c r e) = en_sessions e"
  "en_accounting (remember_command c r e) = en_accounting e"
  by (simp_all add: remember_command_def Let_def split: prod.split)

lemma books_remember_command [simp]: "books X (remember_command c r e) = books X e"
  by (rule books_frame) simp_all

lemma books_deny [simp]: "books X e \<Longrightarrow> books X (snd (deny r reason at e))"
  by (simp add: deny_def ledger_fields_def)

lemma books_defer [simp]: "books X e \<Longrightarrow> books X (snd (defer_admission r reason t n at e))"
  by (simp add: defer_admission_def ledger_fields_def)

lemma books_apply_supersession [simp]: "books X e \<Longrightarrow> books X (apply_supersession by_s at e sid)"
  unfolding apply_supersession_def Let_def
  by (auto intro!: books_note_timeline books_modify_same books_settle_terminal books_on_session_test
      simp: ledger_fields_def same_books_def session_books_defs)

definition admitted_bytes :: "engine \<Rightarrow> u64" where
  "admitted_bytes e = ac_bytes_admitted (en_accounting e)"

lemma index_deadline_fields [simp]:
  "en_sessions (index_deadline s e) = en_sessions e" "en_accounting (index_deadline s e) = en_accounting e"
  by (simp_all add: index_deadline_def)

lemma books_insert:
  assumes b: "books X e" and l: "byte_ledger (en_accounting e')"
    and out: "unat (se_outstanding_bytes s) + unat (ac_granted_outstanding_bytes (en_accounting e)) \<le>
       unat (ac_granted_outstanding_bytes (en_accounting e'))"
    and tr: "se_transferred_bytes s = 0" "ac_bytes_transferred (en_accounting e') = ac_bytes_transferred (en_accounting e)"
    and ok: "session_books s" and upd: "en_sessions e' = emplace sid s (en_sessions e)"
  shows "books X e'"
proof (cases "map_of (en_sessions e) sid")
  case None
  then have u: "en_sessions e' = en_sessions e @ [(sid, s)]" by (simp add: upd emplace_def)
  have "alist_valid (en_sessions e')"
    using b None by (auto simp: books_def alist_valid_def u map_of_eq_None_iff)
  moreover have "session_books t" if "lookup_session k e' = Some t" "k \<notin> X" for k t
  proof -
    have "lookup_session k e = Some t \<or> t = s"
      using that by (auto simp: lookup_session_def u map_add_def split: option.splits if_splits)
    then show ?thesis using b ok that by (auto simp: books_def)
  qed
  ultimately show ?thesis
    using b l out tr by (auto simp: books_def outstanding_total_def transferred_total_def u)
next
  case (Some t)
  then have u: "en_sessions e' = en_sessions e" by (simp add: upd emplace_def)
  then show ?thesis
    using b l out tr by (auto simp: books_def outstanding_total_def transferred_total_def lookup_session_def)
qed

lemma register_session_fields:
  "en_sessions (register_session s e) = emplace (se_id s) s (en_sessions e)"
  "ledger_fields (en_accounting (register_session s e)) =
     (ac_bytes_admitted (en_accounting e) + mf_total_bytes (rq_manifest (se_request s)),
      ac_bytes_transferred (en_accounting e), ac_bytes_wasted (en_accounting e), ac_bytes_cancelled (en_accounting e),
      ac_bytes_unproven (en_accounting e),
      ac_granted_outstanding_bytes (en_accounting e) + mf_total_bytes (rq_manifest (se_request s)))"
  by (simp_all add: register_session_def Let_def activate_def account_def index_deadline_def ledger_fields_def)

lemma unat_add_mono: "(a :: u64) \<le> a + b \<Longrightarrow> unat (a + b) = unat a + unat b"
  by (simp add: unat_plus_simple)

lemma books_register_session:
  assumes b: "books X e" and fits: "admitted_bytes e \<le> admitted_bytes (register_session s e)"
    and s: "se_outstanding_bytes s = mf_total_bytes (rq_manifest (se_request s))"
      "se_transferred_bytes s = 0" "session_books s"
  shows "books X (register_session s e)"
proof -
  let ?n = "mf_total_bytes (rq_manifest (se_request s))" and ?a = "en_accounting e"
  have a: "unat (ac_bytes_admitted ?a + ?n) = unat (ac_bytes_admitted ?a) + unat ?n"
    using fits register_session_fields(2) [of s e]
    by (intro unat_add_mono) (simp add: admitted_bytes_def ledger_fields_def)
  have o: "unat (ac_granted_outstanding_bytes ?a + ?n) = unat (ac_granted_outstanding_bytes ?a) + unat ?n"
    using a books_ledger [OF b] unat_u64_less [of "ac_bytes_admitted ?a + ?n"]
    by (intro unat_add_u64) (simp add: byte_ledger_def)
  show ?thesis
    by (rule books_insert [OF b, where s = s and sid = "se_id s"])
      (use register_session_fields [of s e] a o s books_ledger [OF b] in
        \<open>auto simp: byte_ledger_def ledger_fields_def\<close>)
qed

section \<open>Operations that leave the admitted-bytes counter alone\<close>

lemma admitted_bytes_frame: "en_accounting e' = en_accounting e \<Longrightarrow> admitted_bytes e' = admitted_bytes e"
  by (simp add: admitted_bytes_def)

lemma admitted_put [simp]: "admitted_bytes (put_session sid s e) = admitted_bytes e"
  by (simp add: admitted_bytes_def)

lemma admitted_emit [simp]: "admitted_bytes (emit k sid r at e) = admitted_bytes e"
  by (simp add: admitted_bytes_def)

lemma admitted_account [simp]:
  "ac_bytes_admitted (f (en_accounting e)) = ac_bytes_admitted (en_accounting e) \<Longrightarrow>
     admitted_bytes (account f e) = admitted_bytes e"
  by (simp add: admitted_bytes_def)

lemma admitted_on_session:
  "(\<And>s. lookup_session sid e = Some s \<Longrightarrow> admitted_bytes (f s e) = admitted_bytes e) \<Longrightarrow>
     admitted_bytes (on_session sid f e) = admitted_bytes e"
  by (rule on_session_rule) (simp_all add: admitted_bytes_def)

lemma admitted_modify [simp]: "admitted_bytes (modify_session sid f e) = admitted_bytes e"
  unfolding modify_session_def by (rule admitted_on_session) simp

lemma admitted_note_timeline [simp]: "admitted_bytes (note_timeline sid at t e) = admitted_bytes e"
  by (simp add: note_timeline_def)

lemma admitted_mark_unproven [simp]: "admitted_bytes (mark_unproven sid n e) = admitted_bytes e"
  unfolding mark_unproven_def by (rule admitted_on_session) (simp add: Let_def)

lemma admitted_settle_cancelled [simp]: "admitted_bytes (settle_outstanding_as_cancelled sid e) = admitted_bytes e"
  unfolding settle_outstanding_as_cancelled_def by (rule admitted_on_session) (simp add: Let_def)

lemma admitted_release_active [simp]: "admitted_bytes (release_active_attempts sid x e) = admitted_bytes e"
  unfolding release_active_attempts_def by (rule admitted_on_session) simp

lemma admitted_waste [simp]: "admitted_bytes (waste_unverified sid e) = admitted_bytes e"
  unfolding waste_unverified_def by (rule admitted_on_session) (simp add: Let_def)

lemma admitted_note_terminal [simp]: "admitted_bytes (note_terminal sid e) = admitted_bytes e"
  unfolding note_terminal_def
  by (rule admitted_on_session) (simp add: admitted_bytes_def deactivate_def account_def Let_def)

lemma admitted_release_path [simp]: "admitted_bytes (release_path_reservation sid e) = admitted_bytes e"
  unfolding release_path_reservation_def
  by (rule admitted_on_session) (simp add: admitted_bytes_def split: option.split)

lemma accounting_prune_loop: "en_accounting (snd (prune_loop target order erased e)) = en_accounting e"
  by (induction target order erased e rule: prune_loop.induct) (auto split: option.split)

lemma accounting_prune_history [simp]: "en_accounting (prune_history e) = en_accounting e"
  using accounting_prune_loop [of "en_retention_bound e * 3 div 4" "en_terminal_order e" False e]
  by (auto simp: prune_history_def rebuild_indexes_def split: prod.splits)

lemma admitted_prune [simp]: "admitted_bytes (prune_history e) = admitted_bytes e"
  by (simp add: admitted_bytes_def)

lemma admitted_settle_terminal [simp]: "admitted_bytes (settle_terminal sid st r d at e) = admitted_bytes e"
proof -
  have "admitted_bytes (on_session sid (\<lambda>s e. if \<not> is_terminal (se_state s) then note_terminal sid e else e) e')
      = admitted_bytes e'" for e'
    by (rule admitted_on_session) simp
  then show ?thesis by (simp add: settle_terminal_def Let_def)
qed

lemma admitted_expire_session [simp]: "admitted_bytes (expire_session d at e sid) = admitted_bytes e"
  by (simp add: expire_session_def Let_def split: option.split)

lemma admitted_fold:
  "(\<And>e x. admitted_bytes (g e x) = admitted_bytes e) \<Longrightarrow> admitted_bytes (foldl g e xs) = admitted_bytes e"
  by (induction xs arbitrary: e) simp_all

lemma admitted_expire_due: "admitted_bytes (expire_due at ds e) = admitted_bytes e"
proof (induction at ds e rule: expire_due.induct)
  case (2 at deadline due rest e)
  have "admitted_bytes (foldl (expire_session deadline at) (e\<lparr>en_deadlines := rest\<rparr>) due) =
      admitted_bytes (e\<lparr>en_deadlines := rest\<rparr>)"
    by (rule admitted_fold) simp
  then show ?case using 2 by (simp add: admitted_bytes_def)
qed (simp add: admitted_bytes_def)

lemma admitted_begin_command [simp]: "admitted_bytes (begin_command at e) = admitted_bytes e"
  by (simp add: begin_command_def enforce_deadlines_def admitted_expire_due)
    (simp add: admitted_bytes_def)

lemma admitted_apply_supersession [simp]: "admitted_bytes (apply_supersession by_s at e sid) = admitted_bytes e"
proof -
  have "admitted_bytes (on_session sid (\<lambda>s. mark_unproven sid (se_outstanding_bytes s)) e) = admitted_bytes e"
    by (rule admitted_on_session) simp
  then show ?thesis by (simp add: apply_supersession_def Let_def)
qed

lemma admitted_remember_command [simp]: "admitted_bytes (remember_command c r e) = admitted_bytes e"
  by (simp add: admitted_bytes_def)

section \<open>Submission and revalidation\<close>

lemma issue_session_fields [simp]:
  "se_id (issue_session sid r x rate at e) = sid"
  "se_request (issue_session sid r x rate at e) = r"
  "se_outstanding_bytes (issue_session sid r x rate at e) = mf_total_bytes (rq_manifest r)"
  "se_transferred_bytes (issue_session sid r x rate at e) = 0"
  "se_state (issue_session sid r x rate at e) = SS_Admitted"
  "se_shards (issue_session sid r x rate at e) = map (new_shard (ax_path_id x)) (mf_shards (rq_manifest r))"
  by (simp_all add: issue_session_def new_session_def Let_def)

lemma issue_session_books [simp]: "session_books (issue_session sid r x rate at e)"
  by (simp add: session_books_defs new_shard_def comp_def)

lemma books_id_factory [simp]: "books X (e\<lparr>en_id_factory := x\<rparr>) = books X e"
  by (rule books_frame) simp_all

lemma books_admit_session:
  assumes b: "books X e" and fits: "admitted_bytes e \<le> admitted_bytes (snd (admit_session r x rate targets at e))"
  shows "books X (snd (admit_session r x rate targets at e))"
proof -
  obtain sid factory where id: "id_factory_next (en_id_factory e) = (sid, factory)" by fastforce
  let ?e1 = "e\<lparr>en_id_factory := factory\<rparr>"
  obtain ok sp where res: "reserve_path_rate (ax_path_id x) rate (en_shaper e) = (ok, sp)" by fastforce
  let ?s = "issue_session sid r x rate at ?e1"
  let ?e2 = "foldl (apply_supersession sid at) (?e1\<lparr>en_shaper := sp\<rparr>) targets"
  have b2: "books X ?e2" using b by (intro books_fold) simp_all
  have a2: "admitted_bytes ?e2 = admitted_bytes e"
    by (subst admitted_fold, simp) (simp add: admitted_bytes_def)
  show ?thesis
  proof (cases ok)
    case False
    then show ?thesis using b by (simp add: admit_session_def id res Let_def)
  next
    case True
    then have "admitted_bytes ?e2 \<le> admitted_bytes (register_session ?s ?e2)"
      using fits a2 by (simp add: admit_session_def id res Let_def)
    then have "books X (register_session ?s ?e2)"
      by (rule books_register_session [OF b2]) simp_all
    then show ?thesis using True by (simp add: admit_session_def id res Let_def)
  qed
qed

lemma books_decide_admission:
  assumes b: "books X e" and fits: "admitted_bytes e \<le> admitted_bytes (snd (decide_admission r at e))"
  shows "books X (snd (decide_admission r at e))"
proof -
  have "books X (snd (admit_within_limits r x targets at e))"
    if "admitted_bytes e \<le> admitted_bytes (snd (admit_within_limits r x targets at e))" for x targets
    using that b by (auto simp: admit_within_limits_def Let_def intro!: books_admit_session split: if_splits)
  then show ?thesis
    using b fits by (auto simp: decide_admission_def split: sum.splits scan_result.splits)
qed

lemma books_submit_session:
  assumes b: "books X e" and fits: "admitted_bytes e \<le> admitted_bytes (snd (submit_session r f at e))"
  shows "books X (snd (submit_session r f at e))"
proof -
  have "books X (snd (decide_admission r at (begin_command at e)))"
    if "admitted_bytes e \<le> admitted_bytes (snd (decide_admission r at (begin_command at e)))"
    by (rule books_decide_admission) (use that b in simp_all)
  then show ?thesis
    using b fits by (simp add: submit_session_def Let_def split: if_splits option.splits)
qed

lemma books_modify_live:
  assumes b: "books X e"
    and f: "\<And>s. lookup_session sid e = Some s \<Longrightarrow> \<not> dead s \<and>
      se_outstanding_bytes (f s) = se_outstanding_bytes s \<and> se_transferred_bytes (f s) = se_transferred_bytes s \<and>
      shard_bytes (f s) = shard_bytes s \<and> \<not> dead (f s)"
  shows "books X (modify_session sid f e)"
  using b by (rule books_modify_same) (use f in \<open>auto simp: same_books_def session_books_def\<close>)

lemma release_path_lookup:
  "lookup_session k (release_path_reservation sid e) = Some s' \<Longrightarrow>
     \<exists>s. lookup_session k e = Some s \<and> se_state s' = se_state s \<and> se_shards s' = se_shards s"
  by (auto simp: release_path_reservation_def on_session_def lookup_frame [of "e\<lparr>en_dangling := True\<rparr>" e]
      split: option.splits if_splits)

lemma books_reissue_envelope:
  assumes b: "books X e" and s: "lookup_session sid e = Some s" "\<not> dead s"
  shows "books X (snd (reissue_envelope sid s0 c p rate at e))"
proof -
  let ?e1 = "release_path_reservation sid e"
  obtain ok sp where res: "reserve_path_rate p rate (en_shaper ?e1) = (ok, sp)" by fastforce
  have live: "\<not> dead t" if "lookup_session sid ?e1 = Some t" for t
    using release_path_lookup [OF that] s by (auto simp: dead_def)
  have m: "books X (modify_session sid (\<lambda>s. s\<lparr>se_reserved_path := a1, se_reserved_rate_bps := a2,
      se_envelope_sequence := a3, se_envelope := a4, se_state := SS_Admitted, se_paused := False,
      se_stale_reason := [], se_updated_at := at, se_last_reason := RC_Admitted, se_last_detail := a5\<rparr>)
      (?e1\<lparr>en_shaper := sp\<rparr>))" for a1 a2 a3 a4 a5
    by (rule books_modify_live) (use b live in \<open>auto simp: dead_def shard_bytes_def\<close>)
  have idx: "books X (on_session sid index_deadline e')" if "books X e'" for e'
    by (rule on_session_rule) (use that books_frame [of "index_deadline _ e'" e'] in simp_all)
  show ?thesis
    using b by (auto simp: reissue_envelope_def res Let_def intro!: books_note_timeline idx m)
qed

lemma books_modify_fail:
  assumes "books X e" shows "books (insert sid X) (modify_session sid fail_state e)"
proof -
  have b: "books (insert sid X) e" using assms by (rule books_mono) auto
  show ?thesis
    unfolding modify_session_def
  proof (rule on_session_rule)
    fix s assume s: "lookup_session sid e = Some s"
    show "books (insert sid X) (put_session sid (fail_state s) e)"
      by (rule books_step [OF b s]) (use b in \<open>auto simp: books_def fail_state_def\<close>)
  qed (use b in simp)
qed

lemma books_fail_revalidation:
  "books (insert sid X) e \<Longrightarrow> books X (snd (fail_revalidation sid r d at e))"
  by (simp add: fail_revalidation_def Let_def ledger_fields_def books_settle_exempt)

lemma books_replan_session:
  assumes b: "books X e" and s: "lookup_session sid e = Some s" "\<not> dead s"
  shows "books X (snd (replan_session sid s c at e))"
proof -
  have d: "books X (modify_session sid (\<lambda>s. s\<lparr>se_state := SS_Deferred, se_stale_reason := t, se_updated_at := at\<rparr>) e)" for t
    by (rule books_modify_live) (use b s in \<open>auto simp: dead_def shard_bytes_def\<close>)
  have f: "books X (snd (fail_revalidation sid r t at (mark_unproven sid n (modify_session sid fail_state e))))" for r t n
    by (intro books_fail_revalidation books_mark_unproven books_modify_fail b)
  show ?thesis
    using b d f books_reissue_envelope [OF b s]
    by (simp add: replan_session_def Let_def split: option.split)
qed

lemma books_revalidate_session: "books X e \<Longrightarrow> books X (snd (revalidate_session sid f at e))"
  by (auto simp: revalidate_session_def Let_def dead_def
      intro!: books_replan_session books_fail_revalidation books_modify_fail split: option.split)

section \<open>Lifecycle and credit\<close>

lemma books_pause_session: "books X e \<Longrightarrow> books X (snd (pause_session sid f r at e))"
  by (auto simp: pause_session_def Let_def is_terminal_def dead_def shard_bytes_def
      intro!: books_note_timeline books_modify_live split: option.split)

lemma books_resume_session: "books X e \<Longrightarrow> books X (snd (resume_session sid f at e))"
  by (auto simp: resume_session_def Let_def same_books_def session_books_defs
      intro!: books_note_timeline books_modify_same split: option.split)

lemma books_cancel_session: "books X e \<Longrightarrow> books X (snd (cancel_session sid f r d at e))"
  by (auto simp: cancel_session_def Let_def ledger_fields_def intro!: books_note_timeline split: option.split)

lemma grant_session_fields [simp]:
  "se_outstanding_bytes (grant_session b p g at s) = se_outstanding_bytes s"
  "se_transferred_bytes (grant_session b p g at s) = se_transferred_bytes s"
  "se_paused (grant_session b p g at s) = se_paused s"
  by (simp_all add: grant_session_def)

lemma sum_list_update_same:
  "f x = f (xs ! p) \<Longrightarrow> (\<Sum>h\<leftarrow>xs[p := x]. f h :: nat) = (\<Sum>h\<leftarrow>xs. f h)"
proof (cases "p < length xs")
  case True
  assume "f x = f (xs ! p)"
  then have "map f (xs[p := x]) = map f xs"
    using True by (intro nth_equalityI) (auto simp: nth_list_update)
  then show ?thesis by simp
qed (simp add: list_update_beyond)

lemma grant_session_same: "same_books s (grant_session b p g at s)"
proof -
  have "shard_bytes (grant_session b p g at s) = shard_bytes s"
    by (simp add: shard_bytes_def grant_session_def sum_list_update_same)
  moreover have "dead (grant_session b p g at s) = dead s"
    by (auto simp: dead_def grant_session_def)
  ultimately show ?thesis by (simp add: same_books_def session_books_def)
qed

lemma books_record_grant:
  assumes "books X e" and "lookup_session sid e = Some s"
  shows "books X (snd (record_grant sid s p i n at e))"
proof -
  have "books X (put_session sid (grant_session b p g at s) (e\<lparr>en_id_factory := fac\<rparr>))" for b g fac
    by (rule books_put_same [OF _ _ grant_session_same]) (use assms in \<open>simp_all add: lookup_session_def\<close>)
  then show ?thesis
    by (auto simp: record_grant_def Let_def ledger_fields_def split: prod.split intro!: books_note_timeline)
qed

lemma books_grant_credit:
  assumes "books X e" and "lookup_session sid e = Some s"
  shows "books X (snd (grant_credit sid s p i at e))"
  using assms by (auto simp: grant_credit_def Let_def split: prod.split intro!: books_record_grant)

lemma books_request_wave: "books X e \<Longrightarrow> books X (snd (request_wave sid i f at e))"
  by (auto simp: request_wave_def Let_def split: option.split intro!: books_grant_credit)

section \<open>Evidence\<close>

lemma set_shard_same:
  assumes "\<And>h. sh_transferred_bytes (f h) = sh_transferred_bytes h"
  shows "shard_bytes (set_shard p f s) = shard_bytes s"
  using assms by (simp add: shard_bytes_def set_shard_def sum_list_update_same)

lemma set_shard_fields [simp]:
  "se_outstanding_bytes (set_shard p f s) = se_outstanding_bytes s"
  "se_transferred_bytes (set_shard p f s) = se_transferred_bytes s"
  "se_state (set_shard p f s) = se_state s"
  "se_paused (set_shard p f s) = se_paused s"
  "length (se_shards (set_shard p f s)) = length (se_shards s)"
  "se_attempts (set_shard p f s) = se_attempts s"
  by (simp_all add: set_shard_def)

lemma set_attempt_fields [simp]:
  "se_outstanding_bytes (set_attempt a f s) = se_outstanding_bytes s"
  "se_transferred_bytes (set_attempt a f s) = se_transferred_bytes s"
  "se_state (set_attempt a f s) = se_state s"
  "se_paused (set_attempt a f s) = se_paused s"
  "se_shards (set_attempt a f s) = se_shards s"
  by (simp_all add: set_attempt_def)

lemma set_attempt_shard_bytes [simp]: "shard_bytes (set_attempt a f s) = shard_bytes s"
  by (simp add: shard_bytes_def)

lemma same_booksI:
  assumes "se_outstanding_bytes s' = se_outstanding_bytes s" and "se_transferred_bytes s' = se_transferred_bytes s"
    and "se_state s' = se_state s" and "se_paused s' = se_paused s" and "shard_bytes s' = shard_bytes s"
  shows "same_books s s'"
  using assms by (simp add: same_books_def session_books_def dead_def)

lemma books_drop_active_attempt [simp]: "books X e \<Longrightarrow> books X (drop_active_attempt sid e)"
  unfolding drop_active_attempt_def
  by (rule on_session_rule)
    (auto intro!: books_put_same same_booksI simp: ledger_fields_def shard_bytes_def)

lemma books_announce [simp]: "books X e \<Longrightarrow> books X (announce_completion sid at e)"
  unfolding announce_completion_def by (rule on_session_rule) simp_all

lemma books_progress_and_announce [simp]: "books X e \<Longrightarrow> books X (progress_and_announce sid at e)"
  unfolding progress_and_announce_def by (rule on_session_rule) simp_all

lemma books_report_source_complete: "books X e \<Longrightarrow> books X (snd (report_source_complete ev f at e))"
proof -
  assume b: "books X e"
  have "same_books s (note_source at (set_shard p (source_complete_shard n) s))" for s p n
    using set_shard_same [of "source_complete_shard n" p s]
    by (intro same_booksI) (simp_all add: note_source_def source_complete_shard_def shard_bytes_def)
  then show ?thesis
    using b by (auto simp: report_source_complete_def Let_def split: option.split
        intro!: books_progress_and_announce books_put_same)
qed

lemma shard_bytes_set_shard:
  "p < length (se_shards s) \<Longrightarrow>
     shard_bytes (set_shard p f s) + unat (sh_transferred_bytes (se_shards s ! p)) =
     shard_bytes s + unat (sh_transferred_bytes (f (se_shards s ! p)))"
proof -
  assume p: "p < length (se_shards s)"
  let ?g = "\<lambda>h. unat (sh_transferred_bytes h)"
  have "map ?g ((se_shards s)[p := f (se_shards s ! p)]) = (map ?g (se_shards s))[p := ?g (f (se_shards s ! p))]"
    by (simp add: map_update)
  then show ?thesis
    using p member_le_sum_list [of "map ?g (se_shards s) ! p" "map ?g (se_shards s)"]
    by (simp add: shard_bytes_def set_shard_def sum_list_update)
qed

lemma shard_bytes_ge: "p < length (se_shards s) \<Longrightarrow> unat (sh_transferred_bytes (se_shards s ! p)) \<le> shard_bytes s"
  unfolding shard_bytes_def by (rule member_le_sum_list) (auto intro: nth_mem)

lemma books_acknowledge_step:
  assumes b: "books X e" and s: "lookup_session sid e = Some s" and live: "\<not> dead s" "sid \<notin> X"
    and p: "p < length (se_shards s)" and n: "n \<le> se_outstanding_bytes s"
  shows "books X (account (\<lambda>a. a\<lparr>ac_granted_outstanding_bytes :=
        ac_granted_outstanding_bytes a - min n (ac_granted_outstanding_bytes a),
        ac_bytes_transferred := ac_bytes_transferred a + n\<rparr>)
      (put_session sid (set_shard p (receive_bytes n d) (set_attempt aid g
        (s\<lparr>se_outstanding_bytes := (if n > se_outstanding_bytes s then 0 else se_outstanding_bytes s - n),
           se_transferred_bytes := se_transferred_bytes s + n\<rparr>))) e))"
proof -
  let ?a = "en_accounting e"
  have sb: "shard_bytes s \<le> unat (se_transferred_bytes s)"
    using books_session [OF b s] live by (simp add: session_books_def)
  have no: "unat n \<le> unat (se_outstanding_bytes s)" using n by (simp add: word_le_nat_alt)
  have na: "n \<le> ac_granted_outstanding_bytes ?a" using no books_bounds(1) [OF b s] by (simp add: word_le_nat_alt)
  have o: "unat (ac_granted_outstanding_bytes ?a - n) = unat (ac_granted_outstanding_bytes ?a) - unat n"
    using na by (rule unat_sub_le)
  have so: "unat (se_outstanding_bytes s - n) = unat (se_outstanding_bytes s) - unat n"
    using n by (rule unat_sub_le)
  have room: "unat (ac_bytes_transferred ?a) + unat n < 2 ^ 64"
    using books_ledger [OF b] unat_u64_less [of "ac_bytes_admitted ?a"] na
    by (simp add: byte_ledger_def word_le_nat_alt)
  have t: "unat (ac_bytes_transferred ?a + n) = unat (ac_bytes_transferred ?a) + unat n"
    using room by (rule unat_add_u64)
  have st: "unat (se_transferred_bytes s + n) = unat (se_transferred_bytes s) + unat n"
    using room books_bounds(2) [OF b s] by (intro unat_add_u64) simp
  have ht: "unat (sh_transferred_bytes (se_shards s ! p) + n) = unat (sh_transferred_bytes (se_shards s ! p)) + unat n"
    using room books_bounds(2) [OF b s] sb shard_bytes_ge [OF p] by (intro unat_add_u64) simp
  let ?s0 = "s\<lparr>se_outstanding_bytes := se_outstanding_bytes s - n, se_transferred_bytes := se_transferred_bytes s + n\<rparr>"
  let ?s' = "set_shard p (receive_bytes n d) (set_attempt aid g ?s0)"
  have "shard_bytes ?s' = shard_bytes s + unat n"
    using shard_bytes_set_shard [of p "set_attempt aid g ?s0" "receive_bytes n d"] p ht
    by (simp add: receive_bytes_def shard_bytes_def)
  then have ok: "session_books ?s'"
    using sb st live by (simp add: session_books_def dead_def)
  have nn: "\<not> n > se_outstanding_bytes s" using n by (simp add: not_less)
  have mm: "min n (ac_granted_outstanding_bytes ?a) = n" using na by (rule min_absorb1)
  show ?thesis
    by (rule books_step [OF b s, where s' = ?s'])
      (use books_ledger [OF b] nn mm o so t st ok books_bounds [OF b s] no in
        \<open>auto simp: byte_ledger_def\<close>)
qed

lemma books_modify_shard:
  assumes "books X e" and "\<And>h. sh_transferred_bytes (f h) = sh_transferred_bytes h"
  shows "books X (modify_session sid (set_shard p f) e)"
  using assms(1) by (rule books_modify_same) (simp add: same_booksI set_shard_same assms(2))

lemma books_acknowledge_transfer:
  assumes b: "books X e" and s: "lookup_session sid e = Some s" and live: "\<not> dead s" "sid \<notin> X"
    and p: "p < length (se_shards s)" and n: "n \<le> se_outstanding_bytes s"
  shows "books X (acknowledge_transfer sid p ev n e)"
  unfolding acknowledge_transfer_def Let_def
  by (rule books_modify_shard, rule books_drop_active_attempt)
    (use books_acknowledge_step [OF assms] s in
      \<open>simp_all add: modify_session_def on_session_def settle_received_def\<close>)

lemma shard_position_bound: "shard_position s i = Some p \<Longrightarrow> p < length (se_shards s)"
  by (auto simp: shard_position_def Let_def split: if_splits)

lemma evidence_live: "evidence_status s f e = EC_Ok \<Longrightarrow> \<not> dead s"
  by (auto simp: evidence_status_def dead_def is_terminal_def split: if_splits)

lemma books_report_transfer: "books {} e \<Longrightarrow> books {} (snd (report_transfer ev f at e))"
proof -
  assume "books {} e"
  then have b: "books {} (begin_command at e)" by simp
  have obs: "same_books s (set_attempt a g s)" for s a g
    by (rule same_booksI) simp_all
  have un: "books {} (modify_session sid (set_attempt a g) (put_session sid (set_attempt a' g' s) (begin_command at e)))"
    if "lookup_session sid (begin_command at e) = Some s" for sid a g a' g' s
    using b that obs by (intro books_modify_same books_put_same [OF b that]) auto
  have ack: "books {} (acknowledge_transfer sid p ev n (put_session sid (set_attempt a' g' s) (begin_command at e)))"
    if "lookup_session sid (begin_command at e) = Some s" "\<not> dead s" "p < length (se_shards s)"
      "\<not> n > se_outstanding_bytes s" for sid p n a' g' s
    by (rule books_acknowledge_transfer [where s = "set_attempt a' g' s"])
      (use that obs books_put_same [OF b] in \<open>auto simp: dead_def\<close>)
  show ?thesis
    using b by (auto simp: report_transfer_def Let_def obs
        intro!: books_put_same books_progress_and_announce un ack
        dest: evidence_live shard_position_bound split: option.split)
qed

section \<open>Verification, ambiguity and durability\<close>

lemma books_fail_verification [simp]:
  assumes "books X e"
  shows "books X (fail_verification sid p aid d at e)"
proof -
  have "books X (modify_session sid (\<lambda>s. set_shard p (\<lambda>h. h\<lparr>sh_state := SH_Failed\<rparr>)
      (set_attempt aid (\<lambda>a. a\<lparr>at_outcome := AO_Failed\<rparr>) s)) e)"
    using assms by (rule books_modify_same) (simp add: same_booksI set_shard_same)
  then show ?thesis by (simp add: fail_verification_def ledger_fields_def)
qed

lemma books_emit_for [simp]: "books X e \<Longrightarrow> books X (emit_for k sid r at e)"
  unfolding emit_for_def by (rule on_session_rule) simp_all

lemma books_accept_verification [simp]: "books X e \<Longrightarrow> books X (accept_verification sid p ev e)"
  unfolding accept_verification_def
proof (rule on_session_rule)
  fix s assume b: "books X e" and s: "lookup_session sid e = Some s"
  have "same_books s (set_shard p (verify_shard ev) (set_attempt aid g (s\<lparr>se_verified_bytes := n\<rparr>)))" for aid g n
    by (rule same_booksI) (simp_all add: set_shard_same verify_shard_def, simp add: shard_bytes_def)
  then have k: "books X (put_session sid (set_shard p (verify_shard ev) (set_attempt aid g (s\<lparr>se_verified_bytes := n\<rparr>))) e)"
    for aid g n
    using books_put_same [OF b s] by blast
  show "books X (let previously = sh_verified_bytes (se_shards s ! p);
          delta = if previously < vf_verified_bytes ev then vf_verified_bytes ev - previously else 0
      in account (\<lambda>a. a\<lparr>ac_bytes_verified := ac_bytes_verified a + delta\<rparr>)
           (put_session sid (set_shard p (verify_shard ev) (set_attempt (vf_attempt ev)
              (\<lambda>a. a\<lparr>at_outcome := AO_Verified\<rparr>) (s\<lparr>se_verified_bytes := se_verified_bytes s + delta\<rparr>))) e))"
    unfolding Let_def by (subst books_account, simp add: ledger_fields_def) (rule k)
qed simp

lemma books_reopen:
  assumes b: "books X e" and s: "lookup_session sid e = Some s" and live: "\<not> dead s" "sid \<notin> X"
    and p: "p < length (se_shards s)"
    and n: "n = sh_transferred_bytes (se_shards s ! p)"
    and fits: "ac_bytes_admitted (en_accounting e) \<le> ac_bytes_admitted (en_accounting e) + n"
  shows "books X (account (\<lambda>a. a\<lparr>ac_bytes_transferred := ac_bytes_transferred a - min n (ac_bytes_transferred a),
        ac_bytes_wasted := ac_bytes_wasted a + n,
        ac_granted_outstanding_bytes := ac_granted_outstanding_bytes a + n,
        ac_bytes_admitted := ac_bytes_admitted a + n\<rparr>)
      (put_session sid (set_shard p (\<lambda>h. h\<lparr>sh_transferred_bytes := 0, sh_granted_bytes := 0, sh_attempt := None\<rparr>)
        (s\<lparr>se_transferred_bytes := (if se_transferred_bytes s > n then se_transferred_bytes s - n else 0),
           se_wasted_bytes := w, se_outstanding_bytes := se_outstanding_bytes s + n,
           se_admitted_bytes := a', se_updated_at := t\<rparr>)) e))"
proof -
  let ?a = "en_accounting e"
  have sb: "shard_bytes s \<le> unat (se_transferred_bytes s)"
    using books_session [OF b s] live by (simp add: session_books_def)
  have ns: "unat n \<le> unat (se_transferred_bytes s)" using sb shard_bytes_ge [OF p] by (simp add: n)
  have nt: "unat n \<le> unat (ac_bytes_transferred ?a)" using ns books_bounds(2) [OF b s] by simp
  have mm: "min n (ac_bytes_transferred ?a) = n" using nt by (simp add: min_absorb1 word_le_nat_alt)
  have adm: "unat (ac_bytes_admitted ?a + n) = unat (ac_bytes_admitted ?a) + unat n"
    using fits by (rule unat_add_mono)
  have top: "unat (ac_bytes_admitted ?a) + unat n < 2 ^ 64"
    using adm unat_u64_less [of "ac_bytes_admitted ?a + n"] by simp
  have w: "unat (ac_bytes_wasted ?a + n) = unat (ac_bytes_wasted ?a) + unat n"
    using top books_ledger [OF b] by (intro unat_add_u64) (simp add: byte_ledger_def)
  have o: "unat (ac_granted_outstanding_bytes ?a + n) = unat (ac_granted_outstanding_bytes ?a) + unat n"
    using top books_ledger [OF b] by (intro unat_add_u64) (simp add: byte_ledger_def)
  have so: "unat (se_outstanding_bytes s + n) = unat (se_outstanding_bytes s) + unat n"
    using top books_ledger [OF b] books_bounds(1) [OF b s] by (intro unat_add_u64) (simp add: byte_ledger_def)
  have t: "unat (ac_bytes_transferred ?a - n) = unat (ac_bytes_transferred ?a) - unat n"
    using nt by (simp add: unat_sub_le word_le_nat_alt)
  let ?tr = "if se_transferred_bytes s > n then se_transferred_bytes s - n else 0"
  have st: "unat ?tr = unat (se_transferred_bytes s) - unat n"
    using ns by (auto simp: unat_sub_le word_less_nat_alt word_le_nat_alt not_less)
  let ?s0 = "s\<lparr>se_transferred_bytes := ?tr, se_wasted_bytes := w, se_outstanding_bytes := se_outstanding_bytes s + n,
      se_admitted_bytes := a', se_updated_at := t\<rparr>"
  let ?f = "\<lambda>h. h\<lparr>sh_transferred_bytes := 0, sh_granted_bytes := 0, sh_attempt := None\<rparr>"
  have "shard_bytes (set_shard p ?f ?s0) + unat n = shard_bytes s"
    using shard_bytes_set_shard [of p ?s0 ?f] p by (simp add: n shard_bytes_def)
  then have ok: "session_books (set_shard p ?f ?s0)"
    using sb st live by (simp add: session_books_def dead_def)
  show ?thesis
    by (rule books_step [OF b s, where s' = "set_shard p ?f ?s0"])
      (use books_ledger [OF b] mm adm w o so t st ok nt ns in \<open>simp_all add: byte_ledger_def subset_insertI\<close>)
qed

lemma admitted_drop_active [simp]: "admitted_bytes (drop_active_attempt sid e) = admitted_bytes e"
  unfolding drop_active_attempt_def by (rule admitted_on_session) simp

lemma admitted_complete_session [simp]: "admitted_bytes (complete_session sid at e) = admitted_bytes e"
  by (simp add: complete_session_def Let_def)

lemma admitted_recompute_progress [simp]: "admitted_bytes (recompute_progress sid at e) = admitted_bytes e"
  unfolding recompute_progress_def Let_def by (subst admitted_on_session) simp_all

lemma drop_active_lookup:
  "lookup_session sid (drop_active_attempt sid e) =
     map_option (\<lambda>s. if se_active_attempts s > 0 then s\<lparr>se_active_attempts := se_active_attempts s - 1\<rparr> else s)
       (lookup_session sid e)"
  by (auto simp: drop_active_attempt_def on_session_def lookup_frame [of "e\<lparr>en_dangling := True\<rparr>" e]
      split: option.splits)

lemma books_rearm_truncated:
  assumes b: "books {} e" and s: "lookup_session sid e = Some s" "\<not> dead s" "p < length (se_shards s)"
    and fits: "admitted_bytes e \<le> admitted_bytes (rearm_truncated sid p ev at e)"
  shows "books {} (rearm_truncated sid p ev at e)"
proof -
  let ?aid = "vf_attempt ev"
  let ?e1 = "modify_session sid (\<lambda>s. set_shard p (\<lambda>h. h\<lparr>sh_state := SH_Pending, sh_sequence := 0\<rparr>)
      (set_attempt ?aid (\<lambda>a. a\<lparr>at_outcome := AO_Failed\<rparr>) s)) e"
  let ?g = "\<lambda>s e. case find_attempt s ?aid of
      Some a \<Rightarrow> if at_outstanding a then drop_active_attempt sid
          (put_session sid (set_attempt ?aid (\<lambda>a. a\<lparr>at_outstanding := False\<rparr>) s) e) else e
    | None \<Rightarrow> e"
  let ?e2 = "on_session sid ?g ?e1"
  have b1: "books {} ?e1"
    using b by (rule books_modify_same) (simp add: same_booksI set_shard_same)
  have b2: "books {} ?e2"
    by (rule on_session_rule)
      (use b1 in \<open>auto split: option.split intro!: books_drop_active_attempt books_put_same same_booksI\<close>)
  have a2: "admitted_bytes ?e2 = admitted_bytes e"
    by (subst admitted_on_session) (simp_all split: option.split)
  have l2: "\<exists>t. lookup_session sid ?e2 = Some t" and live: "\<And>t. lookup_session sid ?e2 = Some t \<Longrightarrow>
      \<not> dead t \<and> p < length (se_shards t)"
    using s by (auto simp: on_session_def modify_lookup drop_active_lookup dead_def split: option.splits if_splits)
  then obtain t where t: "lookup_session sid ?e2 = Some t" by blast
  show ?thesis
    using fits a2 live [OF t] t unfolding rearm_truncated_def Let_def on_session_def [of sid _ ?e2]
    by (simp add: admitted_bytes_def books_reopen [OF b2 t])
qed

lemma books_record_ambiguity [simp]: "books X e \<Longrightarrow> books X (record_ambiguity sid aid d t at e)"
  unfolding record_ambiguity_def Let_def
  by (intro books_recompute_progress books_note_timeline books_modify_same on_session_rule [of sid e "books X"])
    (auto simp: same_booksI shard_bytes_def split: option.split)

lemma books_report_unresolved: "books X e \<Longrightarrow> books X (snd (report_unresolved ev p at e))"
  unfolding report_unresolved_def Let_def
  by (auto intro!: books_record_ambiguity books_drop_active_attempt books_modify_same
      simp: same_booksI set_shard_same)

lemma books_report_verification:
  assumes b: "books {} e" and fits: "admitted_bytes e \<le> admitted_bytes (snd (report_verification ev f at e))"
  shows "books {} (snd (report_verification ev f at e))"
proof -
  let ?e = "begin_command at e"
  have b1: "books {} ?e" using b by simp
  have tr: "books {} (snd (report_truncated ev p at ?e))"
    if "lookup_session (vf_session ev) ?e = Some s" "evidence_status s f ?e = EC_Ok"
      "shard_position s (vf_shard ev) = Some p"
      "admitted_bytes e \<le> admitted_bytes (snd (report_truncated ev p at ?e))" for s p
    using that evidence_live [OF that(2)] shard_position_bound [OF that(3)]
    by (auto simp: report_truncated_def Let_def
        intro!: books_recompute_progress books_note_timeline books_rearm_truncated [OF b1])
  have v: "books {} (snd (report_verified ev p s at ?e))" for p s
    using b1 by (simp add: report_verified_def Let_def)
  show ?thesis
    using b1 fits v books_report_unresolved [OF b1]
    by (auto simp: report_verification_def Let_def intro: tr
        split: option.splits verification_outcome.splits if_splits)
qed

lemma set_attempt_same: "same_books s (set_attempt a g s)"
  by (rule same_booksI) simp_all

lemma ambiguous_session_same: "same_books s (ambiguous_session a at s)"
  by (auto simp: ambiguous_session_def set_shard_same intro!: same_booksI split: option.split)

lemma books_report_ambiguous: "books X e \<Longrightarrow> books X (snd (report_ambiguous sid aid q c f at e))"
  by (auto simp: report_ambiguous_def Let_def ambiguous_session_same set_attempt_same
      intro!: books_record_ambiguity books_modify_same books_drop_active_attempt books_put_same
      split: option.split)

lemma books_record_durability: "books X e \<Longrightarrow> books X (snd (record_durability_assertion sid d f at e))"
  by (auto simp: record_durability_assertion_def Let_def books_frame [of "e\<lparr>en_commands_processed := _\<rparr>" e]
      shard_bytes_def intro!: books_note_timeline books_modify_same same_booksI split: option.split)

lemma books_poll_deadlines: "books X e \<Longrightarrow> books X (snd (poll_deadlines at e))"
  by (simp add: poll_deadlines_def enforce_deadlines_def books_expire_due)

lemma books_begin_shutdown: "books X e \<Longrightarrow> books X (snd (begin_shutdown at e))"
  by (auto simp: begin_shutdown_def books_frame [of "e\<lparr>en_shutting_down := _\<rparr>" e])

lemma books_engine_new: "books X (engine_new cfg at)"
proof -
  have "en_sessions (engine_new cfg at) = []" and "en_accounting (engine_new cfg at) = zero_accounting"
    by (simp_all add: engine_new_def Let_def configure_shaper_def)
  then show ?thesis
    by (simp add: books_def byte_ledger_def zero_accounting_def alist_valid_def outstanding_total_def
        transferred_total_def lookup_session_def)
qed

lemma books_rehash:
  assumes "books X e" and "mset sessions = mset (en_sessions e)"
  shows "books X (e\<lparr>en_sessions := sessions\<rparr>)"
proof -
  have v: "alist_valid (en_sessions e)" using assms(1) by (simp add: books_def)
  have m: "map_of sessions = map_of (en_sessions e)"
    using map_of_mset [OF assms(2) [symmetric] v] by simp
  show ?thesis
    using assms alist_valid_mset [OF assms(2) [symmetric] v] m
    by (simp add: books_def outstanding_total_def transferred_total_def lookup_session_def
        alist_weight_mset [OF assms(2)])
qed

end
