(* ===== verification/Engine_Machine.thy ===== *)
theory Engine_Machine
  imports Engine_Books_Ops
begin

text \<open>
  The engine as a state machine: one command per public state-changing operation, a step
  relation that also lets the session table be reordered arbitrarily (hash maps have no fixed
  iteration order), and reachability from a freshly constructed engine. The interface
  \<open>engine_invariant\<close> turns a predicate that every step keeps into a fact about all reachable
  engines; it is interpreted here on the books. Reachability assumes that the lifetime counter
  of admitted bytes does not wrap around its 64 bits.
\<close>

section \<open>Commands\<close>

datatype command =
    ApplyPolicy policy_snapshot
  | ApplyTopology topology_snapshot
  | UpsertContract workload_contract
  | AdvanceEpoch coordinator_epoch
  | SubmitSession session_request command_fence
  | RevalidateSession session_id command_fence
  | PauseSession session_id command_fence string
  | ResumeSession session_id command_fence
  | CancelSession session_id command_fence reason_code string
  | RequestWave session_id shard_index command_fence
  | ReportSourceComplete source_complete_evidence command_fence
  | ReportTransfer transfer_evidence command_fence
  | ReportVerification verification_evidence command_fence
  | ReportAmbiguous session_id attempt_id attempt_sequence string command_fence
  | RecordDurability session_id durability_assertion command_fence
  | PollDeadlines
  | BeginShutdown

definition result_status :: "'a result \<Rightarrow> status" where
  "result_status r = (case r of Inl err \<Rightarrow> err | Inr _ \<Rightarrow> EC_Ok)"

primrec execute :: "command \<Rightarrow> nanos \<Rightarrow> engine \<Rightarrow> status \<times> engine" where
  "execute (ApplyPolicy p) at e = apply_policy p at e"
| "execute (ApplyTopology t) at e = apply_topology t at e"
| "execute (UpsertContract c) at e = upsert_contract c at e"
| "execute (AdvanceEpoch ep) at e = advance_epoch ep at e"
| "execute (SubmitSession r f) at e = map_prod result_status id (submit_session r f at e)"
| "execute (RevalidateSession sid f) at e = map_prod result_status id (revalidate_session sid f at e)"
| "execute (PauseSession sid f reason) at e = pause_session sid f reason at e"
| "execute (ResumeSession sid f) at e = resume_session sid f at e"
| "execute (CancelSession sid f reason detail) at e = cancel_session sid f reason detail at e"
| "execute (RequestWave sid i f) at e = map_prod result_status id (request_wave sid i f at e)"
| "execute (ReportSourceComplete ev f) at e = report_source_complete ev f at e"
| "execute (ReportTransfer ev f) at e = report_transfer ev f at e"
| "execute (ReportVerification ev f) at e = report_verification ev f at e"
| "execute (ReportAmbiguous sid aid q cause f) at e = report_ambiguous sid aid q cause f at e"
| "execute (RecordDurability sid d f) at e = record_durability_assertion sid d f at e"
| "execute PollDeadlines at e = poll_deadlines at e"
| "execute BeginShutdown at e = begin_shutdown at e"

section \<open>Steps and reachability\<close>

inductive fabric_step :: "engine \<Rightarrow> engine \<Rightarrow> bool" where
  step_command: "fabric_step e (snd (execute c at e))"
| step_rehash: "mset sessions = mset (en_sessions e) \<Longrightarrow> fabric_step e (e\<lparr>en_sessions := sessions\<rparr>)"

inductive_cases fabric_stepE: "fabric_step e e'"

inductive reachable :: "engine \<Rightarrow> bool" where
  reachable_new: "reachable (engine_new cfg at)"
| reachable_step:
    "reachable e \<Longrightarrow> fabric_step e e' \<Longrightarrow> admitted_bytes e \<le> admitted_bytes e' \<Longrightarrow> reachable e'"

locale engine_invariant =
  fixes I :: "engine \<Rightarrow> bool"
  assumes new: "I (engine_new cfg at)"
    and step: "I e \<Longrightarrow> admitted_bytes e \<le> admitted_bytes (snd (execute c at e)) \<Longrightarrow> I (snd (execute c at e))"
    and rehash: "I e \<Longrightarrow> mset sessions = mset (en_sessions e) \<Longrightarrow> I (e\<lparr>en_sessions := sessions\<rparr>)"
begin

lemma fabric_step_keeps: "fabric_step e e' \<Longrightarrow> I e \<Longrightarrow> admitted_bytes e \<le> admitted_bytes e' \<Longrightarrow> I e'"
  by (erule fabric_stepE) (use step rehash in auto)

lemma reachable_holds: "reachable e \<Longrightarrow> I e"
  by (induction rule: reachable.induct) (use new fabric_step_keeps in auto)

end

section \<open>The books hold in every reachable engine\<close>

lemma books_execute:
  assumes b: "books {} e" and fits: "admitted_bytes e \<le> admitted_bytes (snd (execute c at e))"
  shows "books {} (snd (execute c at e))"
proof (cases c)
  case (SubmitSession r f)
  then show ?thesis using books_submit_session [OF b, of r f at] fits by simp
next
  case (ReportVerification ev f)
  then show ?thesis using books_report_verification [OF b, of ev f at] fits by simp
qed (use b in \<open>simp_all add: books_apply_policy books_apply_topology books_upsert_contract books_advance_epoch
      books_revalidate_session books_pause_session books_resume_session books_cancel_session books_request_wave
      books_report_source_complete books_report_transfer books_report_ambiguous books_record_durability
      books_poll_deadlines books_begin_shutdown\<close>)

interpretation ledger: engine_invariant "books {}"
  by unfold_locales (fact books_engine_new books_execute books_rehash)+

end
