(* ===== verification/Engine_Evolution.thy ===== *)
theory Engine_Evolution
  imports Engine_Machine
begin

text \<open>
  How one command may change the session table. \<open>evolves X a e\<close> says that \<open>e\<close> was reached
  from \<open>a\<close> with its authority and replay index intact, without new sessions, with the identity
  of every session kept, with the sessions outside \<open>X\<close> untouched, and with only terminal
  sessions of those evicted. The lemmas show it for every helper that runs under the lock and
  then for the operations, whose \<open>X\<close> is the session they name and the sessions whose deadline
  has passed.
\<close>

section \<open>The evolution order\<close>

definition authority where
  "authority e = (en_limits e, en_policy e, en_topology e, en_contracts e, en_epoch e, en_shutting_down e,
     en_config_status e, en_command_index e, en_command_order e)"

definition shard_identity :: "shard_record \<Rightarrow> shard_index \<times> u64 \<times> digest \<times> path_class_id" where
  "shard_identity h = (sh_index h, sh_declared_bytes h, sh_declared_digest h, sh_path_class h)"

definition session_identity where
  "session_identity s = (se_id s, se_request s, se_created_at s, map shard_identity (se_shards s))"

fun session_step :: "session_id set \<Rightarrow> session_id \<Rightarrow> session_record option \<Rightarrow> session_record option \<Rightarrow> bool" where
  "session_step X k None t = (t = None)"
| "session_step X k (Some s) None = (k \<in> X \<or> is_terminal (se_state s))"
| "session_step X k (Some s) (Some s') = (session_identity s' = session_identity s \<and> (k \<notin> X \<longrightarrow> s' = s))"

definition sessions_evolve :: "session_id set \<Rightarrow> engine \<Rightarrow> engine \<Rightarrow> bool" where
  "sessions_evolve X a e \<longleftrightarrow> (\<forall>k. session_step X k (lookup_session k a) (lookup_session k e))"

definition evolves :: "session_id set \<Rightarrow> engine \<Rightarrow> engine \<Rightarrow> bool" where
  "evolves X a e \<longleftrightarrow> authority e = authority a \<and> sessions_evolve X a e"

definition overdue :: "nanos \<Rightarrow> engine \<Rightarrow> session_id set" where
  "overdue at e = {k. \<exists>s. lookup_session k e = Some s \<and> \<not> is_terminal (se_state s) \<and>
                         te_deadline_target (se_envelope s) \<le> at}"

lemma session_step_refl [simp]: "session_step X k t t"
  by (cases t) auto

lemma session_step_trans: "session_step X k t u \<Longrightarrow> session_step X k u v \<Longrightarrow> session_step X k t v"
  by (cases t; cases u; cases v) auto

lemma session_step_mono: "session_step X k t u \<Longrightarrow> X \<subseteq> Y \<Longrightarrow> session_step Y k t u"
  by (cases t; cases u) auto

lemma evolves_refl [simp]: "evolves X e e"
  by (simp add: evolves_def sessions_evolve_def)

lemma sessions_evolveD: "sessions_evolve X a e \<Longrightarrow> session_step X k (lookup_session k a) (lookup_session k e)"
  by (simp add: sessions_evolve_def)

lemma evolvesD: "evolves X a e \<Longrightarrow> session_step X k (lookup_session k a) (lookup_session k e)"
  by (simp add: evolves_def sessions_evolve_def)

lemma sessions_evolve_trans: "sessions_evolve X a b \<Longrightarrow> sessions_evolve X b c \<Longrightarrow> sessions_evolve X a c"
  unfolding sessions_evolve_def using session_step_trans by blast

lemma sessions_evolve_mono: "sessions_evolve X a e \<Longrightarrow> X \<subseteq> Y \<Longrightarrow> sessions_evolve Y a e"
  unfolding sessions_evolve_def using session_step_mono by blast

lemma evolves_trans: "evolves X a b \<Longrightarrow> evolves X b c \<Longrightarrow> evolves X a c"
  unfolding evolves_def using sessions_evolve_trans by auto

lemma evolves_mono: "evolves X a e \<Longrightarrow> X \<subseteq> Y \<Longrightarrow> evolves Y a e"
  unfolding evolves_def using sessions_evolve_mono by auto

lemma sessions_evolve_frame: "sessions_evolve X a e \<Longrightarrow> en_sessions e' = en_sessions e \<Longrightarrow> sessions_evolve X a e'"
  by (simp add: sessions_evolve_def lookup_frame [of e' e])

lemma evolves_frame:
  "evolves X a e \<Longrightarrow> en_sessions e' = en_sessions e \<Longrightarrow> authority e' = authority e \<Longrightarrow> evolves X a e'"
  by (auto simp: evolves_def intro: sessions_evolve_frame)

lemma sessions_evolve_put:
  assumes "sessions_evolve X a e" and "lookup_session sid e = Some s" and "sid \<in> X"
    and "session_identity s' = session_identity s"
  shows "sessions_evolve X a (put_session sid s' e)"
proof -
  have "session_step X k (lookup_session k e) (lookup_session k (put_session sid s' e))" for k
    using assms by auto
  then show ?thesis using assms(1) session_step_trans unfolding sessions_evolve_def by blast
qed

lemma authority_put [simp]: "authority (put_session sid s e) = authority e"
  by (simp add: authority_def put_session_def)

lemma evolves_put:
  "evolves X a e \<Longrightarrow> lookup_session sid e = Some s \<Longrightarrow> sid \<in> X \<Longrightarrow> session_identity s' = session_identity s \<Longrightarrow>
   evolves X a (put_session sid s' e)"
  by (auto simp: evolves_def intro: sessions_evolve_put)

lemma evolves_erase:
  assumes "evolves X a e" and "lookup_session sid e = Some s" and "is_terminal (se_state s)"
    and e': "en_sessions e' = AList.delete sid (en_sessions e)" "authority e' = authority e"
  shows "evolves X a e'"
proof -
  have "lookup_session k e' = (if k = sid then None else lookup_session k e)" for k
    by (simp add: lookup_session_def e'(1) delete_conv')
  then have "session_step X k (lookup_session k e) (lookup_session k e')" for k
    using assms(2,3) by auto
  then have "sessions_evolve X e e'" by (simp add: sessions_evolve_def)
  then show ?thesis using assms(1) e'(2) sessions_evolve_trans by (auto simp: evolves_def)
qed

lemma evolves_outside: "evolves X a e \<Longrightarrow> lookup_session k e = Some s \<Longrightarrow> k \<notin> X \<Longrightarrow> lookup_session k a = Some s"
  using evolvesD [of X a e k] by (cases "lookup_session k a") auto

section \<open>Settlement, progress and eviction\<close>

lemma session_identity_simps [simp]:
  "session_identity (s\<lparr>se_state := x1\<rparr>) = session_identity s"
  "session_identity (s\<lparr>se_evidence := x2\<rparr>) = session_identity s"
  "session_identity (s\<lparr>se_durability := x3\<rparr>) = session_identity s"
  "session_identity (s\<lparr>se_envelope := x4\<rparr>) = session_identity s"
  "session_identity (s\<lparr>se_envelope_sequence := x5\<rparr>) = session_identity s"
  "session_identity (s\<lparr>se_attempt_counter := x6\<rparr>) = session_identity s"
  "session_identity (s\<lparr>se_attempts := x7\<rparr>) = session_identity s"
  "session_identity (s\<lparr>se_timeline := x8\<rparr>) = session_identity s"
  "session_identity (s\<lparr>se_admitted_bytes := x9\<rparr>) = session_identity s"
  "session_identity (s\<lparr>se_transferred_bytes := x9\<rparr>) = session_identity s"
  "session_identity (s\<lparr>se_verified_bytes := x9\<rparr>) = session_identity s"
  "session_identity (s\<lparr>se_cancelled_bytes := x9\<rparr>) = session_identity s"
  "session_identity (s\<lparr>se_wasted_bytes := x9\<rparr>) = session_identity s"
  "session_identity (s\<lparr>se_unproven_bytes := x9\<rparr>) = session_identity s"
  "session_identity (s\<lparr>se_outstanding_bytes := x9\<rparr>) = session_identity s"
  "session_identity (s\<lparr>se_active_attempts := x10\<rparr>) = session_identity s"
  "session_identity (s\<lparr>se_source_complete := x11\<rparr>) = session_identity s"
  "session_identity (s\<lparr>se_paused := x11\<rparr>) = session_identity s"
  "session_identity (s\<lparr>se_paused_from := x1\<rparr>) = session_identity s"
  "session_identity (s\<lparr>se_reserved_path := x12\<rparr>) = session_identity s"
  "session_identity (s\<lparr>se_reserved_rate_bps := x9\<rparr>) = session_identity s"
  "session_identity (s\<lparr>se_updated_at := x13\<rparr>) = session_identity s"
  "session_identity (s\<lparr>se_last_reason := x14\<rparr>) = session_identity s"
  "session_identity (s\<lparr>se_last_detail := x15\<rparr>) = session_identity s"
  "session_identity (s\<lparr>se_stale_reason := x15\<rparr>) = session_identity s"
  "session_identity (s\<lparr>se_superseded_by := x16\<rparr>) = session_identity s"
  by (simp_all add: session_identity_def)

lemma authority_simps [simp]:
  "authority (account f e) = authority e"
  "authority (emit k sid r at e) = authority e"
  "authority (e\<lparr>en_dangling := b\<rparr>) = authority e"
  "authority (e\<lparr>en_shaper := sp\<rparr>) = authority e"
  "authority (e\<lparr>en_id_factory := idf\<rparr>) = authority e"
  "authority (e\<lparr>en_deadlines := ds\<rparr>) = authority e"
  "authority (e\<lparr>en_terminal_order := xs\<rparr>) = authority e"
  "authority (e\<lparr>en_commands_processed := n\<rparr>) = authority e"
  "authority (deactivate s e) = authority e"
  "authority (activate s e) = authority e"
  "authority (index_deadline s e) = authority e"
  "authority (rebuild_indexes e) = authority e"
  by (simp_all add: authority_def account_def emit_def deactivate_def activate_def index_deadline_def
      rebuild_indexes_def Let_def)

lemma evolves_account [simp]: "evolves X a (account f e) = evolves X a e"
  using evolves_frame [of X a e "account f e"] evolves_frame [of X a "account f e" e] by auto

lemma evolves_emit [simp]: "evolves X a (emit k sid r at e) = evolves X a e"
  using evolves_frame [of X a e "emit k sid r at e"] evolves_frame [of X a "emit k sid r at e" e] by auto

lemma evolves_dangling [simp]: "evolves X a e \<Longrightarrow> evolves X a (e\<lparr>en_dangling := b\<rparr>)"
  by (rule evolves_frame) auto

lemma evolves_shaper [simp]: "evolves X a e \<Longrightarrow> evolves X a (e\<lparr>en_shaper := sp\<rparr>)"
  by (rule evolves_frame) auto

lemma evolves_modify [simp]:
  assumes "evolves X a e" and "sid \<in> X" and "\<And>s. session_identity (f s) = session_identity s"
  shows "evolves X a (modify_session sid f e)"
  unfolding modify_session_def by (rule on_session_rule) (use assms evolves_put in auto)

lemma append_timeline_identity [simp]: "session_identity (append_timeline b at t s) = session_identity s"
  by (simp add: append_timeline_def Let_def)

lemma settle_reason_identity [simp]: "session_identity (settle_reason r d s) = session_identity s"
  by (simp add: settle_reason_def)

lemma evolves_note_timeline [simp]: "evolves X a e \<Longrightarrow> sid \<in> X \<Longrightarrow> evolves X a (note_timeline sid at t e)"
  by (simp add: note_timeline_def)

lemma evolves_on_session:
  assumes "evolves X a e" and "\<And>s. lookup_session sid e = Some s \<Longrightarrow> evolves X a (f s e)"
  shows "evolves X a (on_session sid f e)"
  by (rule on_session_rule) (use assms in auto)

lemma evolves_update:
  assumes "evolves X a e" and "sid \<in> X" and "\<And>s. session_identity (f s) = session_identity s"
  shows "evolves X a (on_session sid (\<lambda>s e. account (g s) (put_session sid (f s) e)) e)"
  by (rule evolves_on_session) (use assms in \<open>auto intro: evolves_put\<close>)

lemma evolves_mark_unproven [simp]: "evolves X a e \<Longrightarrow> sid \<in> X \<Longrightarrow> evolves X a (mark_unproven sid n e)"
  unfolding mark_unproven_def by (rule evolves_on_session) (auto simp: Let_def intro: evolves_put)

lemma evolves_settle_cancelled [simp]:
  "evolves X a e \<Longrightarrow> sid \<in> X \<Longrightarrow> evolves X a (settle_outstanding_as_cancelled sid e)"
  unfolding settle_outstanding_as_cancelled_def
  by (rule evolves_on_session) (auto simp: Let_def intro: evolves_put)

lemma evolves_waste_unverified [simp]: "evolves X a e \<Longrightarrow> sid \<in> X \<Longrightarrow> evolves X a (waste_unverified sid e)"
  unfolding waste_unverified_def by (rule evolves_on_session) (auto simp: Let_def intro: evolves_put)

lemma evolves_release_active_attempts [simp]:
  "evolves X a e \<Longrightarrow> sid \<in> X \<Longrightarrow> evolves X a (release_active_attempts sid o' e)"
  unfolding release_active_attempts_def by (rule evolves_on_session) (auto intro: evolves_put)

lemma evolves_release_path_reservation [simp]:
  "evolves X a e \<Longrightarrow> sid \<in> X \<Longrightarrow> evolves X a (release_path_reservation sid e)"
  unfolding release_path_reservation_def
  by (rule evolves_on_session) (auto split: option.splits intro: evolves_put)

lemma evolves_note_terminal [simp]: "evolves X a e \<Longrightarrow> evolves X a (note_terminal sid e)"
  unfolding note_terminal_def by (rule evolves_on_session) (auto intro: evolves_frame)

lemma evolves_terminal_order [simp]: "evolves X a e \<Longrightarrow> evolves X a (e\<lparr>en_terminal_order := xs\<rparr>)"
  by (rule evolves_frame) auto

lemma evolves_prune_loop: "evolves X a e \<Longrightarrow> evolves X a (snd (prune_loop target order erased e))"
proof (induction target order erased e rule: prune_loop.induct)
  case (2 target sid order erased e)
  show ?case
  proof (cases "length (en_sessions e) > target \<and> (\<exists>s. lookup_session sid e = Some s \<and> is_terminal (se_state s))")
    case True
    then obtain s where s: "lookup_session sid e = Some s" "is_terminal (se_state s)" by blast
    have "evolves X a (e\<lparr>en_pruned := add_pruned s (en_pruned e), en_sessions := AList.delete sid (en_sessions e)\<rparr>)"
      by (rule evolves_erase [OF "2.prems" s]) (simp_all add: authority_def)
    then show ?thesis using "2.IH"(3) [OF _ s(1)] True s by simp
  next
    case False
    then show ?thesis using 2 by (auto split: option.splits)
  qed
qed simp

lemma evolves_rebuild_indexes [simp]: "evolves X a e \<Longrightarrow> evolves X a (rebuild_indexes e)"
  by (rule evolves_frame) (simp_all add: rebuild_indexes_def authority_def)

lemma evolves_prune_history [simp]: "evolves X a e \<Longrightarrow> evolves X a (prune_history e)"
  using evolves_prune_loop [of X a e "en_retention_bound e * 3 div 4" "en_terminal_order e" False]
  by (auto simp: prune_history_def Let_def split_beta)

lemma evolves_settle_terminal [simp]:
  "evolves X a e \<Longrightarrow> sid \<in> X \<Longrightarrow> evolves X a (settle_terminal sid st r d at e)"
  unfolding settle_terminal_def Let_def
  by (intro evolves_prune_history evolves_release_path_reservation evolves_modify evolves_on_session)
    (auto intro: evolves_on_session)

lemma evolves_complete_session [simp]:
  "evolves X a e \<Longrightarrow> sid \<in> X \<Longrightarrow> evolves X a (complete_session sid at e)"
  unfolding complete_session_def Let_def by simp

lemma evolves_recompute_progress [simp]:
  "evolves X a e \<Longrightarrow> sid \<in> X \<Longrightarrow> evolves X a (recompute_progress sid at e)"
  unfolding recompute_progress_def Let_def by (rule evolves_on_session) simp_all

lemma evolves_expire_session:
  assumes ev: "evolves X a e" and over: "overdue at a \<subseteq> X" and due: "deadline \<le> at"
  shows "evolves X a (expire_session deadline at e sid)"
proof (cases "\<exists>s. lookup_session sid e = Some s \<and> \<not> is_terminal (se_state s) \<and>
    te_deadline_target (se_envelope s) = deadline")
  case True
  then have "sid \<in> X"
    using evolves_outside [OF ev, of sid] over due by (auto simp: overdue_def)
  then show ?thesis using ev by (simp add: expire_session_def Let_def split: option.splits)
next
  case False
  then show ?thesis using ev by (auto simp: expire_session_def split: option.splits)
qed

lemma evolves_fold:
  "evolves X a e \<Longrightarrow> (\<And>e x. x \<in> set xs \<Longrightarrow> evolves X a e \<Longrightarrow> evolves X a (f e x)) \<Longrightarrow> evolves X a (foldl f e xs)"
  by (induction xs arbitrary: e) auto

lemma evolves_deadlines [simp]: "evolves X a e \<Longrightarrow> evolves X a (e\<lparr>en_deadlines := ds\<rparr>)"
  by (rule evolves_frame) auto

lemma evolves_expire_due: "evolves X a e \<Longrightarrow> overdue at a \<subseteq> X \<Longrightarrow> evolves X a (expire_due at ds e)"
proof (induction at ds e rule: expire_due.induct)
  case (2 at deadline due rest e)
  have "evolves X a (foldl (expire_session deadline at) (e\<lparr>en_deadlines := rest\<rparr>) due)" if "deadline \<le> at"
    by (rule evolves_fold) (use 2 that in \<open>auto intro: evolves_expire_session\<close>)
  then show ?case using 2 by auto
qed simp

lemma evolves_begin_command: "overdue at e \<subseteq> X \<Longrightarrow> evolves X e (begin_command at e)"
  unfolding begin_command_def enforce_deadlines_def
  by (rule evolves_expire_due) (auto intro: evolves_frame [OF evolves_refl])

section \<open>Operations on one session\<close>

lemma map_shard_identity_update:
  "shard_identity h = shard_identity (xs ! pos) \<Longrightarrow> map shard_identity (xs[pos := h]) = map shard_identity xs"
  by (metis map_update list_update_id)

lemma set_shard_identity [simp]:
  "(\<And>h. shard_identity (f h) = shard_identity h) \<Longrightarrow> session_identity (set_shard pos f s) = session_identity s"
  by (simp add: session_identity_def set_shard_def map_shard_identity_update)

lemma set_attempt_identity [simp]: "session_identity (set_attempt aid f s) = session_identity s"
  by (simp add: set_attempt_def)

lemma shard_identity_simps [simp]:
  "shard_identity (h\<lparr>sh_state := y1\<rparr>) = shard_identity h"
  "shard_identity (h\<lparr>sh_sequence := y2\<rparr>) = shard_identity h"
  "shard_identity (h\<lparr>sh_attempt := y3\<rparr>) = shard_identity h"
  "shard_identity (h\<lparr>sh_granted_bytes := y2\<rparr>) = shard_identity h"
  "shard_identity (h\<lparr>sh_transferred_bytes := y2\<rparr>) = shard_identity h"
  "shard_identity (h\<lparr>sh_verified_bytes := y2\<rparr>) = shard_identity h"
  "shard_identity (h\<lparr>sh_observed_digest := y4\<rparr>) = shard_identity h"
  "shard_identity (h\<lparr>sh_has_observed_digest := y5\<rparr>) = shard_identity h"
  "shard_identity (h\<lparr>sh_source_complete := y5\<rparr>) = shard_identity h"
  "shard_identity (h\<lparr>sh_source_bytes := y2\<rparr>) = shard_identity h"
  by (simp_all add: shard_identity_def)

lemma shard_helpers_identity [simp]:
  "shard_identity (source_complete_shard n h) = shard_identity h"
  "shard_identity (receive_bytes n d h) = shard_identity h"
  "shard_identity (settle_received h) = shard_identity h"
  "shard_identity (verify_shard ev h) = shard_identity h"
  "shard_identity (rearm_shard h) = shard_identity h"
  by (simp_all add: source_complete_shard_def receive_bytes_def settle_received_def verify_shard_def rearm_shard_def)

lemma evolves_drop_active_attempt [simp]:
  "evolves X a e \<Longrightarrow> sid \<in> X \<Longrightarrow> evolves X a (drop_active_attempt sid e)"
  unfolding drop_active_attempt_def by (rule evolves_on_session) (auto intro: evolves_put)

lemma evolves_announce_completion [simp]:
  "evolves X a e \<Longrightarrow> sid \<in> X \<Longrightarrow> evolves X a (announce_completion sid at e)"
  unfolding announce_completion_def by (rule evolves_on_session) auto

lemma evolves_progress_and_announce [simp]:
  "evolves X a e \<Longrightarrow> sid \<in> X \<Longrightarrow> evolves X a (progress_and_announce sid at e)"
  unfolding progress_and_announce_def by (rule evolves_on_session) auto

lemma evolves_emit_for [simp]: "evolves X a e \<Longrightarrow> evolves X a (emit_for k sid r at e)"
  unfolding emit_for_def by (rule evolves_on_session) auto

lemma evolves_record_ambiguity [simp]:
  "evolves X a e \<Longrightarrow> sid \<in> X \<Longrightarrow> evolves X a (record_ambiguity sid aid d t at e)"
  unfolding record_ambiguity_def Let_def
  by (auto intro!: evolves_recompute_progress evolves_note_timeline evolves_modify evolves_on_session split: option.splits)

lemma evolves_fail_verification [simp]:
  "evolves X a e \<Longrightarrow> sid \<in> X \<Longrightarrow> evolves X a (fail_verification sid pos aid d at e)"
  by (simp add: fail_verification_def)

lemma evolves_acknowledge_transfer [simp]:
  "evolves X a e \<Longrightarrow> sid \<in> X \<Longrightarrow> evolves X a (acknowledge_transfer sid pos ev n e)"
  by (simp add: acknowledge_transfer_def Let_def)

lemma evolves_accept_verification [simp]:
  "evolves X a e \<Longrightarrow> sid \<in> X \<Longrightarrow> evolves X a (accept_verification sid pos ev e)"
  unfolding accept_verification_def by (rule evolves_on_session) (auto simp: Let_def intro: evolves_put)

lemma evolves_rearm_truncated [simp]:
  "evolves X a e \<Longrightarrow> sid \<in> X \<Longrightarrow> evolves X a (rearm_truncated sid pos ev at e)"
  unfolding rearm_truncated_def Let_def
  by (rule evolves_update, rule evolves_on_session)
    (auto split: option.splits intro!: evolves_drop_active_attempt intro: evolves_put)

lemma evolves_report_verified [simp]:
  "evolves X a e \<Longrightarrow> vf_session ev \<in> X \<Longrightarrow> evolves X a (snd (report_verified ev pos s at e))"
  by (simp add: report_verified_def Let_def)

lemma evolves_report_truncated [simp]:
  "evolves X a e \<Longrightarrow> vf_session ev \<in> X \<Longrightarrow> evolves X a (snd (report_truncated ev pos at e))"
  by (simp add: report_truncated_def Let_def)

lemma evolves_report_unresolved [simp]:
  "evolves X a e \<Longrightarrow> vf_session ev \<in> X \<Longrightarrow> evolves X a (snd (report_unresolved ev pos at e))"
  by (simp add: report_unresolved_def Let_def)

lemma ambiguous_session_identity [simp]: "session_identity (ambiguous_session a at s) = session_identity s"
  by (auto simp: ambiguous_session_def split: option.splits)

lemma note_source_identity [simp]: "session_identity (note_source at s) = session_identity s"
  by (simp add: note_source_def)

lemma grant_session_identity [simp]: "session_identity (grant_session b pos g at s) = session_identity s"
  by (simp add: grant_session_def) (simp add: session_identity_def map_shard_identity_update)

lemma evolves_id_factory [simp]: "evolves X a e \<Longrightarrow> evolves X a (e\<lparr>en_id_factory := f\<rparr>)"
  by (rule evolves_frame) auto

lemma lookup_id_factory [simp]: "lookup_session k (e\<lparr>en_id_factory := f\<rparr>) = lookup_session k e"
  by (simp add: lookup_session_def)

lemma evolves_record_grant:
  "evolves X a e \<Longrightarrow> sid \<in> X \<Longrightarrow> lookup_session sid e = Some s \<Longrightarrow> evolves X a (snd (record_grant sid s pos i n at e))"
  by (auto simp: record_grant_def Let_def split_beta intro!: evolves_note_timeline evolves_put)

lemma evolves_grant_credit:
  "evolves X a e \<Longrightarrow> sid \<in> X \<Longrightarrow> lookup_session sid e = Some s \<Longrightarrow> evolves X a (snd (grant_credit sid s pos i at e))"
  by (auto simp: grant_credit_def Let_def split_beta intro!: evolves_record_grant)

lemma evolves_index_deadline [simp]: "evolves X a e \<Longrightarrow> evolves X a (index_deadline s e)"
  by (rule evolves_frame) (simp_all add: index_deadline_def authority_def)

lemma evolves_reissue_envelope:
  assumes "evolves X a e" and "sid \<in> X"
  shows "evolves X a (snd (reissue_envelope sid s c p n at e))"
  using assms by (auto simp: reissue_envelope_def Let_def split_beta
      intro!: evolves_note_timeline evolves_on_session)

lemma fail_state_identity [simp]: "session_identity (fail_state s) = session_identity s"
  by (simp add: fail_state_def)

lemma evolves_fail_revalidation [simp]:
  "evolves X a e \<Longrightarrow> sid \<in> X \<Longrightarrow> evolves X a (snd (fail_revalidation sid r d at e))"
  by (simp add: fail_revalidation_def Let_def)

lemma evolves_replan_session:
  "evolves X a e \<Longrightarrow> sid \<in> X \<Longrightarrow> evolves X a (snd (replan_session sid s c at e))"
  by (auto simp: replan_session_def Let_def split: option.splits intro!: evolves_reissue_envelope)

lemma evolves_begin: "evolves (insert sid (overdue at e)) e (begin_command at e)"
  by (rule evolves_begin_command) auto

lemma evolves_pause_session: "evolves (insert sid (overdue at e)) e (snd (pause_session sid f r at e))"
  using evolves_begin [of sid at e] by (auto simp: pause_session_def Let_def split: option.splits)

lemma evolves_resume_session: "evolves (insert sid (overdue at e)) e (snd (resume_session sid f at e))"
  using evolves_begin [of sid at e] by (auto simp: resume_session_def Let_def split: option.splits)

lemma evolves_cancel_session: "evolves (insert sid (overdue at e)) e (snd (cancel_session sid f r d at e))"
  using evolves_begin [of sid at e] by (auto simp: cancel_session_def Let_def split: option.splits)

lemma evolves_request_wave: "evolves (insert sid (overdue at e)) e (snd (request_wave sid i f at e))"
  using evolves_begin [of sid at e]
  by (auto simp: request_wave_def Let_def split: option.splits intro!: evolves_grant_credit)

lemma evolves_revalidate_session: "evolves (insert sid (overdue at e)) e (snd (revalidate_session sid f at e))"
  using evolves_begin [of sid at e]
  by (auto simp: revalidate_session_def Let_def split: option.splits intro!: evolves_replan_session)

lemma evolves_report_source_complete:
  "evolves (insert (sc_session ev) (overdue at e)) e (snd (report_source_complete ev f at e))"
  using evolves_begin [of "sc_session ev" at e]
  by (auto simp: report_source_complete_def Let_def split: option.splits
      intro!: evolves_progress_and_announce intro: evolves_put)

lemma evolves_report_transfer:
  "evolves (insert (tr_session ev) (overdue at e)) e (snd (report_transfer ev f at e))"
  using evolves_begin [of "tr_session ev" at e]
  by (auto simp: report_transfer_def Let_def split: option.splits
      intro!: evolves_progress_and_announce evolves_acknowledge_transfer evolves_modify intro: evolves_put)

lemma evolves_report_verification:
  "evolves (insert (vf_session ev) (overdue at e)) e (snd (report_verification ev f at e))"
  using evolves_begin [of "vf_session ev" at e]
  by (auto simp: report_verification_def Let_def split: option.splits verification_outcome.splits)

lemma evolves_report_ambiguous:
  "evolves (insert sid (overdue at e)) e (snd (report_ambiguous sid aid q c f at e))"
  using evolves_begin [of sid at e]
  by (auto simp: report_ambiguous_def Let_def split: option.splits
      intro!: evolves_record_ambiguity evolves_modify evolves_drop_active_attempt intro: evolves_put)

lemma evolves_commands_processed [simp]: "evolves X a e \<Longrightarrow> evolves X a (e\<lparr>en_commands_processed := n\<rparr>)"
  by (rule evolves_frame) auto

lemma evolves_record_durability:
  "evolves (insert sid (overdue at e)) e (snd (record_durability_assertion sid d f at e))"
  by (auto simp: record_durability_assertion_def Let_def split: option.splits)

lemma evolves_poll_deadlines: "evolves (overdue at e) e (snd (poll_deadlines at e))"
  by (simp add: poll_deadlines_def enforce_deadlines_def evolves_expire_due)

section \<open>Any command\<close>

primrec command_target :: "command \<Rightarrow> session_id option" where
  "command_target (ApplyPolicy p) = None"
| "command_target (ApplyTopology t) = None"
| "command_target (UpsertContract c) = None"
| "command_target (AdvanceEpoch ep) = None"
| "command_target (SubmitSession r f) = None"
| "command_target (RevalidateSession sid f) = Some sid"
| "command_target (PauseSession sid f r) = Some sid"
| "command_target (ResumeSession sid f) = Some sid"
| "command_target (CancelSession sid f r d) = Some sid"
| "command_target (RequestWave sid i f) = Some sid"
| "command_target (ReportSourceComplete ev f) = Some (sc_session ev)"
| "command_target (ReportTransfer ev f) = Some (tr_session ev)"
| "command_target (ReportVerification ev f) = Some (vf_session ev)"
| "command_target (ReportAmbiguous sid aid q c f) = Some sid"
| "command_target (RecordDurability sid d f) = Some sid"
| "command_target PollDeadlines = None"
| "command_target BeginShutdown = None"

lemma evolves_execute:
  "command_target c = Some sid \<Longrightarrow> evolves (insert sid (overdue at e)) e (snd (execute c at e))"
  by (cases c) (auto simp: evolves_pause_session evolves_resume_session evolves_cancel_session evolves_request_wave
      evolves_revalidate_session evolves_report_source_complete evolves_report_transfer evolves_report_verification
      evolves_report_ambiguous evolves_record_durability)

text \<open>Authority changes keep every terminal session and every identity.\<close>

lemma sessions_evolve_fold:
  "sessions_evolve X a e \<Longrightarrow> (\<And>e x. sessions_evolve X a e \<Longrightarrow> sessions_evolve X a (f e x)) \<Longrightarrow>
   sessions_evolve X a (foldl f e xs)"
  by (induction xs arbitrary: e) auto

definition live :: "engine \<Rightarrow> session_id set" where
  "live e = {k. \<exists>s. lookup_session k e = Some s \<and> \<not> is_terminal (se_state s)}"

lemma sessions_evolve_live:
  assumes "sessions_evolve (live a) a e" and "lookup_session sid e = Some s" and "\<not> is_terminal (se_state s)"
  shows "sid \<in> live a"
  using sessions_evolveD [OF assms(1), of sid] assms(2,3) by (cases "lookup_session sid a") (auto simp: live_def)

lemma sessions_evolve_evolves:
  assumes "sessions_evolve X a e" and "evolves X e e'"
  shows "sessions_evolve X a e'"
  using assms sessions_evolve_trans by (auto simp: evolves_def)

lemma mark_stale_identity [simp]: "session_identity (mark_stale r at s) = session_identity s"
  by (simp add: mark_stale_def)

lemma sessions_evolve_stale_one:
  assumes ev: "sessions_evolve (live a) a e"
  shows "sessions_evolve (live a) a (stale_one r t c at e sid)"
proof (cases "\<exists>s. lookup_session sid e = Some s \<and> \<not> is_terminal (se_state s)")
  case True
  then have "sid \<in> live a" using sessions_evolve_live [OF ev] by blast
  then have "evolves (live a) e (stale_one r t c at e sid)"
    by (simp add: stale_one_def split: option.splits)
  then show ?thesis by (rule sessions_evolve_evolves [OF ev])
next
  case False
  then show ?thesis using ev by (auto simp: stale_one_def is_active_def split: option.splits)
qed

lemma release_attempts_identity [simp]: "session_identity (release_attempts s) = session_identity s"
  by (simp add: release_attempts_def)

lemma restart_identity [simp]:
  "session_identity ((release_attempts s)\<lparr>se_shards := map rearm_shard (se_shards s)\<rparr>) = session_identity s"
  by (simp add: release_attempts_def session_identity_def comp_def)

lemma sessions_evolve_restart_one:
  assumes ev: "sessions_evolve (live a) a e"
  shows "sessions_evolve (live a) a (restart_one at e sid)"
proof (cases "\<exists>s. lookup_session sid e = Some s \<and> \<not> is_terminal (se_state s)")
  case True
  then have X: "sid \<in> live a" using sessions_evolve_live [OF ev] by blast
  have "evolves (live a) e (restart_one at e sid)"
    unfolding restart_one_def Let_def
    by (auto split: option.splits simp: X intro!: evolves_note_timeline evolves_modify evolves_on_session)
  then show ?thesis by (rule sessions_evolve_evolves [OF ev])
next
  case False
  then show ?thesis using ev by (auto simp: restart_one_def split: option.splits)
qed

lemma sessions_evolve_same: "en_sessions e' = en_sessions e \<Longrightarrow> sessions_evolve X e e'"
  using sessions_evolve_frame [of X e e e'] by (simp add: sessions_evolve_def)

lemma configure_shaper_sessions [simp]: "en_sessions (configure_shaper at e) = en_sessions e"
  by (simp add: configure_shaper_def)

lemma sessions_evolve_apply_policy: "sessions_evolve (live e) e (snd (apply_policy p at e))"
  by (auto simp: apply_policy_def Let_def intro!: sessions_evolve_fold sessions_evolve_stale_one
      intro: sessions_evolve_same)

lemma sessions_evolve_apply_topology: "sessions_evolve (live e) e (snd (apply_topology t at e))"
  by (auto simp: apply_topology_def Let_def intro!: sessions_evolve_fold sessions_evolve_stale_one
      intro: sessions_evolve_same)

lemma sessions_evolve_upsert_contract: "sessions_evolve (live e) e (snd (upsert_contract c at e))"
  by (auto simp: upsert_contract_def Let_def intro!: sessions_evolve_fold sessions_evolve_stale_one
      intro: sessions_evolve_same)

lemma sessions_evolve_advance_epoch: "sessions_evolve (live e) e (snd (advance_epoch ep at e))"
  by (auto simp: advance_epoch_def Let_def intro!: sessions_evolve_fold sessions_evolve_restart_one
      intro: sessions_evolve_same)

lemma sessions_evolve_begin_shutdown: "sessions_evolve (live e) e (snd (begin_shutdown at e))"
  by (auto simp: begin_shutdown_def intro!: sessions_evolve_same)

section \<open>Submission\<close>

definition issued :: "nanos \<Rightarrow> engine \<Rightarrow> session_id" where
  "issued at e = fst (id_factory_next (en_id_factory (begin_command at e)))"

definition older_generations :: "session_request \<Rightarrow> engine \<Rightarrow> session_id set" where
  "older_generations r e =
     {k. \<exists>s. lookup_session k e = Some s \<and> \<not> is_terminal (se_state s) \<and>
             rq_checkpoint_generation (se_request s) < rq_checkpoint_generation r}"

lemma scan_targets:
  "scan_checkpoint r e ids ts = ScanTargets us \<Longrightarrow> set us \<subseteq> set ts \<union> (set ids \<inter> older_generations r e)"
  by (induction r e ids ts rule: scan_checkpoint.induct)
    (auto simp: older_generations_def is_active_def split: option.splits if_splits)

lemma evolves_apply_supersession [simp]:
  "evolves X a e \<Longrightarrow> sid \<in> X \<Longrightarrow> evolves X a (apply_supersession by_s at e sid)"
  unfolding apply_supersession_def Let_def
  by (auto intro!: evolves_note_timeline evolves_modify evolves_settle_terminal evolves_on_session)

lemma evolves_supersede_all:
  assumes "evolves X a e" and "set targets \<subseteq> X"
  shows "evolves X a (foldl (apply_supersession by_s at) e targets)"
  using assms(2) by (intro evolves_fold [OF assms(1)]) auto

lemma lookup_register_session:
  "lookup_session k (register_session s e) =
     (if k = se_id s \<and> lookup_session k e = None then Some s else lookup_session k e)"
  by (auto simp: register_session_def lookup_session_def emplace_def Let_def map_add_def split: option.splits)

lemma lookup_remember_command [simp]: "lookup_session k (remember_command c r e) = lookup_session k e"
  by (simp add: lookup_session_def)

lemma lookup_deny [simp]: "lookup_session k (snd (deny r reason at e)) = lookup_session k e"
  by (simp add: deny_def)

lemma lookup_defer [simp]: "lookup_session k (snd (defer_admission r reason t n at e)) = lookup_session k e"
  by (simp add: defer_admission_def)

lemma issue_session_id [simp]: "se_id (issue_session sid r x n at e) = sid"
  by (simp add: issue_session_def new_session_def append_timeline_def Let_def)

lemma admit_session_step:
  assumes "set targets \<subseteq> X" and k: "k \<noteq> fst (id_factory_next (en_id_factory e))"
  shows "session_step X k (lookup_session k e) (lookup_session k (snd (admit_session r x n targets at e)))"
proof -
  obtain sid factory where id: "id_factory_next (en_id_factory e) = (sid, factory)" by fastforce
  obtain ok sp where sp: "reserve_path_rate (ax_path_id x) n (en_shaper e) = (ok, sp)" by fastforce
  define e2 where "e2 = foldl (apply_supersession sid at) (e\<lparr>en_id_factory := factory, en_shaper := sp\<rparr>) targets"
  have "evolves X e e2"
    unfolding e2_def by (rule evolves_supersede_all) (use assms in auto)
  then have "session_step X k (lookup_session k e) (lookup_session k e2)" by (rule evolvesD)
  then show ?thesis
    using k by (simp add: admit_session_def id sp Let_def e2_def [symmetric] lookup_register_session)
qed

lemma decide_admission_step:
  assumes "k \<noteq> fst (id_factory_next (en_id_factory e))"
  shows "session_step (older_generations r e) k (lookup_session k e) (lookup_session k (snd (decide_admission r at e)))"
proof -
  have "session_step (older_generations r e) k (lookup_session k e)
      (lookup_session k (snd (admit_within_limits r x targets at e)))"
    if "set targets \<subseteq> older_generations r e" for x targets
    using admit_session_step [OF that assms] by (auto simp: admit_within_limits_def Let_def)
  then show ?thesis
    using scan_targets [of r e "checkpoint_sessions (rq_checkpoint r) e" "[]"]
    by (auto simp: decide_admission_def split: sum.splits scan_result.splits)
qed

lemma submit_session_step:
  assumes "k \<noteq> issued at e"
  shows "session_step (overdue at e \<union> older_generations r (begin_command at e)) k
    (lookup_session k e) (lookup_session k (snd (submit_session r f at e)))"
proof -
  let ?X = "overdue at e \<union> older_generations r (begin_command at e)"
  have b: "session_step ?X k (lookup_session k e) (lookup_session k (begin_command at e))"
    by (rule evolvesD, rule evolves_begin_command) auto
  have d: "session_step ?X k (lookup_session k (begin_command at e))
      (lookup_session k (snd (decide_admission r at (begin_command at e))))"
    by (rule session_step_mono, rule decide_admission_step) (use assms in \<open>auto simp: issued_def\<close>)
  show ?thesis
    using b session_step_trans [OF b d] by (auto simp: submit_session_def Let_def split: option.splits)
qed

section \<open>Settled sessions\<close>

definition settled :: "session_record \<Rightarrow> bool" where
  "settled s \<longleftrightarrow> is_terminal (se_state s) \<and> \<not> se_paused s"

definition frozen :: "session_record \<Rightarrow> session_record \<Rightarrow> bool" where
  "frozen s s' \<longleftrightarrow>
     s' = s\<lparr>se_durability := se_durability s', se_timeline := se_timeline s', se_updated_at := se_updated_at s'\<rparr>"

lemma frozen_refl [simp]: "frozen s s"
  by (simp add: frozen_def)

fun stays_final :: "session_record \<Rightarrow> session_record option \<Rightarrow> bool" where
  "stays_final s None = True"
| "stays_final s (Some s') = frozen s s'"

lemma terminal_states [simp]:
  "\<not> is_terminal SS_RevalidationRequired" "\<not> is_terminal SS_Deferred" "\<not> is_terminal SS_Paused"
  by (simp_all add: is_terminal_def)

lemma settled_refused:
  assumes "lookup_session sid (begin_command at e) = Some s" and "settled s"
  shows "lookup_session sid (snd (pause_session sid f r at e)) = Some s"
    and "lookup_session sid (snd (resume_session sid f at e)) = Some s"
    and "lookup_session sid (snd (cancel_session sid f rc d at e)) = Some s"
    and "lookup_session sid (snd (request_wave sid i f at e)) = Some s"
    and "lookup_session sid (snd (revalidate_session sid f at e)) = Some s"
    and "lookup_session sid (snd (report_ambiguous sid aid q c f at e)) = Some s"
    and "sc_session sev = sid \<Longrightarrow> lookup_session sid (snd (report_source_complete sev f at e)) = Some s"
    and "tr_session tev = sid \<Longrightarrow> lookup_session sid (snd (report_transfer tev f at e)) = Some s"
    and "vf_session vev = sid \<Longrightarrow> lookup_session sid (snd (report_verification vev f at e)) = Some s"
proof -
  have t: "is_terminal (se_state s)" "\<not> se_paused s" using assms(2) by (simp_all add: settled_def)
  have w: "wave_session_status s f at x \<noteq> EC_Ok" for x
    using t by (auto simp: wave_session_status_def)
  have v: "evidence_status s f x \<noteq> EC_Ok" for x
    using t by (auto simp: evidence_status_def)
  have r: "se_state s \<noteq> SS_RevalidationRequired" "se_state s \<noteq> SS_Deferred"
    using t by auto
  show "lookup_session sid (snd (pause_session sid f r at e)) = Some s"
    "lookup_session sid (snd (resume_session sid f at e)) = Some s"
    "lookup_session sid (snd (cancel_session sid f rc d at e)) = Some s"
    "lookup_session sid (snd (request_wave sid i f at e)) = Some s"
    "lookup_session sid (snd (revalidate_session sid f at e)) = Some s"
    "lookup_session sid (snd (report_ambiguous sid aid q c f at e)) = Some s"
    "sc_session sev = sid \<Longrightarrow> lookup_session sid (snd (report_source_complete sev f at e)) = Some s"
    "tr_session tev = sid \<Longrightarrow> lookup_session sid (snd (report_transfer tev f at e)) = Some s"
    "vf_session vev = sid \<Longrightarrow> lookup_session sid (snd (report_verification vev f at e)) = Some s"
    using assms(1) t w v r
    by (simp_all add: pause_session_def resume_session_def cancel_session_def request_wave_def revalidate_session_def
        report_ambiguous_def report_source_complete_def report_transfer_def report_verification_def Let_def)
qed

lemma gone_refused:
  assumes "lookup_session sid (begin_command at e) = None"
  shows "lookup_session sid (snd (pause_session sid f r at e)) = None"
    and "lookup_session sid (snd (resume_session sid f at e)) = None"
    and "lookup_session sid (snd (cancel_session sid f rc d at e)) = None"
    and "lookup_session sid (snd (request_wave sid i f at e)) = None"
    and "lookup_session sid (snd (revalidate_session sid f at e)) = None"
    and "lookup_session sid (snd (report_ambiguous sid aid q c f at e)) = None"
    and "sc_session sev = sid \<Longrightarrow> lookup_session sid (snd (report_source_complete sev f at e)) = None"
    and "tr_session tev = sid \<Longrightarrow> lookup_session sid (snd (report_transfer tev f at e)) = None"
    and "vf_session vev = sid \<Longrightarrow> lookup_session sid (snd (report_verification vev f at e)) = None"
  using assms
  by (simp_all add: pause_session_def resume_session_def cancel_session_def request_wave_def revalidate_session_def
      report_ambiguous_def report_source_complete_def report_transfer_def report_verification_def Let_def)

lemma frozen_timeline: "frozen s (append_timeline b at t (s\<lparr>se_durability := d, se_updated_at := u\<rparr>))"
  by (simp add: frozen_def append_timeline_def Let_def)

lemma durability_frozen:
  assumes "lookup_session sid e = Some s"
  shows "stays_final s (lookup_session sid (snd (record_durability_assertion sid d f at e)))"
proof -
  have lk: "lookup_session sid (e\<lparr>en_commands_processed := n\<rparr>) = Some s" for n
    using assms by (simp add: lookup_session_def)
  show ?thesis
    using lk by (auto simp: record_durability_assertion_def note_timeline_def modify_session_def on_session_def Let_def
        intro: frozen_timeline)
qed

lemma begin_settled:
  assumes "lookup_session k e = Some s" and "settled s"
  shows "lookup_session k (begin_command at e) = Some s \<or> lookup_session k (begin_command at e) = None"
proof -
  have "k \<notin> overdue at e" using assms by (auto simp: overdue_def settled_def)
  then show ?thesis
    using evolvesD [OF evolves_begin_command [of at e "overdue at e"], of k] assms
    by (cases "lookup_session k (begin_command at e)") auto
qed

end
