(* ===== verification/Engine_Sample.thy ===== *)
theory Engine_Sample
  imports Engine_Machine
begin

text \<open>
  A small concrete fabric: one workload, one path class, a checkpoint of two shards. It is the
  input at which the properties of the engine are exercised; identities
  issued by the engine and digests stay symbolic, everything else is evaluated.
\<close>

definition sample_limits :: limits where
  "sample_limits =
     \<lparr>lim_max_shards_per_checkpoint = 16, lim_max_checkpoint_bytes = 1000000, lim_max_sessions = 16,
      lim_max_attempts_in_flight = 16, lim_max_retained_history = 16, lim_max_wave_width = 16,
      lim_max_path_classes = 16, lim_max_sessions_per_workload = 16, lim_max_workloads = 16,
      lim_max_identity_text_bytes = 16, lim_max_string_bytes = 16, lim_max_supersession_chain = 16\<rparr>"

definition sample_id :: "nat \<Rightarrow> uuid128" where
  "sample_id n = Uuid128 (replicate 15 0 @ [word_of_nat n])"

definition sample_envelope_config :: "isolation_class \<Rightarrow> isolation_envelope_config" where
  "sample_envelope_config c =
     \<lparr>ie_isolation = c, ie_ceiling_bps = 1000000000, ie_burst_window_ns = 1000000000, ie_max_in_flight_sessions = 8\<rparr>"

definition sample_policy :: policy_snapshot where
  "sample_policy =
     \<lparr>po_generation = 1,
      po_envelopes = map sample_envelope_config [IC_TrainingCritical, IC_ServingLatency, IC_TrainingBulk, IC_BestEffort],
      po_max_wave_width = 4, po_max_session_bytes = 1000000, po_max_sessions = 16, po_max_attempts_in_flight = 16,
      po_retained_history = 16, po_require_destination_verification = True, po_defer_horizon_ns = 1000,
      po_default_deadline_ns = 1000000000, po_minimum_rate_bps_for_admission = 0, po_limits = sample_limits\<rparr>"

definition sample_path :: path_class where
  "sample_path =
     \<lparr>pc_id = 3, pc_destination = DC_RemoteObjectStore, pc_capacity_bps = 1000000000, pc_synthetic = True, pc_label = []\<rparr>"

definition sample_paths :: topology_snapshot where
  "sample_paths = \<lparr>to_generation = 1, to_path_classes = [sample_path]\<rparr>"

definition sample_contract :: workload_contract where
  "sample_contract =
     \<lparr>wc_workload = sample_id 1, wc_generation = 1, wc_isolation = IC_TrainingBulk, wc_ceiling_bps = 1000000,
      wc_floor_bps = 0, wc_max_in_flight_sessions = 4, wc_max_shards_per_wave = 1, wc_allow_supersession = True,
      wc_deadline_budget_ns = 1000000000\<rparr>"

definition sample_shard :: "u32 \<Rightarrow> shard_descriptor" where
  "sample_shard i = \<lparr>sd_index = i, sd_declared_bytes = 100, sd_declared_digest = zero_digest, sd_path_class = 0\<rparr>"

definition sample_manifest :: checkpoint_manifest where
  "sample_manifest =
     (let m = \<lparr>mf_checkpoint = sample_id 2, mf_generation = 1, mf_workload = sample_id 1, mf_contract_generation = 1,
               mf_total_bytes = 200, mf_shards = [sample_shard 0, sample_shard 1], mf_digest = zero_digest,
               mf_declared_at = 0\<rparr>
      in m\<lparr>mf_digest := compute_manifest_digest m\<rparr>)"

definition sample_request :: session_request where
  "sample_request =
     \<lparr>rq_command = sample_id 3, rq_workload = sample_id 1, rq_contract_generation = 1, rq_policy_generation = 1,
      rq_topology_generation = 1, rq_checkpoint = sample_id 2, rq_checkpoint_generation = 1,
      rq_requested_isolation = IC_TrainingBulk, rq_destination = DC_RemoteObjectStore, rq_requested_rate_bps = 1000,
      rq_deadline_horizon_ns = 0, rq_manifest = sample_manifest\<rparr>"

definition sample_config :: engine_config where
  "sample_config =
     \<lparr>ec_policy = sample_policy, ec_topology = sample_paths, ec_contracts = [sample_contract],
      ec_epoch = CoordinatorEpoch 1 1, ec_limits = sample_limits, ec_identity_seed = 1\<rparr>"

definition sample_fence :: command_fence where
  "sample_fence =
     \<lparr>cf_epoch = CoordinatorEpoch 1 1, cf_policy_generation = 1, cf_topology_generation = 1,
      cf_contract_generation = 1, cf_checkpoint_generation = None, cf_attempt_sequence = None\<rparr>"

definition sample_engine :: engine where
  "sample_engine = engine_new sample_config 0"

section \<open>Evaluating the sample\<close>

lemmas sample_defs = sample_policy_def sample_limits_def sample_envelope_config_def sample_paths_def sample_path_def
  sample_contract_def sample_config_def

lemma sample_id_eq [simp]: "sample_id a = sample_id b \<longleftrightarrow> (word_of_nat a :: u8) = word_of_nat b"
  by (simp add: sample_id_def)

lemma sample_id_nil [simp]: "is_nil (sample_id a) \<longleftrightarrow> (word_of_nat a :: u8) = 0"
  by (simp add: sample_id_def is_nil_def list_all_iff)

lemma issued_not_sample [simp]: "sample_id n \<noteq> fst (id_factory_next f)"
proof -
  have "uuid_bytes (uuid_of_words high low) ! 6 \<noteq> 0" for high low
    by (simp add: uuid_of_words_def Let_def be_bytes8_def or_eq_0_iff)
  moreover have "uuid_bytes (sample_id n) ! 6 = 0"
    by (simp add: sample_id_def nth_append)
  ultimately have "sample_id n \<noteq> uuid_of_words high low" for high low by metis
  then show ?thesis by (simp add: id_factory_next_def)
qed

definition sample_buckets :: rate_shaper where
  "sample_buckets =
     (let class_bucket = \<lparr>tb_rate_bps = 1000000000, tb_capacity_bytes = 1000000000, tb_tokens = 1000000000,
                          tb_last_ns = 0, tb_configured = True\<rparr>;
          workload_bucket = \<lparr>tb_rate_bps = 1000000, tb_capacity_bytes = 100000, tb_tokens = 100000,
                             tb_last_ns = 0, tb_configured = True\<rparr>
      in \<lparr>sp_classes = map (\<lambda>c. (c, class_bucket)) [IC_TrainingCritical, IC_ServingLatency, IC_TrainingBulk, IC_BestEffort],
          sp_workloads = [(sample_id 1, workload_bucket)], sp_path_reservations = []\<rparr>)"

lemma sample_engine_eq:
  "sample_engine =
     \<lparr>en_limits = sample_limits, en_policy = sample_policy, en_topology = sample_paths,
      en_contracts = [(sample_id 1, sample_contract)], en_epoch = CoordinatorEpoch 1 1, en_shaper = sample_buckets,
      en_sessions = [], en_by_workload = [], en_by_checkpoint = [], en_command_index = [],
      en_command_order = [], en_command_index_bound = 64, en_accounting = zero_accounting,
      en_commands_processed = 0, en_shutting_down = False, en_class_active = [],
      en_workload_active = [], en_terminal_order = [],
      en_pruned = \<lparr>pt_admitted = 0, pt_transferred = 0, pt_verified = 0, pt_cancelled = 0, pt_wasted = 0, pt_unproven = 0\<rparr>,
      en_retention_bound = 64, en_id_factory = id_factory_new 1, en_config_status = EC_Ok,
      en_deadlines = [], en_events = [], en_dangling = False\<rparr>"
  by (simp add: sample_engine_def engine_new_def sample_defs validate_config_def validate_policy_def
      validate_topology_def validate_contract_def emplace_def configure_shaper_def Let_def command_bound_def
      timeline_bound_def kHardLimits_def check_limit_def)
    (simp add: configure_class_def configure_workload_def empty_shaper_def bucket_at_def bucket_configure_def
      burst_capacity_def kNanosPerSecond_def empty_bucket_def sample_buckets_def Let_def)

lemma sample_limits_fields [simp]:
  "lim_max_shards_per_checkpoint sample_limits = 16"
  "lim_max_checkpoint_bytes sample_limits = 1000000"
  "lim_max_sessions sample_limits = 16"
  "lim_max_attempts_in_flight sample_limits = 16"
  "lim_max_retained_history sample_limits = 16"
  "lim_max_wave_width sample_limits = 16"
  "lim_max_path_classes sample_limits = 16"
  "lim_max_sessions_per_workload sample_limits = 16"
  "lim_max_workloads sample_limits = 16"
  "lim_max_identity_text_bytes sample_limits = 16"
  "lim_max_string_bytes sample_limits = 16"
  "lim_max_supersession_chain sample_limits = 16"
  by (simp_all add: sample_limits_def)

lemma sample_envelope_config_fields [simp]:
  "ie_isolation (sample_envelope_config c) = c"
  "ie_ceiling_bps (sample_envelope_config c) = 1000000000"
  "ie_burst_window_ns (sample_envelope_config c) = 1000000000"
  "ie_max_in_flight_sessions (sample_envelope_config c) = 8"
  by (simp_all add: sample_envelope_config_def)

lemma sample_policy_fields [simp]:
  "po_generation sample_policy = 1"
  "po_envelopes sample_policy = map sample_envelope_config [IC_TrainingCritical, IC_ServingLatency, IC_TrainingBulk, IC_BestEffort]"
  "po_max_wave_width sample_policy = 4"
  "po_max_session_bytes sample_policy = 1000000"
  "po_max_sessions sample_policy = 16"
  "po_max_attempts_in_flight sample_policy = 16"
  "po_retained_history sample_policy = 16"
  "po_require_destination_verification sample_policy = True"
  "po_defer_horizon_ns sample_policy = 1000"
  "po_default_deadline_ns sample_policy = 1000000000"
  "po_minimum_rate_bps_for_admission sample_policy = 0"
  "po_limits sample_policy = sample_limits"
  by (simp_all add: sample_policy_def)

lemma sample_path_fields [simp]:
  "pc_id sample_path = 3"
  "pc_destination sample_path = DC_RemoteObjectStore"
  "pc_capacity_bps sample_path = 1000000000"
  by (simp_all add: sample_path_def)

lemma sample_paths_fields [simp]:
  "to_generation sample_paths = 1"
  "to_path_classes sample_paths = [sample_path]"
  by (simp_all add: sample_paths_def)

lemma sample_contract_fields [simp]:
  "wc_workload sample_contract = sample_id 1"
  "wc_generation sample_contract = 1"
  "wc_isolation sample_contract = IC_TrainingBulk"
  "wc_ceiling_bps sample_contract = 1000000"
  "wc_floor_bps sample_contract = 0"
  "wc_max_in_flight_sessions sample_contract = 4"
  "wc_max_shards_per_wave sample_contract = 1"
  "wc_allow_supersession sample_contract = True"
  "wc_deadline_budget_ns sample_contract = 1000000000"
  by (simp_all add: sample_contract_def)

lemma sample_shard_fields [simp]:
  "sd_index (sample_shard i) = i"
  "sd_declared_bytes (sample_shard i) = 100"
  "sd_declared_digest (sample_shard i) = zero_digest"
  "sd_path_class (sample_shard i) = 0"
  by (simp_all add: sample_shard_def)

lemma sample_request_fields [simp]:
  "rq_command sample_request = sample_id 3"
  "rq_workload sample_request = sample_id 1"
  "rq_contract_generation sample_request = 1"
  "rq_policy_generation sample_request = 1"
  "rq_topology_generation sample_request = 1"
  "rq_checkpoint sample_request = sample_id 2"
  "rq_checkpoint_generation sample_request = 1"
  "rq_requested_isolation sample_request = IC_TrainingBulk"
  "rq_destination sample_request = DC_RemoteObjectStore"
  "rq_requested_rate_bps sample_request = 1000"
  "rq_deadline_horizon_ns sample_request = 0"
  "rq_manifest sample_request = sample_manifest"
  by (simp_all add: sample_request_def)

lemma sample_fence_fields [simp]:
  "cf_epoch sample_fence = CoordinatorEpoch 1 1"
  "cf_policy_generation sample_fence = 1"
  "cf_topology_generation sample_fence = 1"
  "cf_contract_generation sample_fence = 1"
  "cf_checkpoint_generation sample_fence = None"
  "cf_attempt_sequence sample_fence = None"
  by (simp_all add: sample_fence_def)

lemma sample_manifest_fields [simp]:
  "mf_checkpoint sample_manifest = sample_id 2"
  "mf_generation sample_manifest = 1"
  "mf_workload sample_manifest = sample_id 1"
  "mf_contract_generation sample_manifest = 1"
  "mf_total_bytes sample_manifest = 200"
  "mf_shards sample_manifest = [sample_shard 0, sample_shard 1]"
  by (simp_all add: sample_manifest_def)

lemma sample_engine_fields [simp]:
  "en_limits sample_engine = sample_limits"
  "en_policy sample_engine = sample_policy"
  "en_topology sample_engine = sample_paths"
  "en_contracts sample_engine = [(sample_id 1, sample_contract)]"
  "en_epoch sample_engine = CoordinatorEpoch 1 1"
  "en_shaper sample_engine = sample_buckets"
  "en_sessions sample_engine = []"
  "en_by_workload sample_engine = []"
  "en_by_checkpoint sample_engine = []"
  "en_command_index sample_engine = []"
  "en_command_order sample_engine = []"
  "en_accounting sample_engine = zero_accounting"
  "en_commands_processed sample_engine = 0"
  "en_shutting_down sample_engine = False"
  "en_class_active sample_engine = []"
  "en_workload_active sample_engine = []"
  "en_terminal_order sample_engine = []"
  "en_retention_bound sample_engine = 64"
  "en_id_factory sample_engine = id_factory_new 1"
  "en_deadlines sample_engine = []"
  "en_events sample_engine = []"
  "en_dangling sample_engine = False"
  by (simp_all add: sample_engine_eq)

lemma sample_manifest_valid [simp]: "validate_manifest sample_manifest sample_limits = EC_Ok"
proof -
  have "mf_digest sample_manifest = compute_manifest_digest sample_manifest"
    by (simp add: sample_manifest_def compute_manifest_digest_def Let_def)
  then show ?thesis by (simp add: validate_manifest_def)
qed

section \<open>Submitting the sample request\<close>

definition sample_session_id :: session_id where
  "sample_session_id = fst (id_factory_next (id_factory_new 1))"

definition sample_context :: admission_context where
  "sample_context =
     \<lparr>ax_contract = sample_contract, ax_isolation = IC_TrainingBulk,
      ax_envelope = sample_envelope_config IC_TrainingBulk, ax_path_id = 3, ax_path = sample_path\<rparr>"

lemma sample_context_fields [simp]:
  "ax_contract sample_context = sample_contract"
  "ax_isolation sample_context = IC_TrainingBulk"
  "ax_envelope sample_context = sample_envelope_config IC_TrainingBulk"
  "ax_path_id sample_context = 3"
  "ax_path sample_context = sample_path"
  by (simp_all add: sample_context_def)

lemma begin_sample [simp]: "begin_command at sample_engine = sample_engine\<lparr>en_commands_processed := 1\<rparr>"
  by (simp add: begin_command_def enforce_deadlines_def)

lemma sample_resolves: "resolve_admission sample_request (sample_engine\<lparr>en_commands_processed := n\<rparr>) = Inr sample_context"
  by (simp add: resolve_admission_def sample_context_def manifest_contradicts_def admitted_isolation_def
      shard_paths_ok_def find_envelope_def default_path_class_for_def find_path_class_def)

lemma sample_plan:
  "plan_rate sample_request sample_contract (sample_envelope_config IC_TrainingBulk) sample_path 10
     (sample_engine\<lparr>en_commands_processed := n\<rparr>) =
   \<lparr>rp_ok = True, rp_rate_bps = 1000, rp_reason = RC_Admitted, rp_detail = [], rp_retry_after = None\<rparr>"
  by (simp add: plan_rate_def Let_def reserved_path_rate_def sample_buckets_def ceil_rate_def deadline_horizon_def
      kNanosPerSecond_def)

lemma sample_admitted:
  "submit_session sample_request sample_fence 10 sample_engine =
     admit_session sample_request sample_context 1000 [] 10 (sample_engine\<lparr>en_commands_processed := 1\<rparr>)"
  by (simp add: submit_session_def decide_admission_def Let_def validate_fence_ok_iff fabric_context_def sample_resolves
      checkpoint_sessions_def admit_within_limits_def sample_plan workload_active_def class_active_def
      zero_accounting_def)

definition sample_session :: session_record where
  "sample_session = issue_session sample_session_id sample_request sample_context 1000 10 sample_engine"

lemma sample_issue:
  "issue_session sample_session_id sample_request sample_context 1000 10
     (sample_engine\<lparr>en_commands_processed := n, en_id_factory := f\<rparr>) = sample_session"
  by (simp add: sample_session_def issue_session_def wave_width_for_def timeline_bound_def)

lemma sample_session_fields [simp]:
  "se_id sample_session = sample_session_id"
  "se_request sample_session = sample_request"
  "se_state sample_session = SS_Admitted"
  "se_shards sample_session = [new_shard 3 (sample_shard 0), new_shard 3 (sample_shard 1)]"
  "se_attempts sample_session = []"
  "se_outstanding_bytes sample_session = 200"
  "se_transferred_bytes sample_session = 0"
  "se_paused sample_session = False"
  "se_active_attempts sample_session = 0"
  "te_deadline_target (se_envelope sample_session) = 1000000010"
  "te_isolation (se_envelope sample_session) = IC_TrainingBulk"
  by (simp_all add: sample_session_def issue_session_def new_session_def append_timeline_def Let_def build_envelope_def deadline_horizon_def)

definition sample_running :: engine where
  "sample_running = snd (submit_session sample_request sample_fence 10 sample_engine)"

lemma sample_next: "id_factory_next (id_factory_new 1) = (sample_session_id, snd (id_factory_next (id_factory_new 1)))"
  by (simp add: sample_session_id_def)

lemma sample_reserve: "reserve_path_rate 3 1000 sample_buckets = (True, sample_buckets\<lparr>sp_path_reservations := [(3, 1000)]\<rparr>)"
  by (simp add: reserve_path_rate_def sample_buckets_def Let_def)

definition sample_factory :: id_factory where
  "sample_factory = snd (id_factory_next (id_factory_new 1))"

definition sample_command :: command_record where
  "sample_command = decided sample_session_id DK_Admit RC_Admitted sample_request True"

lemma sample_running_eq: "sample_running =
   sample_engine\<lparr>en_shaper := sample_buckets\<lparr>sp_path_reservations := [(3, 1000)]\<rparr>,
     en_sessions := [(sample_session_id, sample_session)],
     en_by_workload := [(sample_id 1, [sample_session_id])], en_by_checkpoint := [(sample_id 2, [sample_session_id])],
     en_command_index := [(sample_id 3, sample_command)], en_command_order := [sample_id 3],
     en_command_index_bound := 64,
     en_accounting := zero_accounting\<lparr>ac_bytes_admitted := 200, ac_granted_outstanding_bytes := 200, ac_sessions_admitted := 1, ac_active_sessions := 1\<rparr>,
     en_commands_processed := 1, en_class_active := [(IC_TrainingBulk, 1)], en_workload_active := [(sample_id 1, 1)],
     en_id_factory := sample_factory, en_deadlines := [(1000000010, [sample_session_id])],
     en_events := [\<lparr>fe_kind = EK_SessionAdmitted, fe_session = sample_session_id, fe_reason = RC_Admitted, fe_at = 10\<rparr>]\<rparr>"
  apply (simp add: sample_running_def sample_admitted admit_session_def)
  apply (subst sample_next)
  apply (simp add: sample_factory_def [symmetric] sample_command_def [symmetric] sample_issue sample_reserve Let_def )
  apply (simp add: register_session_def activate_def account_def index_deadline_def emplace_def remember_command_def emit_def index_push_def Let_def
    workload_active_def class_active_def zero_accounting_def command_bound_def timeline_bound_def)
  done

lemma sample_running_fields [simp]:
  "en_limits sample_running = sample_limits"
  "en_policy sample_running = sample_policy"
  "en_topology sample_running = sample_paths"
  "en_contracts sample_running = [(sample_id 1, sample_contract)]"
  "en_epoch sample_running = CoordinatorEpoch 1 1"
  "en_shaper sample_running = sample_buckets\<lparr>sp_path_reservations := [(3, 1000)]\<rparr>"
  "en_sessions sample_running = [(sample_session_id, sample_session)]"
  "en_by_workload sample_running = [(sample_id 1, [sample_session_id])]"
  "en_by_checkpoint sample_running = [(sample_id 2, [sample_session_id])]"
  "en_command_index sample_running = [(sample_id 3, sample_command)]"
  "en_command_order sample_running = [sample_id 3]"
  "en_commands_processed sample_running = 1"
  "en_shutting_down sample_running = False"
  "en_terminal_order sample_running = []"
  "en_retention_bound sample_running = 64"
  "en_class_active sample_running = [(IC_TrainingBulk, 1)]"
  "en_workload_active sample_running = [(sample_id 1, 1)]"
  "en_id_factory sample_running = sample_factory"
  "en_deadlines sample_running = [(1000000010, [sample_session_id])]"
  "en_dangling sample_running = False"
  "en_accounting sample_running = zero_accounting
     \<lparr>ac_bytes_admitted := 200, ac_granted_outstanding_bytes := 200, ac_sessions_admitted := 1, ac_active_sessions := 1\<rparr>"
  by (simp_all add: sample_running_eq)

lemma running_session [simp]: "lookup_session sample_session_id sample_running = Some sample_session"
  by (simp add: lookup_session_def)

lemma begin_running: "at < 1000000010 \<Longrightarrow> begin_command at sample_running = sample_running\<lparr>en_commands_processed := 2\<rparr>"
  by (simp add: begin_command_def enforce_deadlines_def)

lemma reachable_sample: "reachable sample_engine"
  unfolding sample_engine_def by (rule reachable_new)

lemma reachable_running: "reachable sample_running"
proof -
  have step: "fabric_step sample_engine (snd (execute (SubmitSession sample_request sample_fence) 10 sample_engine))"
    by (rule step_command)
  moreover have "snd (execute (SubmitSession sample_request sample_fence) 10 sample_engine) = sample_running"
    by (simp add: sample_running_def)
  ultimately show ?thesis
    using reachable_step [OF reachable_sample, of sample_running]
    by (simp add: admitted_bytes_def sample_running_eq zero_accounting_def)
qed

end
