(* ===== verification/Engine_Grants.thy ===== *)
theory Engine_Grants
  imports Engine_Safety
begin

text \<open>
  Wave credit: when \<open>request_wave\<close> grants bytes, what authorised the grant, how it is bounded,
  and what it records.
\<close>

section \<open>The path to a grant\<close>

lemma grant_credit_granted:
  assumes "grant_credit sid s pos index at e = (Inr w, e')" and "wo_granted w"
  obtains available sp1 verdict sp2 chunk where
    "class_tokens_at (te_isolation (se_envelope s)) at (en_shaper e) = (available, sp1)"
    and "min (remaining_bytes (se_shards s ! pos)) kMinGrantChunk \<le> available"
    and "chunk = min (min (remaining_bytes (se_shards s ! pos)) kMaxGrantChunk) available"
    and "shaper_try_consume (te_isolation (se_envelope s)) (rq_workload (se_request s)) chunk at sp1 = (verdict, sp2)"
    and "sv_admitted verdict"
    and "record_grant sid s pos index chunk at (e\<lparr>en_shaper := sp2\<rparr>) = (Inr w, e')"
proof -
  obtain available sp1 where tok: "class_tokens_at (te_isolation (se_envelope s)) at (en_shaper e) = (available, sp1)"
    by fastforce
  define chunk where "chunk = min (min (remaining_bytes (se_shards s ! pos)) kMaxGrantChunk) available"
  obtain verdict sp2 where
    con: "shaper_try_consume (te_isolation (se_envelope s)) (rq_workload (se_request s)) chunk at sp1 = (verdict, sp2)"
    by fastforce
  have enough: "min (remaining_bytes (se_shards s ! pos)) kMinGrantChunk \<le> available"
    and adm: "sv_admitted verdict"
    and rest: "record_grant sid s pos index chunk at (e\<lparr>en_shaper := sp2\<rparr>) = (Inr w, e')"
    using assms by (auto simp: grant_credit_def tok con chunk_def [symmetric] Let_def wave_refusal_def split_beta
        not_less min_le_iff_disj split: if_splits)
  show ?thesis by (rule that [OF tok enough chunk_def con adm rest])
qed

lemma request_wave_granted:
  assumes "request_wave sid index f at e = (Inr w, e')" and "wo_granted w"
  obtains s pos where "lookup_session sid (begin_command at e) = Some s"
    and "wave_session_status s f at (begin_command at e) = EC_Ok"
    and "ac_active_attempts (en_accounting (begin_command at e)) < po_max_attempts_in_flight (en_policy (begin_command at e))"
    and "shard_position s index = Some pos"
    and "wave_shard_status s (se_shards s ! pos) f = EC_Ok"
    and "grant_credit sid s pos index at (begin_command at e) = (Inr w, e')"
  using assms by (auto simp: request_wave_def Let_def wave_refusal_def split: option.splits if_splits)

lemma wave_session_status_ok:
  "wave_session_status s f at e = EC_Ok \<longleftrightarrow>
     fence_current f e \<and>
     (\<exists>c. map_of (en_contracts e) (rq_workload (se_request s)) = Some c \<and> cf_contract_generation f = wc_generation c) \<and>
     (cf_checkpoint_generation f = None \<or> cf_checkpoint_generation f = Some (rq_checkpoint_generation (se_request s))) \<and>
     se_state s \<noteq> SS_RevalidationRequired \<and> se_state s \<noteq> SS_Deferred \<and> se_state s \<noteq> SS_Paused \<and> \<not> se_paused s \<and>
     \<not> is_terminal (se_state s) \<and> at < te_deadline_target (se_envelope s)"
  by (auto simp: wave_session_status_def check_fence_current validate_workload_fence_def
      validate_checkpoint_generation_def split: option.splits)

lemma wave_shard_status_ok:
  "wave_shard_status s h f = EC_Ok \<longleftrightarrow>
     sh_state h \<notin> {SH_Verified, SH_Transferred, SH_Ambiguous} \<and> \<not> previous_outstanding s h \<and> remaining_bytes h \<noteq> 0 \<and>
     (cf_attempt_sequence f = None \<or> sh_attempt h = None \<or> cf_attempt_sequence f = Some (sh_sequence h))"
  by (auto simp: wave_shard_status_def)

lemma chunk_positive:
  fixes r a :: u64
  assumes "r \<noteq> 0" and "min r kMinGrantChunk \<le> a"
  shows "0 < min (min r kMaxGrantChunk) a"
proof -
  have "0 < r" using assms(1) by (simp add: word_gt_0)
  moreover have "0 < a"
    by (rule less_le_trans [OF _ assms(2)]) (use \<open>0 < r\<close> in \<open>simp add: kMinGrantChunk_def\<close>)
  ultimately show ?thesis by (simp add: kMaxGrantChunk_def)
qed

lemma record_grant_result:
  assumes "record_grant sid s pos index chunk at e = (Inr w, e')" and "lookup_session sid e = Some s"
  shows "\<exists>aid t. wo_grant w = Some (grant_of sid s aid index chunk at e) \<and>
    lookup_session sid e' = Some (append_timeline (timeline_bound e) at t
      (grant_session (timeline_bound e) pos (grant_of sid s aid index chunk at e) at s)) \<and>
    en_shaper e' = en_shaper e \<and>
    ac_active_attempts (en_accounting e') = ac_active_attempts (en_accounting e) + 1"
proof -
  obtain aid factory where id: "id_factory_next (en_id_factory e) = (aid, factory)" by fastforce
  have b: "timeline_bound (account h (put_session sid u (e\<lparr>en_id_factory := factory\<rparr>))) = timeline_bound e" for h u
    by (simp add: timeline_bound_def)
  show ?thesis
    by (rule exI [of _ aid])
      (use assms in \<open>auto simp: record_grant_def id Let_def note_timeline_def modify_session_def on_session_def b\<close>)
qed

lemma class_tokens_at_some:
  assumes "class_tokens_at c at sp = (n, sp1)" and "map_of (sp_classes sp1) c = Some b"
  shows "\<exists>cb. map_of (sp_classes sp) c = Some cb \<and> b = bucket_refill at cb \<and> sp_workloads sp1 = sp_workloads sp"
  using assms by (auto simp: class_tokens_at_def update_conv' split: option.splits)

lemma last_trim_attempts: "0 < bound \<Longrightarrow> last (trim_attempts bound (xs @ [a])) = a"
  by (simp add: trim_attempts_def)

lemma timeline_bound_positive [simp]: "0 < timeline_bound e"
  by (simp add: timeline_bound_def Let_def)

lemma granted_session_fields:
  assumes "pos < length (se_shards s)" and "0 < bound"
  shows "se_attempt_counter (grant_session bound pos g at s) = wg_sequence g"
    and "se_shards (grant_session bound pos g at s) ! pos = (se_shards s ! pos)
      \<lparr>sh_state := SH_InFlight, sh_sequence := wg_sequence g, sh_attempt := Some (wg_attempt g),
       sh_granted_bytes := wg_max_bytes g\<rparr>"
    and "last (se_attempts (grant_session bound pos g at s)) = granted_attempt g at"
    and "se_outstanding_bytes (grant_session bound pos g at s) = se_outstanding_bytes s"
    and "se_active_attempts (grant_session bound pos g at s) = se_active_attempts s + 1"
  using assms by (simp_all add: grant_session_def last_trim_attempts)

section \<open>A grant in the sample fabric\<close>

lemma running_lookup: "lookup_session sample_session_id (begin_command 20 sample_running) = Some sample_session"
  by (simp add: begin_running lookup_session_def)

lemma running_shard: "shard_position sample_session 0 = Some 0"
  by (simp add: shard_position_def Let_def new_shard_def)

lemma running_wave_status:
  "wave_session_status sample_session sample_fence 20 (begin_command 20 sample_running) = EC_Ok"
  "wave_shard_status sample_session (se_shards sample_session ! 0) sample_fence = EC_Ok"
  by (simp_all add: begin_running wave_session_status_ok fence_current_def is_terminal_def
      wave_shard_status_ok new_shard_def previous_outstanding_def remaining_bytes_def)

lemma running_credit:
  "\<exists>e. grant_credit sample_session_id sample_session 0 0 20 (begin_command 20 sample_running) =
     record_grant sample_session_id sample_session 0 0 100 20 e"
  by (simp add: begin_running grant_credit_def class_tokens_at_def sample_buckets_def Let_def
      bucket_refill_def refill_bytes_def kNanosPerSecond_def remaining_bytes_def new_shard_def kMinGrantChunk_def
      kMaxGrantChunk_def shaper_try_consume_def bucket_try_consume_def) blast

lemma running_grant:
  obtains w g e' where "request_wave sample_session_id 0 sample_fence 20 sample_running = (Inr w, e')"
    and "wo_granted w" and "wo_grant w = Some g" and "wg_max_bytes g = 100"
proof -
  obtain e where e: "grant_credit sample_session_id sample_session 0 0 20 (begin_command 20 sample_running) =
      record_grant sample_session_id sample_session 0 0 100 20 e"
    using running_credit by blast
  have "ac_active_attempts (en_accounting (begin_command 20 sample_running)) <
      po_max_attempts_in_flight (en_policy (begin_command 20 sample_running))"
    by (simp add: begin_running zero_accounting_def)
  then have "request_wave sample_session_id 0 sample_fence 20 sample_running =
      record_grant sample_session_id sample_session 0 0 100 20 e"
    using running_lookup running_shard running_wave_status
    by (simp add: request_wave_def Let_def e not_le [symmetric])
  then show thesis
    by (intro that) (auto simp: record_grant_def Let_def split_beta grant_of_def)
qed

section \<open>Properties\<close>





end
