(* ===== verification/Engine_Revalidation.thy ===== *)
theory Engine_Revalidation
  imports Engine_Grants
begin

text \<open>
  Authority changes: after a policy, topology or epoch change every live session must be
  revalidated before it can be granted credit again, and a restart leaves no attempt
  outstanding. A paused session escapes the rule by being resumed.
\<close>

section \<open>Sweeping the session table\<close>

lemma sweep_holds:
  assumes other: "\<And>e x k. k \<noteq> x \<Longrightarrow> lookup_session k (f e x) = lookup_session k e"
    and swept: "\<And>e x s. lookup_session x (f e x) = Some s \<Longrightarrow> P s"
    and "k \<in> set xs" and "lookup_session k (foldl f e xs) = Some s"
  shows "P s"
  using assms(3,4)
proof (induction xs arbitrary: s rule: rev_induct)
  case (snoc x xs)
  then show ?case using swept other by (cases "k = x") auto
qed simp

lemma sweep_domain:
  assumes "\<And>e x k. lookup_session k (f e x) = None \<longleftrightarrow> lookup_session k e = None"
  shows "lookup_session k (foldl f e xs) = None \<longleftrightarrow> lookup_session k e = None"
  using assms by (induction xs arbitrary: e) auto

lemma lookup_key: "lookup_session k e = Some s \<Longrightarrow> k \<in> set (map fst (en_sessions e))"
  by (auto simp: lookup_session_def dest: map_of_SomeD intro: rev_image_eqI)

lemma sweep_all:
  assumes "\<And>e x k. k \<noteq> x \<Longrightarrow> lookup_session k (f e x) = lookup_session k e"
    and "\<And>e x s. lookup_session x (f e x) = Some s \<Longrightarrow> P s"
    and dom: "\<And>e x. lookup_session x (f e x) = None \<longleftrightarrow> lookup_session x e = None"
    and "lookup_session k (foldl f e (map fst (en_sessions e))) = Some s"
  shows "P s"
proof (rule sweep_holds [OF assms(1,2) _ assms(4)])
  have "lookup_session k (f e x) = None \<longleftrightarrow> lookup_session k e = None" for e x k
    using assms(1) dom by (cases "k = x") auto
  then have "lookup_session k e \<noteq> None" using assms(4) sweep_domain [of f k e "map fst (en_sessions e)"] by auto
  then show "k \<in> set (map fst (en_sessions e))" using lookup_key by blast
qed

definition must_revalidate :: "session_record \<Rightarrow> bool" where
  "must_revalidate s \<longleftrightarrow> is_terminal (se_state s) \<or> se_state s = SS_RevalidationRequired"

lemma lookup_note_timeline: "lookup_session k (note_timeline sid at t e) =
    (if k = sid then map_option (append_timeline (timeline_bound e) at t) (lookup_session sid e) else lookup_session k e)"
  by (simp add: note_timeline_def modify_lookup)

lemma lookup_stale_one: "lookup_session k (stale_one r t c at e sid) =
    (if k = sid then map_option (\<lambda>s. if must_revalidate s then s
       else append_timeline (timeline_bound (modify_session sid (mark_stale r at) e)) at t (mark_stale r at s)) (lookup_session sid e)
     else lookup_session k e)"
  by (auto simp: must_revalidate_def stale_one_def is_active_def lookup_note_timeline modify_lookup split: option.splits)

lemma must_revalidate_simps [simp]:
  "must_revalidate (append_timeline b at t s) = must_revalidate s" "must_revalidate (mark_stale r at s)"
  by (simp_all add: must_revalidate_def mark_stale_def)

lemma stale_sweep:
  assumes "lookup_session k (foldl (stale_one r t c at) e (map fst (en_sessions e))) = Some s"
  shows "must_revalidate s"
  by (rule sweep_all [OF _ _ _ assms]) (auto simp: lookup_stale_one split: if_splits, metis must_revalidate_simps)

lemma lookup_mark_unproven:
  "lookup_session k (mark_unproven sid n e) =
     (if k = sid then map_option (\<lambda>s. s\<lparr>se_outstanding_bytes := se_outstanding_bytes s - min n (se_outstanding_bytes s),
         se_unproven_bytes := se_unproven_bytes s + min n (se_outstanding_bytes s)\<rparr>) (lookup_session sid e)
      else lookup_session k e)"
  by (auto simp: mark_unproven_def on_session_def Let_def lookup_frame [of "e\<lparr>en_dangling := True\<rparr>" e]
      split: option.splits)

definition restarted :: "session_record \<Rightarrow> bool" where
  "restarted s \<longleftrightarrow> is_terminal (se_state s) \<or>
     se_state s = SS_RevalidationRequired \<and> \<not> se_paused s \<and> se_active_attempts s = 0 \<and>
     list_all (\<lambda>a. \<not> at_outstanding a) (se_attempts s) \<and>
     list_all (\<lambda>h. sh_state h \<noteq> SH_InFlight \<and> sh_state h \<noteq> SH_Granted) (se_shards s)"

lemmas restart_lookups = restart_one_def modify_lookup lookup_note_timeline on_session_account_lookup
  lookup_mark_unproven Let_def

lemma restart_one_other: "k \<noteq> sid \<Longrightarrow> lookup_session k (restart_one at e sid) = lookup_session k e"
  by (auto simp: restart_lookups split: option.splits)

lemma restart_one_domain: "lookup_session sid (restart_one at e sid) = None \<longleftrightarrow> lookup_session sid e = None"
  by (auto simp: restart_lookups split: option.splits)

lemma append_timeline_counters [simp]: "se_active_attempts (append_timeline b at t s) = se_active_attempts s"
  by (simp add: append_timeline_def Let_def)

lemma restart_one_done: "lookup_session sid (restart_one at e sid) = Some s \<Longrightarrow> restarted s"
  by (auto simp: restart_lookups restarted_def mark_stale_def release_attempts_def list_all_iff rearm_shard_def
      split: option.splits if_splits)

lemma restart_sweep:
  assumes "lookup_session k (foldl (restart_one at) e (map fst (en_sessions e))) = Some s"
  shows "restarted s"
  by (rule sweep_all [OF restart_one_other restart_one_done restart_one_domain assms])

section \<open>Expiry only fails sessions\<close>

lemma prune_loop_lookup: "lookup_session k (snd (prune_loop n xs b e)) = Some s \<Longrightarrow> lookup_session k e = Some s"
proof (induction n xs b e rule: prune_loop.induct)
  case (2 target sid order erased e)
  then show ?case
    by (auto simp: lookup_session_def delete_conv' split: if_splits option.splits)
qed (simp add: lookup_session_def)

lemma prune_history_lookup: "lookup_session k (prune_history e) = Some s \<Longrightarrow> lookup_session k e = Some s"
  by (auto simp: prune_history_def Let_def split_beta rebuild_indexes_def lookup_session_def [of k "_\<lparr>en_by_workload := _, en_by_checkpoint := _\<rparr>"]
      lookup_session_def [symmetric] split: if_splits dest: prune_loop_lookup)

lemma settle_terminal_state:
  assumes "lookup_session sid (settle_terminal sid st r d at e) = Some s"
  shows "se_state s = st \<and> \<not> se_paused s"
proof -
  obtain e4 where "lookup_session sid (release_path_reservation sid
      (modify_session sid (\<lambda>s. (settle_reason r d (s\<lparr>se_state := st, se_paused := False\<rparr>))\<lparr>se_updated_at := at\<rparr>) e4)) = Some s"
    using assms by (auto simp: settle_terminal_def Let_def dest!: prune_history_lookup)
  then show ?thesis
    by (auto simp: release_path_reservation_def on_session_def modify_lookup lookup_frame [of "_\<lparr>en_dangling := True\<rparr>"]
        split: option.splits)
qed

lemma expire_session_lookup:
  assumes "lookup_session k (expire_session d at e sid) = Some s'"
  shows "is_terminal (se_state s') \<or> lookup_session k e = Some s'"
proof (cases "k = sid")
  case True
  then show ?thesis
    using assms by (auto simp: expire_session_def Let_def lookup_note_timeline is_terminal_def
        split: option.splits if_splits dest!: settle_terminal_state)
next
  case False
  have "evolves {sid} e (expire_session d at e sid)"
    by (simp add: expire_session_def Let_def split: option.splits)
  then show ?thesis using evolves_outside [OF _ assms] False by auto
qed

lemma expire_fold_lookup:
  "lookup_session k (foldl (expire_session d at) e due) = Some s' \<Longrightarrow>
   is_terminal (se_state s') \<or> lookup_session k e = Some s'"
  by (induction due arbitrary: e) (auto dest: expire_session_lookup)

lemma expire_due_lookup:
  "lookup_session k (expire_due at ds e) = Some s' \<Longrightarrow> is_terminal (se_state s') \<or> lookup_session k e = Some s'"
proof (induction at ds e rule: expire_due.induct)
  case (2 at deadline due rest e)
  then show ?case
    using expire_fold_lookup [of k deadline at "e\<lparr>en_deadlines := rest\<rparr>" due s']
    by (auto simp: lookup_frame [of "e\<lparr>en_deadlines := _\<rparr>" e] split: if_splits)
qed (simp add: lookup_frame [of "_\<lparr>en_deadlines := _\<rparr>"])

lemma begin_command_lookup:
  assumes "lookup_session k (begin_command at e) = Some s'"
  shows "is_terminal (se_state s') \<or> lookup_session k e = Some s'"
  using expire_due_lookup assms lookup_frame [of "e\<lparr>en_commands_processed := en_commands_processed e + 1\<rparr>" e]
  by (fastforce simp: begin_command_def enforce_deadlines_def)

section \<open>Properties\<close>

lemma policy_sweep: "apply_policy p at e = (EC_Ok, e') \<Longrightarrow> lookup_session k e' = Some s \<Longrightarrow> must_revalidate s"
  using stale_sweep [of k _ _ _ at "configure_shaper at (e\<lparr>en_policy := p\<rparr>)"]
  by (auto simp: apply_policy_def Let_def split: if_splits)

lemma topology_sweep: "apply_topology t at e = (EC_Ok, e') \<Longrightarrow> lookup_session k e' = Some s \<Longrightarrow> must_revalidate s"
  using stale_sweep [of k _ _ _ at "e\<lparr>en_topology := t\<rparr>"]
  by (auto simp: apply_topology_def Let_def split: if_splits)

lemma epoch_sweep: "advance_epoch ep at e = (EC_Ok, e') \<Longrightarrow> lookup_session k e' = Some s \<Longrightarrow> restarted s"
  using restart_sweep [of k at "e\<lparr>en_epoch := ep, en_deadlines := []\<rparr>"]
  by (auto simp: advance_epoch_def Let_def split: if_splits)

lemma restarted_must_revalidate: "restarted s \<Longrightarrow> must_revalidate s"
  by (auto simp: restarted_def must_revalidate_def)

lemma must_revalidate_no_grant:
  assumes "lookup_session k e = Some s" and "must_revalidate s" and "request_wave k i f at e = (Inr w, e')"
  shows "\<not> wo_granted w"
proof
  assume "wo_granted w"
  with assms(3) obtain s' where "lookup_session k (begin_command at e) = Some s'"
    and "wave_session_status s' f at (begin_command at e) = EC_Ok"
    by (rule request_wave_granted)
  then show False
    using begin_command_lookup [of k at e s'] assms(1,2) by (auto simp: wave_session_status_ok must_revalidate_def)
qed

text \<open>
  C14. A successful policy, topology or epoch change takes effect on every session at once:
  afterwards each session that is not terminal is in the revalidation-required state, and no
  request for credit made next is granted to any session present then.
\<close>
theorem authority_change_revalidates:
  assumes "c \<in> {ApplyPolicy p, ApplyTopology t, AdvanceEpoch ep}" and "execute c at e = (EC_Ok, e')"
    and "lookup_session k e' = Some s"
  shows "must_revalidate s \<and> (\<forall>i f at' w e''. request_wave k i f at' e' = (Inr w, e'') \<longrightarrow> \<not> wo_granted w)"
proof -
  have "must_revalidate s"
    using assms policy_sweep topology_sweep epoch_sweep restarted_must_revalidate by fastforce
  then show ?thesis using must_revalidate_no_grant [OF assms(3)] by blast
qed

text \<open>
  C15. An epoch change leaves no dynamic authority behind: every session that is not terminal
  must be revalidated, is not paused, has no attempt outstanding and no active attempt, and no
  shard of it is granted or in flight.
\<close>
theorem epoch_change_restarts:
  assumes "advance_epoch ep at e = (EC_Ok, e')" and "lookup_session k e' = Some s"
  shows "en_epoch e < ep \<and> restarted s"
  using epoch_sweep [OF assms] assms(1) by (auto simp: advance_epoch_def split: if_splits)

section \<open>A paused session escapes revalidation\<close>

lemma modify_session_fields [simp]:
  "en_limits (modify_session sid f e) = en_limits e"
  "en_policy (modify_session sid f e) = en_policy e"
  "en_topology (modify_session sid f e) = en_topology e"
  "en_contracts (modify_session sid f e) = en_contracts e"
  "en_epoch (modify_session sid f e) = en_epoch e"
  "en_shaper (modify_session sid f e) = en_shaper e"
  "en_deadlines (modify_session sid f e) = en_deadlines e"
  "en_accounting (modify_session sid f e) = en_accounting e"
  "en_shutting_down (modify_session sid f e) = en_shutting_down e"
  "en_commands_processed (modify_session sid f e) = en_commands_processed e"
  by (simp_all add: modify_session_def on_session_def put_session_def split: option.splits)

lemma note_timeline_fields [simp]:
  "en_limits (note_timeline sid at t e) = en_limits e"
  "en_policy (note_timeline sid at t e) = en_policy e"
  "en_topology (note_timeline sid at t e) = en_topology e"
  "en_contracts (note_timeline sid at t e) = en_contracts e"
  "en_epoch (note_timeline sid at t e) = en_epoch e"
  "en_shaper (note_timeline sid at t e) = en_shaper e"
  "en_deadlines (note_timeline sid at t e) = en_deadlines e"
  "en_accounting (note_timeline sid at t e) = en_accounting e"
  "en_shutting_down (note_timeline sid at t e) = en_shutting_down e"
  "en_commands_processed (note_timeline sid at t e) = en_commands_processed e"
  by (simp_all add: note_timeline_def)


definition moved_paths :: topology_snapshot where
  "moved_paths = sample_paths\<lparr>to_generation := 2\<rparr>"

definition paused_engine :: engine where
  "paused_engine = snd (pause_session sample_session_id sample_fence [] 20 sample_running)"

definition moved_engine :: engine where
  "moved_engine = snd (apply_topology moved_paths 30 paused_engine)"

lemma moved_paths_valid: "validate_topology moved_paths sample_limits = EC_Ok"
  by (simp add: validate_topology_def moved_paths_def sample_path_def)

lemma running_lookup_processed: "lookup_session sample_session_id (sample_running\<lparr>en_commands_processed := n\<rparr>) = Some sample_session"
  by (simp add: lookup_session_def)

lemma paused_engine_eq:
  "paused_engine = emit EK_SessionPaused sample_session_id RC_Admitted 20
     (note_timeline sample_session_id 20 ''paused''
       (modify_session sample_session_id
         (\<lambda>s. settle_reason RC_Admitted []
            (s\<lparr>se_paused := True, se_paused_from := se_state s, se_state := SS_Paused, se_updated_at := 20\<rparr>))
         (sample_running\<lparr>en_commands_processed := 2\<rparr>)))"
  by (simp add: paused_engine_def pause_session_def begin_running check_fence_current fence_current_def
      validate_workload_fence_def is_terminal_def running_lookup_processed)

lemma paused_engine_fields [simp]:
  "en_topology paused_engine = sample_paths" "en_limits paused_engine = sample_limits"
  "en_policy paused_engine = sample_policy" "en_epoch paused_engine = CoordinatorEpoch 1 1"
  "en_contracts paused_engine = [(sample_id 1, sample_contract)]"
  "en_deadlines paused_engine = [(1000000010, [sample_session_id])]"
  by (simp_all add: paused_engine_eq) (simp_all add: emit_def)

lemma paused_engine_lookup:
  "\<exists>s. lookup_session sample_session_id paused_engine = Some s \<and> se_paused s \<and> se_paused_from s = SS_Admitted \<and>
     se_state s = SS_Paused \<and> se_request s = sample_request"
  by (simp add: paused_engine_eq lookup_note_timeline modify_lookup running_lookup_processed)
    (simp add: append_timeline_def settle_reason_def Let_def)

lemma paused_engine_keys [simp]: "map fst (en_sessions paused_engine) = [sample_session_id]"
  by (simp add: paused_engine_eq note_timeline_def modify_session_def on_session_def running_lookup_processed)

lemma moved_engine_eq:
  "apply_topology moved_paths 30 paused_engine = (EC_Ok, moved_engine)"
  "moved_engine = stale_one ''topology generation advanced after this envelope was issued''
     ''revalidation required: topology generation'' RC_TopologyGenerationStale 30
     (paused_engine\<lparr>en_topology := moved_paths\<rparr>) sample_session_id"
  by (simp_all add: moved_engine_def apply_topology_def moved_paths_valid Let_def) (simp add: moved_paths_def)+

lemma stale_one_fields [simp]:
  "en_policy (stale_one r t c at e sid) = en_policy e" "en_topology (stale_one r t c at e sid) = en_topology e"
  "en_contracts (stale_one r t c at e sid) = en_contracts e" "en_epoch (stale_one r t c at e sid) = en_epoch e"
  "en_deadlines (stale_one r t c at e sid) = en_deadlines e"
  by (auto simp: stale_one_def emit_def split: option.splits)

lemma begin_moved: "begin_command 40 moved_engine = moved_engine\<lparr>en_commands_processed := en_commands_processed moved_engine + 1\<rparr>"
  by (simp add: begin_command_def enforce_deadlines_def moved_engine_eq(2))

lemma begin_moved_lookup: "lookup_session k (begin_command 40 moved_engine) = lookup_session k moved_engine"
  by (simp add: begin_moved lookup_session_def)

lemma moved_engine_lookup:
  "\<exists>s. lookup_session sample_session_id (begin_command 40 moved_engine) = Some s \<and> se_paused s \<and>
     se_paused_from s = SS_Admitted \<and> se_state s = SS_RevalidationRequired \<and> se_request s = sample_request"
proof -
  obtain s where s: "lookup_session sample_session_id paused_engine = Some s" "se_paused s" "se_paused_from s = SS_Admitted"
    "se_state s = SS_Paused" "se_request s = sample_request" using paused_engine_lookup by blast
  then have "\<not> must_revalidate s" by (simp add: must_revalidate_def)
  then show ?thesis
    unfolding begin_moved_lookup
    using s by (simp add: moved_engine_eq(2) lookup_stale_one lookup_frame [of "paused_engine\<lparr>en_topology := _\<rparr>" paused_engine])
      (simp add: append_timeline_def mark_stale_def Let_def)
qed


theorem authority_change_revalidates_witness:
  "\<exists>s. execute (ApplyTopology moved_paths) 30 paused_engine = (EC_Ok, moved_engine) \<and>
     lookup_session sample_session_id moved_engine = Some s \<and> must_revalidate s"
proof -
  obtain s where "lookup_session sample_session_id moved_engine = Some s"
    using moved_engine_lookup begin_command_lookup by fastforce
  then show ?thesis
    using authority_change_revalidates [of "ApplyTopology moved_paths" _ moved_paths _ 30 paused_engine moved_engine
        sample_session_id s] moved_engine_eq(1) by simp
qed

theorem epoch_change_restarts_witness:
  "\<exists>e' s. advance_epoch (CoordinatorEpoch 1 2) 20 sample_running = (EC_Ok, e') \<and>
     lookup_session sample_session_id e' = Some s \<and> restarted s"
proof -
  let ?r = "advance_epoch (CoordinatorEpoch 1 2) 20 sample_running"
  have ok: "fst ?r = EC_Ok" by (simp add: advance_epoch_def less_coordinator_epoch_def)
  have "lookup_session sample_session_id (snd ?r) \<noteq> None"
    by (simp add: advance_epoch_def less_coordinator_epoch_def restart_one_domain
        lookup_frame [of "sample_running\<lparr>en_epoch := _, en_deadlines := _\<rparr>" sample_running])
  then show ?thesis
    using epoch_change_restarts [of "CoordinatorEpoch 1 2" 20 sample_running "snd ?r" sample_session_id] ok
    by (metis not_None_eq prod.collapse)
qed

end
