(* ===== verification/Engine_Plans.thy ===== *)
theory Engine_Plans
  imports Engine_Support
begin

text \<open>
  The pure planning functions of the engine: how a manifest is cut into waves, the binary search
  for a shard, and the rate a deadline demands.
\<close>

section \<open>Waves\<close>

function chunks :: "nat \<Rightarrow> 'a list \<Rightarrow> 'a list list" where
  "chunks n xs = (if xs = [] \<or> n = 0 then [] else take n xs # chunks n (drop n xs))"
  by pat_completeness auto
termination
  by (relation "measure (\<lambda>(n, xs). length xs)") auto

declare chunks.simps [simp del]

lemma chunks_Nil [simp]: "chunks n [] = []"
  by (simp add: chunks.simps)

lemma concat_chunks: "0 < n \<Longrightarrow> concat (chunks n xs) = xs"
  by (induction n xs rule: chunks.induct) (subst chunks.simps, auto)

lemma chunks_sizes: "g \<in> set (chunks n xs) \<Longrightarrow> g \<noteq> [] \<and> length g \<le> n"
proof (induction n xs rule: chunks.induct)
  case (1 n xs)
  then show ?case by (subst (asm) chunks.simps) (auto split: if_splits)
qed

lemma chunks_short: "0 < n \<Longrightarrow> xs \<noteq> [] \<Longrightarrow> length xs \<le> n \<Longrightarrow> chunks n xs = [xs]"
  by (subst chunks.simps) simp

lemma chunks_append: "0 < n \<Longrightarrow> length g = n \<Longrightarrow> chunks n (g @ xs) = g # chunks n xs"
  by (subst chunks.simps) auto

definition wave_of :: "wave_index \<Rightarrow> shard_descriptor list \<Rightarrow> wave_plan" where
  "wave_of i g = \<lparr>wp_index = i, wp_shards = map sd_index g, wp_planned_bytes = sum_list (map sd_declared_bytes g)\<rparr>"

fun number_waves :: "shard_descriptor list list \<Rightarrow> wave_plan list" where
  "number_waves [] = []"
| "number_waves (g # gs) = wave_of 0 g # map (wave_of 1) gs"

lemma wave_add_of: "wave_add d (wave_of i g) = wave_of i (g @ [d])"
  by (simp add: wave_add_def wave_of_def)

lemma wave_of_empty: "empty_wave = wave_of 0 []" "empty_wave\<lparr>wp_index := wp_index empty_wave + 1\<rparr> = wave_of 1 []"
  by (simp_all add: wave_of_def empty_wave_def)

lemma build_waves_chunks:
  assumes "0 < width" and "unat in_wave = length g" and "length g \<le> unat width" and "g \<noteq> [] \<or> ws = []"
    and "i = (if ws = [] then 0 else 1)"
  shows "build_waves width ds (wave_of i g) in_wave ws =
    ws @ (case chunks (unat width) (g @ ds) of [] \<Rightarrow> [] | h # hs \<Rightarrow> wave_of i h # map (wave_of 1) hs)"
  using assms
proof (induction ds arbitrary: g in_wave ws i)
  case Nil
  have w: "0 < unat width" using Nil(1) by (simp add: word_less_nat_alt)
  show ?case
  proof (cases "g = []")
    case False
    then show ?thesis using Nil w chunks_short [OF w False] by (simp add: wave_of_def)
  qed (use Nil in \<open>simp add: wave_of_def\<close>)
next
  case (Cons d ds)
  have w: "0 < unat width" using Cons.prems(1) by (simp add: word_less_nat_alt)
  show ?case
  proof (cases "in_wave = width")
    case True
    then have full: "length g = unat width" using Cons.prems(2) by simp
    have "build_waves width (d # ds) (wave_of i g) in_wave ws = build_waves width ds (wave_of 1 [d]) 1 (ws @ [wave_of i g])"
      using True wave_add_of [of d 1 "[]"] by (simp add: wave_of_empty(2) Let_def)
    also have "\<dots> = (ws @ [wave_of i g]) @
        (case chunks (unat width) ([d] @ ds) of [] \<Rightarrow> [] | h # hs \<Rightarrow> wave_of 1 h # map (wave_of 1) hs)"
      by (rule Cons.IH) (use Cons.prems(1) w in auto)
    also have "\<dots> = ws @ (wave_of i g # map (wave_of 1) (chunks (unat width) (d # ds)))"
      by (auto split: list.splits)
    finally show ?thesis using chunks_append [OF w full, of "d # ds"] by simp
  next
    case False
    then have small: "length g < unat width" using Cons.prems(2,3) by (metis le_neq_implies_less word_unat_eq_iff)
    then have step: "unat (in_wave + 1) = length (g @ [d])"
      using Cons.prems(2) unat_u32_less [of width] by (simp add: unat_word_ariths(1))
    show ?thesis
      using Cons.IH [of "in_wave + 1" "g @ [d]" ws i] Cons.prems step small False
      by (simp add: wave_add_of)
  qed
qed

lemma build_waves_exact: "0 < width \<Longrightarrow> build_waves width ds empty_wave 0 [] = number_waves (chunks (unat width) ds)"
  using build_waves_chunks [of width 0 "[]" "[]" 0 ds] by (auto simp: wave_of_empty(1) split: list.splits)

lemma wave_width_positive: "0 < wave_width_for contract n e"
proof -
  have "1 \<le> wave_width_for contract n e" by (simp add: wave_width_for_def)
  then show ?thesis by (simp add: word_le_nat_alt word_less_nat_alt)
qed

lemma number_waves_shards: "concat (map wp_shards (number_waves gs)) = map sd_index (concat gs)"
  by (cases gs) (auto simp: wave_of_def map_concat comp_def)

lemma number_waves_member: "v \<in> set (number_waves gs) \<Longrightarrow> \<exists>g \<in> set gs. wp_shards v = map sd_index g"
  by (cases gs) (auto simp: wave_of_def)

text \<open>
  C18. The waves of an envelope cover the manifest: they are the shards of the manifest cut into
  consecutive groups, so that together they list every shard once and in order; no wave
  is empty, none is wider than the wave width, and each plans the declared bytes of its shards.
  The first wave has index 0 and every later one has index 1, so the index does not tell the
  later waves apart.
\<close>
theorem envelope_waves_exact:
  "let width = wave_width_for contract n e;
       waves = te_waves (build_envelope r sid c p rate burst width now deadline seq)
   in waves = number_waves (chunks (unat width) (mf_shards (rq_manifest r))) \<and>
      concat (map wp_shards waves) = map sd_index (mf_shards (rq_manifest r)) \<and>
      list_all (\<lambda>v. wp_shards v \<noteq> [] \<and> length (wp_shards v) \<le> unat width) waves"
proof -
  let ?width = "wave_width_for contract n e"
  have pos: "0 < ?width" by (rule wave_width_positive)
  then have n: "0 < unat ?width" by (simp add: word_less_nat_alt)
  show ?thesis
    using chunks_sizes [of _ "unat ?width" "mf_shards (rq_manifest r)"] number_waves_member
    by (fastforce simp: Let_def build_envelope_def build_waves_exact [OF pos] number_waves_shards concat_chunks [OF n]
        list_all_iff)
qed

section \<open>Finding a shard\<close>

definition shards_ordered :: "session_record \<Rightarrow> bool" where
  "shards_ordered s \<longleftrightarrow> sorted_wrt (\<lambda>a b. sh_index a < sh_index b) (se_shards s)"

lemma ordered_nth:
  assumes "sorted_wrt (\<lambda>a b. sh_index a < sh_index b) shards" and "i < j" and "j < length shards"
  shows "sh_index (shards ! i) < sh_index (shards ! j)"
  using assms by (simp add: sorted_wrt_iff_nth_less)

declare shard_search.simps [simp del]

lemma shard_search_lower_bound:
  assumes "sorted_wrt (\<lambda>a b. sh_index a < sh_index b) shards" and "low \<le> high" and "high \<le> length shards"
    and "\<And>j. j < low \<Longrightarrow> sh_index (shards ! j) < i" and "\<And>j. high \<le> j \<Longrightarrow> j < length shards \<Longrightarrow> i \<le> sh_index (shards ! j)"
  shows "(\<forall>j < shard_search shards i low high. sh_index (shards ! j) < i) \<and>
    (\<forall>j \<ge> shard_search shards i low high. j < length shards \<longrightarrow> i \<le> sh_index (shards ! j))"
  using assms
proof (induction shards i low high rule: shard_search.induct)
  case (1 shards i low high)
  let ?mid = "low + (high - low) div 2"
  show ?case
  proof (cases "low < high")
    case True
    have mid: "low \<le> ?mid" "?mid < high" using True by auto
    show ?thesis
    proof (cases "sh_index (shards ! ?mid) < i")
      case lt: True
      have below: "sh_index (shards ! j) < i" if "j < ?mid + 1" for j
        using that lt ordered_nth [OF "1.prems"(1), of j ?mid] mid(2) "1.prems"(3) by (cases "j = ?mid") auto
      have "(\<forall>j < shard_search shards i (?mid + 1) high. sh_index (shards ! j) < i) \<and>
          (\<forall>j \<ge> shard_search shards i (?mid + 1) high. j < length shards \<longrightarrow> i \<le> sh_index (shards ! j))"
        by (rule "1.IH"(1) [OF True refl lt "1.prems"(1) _ "1.prems"(3) below "1.prems"(5)]) (use mid in auto)
      moreover have "shard_search shards i low high = shard_search shards i (?mid + 1) high"
        using True lt by (subst shard_search.simps) (simp add: Let_def)
      ultimately show ?thesis by (simp only:)
    next
      case ge: False
      have above: "i \<le> sh_index (shards ! j)" if "?mid \<le> j" "j < length shards" for j
        using that ge ordered_nth [OF "1.prems"(1), of ?mid j] by (cases "j = ?mid") (auto simp: not_less)
      have "(\<forall>j < shard_search shards i low ?mid. sh_index (shards ! j) < i) \<and>
          (\<forall>j \<ge> shard_search shards i low ?mid. j < length shards \<longrightarrow> i \<le> sh_index (shards ! j))"
        by (rule "1.IH"(2) [OF True refl ge "1.prems"(1) mid(1) _ "1.prems"(4) above]) (use mid "1.prems"(3) in auto)
      moreover have "shard_search shards i low high = shard_search shards i low ?mid"
        using True ge by (subst shard_search.simps) (simp add: Let_def)
      ultimately show ?thesis by (simp only:)
    qed
  next
    case False
    then show ?thesis using "1.prems" by (simp add: shard_search.simps [of shards i high high])
  qed
qed

lemma shard_position_exact:
  assumes "shards_ordered s"
  shows "shard_position s i = Some p \<longleftrightarrow> p < length (se_shards s) \<and> sh_index (se_shards s ! p) = i"
proof -
  let ?n = "length (se_shards s)" and ?q = "shard_search (se_shards s) i 0 (length (se_shards s))"
  have o: "sorted_wrt (\<lambda>a b. sh_index a < sh_index b) (se_shards s)" using assms by (simp add: shards_ordered_def)
  have lb: "\<forall>j < ?q. sh_index (se_shards s ! j) < i" "\<forall>j \<ge> ?q. j < ?n \<longrightarrow> i \<le> sh_index (se_shards s ! j)"
    using shard_search_lower_bound [OF o, of 0 ?n i] by auto
  have "p = ?q" if "p < ?n" "sh_index (se_shards s ! p) = i"
  proof (rule ccontr)
    assume "p \<noteq> ?q"
    then consider "p < ?q" | "?q < p" by linarith
    then show False
    proof cases
      case 1 then show ?thesis using lb(1) that by auto
    next
      case 2
      then have "sh_index (se_shards s ! ?q) < i" using ordered_nth [OF o 2 that(1)] that(2) by simp
      then show ?thesis using lb(2) 2 that(1) by (auto simp: not_less [symmetric])
    qed
  qed
  then show ?thesis by (auto simp: shard_position_def Let_def split: if_splits)
qed

section \<open>The rate a deadline demands\<close>

lemma ceil_div_split:
  fixes n h :: nat
  assumes "0 < h"
  shows "(n * k + h - 1) div h = (n div h) * k + ((n mod h) * k + h - 1) div h"
proof -
  have "n * k = (n div h) * k * h + (n mod h) * k"
    by (metis add_mult_distrib div_mult_mod_eq mult.assoc mult.commute)
  then have "n * k + h - 1 = (n div h) * k * h + ((n mod h) * k + h - 1)"
    using assms by linarith
  moreover have "((n div h) * k * h + ((n mod h) * k + h - 1)) div h = (n div h) * k + ((n mod h) * k + h - 1) div h"
    by (rule div_mult_self3) (use assms in simp)
  ultimately show ?thesis by (simp only:)
qed

lemma unat_word_of_nat_small: "n < 2 ^ 64 \<Longrightarrow> unat (word_of_nat n :: u64) = n"
  by (simp add: unat_of_nat take_bit_nat_eq_self)

text \<open>
  C19. The rate a deadline demands is exact where the 64-bit arithmetic does not wrap: it is the
  number of bytes divided by the horizon in seconds, rounded up.
\<close>
theorem deadline_rate_exact:
  assumes "0 < h" and "unat n * 1000000000 + h < 2 ^ 64" and "h < 2 ^ 63"
  shows "unat (ceil_rate n (int h)) = (unat n * 1000000000 + h - 1) div h"
proof -
  let ?w = "unat n div h" and ?r = "unat n mod h" and ?h = "word_of_nat h :: u64"
    and ?k = "word_of_int kNanosPerSecond :: u64"
  have h: "unat ?h = h" using assms(3) unat_word_of_nat_small [of h] by simp
  have k: "unat ?k = 1000000000" by (simp add: kNanosPerSecond_def)
  have "?w \<le> unat n" "?r \<le> unat n" by simp_all
  then have bw: "?w * 1000000000 < 2 ^ 64" and br: "?r * 1000000000 + h < 2 ^ 64" and br': "?r * 1000000000 < 2 ^ 64"
    using assms(1,2) by linarith+
  have whole: "unat (n div ?h * ?k) = ?w * 1000000000"
    using bw by (subst unat_mult_u64) (simp_all add: unat_div_distrib h k)
  have rk: "unat (n mod ?h * ?k) = ?r * 1000000000"
    using br' by (subst unat_mult_u64) (simp_all add: unat_mod_distrib h k)
  have rh: "unat (n mod ?h * ?k + ?h) = ?r * 1000000000 + h"
    using br by (subst unat_add_u64) (simp_all add: rk h)
  have rem: "unat (n mod ?h * ?k + ?h - 1) = ?r * 1000000000 + h - 1"
    using assms(1) by (subst unat_sub_le) (simp_all add: rh word_le_nat_alt)
  have "(unat n * 1000000000 + h - 1) div h = ?w * 1000000000 + (?r * 1000000000 + h - 1) div h"
    by (rule ceil_div_split [OF assms(1)])
  moreover have "(unat n * 1000000000 + h - 1) div h < 2 ^ 64"
    using assms(1,2) by (intro le_less_trans [OF div_le_dividend]) linarith
  ultimately have "unat (n div ?h * ?k + (n mod ?h * ?k + ?h - 1) div ?h) = (unat n * 1000000000 + h - 1) div h"
    by (subst unat_add_u64) (simp_all add: whole unat_div_distrib rem h)
  then show ?thesis using assms(1) by (simp add: ceil_rate_def Let_def)
qed

theorem deadline_rate_exact_witness: "unat (ceil_rate 1000 2000000000) = 500"
proof -
  have "unat (ceil_rate 1000 (int 2000000000)) = (unat (1000 :: u64) * 1000000000 + 2000000000 - 1) div 2000000000"
    by (rule deadline_rate_exact) simp_all
  then show ?thesis by simp
qed


end
