(* ===== verification/Engine_Types.thy ===== *)
theory Engine_Types
  imports Engine_Revalidation Engine_Plans
begin

text \<open>
  Well-formed sessions: every session of a reachable engine is filed under its own identity,
  was admitted with a valid manifest, and has one shard record per shard of that manifest, in
  the order of their indexes. On such sessions the binary search for a shard is exact.
\<close>

section \<open>The session invariant\<close>

definition session_wf :: "limits \<Rightarrow> session_id \<Rightarrow> session_record \<Rightarrow> bool" where
  "session_wf lim k s \<longleftrightarrow>
     se_id s = k \<and> manifest_wf (rq_manifest (se_request s)) lim \<and>
     map (\<lambda>h. (sh_index h, sh_declared_bytes h, sh_declared_digest h)) (se_shards s) =
       map (\<lambda>d. (sd_index d, sd_declared_bytes d, sd_declared_digest d)) (mf_shards (rq_manifest (se_request s)))"

definition sessions_wf :: "engine \<Rightarrow> bool" where
  "sessions_wf e \<longleftrightarrow> (\<forall>k s. lookup_session k e = Some s \<longrightarrow> session_wf (en_limits e) k s)"

lemma session_wf_identity: "session_identity s' = session_identity s \<Longrightarrow> session_wf lim k s' = session_wf lim k s"
proof -
  assume i: "session_identity s' = session_identity s"
  let ?p = "\<lambda>(a, b, c, d). (a, b, c)"
  have "map shard_identity (se_shards s') = map shard_identity (se_shards s)" and f: "se_id s' = se_id s" "se_request s' = se_request s"
    using i by (simp_all add: session_identity_def)
  then have "map ?p (map shard_identity (se_shards s')) = map ?p (map shard_identity (se_shards s))" by (simp only:)
  then show ?thesis
    by (simp add: session_wf_def f shard_identity_def comp_def)
qed

lemma sessions_wf_step:
  assumes "sessions_wf e" and "en_limits e' = en_limits e"
    and "\<And>k s'. lookup_session k e' = Some s' \<Longrightarrow>
      (\<exists>s. lookup_session k e = Some s \<and> session_identity s' = session_identity s) \<or> session_wf (en_limits e) k s'"
  shows "sessions_wf e'"
  using assms session_wf_identity unfolding sessions_wf_def by metis

lemma sessions_wf_evolve:
  assumes "sessions_wf e" and "en_limits e' = en_limits e" and "sessions_evolve X e e'"
  shows "sessions_wf e'"
proof (rule sessions_wf_step [OF assms(1,2)])
  fix k s' assume "lookup_session k e' = Some s'"
  then show "(\<exists>s. lookup_session k e = Some s \<and> session_identity s' = session_identity s) \<or> session_wf (en_limits e) k s'"
    using sessions_evolveD [OF assms(3), of k] by (cases "lookup_session k e") auto
qed

section \<open>Every command keeps it\<close>

lemma limits_authority: "authority e' = authority e \<Longrightarrow> en_limits e' = en_limits e"
  by (simp add: authority_def)

lemma sessions_wf_evolves: "sessions_wf e \<Longrightarrow> evolves X e e' \<Longrightarrow> sessions_wf e'"
  unfolding evolves_def using sessions_wf_evolve limits_authority by blast

lemma remember_command_authority [simp]:
  "en_limits (remember_command c r e) = en_limits e"
  by (simp add: remember_command_def Let_def split: prod.split)

lemma emit_limits [simp]: "en_limits (emit k sid r at e) = en_limits e"
  by (simp add: emit_def)

lemma register_session_limits [simp]: "en_limits (register_session s e) = en_limits e"
  by (simp add: register_session_def Let_def activate_def index_deadline_def account_def)

lemma admission_limits [simp]:
  "en_limits (snd (deny r reason at e)) = en_limits e"
  "en_limits (snd (defer_admission r reason t n at e)) = en_limits e"
  by (simp_all add: deny_def defer_admission_def)

lemma admit_session_new:
  assumes "lookup_session k (snd (admit_session r x n targets at e)) = Some s'"
  shows "(\<exists>s. lookup_session k e = Some s \<and> session_identity s' = session_identity s) \<or>
    (\<exists>e1. s' = issue_session k r x n at e1)"
proof -
  obtain sid factory where id: "id_factory_next (en_id_factory e) = (sid, factory)" by fastforce
  obtain ok sp where sp: "reserve_path_rate (ax_path_id x) n (en_shaper e) = (ok, sp)" by fastforce
  define e2 where "e2 = foldl (apply_supersession sid at) (e\<lparr>en_id_factory := factory, en_shaper := sp\<rparr>) targets"
  have ev: "evolves (set targets) e e2"
    unfolding e2_def by (rule evolves_supersede_all) auto
  then have "session_step (set targets) k (lookup_session k e) (lookup_session k e2)" by (rule evolvesD)
  then show "(\<exists>s. lookup_session k e = Some s \<and> session_identity s' = session_identity s) \<or>
      (\<exists>e1. s' = issue_session k r x n at e1)"
    using assms
    by (cases "lookup_session k e")
      (auto simp: admit_session_def id sp Let_def e2_def [symmetric] lookup_register_session split: if_splits)
qed

lemma limits_admit_session: "en_limits (snd (admit_session r x n targets at e)) = en_limits e"
proof -
  have "evolves (set targets) e (foldl (apply_supersession sid at) (e\<lparr>en_id_factory := f, en_shaper := sp\<rparr>) targets)" for sid f sp
    by (rule evolves_supersede_all) auto
  then have "en_limits (foldl (apply_supersession sid at) (e\<lparr>en_id_factory := f, en_shaper := sp\<rparr>) targets) = en_limits e" for sid f sp
    by (auto simp: evolves_def intro: limits_authority)
  then show ?thesis
    by (simp add: admit_session_def Let_def split_beta)
qed

lemma issue_session_wf:
  "manifest_wf (rq_manifest r) lim \<Longrightarrow> session_wf lim k (issue_session k r x n at e)"
  by (simp add: session_wf_def new_shard_def comp_def)

lemma resolve_admission_manifest:
  "resolve_admission r e = Inr x \<Longrightarrow> manifest_wf (rq_manifest r) (en_limits e)"
  by (auto simp: resolve_admission_def validate_manifest_ok_iff split: if_splits option.splits)

lemma sessions_wf_admit_session:
  assumes "sessions_wf e" and "manifest_wf (rq_manifest r) (en_limits e)"
  shows "sessions_wf (snd (admit_session r x n targets at e))"
proof (rule sessions_wf_step [OF assms(1) limits_admit_session])
  fix k s' assume "lookup_session k (snd (admit_session r x n targets at e)) = Some s'"
  then show "(\<exists>s. lookup_session k e = Some s \<and> session_identity s' = session_identity s) \<or> session_wf (en_limits e) k s'"
    using admit_session_new issue_session_wf [OF assms(2)] by fastforce
qed

lemma sessions_wf_refusals [simp]:
  "sessions_wf e \<Longrightarrow> sessions_wf (snd (deny r reason at e))"
  "sessions_wf e \<Longrightarrow> sessions_wf (snd (defer_admission r reason t n at e))"
  "sessions_wf e \<Longrightarrow> sessions_wf (remember_command c rec e)"
  "sessions_wf e \<Longrightarrow> sessions_wf (emit kind sid reason at e)"
  by (simp_all add: sessions_wf_def)

lemma sessions_wf_admit_within_limits:
  "sessions_wf e \<Longrightarrow> manifest_wf (rq_manifest r) (en_limits e) \<Longrightarrow> sessions_wf (snd (admit_within_limits r x targets at e))"
  by (simp add: admit_within_limits_def Let_def sessions_wf_admit_session)

lemma sessions_wf_decide_admission: "sessions_wf e \<Longrightarrow> sessions_wf (snd (decide_admission r at e))"
  by (auto simp: decide_admission_def sessions_wf_admit_within_limits resolve_admission_manifest
      split: sum.splits scan_result.splits)

lemma sessions_wf_begin_command: "sessions_wf e \<Longrightarrow> sessions_wf (begin_command at e)"
  by (erule sessions_wf_evolves, rule evolves_begin_command [of at e "overdue at e"]) simp

lemma sessions_wf_submit_session: "sessions_wf e \<Longrightarrow> sessions_wf (snd (submit_session r f at e))"
  using sessions_wf_begin_command [of e at] sessions_wf_decide_admission [of "begin_command at e" r at]
  by (auto simp: submit_session_def Let_def split: option.splits)

lemma sweep_limits: "(\<And>e x. en_limits (f e x) = en_limits e) \<Longrightarrow> en_limits (foldl f e xs) = en_limits e"
  by (induction xs arbitrary: e) auto

lemma stale_one_limits: "en_limits (stale_one r t c at e sid) = en_limits e"
  by (auto simp: stale_one_def split: option.splits)

lemma restart_one_limits: "en_limits (restart_one at e sid) = en_limits e"
  by (auto simp: restart_one_def Let_def mark_unproven_def on_session_def split: option.splits)

lemma authority_limits:
  "en_limits (snd (apply_policy p at e)) = en_limits e"
  "en_limits (snd (apply_topology t at e)) = en_limits e"
  "en_limits (snd (upsert_contract c at e)) = en_limits e"
  "en_limits (snd (advance_epoch ep at e)) = en_limits e"
  "en_limits (snd (begin_shutdown at e)) = en_limits e"
  by (simp_all add: apply_policy_def apply_topology_def upsert_contract_def advance_epoch_def begin_shutdown_def
      configure_shaper_def Let_def sweep_limits stale_one_limits restart_one_limits)

lemma sessions_wf_execute:
  assumes "sessions_wf e"
  shows "sessions_wf (snd (execute c at e))"
proof (cases "command_target c")
  case None
  note auth = sessions_wf_evolve [OF assms authority_limits(1) sessions_evolve_apply_policy]
    sessions_wf_evolve [OF assms authority_limits(2) sessions_evolve_apply_topology]
    sessions_wf_evolve [OF assms authority_limits(3) sessions_evolve_upsert_contract]
    sessions_wf_evolve [OF assms authority_limits(4) sessions_evolve_advance_epoch]
    sessions_wf_evolve [OF assms authority_limits(5) sessions_evolve_begin_shutdown]
  have "sessions_wf (snd (poll_deadlines at e))"
    by (rule sessions_wf_evolves [OF assms evolves_poll_deadlines])
  then show ?thesis using None auth sessions_wf_submit_session [OF assms] by (cases c) simp_all
next
  case (Some sid)
  then show ?thesis
    by (rule sessions_wf_evolves [OF assms evolves_execute])
qed

lemma lookup_rehash:
  assumes "alist_valid (en_sessions e)" and "mset sessions = mset (en_sessions e)"
  shows "lookup_session k (e\<lparr>en_sessions := sessions\<rparr>) = lookup_session k e"
  using map_of_mset [OF assms(2) [symmetric] assms(1)] by (simp add: lookup_session_def)

interpretation typed: engine_invariant "\<lambda>e. books {} e \<and> sessions_wf e"
proof unfold_locales
  fix cfg at
  show "books {} (engine_new cfg at) \<and> sessions_wf (engine_new cfg at)"
    using books_engine_new
    by (auto simp: sessions_wf_def lookup_session_def engine_new_def Let_def configure_shaper_def)
next
  fix e c at
  assume "books {} e \<and> sessions_wf e" and "admitted_bytes e \<le> admitted_bytes (snd (execute c at e))"
  then show "books {} (snd (execute c at e)) \<and> sessions_wf (snd (execute c at e))"
    using books_execute sessions_wf_execute by blast
next
  fix e sessions
  assume b: "books {} e \<and> sessions_wf e" and m: "mset sessions = mset (en_sessions e)"
  then have "sessions_wf (e\<lparr>en_sessions := sessions\<rparr>)"
    by (simp add: sessions_wf_def lookup_rehash books_def)
  then show "books {} (e\<lparr>en_sessions := sessions\<rparr>) \<and> sessions_wf (e\<lparr>en_sessions := sessions\<rparr>)"
    using b m books_rehash by blast
qed

section \<open>Properties\<close>

lemma session_wf_ordered:
  assumes "session_wf lim k s"
  shows "shards_ordered s"
proof -
  let ?d = "mf_shards (rq_manifest (se_request s))"
  have "map fst (map (\<lambda>h. (sh_index h, sh_declared_bytes h, sh_declared_digest h)) (se_shards s)) =
      map fst (map (\<lambda>d. (sd_index d, sd_declared_bytes d, sd_declared_digest d)) ?d)"
    using assms by (simp only: session_wf_def)
  then have "map sh_index (se_shards s) = map sd_index ?d" by (simp add: comp_def)
  moreover have "sorted_wrt (<) (map sd_index ?d)" using assms by (simp add: session_wf_def manifest_wf_def)
  ultimately show ?thesis by (metis shards_ordered_def sorted_wrt_map)
qed

text \<open>
  C16. Every session of a reachable engine is well formed: it is filed under its own identity,
  its manifest is valid under the engine's limits, and its shard records are those of the
  manifest, one for one, with the declared sizes and digests.
\<close>
theorem sessions_well_formed:
  assumes "reachable e" and "lookup_session k e = Some s"
  shows "session_wf (en_limits e) k s"
  using typed.reachable_holds [OF assms(1)] assms(2) by (auto simp: sessions_wf_def)

theorem sessions_well_formed_witness:
  "reachable sample_running \<and> session_wf sample_limits sample_session_id sample_session"
  using sessions_well_formed [OF reachable_running running_session] reachable_running by simp

text \<open>
  C17. The binary search for a shard is exact in every reachable engine: it finds a position
  exactly when the shard at that position has the index asked for.
\<close>
theorem shard_lookup_exact:
  assumes "reachable e" and "lookup_session k e = Some s"
  shows "shard_position s i = Some p \<longleftrightarrow> p < length (se_shards s) \<and> sh_index (se_shards s ! p) = i"
proof -
  have "session_wf (en_limits e) k s"
    using typed.reachable_holds [OF assms(1)] assms(2) by (auto simp: sessions_wf_def)
  then show ?thesis by (rule shard_position_exact [OF session_wf_ordered])
qed

theorem shard_lookup_exact_witness: "shard_position sample_session 1 = Some 1"
  using shard_lookup_exact [OF reachable_running running_session, of 1 1] by (simp add: new_shard_def)

end
