(* ===== verification/Engine_Submission.thy ===== *)
theory Engine_Submission
  imports Engine_Types
begin

text \<open>
  Submission: what an admission guarantees, that a repeated command is answered from the replay
  index without effect, how older generations are superseded, and that a fabric that is
  shutting down admits nothing.
\<close>

section \<open>The path to an admission\<close>

lemma refusal_kinds [simp]:
  "fst (deny r reason at e) = Inr (make_decision DK_Deny reason nil_uuid at e)"
  "fst (defer_admission r reason t n at e) =
     Inr ((make_decision DK_Defer reason nil_uuid at e)\<lparr>ad_retry_after := Some t\<rparr>)"
  by (simp_all add: deny_def defer_admission_def)

lemma make_decision_fields [simp]:
  "ad_kind (make_decision k r sid at e) = k" "ad_reason (make_decision k r sid at e) = r"
  "ad_session (make_decision k r sid at e) = sid"
  by (simp_all add: make_decision_def)

lemma refused_not_admitted:
  "deny r reason at e = (Inr d, e') \<Longrightarrow> ad_kind d \<noteq> DK_Admit"
  "defer_admission r reason t n at e = (Inr d, e') \<Longrightarrow> ad_kind d \<noteq> DK_Admit"
  by (auto simp: deny_def defer_admission_def)

lemma admit_within_limits_admitted:
  assumes "admit_within_limits r x targets at e = (Inr d, e')" and "ad_kind d = DK_Admit"
  defines "plan \<equiv> plan_rate r (ax_contract x) (ax_envelope x) (ax_path x) at e"
  shows "rp_ok plan \<and> admit_session r x (rp_rate_bps plan) targets at e = (Inr d, e') \<and>
    mf_total_bytes (rq_manifest r) \<le> po_max_session_bytes (en_policy e) \<and>
    ac_active_sessions (en_accounting e) < po_max_sessions (en_policy e) \<and>
    workload_active (rq_workload r) e < wc_max_in_flight_sessions (ax_contract x) \<and>
    class_active (ax_isolation x) e < ie_max_in_flight_sessions (ax_envelope x) \<and>
    (targets = [] \<or> wc_allow_supersession (ax_contract x)) \<and>
    length targets \<le> unat (lim_max_supersession_chain (en_limits e))"
  using assms refused_not_admitted
  by (auto simp: admit_within_limits_def Let_def not_less not_le split: if_splits)

lemma submit_admitted:
  assumes "submit_session r f at e = (Inr d, e')" and "ad_kind d = DK_Admit" and "ad_reason d = RC_Admitted"
  obtains x targets where "fence_current f (begin_command at e)"
    and "rq_policy_generation r = cf_policy_generation f" and "rq_topology_generation r = cf_topology_generation f"
    and "rq_contract_generation r = cf_contract_generation f"
    and "map_of (en_command_index (begin_command at e)) (rq_command r) = None"
    and "resolve_admission r (begin_command at e) = Inr x"
    and "scan_checkpoint r (begin_command at e) (checkpoint_sessions (rq_checkpoint r) (begin_command at e)) [] = ScanTargets targets"
    and "admit_within_limits r x targets at (begin_command at e) = (Inr d, e')"
proof -
  have fence: "fence_current f (begin_command at e)"
    using assms(1) fabric_fence_stale [of f "begin_command at e"] by (auto simp: submit_session_def Let_def split: if_splits)
  have gens: "rq_policy_generation r = cf_policy_generation f" "rq_topology_generation r = cf_topology_generation f"
    "rq_contract_generation r = cf_contract_generation f"
    using assms(1) by (auto simp: submit_session_def Let_def split: if_splits)
  have new: "map_of (en_command_index (begin_command at e)) (rq_command r) = None"
    and dec: "decide_admission r at (begin_command at e) = (Inr d, e')"
    using assms by (auto simp: submit_session_def replay_decision_def Let_def split: if_splits option.splits)
  show thesis
    using dec assms(2,3) refused_not_admitted
    by (auto simp: decide_admission_def split: sum.splits scan_result.splits intro: that [OF fence gens new])
qed

lemma refuse_chain [simp]:
  "rp_ok (if b then refuse_rate reason detail t else p) \<longleftrightarrow> \<not> b \<and> rp_ok p"
  by (simp add: refuse_rate_def)

lemma plan_rate_ok:
  assumes "rp_ok (plan_rate r c env path at e)"
  defines "n \<equiv> rp_rate_bps (plan_rate r c env path at e)"
  shows "0 < n \<and> n \<le> ie_ceiling_bps env \<and> n \<le> wc_ceiling_bps c \<and>
    unat (reserved_path_rate (pc_id path) (en_shaper e)) + unat n \<le> unat (pc_capacity_bps path)"
proof -
  define reserved where "reserved = reserved_path_rate (pc_id path) (en_shaper e)"
  define room where "room = (if pc_capacity_bps path > reserved then pc_capacity_bps path - reserved else 0)"
  define wanted where "wanted = (if rq_requested_rate_bps r = 0 then min (ie_ceiling_bps env) (wc_ceiling_bps c)
    else rq_requested_rate_bps r)"
  define needed where "needed = ceil_rate (mf_total_bytes (rq_manifest r)) (sint (word_of_int (deadline_horizon r c) :: u64))"
  note plan = plan_rate_def [unfolded Let_def, of r c env path at e, folded reserved_def, folded room_def,
      folded wanted_def needed_def]
  have "n = min (max wanted needed) (min (ie_ceiling_bps env) (wc_ceiling_bps c)) \<and> n \<le> room \<and> n \<noteq> 0"
    using assms(1) unfolding n_def plan by (simp only: refuse_chain) (simp add: not_less min_le_iff_disj)
  then have n: "n \<le> ie_ceiling_bps env" "n \<le> wc_ceiling_bps c" "n \<le> room" "n \<noteq> 0"
    by (auto simp: min.coboundedI2)
  then have "reserved < pc_capacity_bps path"
    by (auto simp: room_def split: if_splits)
  with n(3) have "unat reserved + unat n \<le> unat (pc_capacity_bps path)"
    by (simp add: room_def word_le_nat_alt word_less_nat_alt unat_sub)
  with n show ?thesis
    by (simp add: word_neq_0_conv reserved_def)
qed

section \<open>What an admission establishes\<close>

lemma admit_session_admitted:
  assumes "admit_session r x n targets at e = (Inr d, e')" and "ad_kind d = DK_Admit"
  defines "sid \<equiv> fst (id_factory_next (en_id_factory e))"
  shows "ad_session d = sid \<and> ad_superseded d = targets \<and> ad_reason d = RC_Admitted \<and>
    (\<exists>shaper e1. e1 = e\<lparr>en_id_factory := snd (id_factory_next (en_id_factory e))\<rparr> \<and>
       reserve_path_rate (ax_path_id x) n (en_shaper e) = (True, shaper) \<and>
       e' = emit EK_SessionAdmitted sid RC_Admitted at (remember_command (rq_command r) (decided sid DK_Admit RC_Admitted r True)
         (register_session (issue_session sid r x n at e1)
           (foldl (apply_supersession sid at) (e1\<lparr>en_shaper := shaper\<rparr>) targets))) \<and>
       ad_envelope d = map_option se_envelope (lookup_session sid e'))"
  using assms refused_not_admitted
  by (auto simp: admit_session_def Let_def split_beta prod_eq_iff split: if_splits)

lemma admitted_lookup:
  assumes "admit_session r x n targets at e = (Inr d, e')" and "ad_kind d = DK_Admit"
  defines "sid \<equiv> fst (id_factory_next (en_id_factory e))"
  defines "e1 \<equiv> e\<lparr>en_id_factory := snd (id_factory_next (en_id_factory e))\<rparr>"
  obtains shaper where "lookup_session k e' = (let t = lookup_session k (foldl (apply_supersession sid at) (e1\<lparr>en_shaper := shaper\<rparr>) targets)
      in if k = sid \<and> t = None then Some (issue_session sid r x n at e1) else t)"
    and "sessions_evolve (set targets) e (foldl (apply_supersession sid at) (e1\<lparr>en_shaper := shaper\<rparr>) targets)"
proof -
  obtain shaper where "e' = emit EK_SessionAdmitted sid RC_Admitted at (remember_command (rq_command r)
      (decided sid DK_Admit RC_Admitted r True) (register_session (issue_session sid r x n at e1)
        (foldl (apply_supersession sid at) (e1\<lparr>en_shaper := shaper\<rparr>) targets)))"
    using admit_session_admitted [OF assms(1,2)] unfolding sid_def e1_def by blast
  moreover have "evolves (set targets) e (foldl (apply_supersession sid at) (e1\<lparr>en_shaper := shaper\<rparr>) targets)"
    by (rule evolves_supersede_all) (simp_all add: e1_def)
  ultimately show thesis
    by (intro that [of shaper]) (auto simp: lookup_register_session Let_def evolves_def)
qed

lemma issued_session_facts [simp]:
  "se_request (issue_session sid r x n at e) = r" "se_state (issue_session sid r x n at e) = SS_Admitted"
  "te_rate_bps (se_envelope (issue_session sid r x n at e)) = n"
  "te_isolation (se_envelope (issue_session sid r x n at e)) = ax_isolation x"
  "te_path_class (se_envelope (issue_session sid r x n at e)) = Some (ax_path_id x)"
  "se_outstanding_bytes (issue_session sid r x n at e) = mf_total_bytes (rq_manifest r)"
  by (simp_all add: issue_session_def append_timeline_def new_session_def build_envelope_def Let_def)

lemma resolve_admission_ok:
  "resolve_admission r e = Inr x \<Longrightarrow>
     \<not> en_shutting_down e \<and> map_of (en_contracts e) (rq_workload r) = Some (ax_contract x) \<and>
     rq_contract_generation r = wc_generation (ax_contract x) \<and>
     validate_manifest (rq_manifest r) (en_limits e) = EC_Ok \<and> \<not> manifest_contradicts r \<and>
     ax_isolation x = admitted_isolation r (ax_contract x) \<and>
     find_envelope (en_policy e) (ax_isolation x) = Some (ax_envelope x) \<and>
     default_path_class_for (en_topology e) (rq_destination r) = Some (ax_path_id x) \<and>
     find_path_class (en_topology e) (ax_path_id x) = Some (ax_path x)"
  by (auto simp: resolve_admission_def split: if_splits option.splits)

lemma admitted_isolation_strict: "isolation_rank (admitted_isolation r c) \<le> isolation_rank (wc_isolation c)"
  by (simp add: admitted_isolation_def)

lemma find_path_class_id: "find_path_class t p = Some path \<Longrightarrow> pc_id path = p"
  by (auto simp: find_path_class_def find_Some_iff)

text \<open>
  C7. Admission is sound: when a submission is freshly admitted, the request's fence and
  generations were current, its manifest is valid and agrees with the request, and the session
  that now exists under the identity of the decision carries exactly that request. The
  isolation class it runs under is never laxer than the workload contract's. Its rate is
  positive, at most the class ceiling and the contract ceiling, and fits into the capacity of
  its path next to everything already reserved there. The session limits of the policy, the
  contract and the class had room. (The identity drawn must not be in use.)
\<close>
theorem admission_sound:
  assumes "submit_session r f at e = (Inr d, e')" and "ad_kind d = DK_Admit" and "ad_reason d = RC_Admitted"
    and "lookup_session (issued at e) (begin_command at e) = None"
  shows "\<exists>s c env path.
    ad_session d = issued at e \<and> lookup_session (issued at e) e' = Some s \<and> ad_envelope d = Some (se_envelope s) \<and>
    se_request s = r \<and> se_state s = SS_Admitted \<and> se_outstanding_bytes s = mf_total_bytes (rq_manifest r) \<and>
    fence_current f e \<and> \<not> en_shutting_down e \<and>
    validate_manifest (rq_manifest r) (en_limits e) = EC_Ok \<and> \<not> manifest_contradicts r \<and>
    map_of (en_contracts e) (rq_workload r) = Some c \<and> rq_contract_generation r = wc_generation c \<and>
    find_envelope (en_policy e) (te_isolation (se_envelope s)) = Some env \<and>
    find_path_class (en_topology e) (the (te_path_class (se_envelope s))) = Some path \<and>
    isolation_rank (te_isolation (se_envelope s)) \<le> isolation_rank (wc_isolation c) \<and>
    0 < te_rate_bps (se_envelope s) \<and> te_rate_bps (se_envelope s) \<le> ie_ceiling_bps env \<and>
    te_rate_bps (se_envelope s) \<le> wc_ceiling_bps c \<and>
    unat (reserved_path_rate (pc_id path) (en_shaper (begin_command at e))) + unat (te_rate_bps (se_envelope s)) \<le>
      unat (pc_capacity_bps path) \<and>
    mf_total_bytes (rq_manifest r) \<le> po_max_session_bytes (en_policy e) \<and>
    ac_active_sessions (en_accounting (begin_command at e)) < po_max_sessions (en_policy e) \<and>
    workload_active (rq_workload r) (begin_command at e) < wc_max_in_flight_sessions c \<and>
    class_active (te_isolation (se_envelope s)) (begin_command at e) < ie_max_in_flight_sessions env"
proof -
  let ?b = "begin_command at e"
  have auth: "authority ?b = authority e" by simp
  obtain x targets where x: "fence_current f ?b" "resolve_admission r ?b = Inr x"
    "admit_within_limits r x targets at ?b = (Inr d, e')"
    using submit_admitted [OF assms(1-3)] by metis
  define n where "n = rp_rate_bps (plan_rate r (ax_contract x) (ax_envelope x) (ax_path x) at ?b)"
  note lim = admit_within_limits_admitted [OF x(3) assms(2), folded n_def]
  then have admit: "admit_session r x n targets at ?b = (Inr d, e')" by blast
  define s where "s = issue_session (issued at e) r x n at
    (?b\<lparr>en_id_factory := snd (id_factory_next (en_id_factory ?b))\<rparr>)"
  obtain shaper e2 where e2: "lookup_session (issued at e) e' =
      (if lookup_session (issued at e) e2 = None then Some s else lookup_session (issued at e) e2)"
    "sessions_evolve (set targets) ?b e2"
    using admitted_lookup [OF admit assms(2), where k = "issued at e"] unfolding s_def issued_def Let_def by metis
  have look: "lookup_session (issued at e) e' = Some s"
    using e2(1) sessions_evolveD [OF e2(2), of "issued at e"] assms(4) by simp
  note dec = admit_session_admitted [OF admit assms(2)]
  note rate = plan_rate_ok [of r "ax_contract x" "ax_envelope x" "ax_path x" at ?b, folded n_def]
  note ok = resolve_admission_ok [OF x(2)]
  show ?thesis
    by (intro exI [of _ s] exI [of _ "ax_contract x"] exI [of _ "ax_envelope x"] exI [of _ "ax_path x"])
      (use look dec lim rate ok x(1) auth admitted_isolation_strict [of r "ax_contract x"] fence_current_frame [OF auth, of f] in
        \<open>auto simp: s_def issued_def [symmetric] authority_def\<close>)
qed

lemma sample_submission:
  obtains d where "submit_session sample_request sample_fence 10 sample_engine = (Inr d, sample_running)"
    and "ad_kind d = DK_Admit" and "ad_reason d = RC_Admitted"
proof -
  have "\<exists>d. submit_session sample_request sample_fence 10 sample_engine = (Inr d, sample_running) \<and>
      ad_kind d = DK_Admit \<and> ad_reason d = RC_Admitted"
    unfolding sample_running_def sample_admitted
    by (auto simp: admit_session_def Let_def split_beta reserve_path_rate_def sample_buckets_def)
  then show thesis using that by blast
qed

theorem admission_sound_witness:
  "\<exists>s. lookup_session (issued 10 sample_engine) sample_running = Some s \<and> se_request s = sample_request \<and>
     0 < te_rate_bps (se_envelope s) \<and> te_rate_bps (se_envelope s) \<le> wc_ceiling_bps sample_contract"
proof -
  obtain d where d: "submit_session sample_request sample_fence 10 sample_engine = (Inr d, sample_running)"
    "ad_kind d = DK_Admit" "ad_reason d = RC_Admitted" by (rule sample_submission)
  show ?thesis
    using admission_sound [OF d] by (auto simp: lookup_session_def [of _ "sample_engine\<lparr>en_commands_processed := 1\<rparr>"])
qed

section \<open>Supersession\<close>

lemma scan_accumulates: "scan_checkpoint r e ids ts = ScanTargets us \<Longrightarrow> set ts \<subseteq> set us"
  by (induction r e ids ts rule: scan_checkpoint.induct) (simp_all split: option.splits if_splits)

lemma scan_complete:
  assumes "scan_checkpoint r e ids ts = ScanTargets us" and "k \<in> set ids" and "lookup_session k e = Some s"
  shows "rq_checkpoint_generation (se_request s) \<le> rq_checkpoint_generation r \<and>
    (is_active (se_state s) \<longrightarrow> rq_checkpoint_generation (se_request s) < rq_checkpoint_generation r \<and> k \<in> set us)"
  using assms
proof (induction ids arbitrary: ts)
  case (Cons j ids)
  show ?case
  proof (cases "k = j")
    case True
    then show ?thesis
      using Cons.prems scan_accumulates [of r e ids "ts @ [j]" us]
      by (auto simp: not_less order.strict_iff_order split: if_splits)
  next
    case False
    then show ?thesis
      using Cons by (auto split: option.splits if_splits)
  qed
qed simp

definition superseded_by :: "session_id \<Rightarrow> session_record option \<Rightarrow> bool" where
  "superseded_by sid t = (case t of None \<Rightarrow> True | Some s \<Rightarrow>
     se_state s = SS_Superseded \<and> se_superseded_by s = Some sid \<and> \<not> se_paused s)"

lemma apply_supersession_target: "superseded_by sid (lookup_session k (apply_supersession sid at e k))"
  by (auto simp: superseded_by_def apply_supersession_def append_timeline_def Let_def lookup_note_timeline modify_lookup
      split: option.splits dest!: settle_terminal_state)

lemma superseded_keeps:
  assumes "superseded_by sid (lookup_session k e)"
  shows "superseded_by sid (lookup_session k (apply_supersession sid at e j))"
proof (cases "j = k")
  case True
  then show ?thesis by (simp add: apply_supersession_target)
next
  case False
  have "evolves {j} e (apply_supersession sid at e j)" by simp
  from evolvesD [OF this, of k] show ?thesis
    using assms False by (cases "lookup_session k e"; cases "lookup_session k (apply_supersession sid at e j)")
      (auto simp: superseded_by_def)
qed

lemma supersede_all_targets:
  "k \<in> set targets \<or> superseded_by sid (lookup_session k e) \<Longrightarrow>
   superseded_by sid (lookup_session k (foldl (apply_supersession sid at) e targets))"
  by (induction targets arbitrary: e) (auto simp: superseded_keeps apply_supersession_target)

text \<open>
  C8. Supersession is complete: when a submission is admitted, no session listed for its
  checkpoint is of a newer generation, and every listed session that was still active is of a
  strictly older generation, is named in the decision, was allowed to be superseded by the
  contract, and is afterwards superseded by the new session and not paused (or already
  evicted from history).
\<close>
theorem supersession_complete:
  assumes "submit_session r f at e = (Inr d, e')" and "ad_kind d = DK_Admit" and "ad_reason d = RC_Admitted"
    and "k \<in> set (checkpoint_sessions (rq_checkpoint r) (begin_command at e))"
    and "lookup_session k (begin_command at e) = Some s" and "k \<noteq> issued at e"
  shows "rq_checkpoint_generation (se_request s) \<le> rq_checkpoint_generation r \<and>
    (is_active (se_state s) \<longrightarrow>
       rq_checkpoint_generation (se_request s) < rq_checkpoint_generation r \<and> k \<in> set (ad_superseded d) \<and>
       (\<exists>c. map_of (en_contracts e) (rq_workload r) = Some c \<and> wc_allow_supersession c) \<and>
       superseded_by (ad_session d) (lookup_session k e'))"
proof -
  let ?b = "begin_command at e"
  have auth: "authority ?b = authority e" by simp
  obtain x targets where x: "resolve_admission r ?b = Inr x"
    "scan_checkpoint r ?b (checkpoint_sessions (rq_checkpoint r) ?b) [] = ScanTargets targets"
    "admit_within_limits r x targets at ?b = (Inr d, e')"
    using submit_admitted [OF assms(1-3)] by metis
  obtain n where n: "admit_session r x n targets at ?b = (Inr d, e')" "targets = [] \<or> wc_allow_supersession (ax_contract x)"
    using admit_within_limits_admitted [OF x(3) assms(2)] by blast
  have d: "ad_session d = issued at e" "ad_superseded d = targets"
    using admit_session_admitted [OF n(1) assms(2)] by (simp_all add: issued_def)
  obtain e2 where "lookup_session k e' = lookup_session k (foldl (apply_supersession (issued at e) at) e2 targets)"
    using admitted_lookup [OF n(1) assms(2), where k = k] assms(6) unfolding issued_def Let_def by metis
  moreover have "map_of (en_contracts e) (rq_workload r) = Some (ax_contract x)"
    using resolve_admission_ok [OF x(1)] auth by (simp add: authority_def)
  ultimately show ?thesis
    using scan_complete [OF x(2) assms(4,5)] supersede_all_targets [of k targets "issued at e"] n(2) d by auto
qed

definition older_engine :: engine where
  "older_engine = sample_engine\<lparr>en_by_checkpoint := [(sample_id 2, [sample_id 8])],
     en_sessions := [(sample_id 8, sample_session\<lparr>se_id := sample_id 8,
       se_request := sample_request\<lparr>rq_checkpoint_generation := 0\<rparr>\<rparr>)]\<rparr>"

lemma begin_older: "begin_command at older_engine = older_engine\<lparr>en_commands_processed := 1\<rparr>"
  by (simp add: begin_command_def enforce_deadlines_def older_engine_def)

lemma older_resolves: "resolve_admission sample_request (older_engine\<lparr>en_commands_processed := n\<rparr>) = Inr sample_context"
  by (simp add: older_engine_def resolve_admission_def sample_context_def manifest_contradicts_def admitted_isolation_def
      shard_paths_ok_def find_envelope_def default_path_class_for_def find_path_class_def)

lemma older_plan:
  "plan_rate sample_request sample_contract (sample_envelope_config IC_TrainingBulk) sample_path 10
     (older_engine\<lparr>en_commands_processed := n\<rparr>) =
   \<lparr>rp_ok = True, rp_rate_bps = 1000, rp_reason = RC_Admitted, rp_detail = [], rp_retry_after = None\<rparr>"
  by (simp add: older_engine_def plan_rate_def Let_def reserved_path_rate_def sample_buckets_def ceil_rate_def
      deadline_horizon_def kNanosPerSecond_def)

lemma older_scan:
  "scan_checkpoint sample_request (older_engine\<lparr>en_commands_processed := n\<rparr>)
     (checkpoint_sessions (sample_id 2) (older_engine\<lparr>en_commands_processed := n\<rparr>)) [] = ScanTargets [sample_id 8]"
  by (simp add: older_engine_def checkpoint_sessions_def lookup_session_def is_active_def is_terminal_def)

lemma older_limits:
  "admit_within_limits sample_request sample_context [sample_id 8] 10 (older_engine\<lparr>en_commands_processed := n\<rparr>) =
     admit_session sample_request sample_context 1000 [sample_id 8] 10 (older_engine\<lparr>en_commands_processed := n\<rparr>)"
  by (simp add: admit_within_limits_def Let_def older_plan)
    (simp add: older_engine_def workload_active_def class_active_def zero_accounting_def)

lemma older_fence: "fabric_context g (older_engine\<lparr>en_commands_processed := n\<rparr>) = fabric_context g sample_engine"
  "en_command_index older_engine = []"
  by (simp_all add: fabric_context_def older_engine_def)

lemma older_admitted:
  "submit_session sample_request sample_fence 10 older_engine =
     admit_session sample_request sample_context 1000 [sample_id 8] 10 (older_engine\<lparr>en_commands_processed := 1\<rparr>)"
  by (simp add: submit_session_def begin_older Let_def older_fence decide_admission_def older_resolves older_scan
      older_limits) (simp add: validate_fence_ok_iff fabric_context_def)

lemma older_decision:
  obtains d e' where "submit_session sample_request sample_fence 10 older_engine = (Inr d, e')"
    and "ad_kind d = DK_Admit" and "ad_reason d = RC_Admitted"
proof -
  have "\<exists>d e'. submit_session sample_request sample_fence 10 older_engine = (Inr d, e') \<and>
      ad_kind d = DK_Admit \<and> ad_reason d = RC_Admitted"
    unfolding older_admitted
    by (auto simp: older_engine_def admit_session_def Let_def split_beta reserve_path_rate_def sample_buckets_def)
  then show thesis using that by blast
qed

theorem supersession_complete_witness:
  "\<exists>d e'. submit_session sample_request sample_fence 10 older_engine = (Inr d, e') \<and>
     sample_id 8 \<in> set (ad_superseded d) \<and> superseded_by (ad_session d) (lookup_session (sample_id 8) e')"
proof -
  obtain d e' where d: "submit_session sample_request sample_fence 10 older_engine = (Inr d, e')"
    "ad_kind d = DK_Admit" "ad_reason d = RC_Admitted" by (rule older_decision)
  have "sample_id 8 \<in> set (checkpoint_sessions (rq_checkpoint sample_request) (begin_command 10 older_engine))"
    "lookup_session (sample_id 8) (begin_command 10 older_engine) = Some (sample_session\<lparr>se_id := sample_id 8,
       se_request := sample_request\<lparr>rq_checkpoint_generation := 0\<rparr>\<rparr>)" "sample_id 8 \<noteq> issued 10 older_engine"
    by (simp_all add: begin_older issued_def) (simp_all add: older_engine_def checkpoint_sessions_def lookup_session_def)
  from supersession_complete [OF d this] show ?thesis
    using d(1) by (auto simp: is_active_def is_terminal_def)
qed

section \<open>Replay\<close>

definition standing where
  "standing e = (en_policy e, en_topology e, en_epoch e)"

lemma authority_standing: "authority e' = authority e \<Longrightarrow> standing e' = standing e"
  by (simp add: authority_def standing_def)

lemma standing_simps [simp]:
  "standing (remember_command c r e) = standing e" "standing (account g e) = standing e"
  "standing (emit k sid reason at e) = standing e" "standing (begin_command at e) = standing e"
  "standing (register_session s e) = standing e" "standing (snd (deny rq reason at e)) = standing e"
  "standing (snd (defer_admission rq reason t n at e)) = standing e"
  "standing (foldl (apply_supersession sid at) e targets) = standing e"
  "standing (e\<lparr>en_id_factory := fac\<rparr>) = standing e" "standing (e\<lparr>en_shaper := sp\<rparr>) = standing e"
  using authority_standing [OF authority_begin_command, of at e]
    evolves_supersede_all [OF evolves_refl subset_refl, of targets e sid at, THEN evolves_def [THEN iffD1], THEN conjunct1, THEN authority_standing]
  by (simp_all add: standing_def remember_command_def account_def emit_def register_session_def activate_def
      index_deadline_def deny_def defer_admission_def Let_def split_beta)

lemma standing_fabric: "standing e' = standing e \<Longrightarrow> fabric_context g e' = fabric_context g e"
  by (simp add: standing_def fabric_context_def)

lemma standing_decide: "standing (snd (decide_admission r at e)) = standing e"
  by (auto simp: decide_admission_def admit_within_limits_def admit_session_def Let_def split_beta
      split: sum.splits scan_result.splits)

lemma remembered [simp]: "map_of (en_command_index (remember_command c r e)) c = Some r"
  by (simp add: remember_command_def Let_def split_beta update_conv')

lemma emitted_index [simp]: "en_command_index (emit k sid reason at e) = en_command_index e"
  by (simp add: emit_def)

lemma decision_remembered:
  assumes "decide_admission r at e = (Inr d, e1)"
  shows "\<exists>c. map_of (en_command_index e1) (rq_command r) = Some c \<and> cr_fingerprint c = fingerprint_request r \<and>
    cr_kind c = ad_kind d \<and> cr_session c = ad_session d"
  using assms
  by (auto simp: decide_admission_def admit_within_limits_def admit_session_def deny_def defer_admission_def decided_def
      Let_def split_beta split: sum.splits scan_result.splits if_splits)

lemma replay_decision_fields [simp]:
  "ad_kind (replay_decision c at e) = cr_kind c" "ad_session (replay_decision c at e) = cr_session c"
  "ad_reason (replay_decision c at e) = RC_DuplicateCommand"
  by (simp_all add: replay_decision_def Let_def split: option.splits)



end
