(* ===== verification/Utf8.thy ===== *)
theory Utf8
  imports Hash
begin

unbundle bit_operations_syntax

text \<open>
  Text as bytes, \<^verbatim>\<open>src/bytes.cpp\<close>: conversion between strings and bytes, and the strict UTF-8
  check that guards every string read from or written to the wire. The check is shown to accept
  exactly the encodings of Unicode scalar values.
\<close>

definition bytes_from_string :: "string \<Rightarrow> u8 list" where
  "bytes_from_string text = map of_char text"

definition string_from_bytes :: "u8 list \<Rightarrow> string" where
  "string_from_bytes data = map (\<lambda>b. char_of (unat b)) data"

definition utf8_lead :: "u8 \<Rightarrow> (u32 \<times> nat) option" where
  "utf8_lead byte =
     (if byte \<le> 0x7F then Some (ucast byte, 0)
      else if byte \<ge> 0xC2 \<and> byte \<le> 0xDF then Some (ucast (byte AND 0x1F), 1)
      else if byte \<ge> 0xE0 \<and> byte \<le> 0xEF then Some (ucast (byte AND 0x0F), 2)
      else if byte \<ge> 0xF0 \<and> byte \<le> 0xF4 then Some (ucast (byte AND 0x07), 3)
      else None)"

fun utf8_continue :: "nat \<Rightarrow> u32 \<Rightarrow> u8 list \<Rightarrow> (u32 \<times> u8 list) option" where
  "utf8_continue 0 code_point data = Some (code_point, data)"
| "utf8_continue (Suc k) code_point [] = None"
| "utf8_continue (Suc k) code_point (next # data) =
     (if next AND 0xC0 \<noteq> 0x80 then None
      else utf8_continue k (push_bit 6 code_point OR ucast (next AND 0x3F)) data)"

definition utf8_rejects :: "nat \<Rightarrow> u32 \<Rightarrow> bool" where
  "utf8_rejects continuation code_point \<longleftrightarrow>
     continuation = 2 \<and> code_point < 0x800 \<or> continuation = 3 \<and> code_point < 0x10000 \<or>
     code_point \<ge> 0xD800 \<and> code_point \<le> 0xDFFF \<or> code_point > 0x10FFFF"

lemma utf8_continue_length: "utf8_continue n cp data = Some (cp', rest) \<Longrightarrow> length data = length rest + n"
  by (induction n cp data rule: utf8_continue.induct) (auto split: if_splits)

function is_valid_utf8 :: "u8 list \<Rightarrow> bool" where
  "is_valid_utf8 [] = True"
| "is_valid_utf8 (byte # data) =
     (case utf8_lead byte of
        None \<Rightarrow> False
      | Some (cp, continuation) \<Rightarrow>
          (case utf8_continue continuation cp data of
             None \<Rightarrow> False
           | Some (code_point, rest) \<Rightarrow> \<not> utf8_rejects continuation code_point \<and> is_valid_utf8 rest))"
  by pat_completeness auto
termination
  by (relation "measure length") (auto dest: utf8_continue_length)

section \<open>Strings and bytes\<close>

lemma byte_of_char: "(of_char c :: u8) = word_of_nat (of_char c)"
  by (simp add: of_nat_of_char)

lemma char_byte [simp]: "char_of (unat (of_char c :: u8)) = c"
proof -
  have "(of_char c :: nat) mod 256 = of_char c" by (rule of_char_mod_256)
  then have "(of_char c :: nat) < 256" by (metis mod_less_divisor zero_less_numeral)
  then have "unat (of_char c :: u8) = of_char c" by (simp add: byte_of_char unat_of_nat)
  then show ?thesis by simp
qed

lemma byte_char [simp]: "(of_char (char_of (unat b)) :: u8) = b"
  using unat_u8_less [of b] by (simp add: byte_of_char)

lemma string_bytes_inverse [simp]: "string_from_bytes (bytes_from_string s) = s"
  by (simp add: string_from_bytes_def bytes_from_string_def comp_def)

lemma bytes_string_inverse [simp]: "bytes_from_string (string_from_bytes data) = data"
  by (simp add: string_from_bytes_def bytes_from_string_def comp_def)

lemma length_bytes_from_string [simp]: "length (bytes_from_string s) = length s"
  by (simp add: bytes_from_string_def)

section \<open>The reference encoding\<close>

text \<open>
  The encoding form of the Unicode standard: a scalar value is a code point up to 0x10FFFF that
  is not a surrogate, and it has one encoding of one to four bytes.
\<close>

definition unicode_scalar :: "nat \<Rightarrow> bool" where
  "unicode_scalar c \<longleftrightarrow> c < 0xD800 \<or> 0xDFFF < c \<and> c \<le> 0x10FFFF"

definition utf8_encode :: "nat \<Rightarrow> u8 list" where
  "utf8_encode c =
     (if c < 0x80 then [word_of_nat c]
      else if c < 0x800 then [word_of_nat (0xC0 + c div 64), word_of_nat (0x80 + c mod 64)]
      else if c < 0x10000 then
        [word_of_nat (0xE0 + c div 4096), word_of_nat (0x80 + c div 64 mod 64), word_of_nat (0x80 + c mod 64)]
      else
        [word_of_nat (0xF0 + c div 262144), word_of_nat (0x80 + c div 4096 mod 64),
         word_of_nat (0x80 + c div 64 mod 64), word_of_nat (0x80 + c mod 64)])"

section \<open>The check is exact\<close>

lemma low_bits: "unat (b AND 0x3F :: u8) = unat b mod 64" "unat (b AND 0x1F :: u8) = unat b mod 32"
  "unat (b AND 0x0F :: u8) = unat b mod 16" "unat (b AND 0x07 :: u8) = unat b mod 8"
proof -
  have "b AND mask n = take_bit n b" for n by (simp add: take_bit_eq_mask)
  from this [of 6] this [of 5] this [of 4] this [of 3]
  have "b AND 0x3F = take_bit 6 b" "b AND 0x1F = take_bit 5 b" "b AND 0x0F = take_bit 4 b" "b AND 0x07 = take_bit 3 b"
    by (simp_all add: mask_eq_exp_minus_1)
  then show "unat (b AND 0x3F :: u8) = unat b mod 64" "unat (b AND 0x1F :: u8) = unat b mod 32"
    "unat (b AND 0x0F :: u8) = unat b mod 16" "unat (b AND 0x07 :: u8) = unat b mod 8"
    by (simp_all add: unsigned_take_bit_eq take_bit_eq_mod unat_mod_distrib)
qed

lemma continuation_byte: "b AND 0xC0 = (0x80 :: u8) \<longleftrightarrow> unat b div 64 = 2"
proof -
  have "b AND 0xC0 = push_bit 6 (drop_bit 6 b)"
  proof (rule bit_word_eqI)
    fix n assume "n < LENGTH(8)"
    then have "n = 0 \<or> n = 1 \<or> n = 2 \<or> n = 3 \<or> n = 4 \<or> n = 5 \<or> n = 6 \<or> n = 7" by auto
    then show "bit (b AND 0xC0) n = bit (push_bit 6 (drop_bit 6 b)) n"
      by (auto simp: bit_simps)
  qed
  moreover have "unat b div 64 < 4" using unat_u8_less [of b] by simp
  ultimately have "unat (b AND 0xC0) = unat b div 64 * 64"
    by (simp add: unat_drop_bit_eq drop_bit_eq_div push_bit_eq_mult unat_word_ariths)
  then show ?thesis by (simp add: word_unat_eq_iff)
qed

lemma code_point_step:
  assumes "unat cp < 2 ^ 26"
  shows "unat (push_bit 6 cp OR ucast (b AND 0x3F :: u8) :: u32) = unat cp * 64 + unat b mod 64"
proof -
  define x where "x = (ucast (b AND 0x3F :: u8) :: u32)"
  have x: "unat x = unat b mod 64"
    by (simp add: x_def low_bits unsigned_ucast_eq take_bit_eq_mod)
  then have "unat x < 64" by simp
  then have "x = take_bit 6 x"
    by (simp add: word_unat_eq_iff unsigned_take_bit_eq take_bit_eq_mod unat_mod_distrib)
  then have "bit (push_bit 6 cp) n \<longrightarrow> \<not> bit x n" for n
    by (metis bit_push_bit_iff bit_take_bit_iff not_less)
  then have "push_bit 6 cp OR x = push_bit 6 cp + x"
    by (intro disjunctive_add [symmetric]) blast
  moreover have "unat (push_bit 6 cp + x) = unat cp * 64 + unat x"
    using assms \<open>unat x < 64\<close> by (simp add: push_bit_eq_mult unat_word_ariths)
  ultimately show ?thesis using x by (simp add: x_def)
qed

definition continuations :: "u8 list \<Rightarrow> bool" where
  "continuations bs \<longleftrightarrow> list_all (\<lambda>b. unat b div 64 = 2) bs"

definition code_value :: "nat \<Rightarrow> u8 list \<Rightarrow> nat" where
  "code_value = foldl (\<lambda>c b. c * 64 + unat b mod 64)"

lemma utf8_continue_exact:
  assumes "(unat cp + 1) * 64 ^ n \<le> 2 ^ 32"
  shows "utf8_continue n cp data = Some (cp', rest) \<longleftrightarrow>
    (\<exists>bs. data = bs @ rest \<and> length bs = n \<and> continuations bs \<and> unat cp' = code_value (unat cp) bs)"
  using assms
proof (induction n arbitrary: cp data)
  case 0
  then show ?case by (auto simp: code_value_def continuations_def word_unat_eq_iff)
next
  case (Suc n)
  show ?case
  proof (cases data)
    case Nil
    then show ?thesis by auto
  next
    case (Cons b bs)
    define cp1 where "cp1 = (push_bit 6 cp OR ucast (b AND 0x3F) :: u32)"
    have "(unat cp + 1) * 64 ^ 1 \<le> (unat cp + 1) * 64 ^ Suc n"
      by (intro mult_left_mono power_increasing) simp_all
    then have "(unat cp + 1) * 64 \<le> 2 ^ 32"
      using Suc.prems by simp
    then have cp1: "unat cp1 = unat cp * 64 + unat b mod 64"
      unfolding cp1_def by (intro code_point_step) simp
    have "(unat cp1 + 1) * 64 ^ n \<le> ((unat cp + 1) * 64) * 64 ^ n"
      using mod_less_divisor [of 64 "unat b"] by (intro mult_right_mono) (simp_all add: cp1)
    then have "(unat cp1 + 1) * 64 ^ n \<le> 2 ^ 32"
      using Suc.prems by (simp add: algebra_simps)
    from Suc.IH [OF this, of bs] show ?thesis
      by (auto simp: Cons cp1_def [symmetric] continuation_byte cp1 code_value_def continuations_def Cons_eq_append_conv)
  qed
qed

lemma mod_block: "m \<le> x \<Longrightarrow> x < m + k \<Longrightarrow> k dvd m \<Longrightarrow> x mod k = x - (m :: nat)"
  by (auto simp: le_iff_add mod_add_left_eq [symmetric, of m])

lemma utf8_lead_cases:
  "utf8_lead b = Some (cp, n) \<longleftrightarrow>
     n = 0 \<and> unat b < 128 \<and> unat cp = unat b \<or>
     n = 1 \<and> 194 \<le> unat b \<and> unat b < 224 \<and> unat cp = unat b - 192 \<or>
     n = 2 \<and> 224 \<le> unat b \<and> unat b < 240 \<and> unat cp = unat b - 224 \<or>
     n = 3 \<and> 240 \<le> unat b \<and> unat b < 245 \<and> unat cp = unat b - 240"
proof -
  have small: "unat (ucast x :: u32) = unat x" for x :: u8
    using unat_u8_less [of x] by (simp add: unsigned_ucast_eq take_bit_eq_mod)
  have "unat b mod 32 = unat b - 192" if "194 \<le> unat b" "unat b < 224"
    by (rule mod_block) (use that in simp_all)
  moreover have "unat b mod 16 = unat b - 224" if "224 \<le> unat b" "unat b < 240"
    by (rule mod_block) (use that in simp_all)
  moreover have "unat b mod 8 = unat b - 240" if "240 \<le> unat b" "unat b < 245"
    by (rule mod_block) (use that in simp_all)
  ultimately show ?thesis
    by (auto simp: utf8_lead_def word_le_nat_alt word_unat_eq_iff small low_bits)
qed

lemma byte_in_place: "unat b = n \<Longrightarrow> word_of_nat n = (b :: u8)"
  by (auto simp: word_unat_eq_iff)

lemma continuation_value: "unat b div 64 = 2 \<Longrightarrow> word_of_nat (128 + unat b mod 64) = (b :: u8)"
  using div_mult_mod_eq [of "unat b" 64] by (intro byte_in_place) simp

lemma lists_by_length:
  "length bs = 0 \<longleftrightarrow> bs = []" "length bs = Suc 0 \<longleftrightarrow> (\<exists>a. bs = [a])" "length bs = 2 \<longleftrightarrow> (\<exists>a b. bs = [a, b])"
  "length bs = 3 \<longleftrightarrow> (\<exists>a b c. bs = [a, b, c])"
  by (auto simp: numeral_eq_Suc length_Suc_conv)

lemma div_steps: "c div 4096 = c div 64 div 64" "c div 262144 = c div 64 div 64 div (64 :: nat)"
  by (simp_all add: div_mult2_eq [symmetric])

lemma radix64: "(m * 64 + x mod 64) div 64 = (m :: nat)" "(m * 64 + x mod 64) mod 64 = (x :: nat) mod 64"
  by simp_all

lemma tag64: "(128 + x mod 64) div 64 = (2 :: nat)" "(128 + x mod 64) mod 64 = (x :: nat) mod 64"
  using radix64 [of 2 x] by simp_all

lemma decode_sequence:
  assumes "utf8_lead b = Some (cp, n)" and "length bs = n" and "continuations bs" and "c = code_value (unat cp) bs"
    and "n = 2 \<longrightarrow> 0x800 \<le> c" and "n = 3 \<longrightarrow> 0x10000 \<le> c"
  shows "utf8_encode c = b # bs"
  using assms(1) unfolding utf8_lead_cases
proof (elim disjE conjE)
  assume "n = 0" "unat b < 128" "unat cp = unat b"
  then show ?thesis using assms(2,4) by (simp add: utf8_encode_def code_value_def byte_in_place)
next
  assume *: "n = 1" "194 \<le> unat b" "unat b < 224" "unat cp = unat b - 192"
  then obtain b1 where b1: "bs = [b1]" "unat b1 div 64 = 2"
    using assms(2,3) by (auto simp: lists_by_length continuations_def)
  have c: "c = (unat b - 192) * 64 + unat b1 mod 64" using assms(4) * b1 by (simp add: code_value_def)
  then have "0x80 \<le> c" "c < 0x800" using * mod_less_divisor [of 64 "unat b1"] by linarith+
  moreover have "c div 64 = unat b - 192" "c mod 64 = unat b1 mod 64" by (simp_all add: c)
  ultimately show ?thesis
    using * b1 by (simp add: utf8_encode_def continuation_value byte_in_place del: of_nat_add)
next
  assume *: "n = 2" "224 \<le> unat b" "unat b < 240" "unat cp = unat b - 224"
  then obtain b1 b2 where b: "bs = [b1, b2]" "unat b1 div 64 = 2" "unat b2 div 64 = 2"
    using assms(2,3) by (auto simp: lists_by_length continuations_def)
  have c: "c = ((unat b - 224) * 64 + unat b1 mod 64) * 64 + unat b2 mod 64" using assms(4) * b by (simp add: code_value_def)
  moreover have "unat b - 224 \<le> 15" "unat b1 mod 64 \<le> 63" "unat b2 mod 64 \<le> 63" using * by simp_all
  ultimately have "0x800 \<le> c" "c < 0x10000" using * assms(5) by simp_all
  moreover have "c div 64 div 64 = unat b - 224" "c div 64 mod 64 = unat b1 mod 64" "c mod 64 = unat b2 mod 64"
    unfolding c radix64 by (rule refl)+
  ultimately show ?thesis
    using * b by (simp add: utf8_encode_def div_steps continuation_value byte_in_place del: of_nat_add)
next
  assume *: "n = 3" "240 \<le> unat b" "unat b < 245" "unat cp = unat b - 240"
  then obtain b1 b2 b3 where b: "bs = [b1, b2, b3]" "unat b1 div 64 = 2" "unat b2 div 64 = 2" "unat b3 div 64 = 2"
    using assms(2,3) by (auto simp: lists_by_length continuations_def)
  have c: "c = (((unat b - 240) * 64 + unat b1 mod 64) * 64 + unat b2 mod 64) * 64 + unat b3 mod 64"
    using assms(4) * b by (simp add: code_value_def)
  then have "0x10000 \<le> c" using * assms(6) by simp
  moreover have "c div 64 div 64 div 64 = unat b - 240" "c div 64 div 64 mod 64 = unat b1 mod 64"
    "c div 64 mod 64 = unat b2 mod 64" "c mod 64 = unat b3 mod 64"
    unfolding c radix64 by (rule refl)+
  ultimately show ?thesis
    using * b by (simp add: utf8_encode_def div_steps continuation_value byte_in_place del: of_nat_add)
qed

lemma scalar_small: "unicode_scalar c \<Longrightarrow> c < 0x110000"
  by (auto simp: unicode_scalar_def)

lemma byte_small: "n < 256 \<Longrightarrow> unat (word_of_nat n :: u8) = n"
  by (simp add: unat_of_nat)

lemma encode_sequence:
  assumes "unicode_scalar c" and "utf8_encode c = b # bs"
  shows "\<exists>cp. utf8_lead b = Some (cp, length bs) \<and> continuations bs \<and> code_value (unat cp) bs = c \<and>
    (length bs = 2 \<longrightarrow> 0x800 \<le> c) \<and> (length bs = 3 \<longrightarrow> 0x10000 \<le> c)"
proof -
  have small: "\<exists>cp :: u32. unat cp = unat b - k" for k
    using unat_u8_less [of b] by (intro exI [of _ "word_of_nat (unat b - k)"]) (simp only: unat_of_nat, simp)
  have lead0: "\<exists>cp. utf8_lead b = Some (cp, 0) \<and> unat cp = unat b" if "unat b < 128"
    using small [of 0] that by (simp add: utf8_lead_cases)
  have lead1: "\<exists>cp. utf8_lead b = Some (cp, 1) \<and> unat cp = unat b - 192" if "194 \<le> unat b" "unat b < 224"
    using small [of 192] that by (simp add: utf8_lead_cases)
  have lead2: "\<exists>cp. utf8_lead b = Some (cp, 2) \<and> unat cp = unat b - 224" if "224 \<le> unat b" "unat b < 240"
    using small [of 224] that by (simp add: utf8_lead_cases)
  have lead3: "\<exists>cp. utf8_lead b = Some (cp, 3) \<and> unat cp = unat b - 240" if "240 \<le> unat b" "unat b < 245"
    using small [of 240] that by (simp add: utf8_lead_cases)
  have mods: "m mod 64 < 64" for m :: nat by simp
  consider "c < 0x80" | "0x80 \<le> c" "c < 0x800" | "0x800 \<le> c" "c < 0x10000" | "0x10000 \<le> c" "c < 0x110000"
    using scalar_small [OF assms(1)] by linarith
  then show ?thesis
  proof cases
    case 1
    then show ?thesis using assms(2) lead0
      by (auto simp: utf8_encode_def byte_small code_value_def continuations_def tag64 simp del: of_nat_add)
  next
    case 2
    then have "2 \<le> c div 64" "c div 64 < 32" by (simp_all add: less_mult_imp_div_less)
    then show ?thesis using assms(2) 2 lead1 mods [of c]
      by (auto simp: utf8_encode_def byte_small code_value_def continuations_def tag64 simp del: of_nat_add)
  next
    case 3
    then have "c div 64 div 64 < 16" by (simp add: div_mult2_eq [symmetric] less_mult_imp_div_less)
    then show ?thesis using assms(2) 3 lead2 mods [of c] mods [of "c div 64"]
      by (auto simp: utf8_encode_def div_steps byte_small code_value_def continuations_def tag64 simp del: of_nat_add)
        (use div_mult_mod_eq [of c 64] div_mult_mod_eq [of "c div 64" 64] in linarith)
  next
    case 4
    then have "c div 64 div 64 div 64 < 5" by (simp add: div_mult2_eq [symmetric] less_mult_imp_div_less)
    then show ?thesis using assms(2) 4 lead3 mods [of c] mods [of "c div 64"] mods [of "c div 64 div 64"]
      by (auto simp: utf8_encode_def div_steps byte_small code_value_def continuations_def tag64 simp del: of_nat_add)
        (use div_mult_mod_eq [of c 64] div_mult_mod_eq [of "c div 64" 64] div_mult_mod_eq [of "c div 64 div 64" 64] in linarith)
  qed
qed

lemma utf8_one:
  "is_valid_utf8 (b # data) \<longleftrightarrow>
     (\<exists>c rest. unicode_scalar c \<and> b # data = utf8_encode c @ rest \<and> is_valid_utf8 rest)"
proof
  assume "is_valid_utf8 (b # data)"
  then obtain cp n cp' rest where v: "utf8_lead b = Some (cp, n)" "utf8_continue n cp data = Some (cp', rest)"
    "\<not> utf8_rejects n cp'" "is_valid_utf8 rest"
    by (auto split: option.splits)
  have "(unat cp + 1) * 64 ^ n \<le> 2 ^ 32" using v(1) by (auto simp: utf8_lead_cases)
  then obtain bs where bs: "data = bs @ rest" "length bs = n" "continuations bs" "unat cp' = code_value (unat cp) bs"
    using v(2) utf8_continue_exact by blast
  have c: "unicode_scalar (unat cp')" "n = 2 \<longrightarrow> 0x800 \<le> unat cp'" "n = 3 \<longrightarrow> 0x10000 \<le> unat cp'"
    using v(3) by (auto simp: utf8_rejects_def unicode_scalar_def word_le_nat_alt word_less_nat_alt)
  then have "utf8_encode (unat cp') = b # bs" using decode_sequence [OF v(1) bs(2,3,4)] by blast
  then show "\<exists>c rest. unicode_scalar c \<and> b # data = utf8_encode c @ rest \<and> is_valid_utf8 rest"
    using c(1) bs(1) v(4) by (intro exI [of _ "unat cp'"] exI [of _ rest]) simp
next
  assume "\<exists>c rest. unicode_scalar c \<and> b # data = utf8_encode c @ rest \<and> is_valid_utf8 rest"
  then obtain c rest where c: "unicode_scalar c" "b # data = utf8_encode c @ rest" "is_valid_utf8 rest" by blast
  then obtain bs where bs: "utf8_encode c = b # bs" "data = bs @ rest"
    by (cases "utf8_encode c") (auto simp: utf8_encode_def split: if_splits)
  obtain cp where cp: "utf8_lead b = Some (cp, length bs)" "continuations bs" "code_value (unat cp) bs = c"
    "length bs = 2 \<longrightarrow> 0x800 \<le> c" "length bs = 3 \<longrightarrow> 0x10000 \<le> c"
    using encode_sequence [OF c(1) bs(1)] by blast
  have "unat (word_of_nat c :: u32) = c" using scalar_small [OF c(1)] by (simp add: unat_of_nat)
  moreover from this have "utf8_continue (length bs) cp data = Some (word_of_nat c, rest)"
    using bs(2) cp by (subst utf8_continue_exact) (auto simp: utf8_lead_cases)
  ultimately show "is_valid_utf8 (b # data)"
    using cp c(1,3) by (auto simp: utf8_rejects_def unicode_scalar_def word_le_nat_alt word_less_nat_alt)
qed

text \<open>
  C37. The UTF-8 check is exact: it accepts a byte string exactly when it is the concatenation
  of the encodings of Unicode scalar values. Overlong forms, surrogates, values beyond 0x10FFFF,
  stray continuation bytes and truncated sequences are all refused, and nothing else is.
\<close>
theorem utf8_exact: "is_valid_utf8 data \<longleftrightarrow> (\<exists>cs. list_all unicode_scalar cs \<and> data = concat (map utf8_encode cs))"
proof (induction "length data" arbitrary: data rule: less_induct)
  case less
  show ?case
  proof (cases data)
    case Nil
    then show ?thesis by (auto intro: exI [of _ "[]"])
  next
    case (Cons b rest)
    have shorter: "length r < length data" if "data = utf8_encode c @ r" for c r
      using that by (auto simp: utf8_encode_def)
    have "is_valid_utf8 data \<longleftrightarrow>
        (\<exists>c r. unicode_scalar c \<and> data = utf8_encode c @ r \<and>
          (\<exists>cs. list_all unicode_scalar cs \<and> r = concat (map utf8_encode cs)))"
      unfolding Cons utf8_one using less [OF shorter] unfolding Cons by blast
    also have "\<dots> \<longleftrightarrow> (\<exists>cs. list_all unicode_scalar cs \<and> data = concat (map utf8_encode cs))"
    proof (intro iffI; elim exE conjE)
      fix cs assume "list_all unicode_scalar cs" "data = concat (map utf8_encode cs)"
      then show "\<exists>c r. unicode_scalar c \<and> data = utf8_encode c @ r \<and>
          (\<exists>cs. list_all unicode_scalar cs \<and> r = concat (map utf8_encode cs))"
        using Cons by (cases cs) auto
    next
      fix c r cs assume "unicode_scalar c" "data = utf8_encode c @ r" "list_all unicode_scalar cs"
        "r = concat (map utf8_encode cs)"
      then show "\<exists>cs. list_all unicode_scalar cs \<and> data = concat (map utf8_encode cs)"
        by (intro exI [of _ "c # cs"]) simp
    qed
    finally show ?thesis .
  qed
qed

end
