(* ===== verification/Wire_Bytes.thy ===== *)
theory Wire_Bytes
  imports Utf8
begin

text \<open>
  Big-endian integers on the wire, \<^verbatim>\<open>put_u16\<close> to \<^verbatim>\<open>get_u64\<close> of \<^verbatim>\<open>src/wire.cpp\<close>: the bytes
  of a word and the word of some bytes, and that the two are inverse at every width.
\<close>

type_synonym u16 = "16 word"

definition put_be :: "nat \<Rightarrow> 'a::len word \<Rightarrow> bytes" where
  "put_be width value = map (\<lambda>i. ucast (drop_bit (8 * (width - 1 - i)) value AND 0xFF)) [0..<width]"

definition get_be :: "bytes \<Rightarrow> 'a::len word" where
  "get_be bs = foldl (\<lambda>value b. push_bit 8 value OR ucast b) 0 bs"

section \<open>The number some bytes spell\<close>

definition bytes_value :: "bytes \<Rightarrow> nat" where
  "bytes_value bs = foldl (\<lambda>n b. n * 256 + unat b) 0 bs"

lemma bytes_value_simps [simp]: "bytes_value [] = 0" "bytes_value (bs @ [b]) = bytes_value bs * 256 + unat b"
  by (simp_all add: bytes_value_def)

lemma bytes_value_less: "bytes_value bs < 256 ^ length bs"
proof (induction bs rule: rev_induct)
  case (snoc b bs)
  then have "bytes_value bs * 256 + unat b < (bytes_value bs + 1) * 256" using unat_u8_less [of b] by simp
  also have "\<dots> \<le> 256 ^ length bs * 256" using snoc by (intro mult_right_mono) simp_all
  finally show ?case by simp
qed simp

lemma bytes_value_inject:
  assumes "length as = length bs" and "bytes_value as = bytes_value bs"
  shows "as = bs"
  using assms
proof (induction as arbitrary: bs rule: rev_induct)
  case (snoc a as)
  then obtain b bs' where bs: "bs = bs' @ [b]" by (cases bs rule: rev_cases) auto
  have eq: "bytes_value as * 256 + unat a = bytes_value bs' * 256 + unat b" using snoc.prems(2) by (simp add: bs)
  have "bytes_value as = bytes_value bs'" "unat a = unat b"
    using arg_cong [OF eq, of "\<lambda>n. n div 256"] arg_cong [OF eq, of "\<lambda>n. n mod 256"] unat_u8_less [of a] unat_u8_less [of b]
    by simp_all
  then show ?case using snoc bs by (simp add: word_unat_eq_iff)
qed simp

section \<open>Reading and writing words\<close>

lemma put_be_length [simp]: "length (put_be width v) = width"
  by (simp add: put_be_def)

lemma unat_ucast_mod: "unat (ucast x :: 'b::len word) = unat x mod 2 ^ LENGTH('b)"
  unfolding unsigned_ucast_eq by (rule take_bit_eq_mod)

lemma pow256: "(256 :: nat) ^ n = 2 ^ (8 * n)"
  by (simp add: power_mult)

lemma shift_byte:
  assumes "unat (value :: 'a::len word) * 256 + unat b < 2 ^ LENGTH('a)"
  shows "unat (push_bit 8 value OR ucast (b :: u8)) = unat value * 256 + unat b"
proof -
  have b: "unat (ucast b :: 'a word) = unat b"
    using assms by (simp add: unsigned_ucast_eq take_bit_eq_mod)
  have "bit (push_bit 8 value) n \<longrightarrow> \<not> bit (ucast b :: 'a word) n" for n
    by (auto simp: bit_simps dest: bit_imp_le_length)
  then have "push_bit 8 value OR ucast b = push_bit 8 value + ucast b"
    by (intro disjunctive_add [symmetric]) blast
  then show ?thesis
    using assms b by (simp add: push_bit_eq_mult unat_word_ariths take_bit_eq_mod mod_simps)
qed

lemma unat_get_be: "8 * length bs \<le> LENGTH('a::len) \<Longrightarrow> unat (get_be bs :: 'a word) = bytes_value bs"
proof (induction bs rule: rev_induct)
  case (snoc b bs)
  have "bytes_value (bs @ [b]) < 2 ^ LENGTH('a)"
  proof -
    have "bytes_value (bs @ [b]) < 256 ^ length (bs @ [b])" by (rule bytes_value_less)
    also have "(256 :: nat) ^ length (bs @ [b]) = 2 ^ (8 * length (bs @ [b]))" by (rule pow256)
    also have "\<dots> \<le> 2 ^ LENGTH('a)" using snoc.prems by (intro power_increasing) simp_all
    finally show ?thesis .
  qed
  then show ?case
    using snoc shift_byte [of "get_be bs :: 'a word" b] by (simp add: get_be_def [of "bs @ [b]"] get_be_def [symmetric])
qed (simp add: get_be_def)

lemma unat_and_ff: "unat (v AND 0xFF :: 'a::len word) = unat v mod 256" if "8 \<le> LENGTH('a)"
proof -
  have "v AND 0xFF = take_bit 8 v" by (simp add: take_bit_eq_mask mask_eq_exp_minus_1)
  moreover have "unat (take_bit 8 v) = unat v mod 2 ^ 8" unfolding unsigned_take_bit_eq by (rule take_bit_eq_mod)
  ultimately show ?thesis by simp
qed

lemma put_be_nth:
  assumes "8 \<le> LENGTH('a::len)" and "i < width"
  shows "unat (put_be width (v :: 'a word) ! i) = unat v div 256 ^ (width - 1 - i) mod 256"
proof -
  have "unat (ucast w :: u8) = unat w" if "unat w < 256" for w :: "'a word"
    using that by (simp add: unsigned_ucast_eq take_bit_eq_mod)
  moreover have "unat (drop_bit k v) = unat v div 2 ^ k" for k
    unfolding unat_drop_bit_eq by (rule drop_bit_eq_div)
  ultimately show ?thesis
    using assms by (simp add: put_be_def unat_and_ff pow256)
qed

lemma bytes_value_digits:
  "length bs = n \<Longrightarrow> (\<And>i. i < n \<Longrightarrow> unat (bs ! i) = x div 256 ^ (n - 1 - i) mod 256) \<Longrightarrow> bytes_value bs = x mod 256 ^ n"
proof (induction n arbitrary: bs x)
  case (Suc n)
  then obtain b bs' where bs: "bs = bs' @ [b]" "length bs' = n" by (cases bs rule: rev_cases) auto
  have "unat (bs' ! i) = (x div 256) div 256 ^ (n - 1 - i) mod 256" if "i < n" for i
    using Suc.prems(2) [of i] that bs
    by (simp add: nth_append div_mult2_eq [symmetric] power_Suc [symmetric] Suc_diff_Suc)
  then have "bytes_value bs' = x div 256 mod 256 ^ n" using Suc.IH bs(2) by blast
  moreover have "unat b = x mod 256" using Suc.prems(2) [of n] bs by (simp add: nth_append)
  ultimately show ?case by (simp add: bs(1) mod_mult2_eq)
qed simp

lemma bytes_value_put_be:
  assumes "8 \<le> LENGTH('a::len)" shows "bytes_value (put_be width (v :: 'a word)) = unat v mod 256 ^ width"
  by (rule bytes_value_digits) (simp_all add: put_be_nth [OF assms])

lemma get_put_be:
  assumes "8 * width = LENGTH('a::len)" and "0 < width"
  shows "get_be (put_be width (v :: 'a word)) = v"
proof -
  have len: "8 \<le> LENGTH('a)" using assms by linarith
  have "(256 :: nat) ^ width = 2 ^ LENGTH('a)" unfolding assms(1) [symmetric] by (rule pow256)
  then have "unat (get_be (put_be width v) :: 'a word) = unat v"
    using assms bytes_value_put_be [OF len, of width v] by (simp add: unat_get_be)
  then show ?thesis by (simp add: word_unat_eq_iff)
qed

lemma put_get_be:
  assumes "length bs = width" and "8 * width \<le> LENGTH('a::len)" and "0 < width"
  shows "put_be width (get_be bs :: 'a word) = bs"
proof -
  have len: "8 \<le> LENGTH('a)" using assms by linarith
  show ?thesis
    by (rule bytes_value_inject)
      (use assms bytes_value_less [of bs] in \<open>simp_all add: bytes_value_put_be [OF len] unat_get_be\<close>)
qed

end
