(* ===== verification/Wire.thy ===== *)
theory Wire
  imports Wire_Bytes Model "HOL-Library.State_Monad"
begin

text \<open>
  The canonical wire codec, \<^verbatim>\<open>Encoder\<close> and \<^verbatim>\<open>Decoder\<close> of \<^verbatim>\<open>include/ctf/wire.hpp\<close> and
  \<^verbatim>\<open>src/wire.cpp\<close>. An encoder is the bytes written so far and a sticky status; an operation on
  it is a function on that state. A decoder is the bytes left, the limits and a sticky status;
  an operation on it is a computation of the state monad. Once the status is not Ok every read
  returns a default without consuming anything, as in the code; where the code returns early
  from a failed decode the model goes on with such reads, which leaves the decoder as it is, and
  the value of a failed decode is never used. A range \<open>reads m L\<close> gives the exact set of byte
  strings \<open>m\<close> accepts and the values it reads from them.
\<close>

section \<open>Encoder\<close>

record encoder =
  wr_raw :: bytes
  wr_status :: status

definition new_encoder :: encoder where
  "new_encoder = \<lparr>wr_raw = [], wr_status = EC_Ok\<rparr>"

definition kMaxPayloadBytes :: nat where
  "kMaxPayloadBytes = 1048576"

definition kMaxStringBytes :: nat where
  "kMaxStringBytes = 512"

definition kMaxCollectionElements :: nat where
  "kMaxCollectionElements = 1048576"

definition enc_fail :: "error_code \<Rightarrow> encoder \<Rightarrow> encoder" where
  "enc_fail code e = (if wr_status e = EC_Ok then e\<lparr>wr_status := code\<rparr> else e)"

definition enc_raw :: "bytes \<Rightarrow> encoder \<Rightarrow> encoder" where
  "enc_raw bs e = e\<lparr>wr_raw := wr_raw e @ bs\<rparr>"

definition enc_u8 :: "u8 \<Rightarrow> encoder \<Rightarrow> encoder" where
  "enc_u8 value = enc_raw [value]"

definition enc_u16 :: "u16 \<Rightarrow> encoder \<Rightarrow> encoder" where
  "enc_u16 value = enc_raw (put_be 2 value)"

definition enc_u32 :: "u32 \<Rightarrow> encoder \<Rightarrow> encoder" where
  "enc_u32 value = enc_raw (put_be 4 value)"

definition enc_u64 :: "u64 \<Rightarrow> encoder \<Rightarrow> encoder" where
  "enc_u64 value = enc_raw (put_be 8 value)"

definition enc_i64 :: "nanos \<Rightarrow> encoder \<Rightarrow> encoder" where
  "enc_i64 value = enc_u64 (word_of_int value)"

definition enc_bool :: "bool \<Rightarrow> encoder \<Rightarrow> encoder" where
  "enc_bool value = enc_u8 (if value then 1 else 0)"

definition enc_all :: "(encoder \<Rightarrow> encoder) list \<Rightarrow> encoder \<Rightarrow> encoder" where
  "enc_all fs e = foldl (\<lambda>e f. f e) e fs"

definition enc_bytes :: "bytes \<Rightarrow> encoder \<Rightarrow> encoder" where
  "enc_bytes data =
     (if length data > kMaxPayloadBytes then enc_fail EC_PayloadTooLarge
      else enc_all [enc_u32 (word_of_nat (length data)), enc_raw data])"

definition enc_str :: "string \<Rightarrow> encoder \<Rightarrow> encoder" where
  "enc_str text =
     (if length text > kMaxStringBytes then enc_fail EC_StringTooLong
      else if \<not> is_valid_utf8 (bytes_from_string text) then enc_fail EC_InvalidUtf8
      else enc_all [enc_u16 (word_of_nat (length text)), enc_raw (bytes_from_string text)])"

definition enc_uuid :: "uuid128 \<Rightarrow> encoder \<Rightarrow> encoder" where
  "enc_uuid u = enc_raw (uuid_bytes u)"

definition enc_scalar32 :: "u32 \<Rightarrow> encoder \<Rightarrow> encoder" where
  "enc_scalar32 value = enc_u64 (ucast value)"

definition enc_size :: "nat \<Rightarrow> encoder \<Rightarrow> encoder" where
  "enc_size value = enc_u64 (word_of_nat value)"

primrec enc_option :: "('a \<Rightarrow> encoder \<Rightarrow> encoder) \<Rightarrow> 'a option \<Rightarrow> encoder \<Rightarrow> encoder" where
  "enc_option enc None = enc_bool False"
| "enc_option enc (Some x) = enc_all [enc_bool True, enc x]"

definition enc_list :: "('a \<Rightarrow> encoder \<Rightarrow> encoder) \<Rightarrow> 'a list \<Rightarrow> encoder \<Rightarrow> encoder" where
  "enc_list enc xs = enc_all (enc_u32 (word_of_nat (length xs)) # map enc xs)"

fun index_in :: "'a list \<Rightarrow> 'a \<Rightarrow> nat" where
  "index_in [] x = 0"
| "index_in (v # vs) x = (if v = x then 0 else Suc (index_in vs x))"

definition enc_enum :: "'a list \<Rightarrow> 'a \<Rightarrow> encoder \<Rightarrow> encoder" where
  "enc_enum values x = enc_u8 (word_of_nat (index_in values x))"

section \<open>Decoder\<close>

record decoder =
  rd_rest :: bytes
  rd_limits :: limits
  rd_status :: status

type_synonym 'a reader = "(decoder, 'a) state"

definition new_decoder :: "bytes \<Rightarrow> limits \<Rightarrow> decoder" where
  "new_decoder data lim = \<lparr>rd_rest = data, rd_limits = lim, rd_status = EC_Ok\<rparr>"

definition fail_with :: "error_code \<Rightarrow> decoder \<Rightarrow> decoder" where
  "fail_with code d = (if rd_status d = EC_Ok then d\<lparr>rd_status := code\<rparr> else d)"

definition dec_fail :: "'a \<Rightarrow> error_code \<Rightarrow> 'a reader" where
  "dec_fail x code = State (\<lambda>d. (x, fail_with code d))"

definition dec_raw :: "nat \<Rightarrow> bytes reader" where
  "dec_raw count =
     State (\<lambda>d. if rd_status d \<noteq> EC_Ok then ([], d)
                else if length (rd_rest d) < count then ([], fail_with EC_TruncatedInput d)
                else (take count (rd_rest d), d\<lparr>rd_rest := drop count (rd_rest d)\<rparr>))"

definition dec_u8 :: "u8 reader" where
  "dec_u8 = do {raw \<leftarrow> dec_raw 1; State_Monad.return (get_be raw)}"

definition dec_u16 :: "u16 reader" where
  "dec_u16 = do {raw \<leftarrow> dec_raw 2; State_Monad.return (get_be raw)}"

definition dec_u32 :: "u32 reader" where
  "dec_u32 = do {raw \<leftarrow> dec_raw 4; State_Monad.return (get_be raw)}"

definition dec_u64 :: "u64 reader" where
  "dec_u64 = do {raw \<leftarrow> dec_raw 8; State_Monad.return (get_be raw)}"

definition dec_i64 :: "nanos reader" where
  "dec_i64 = do {raw \<leftarrow> dec_u64; State_Monad.return (sint raw)}"

definition dec_bool :: "bool reader" where
  "dec_bool = do {
     raw \<leftarrow> dec_u8;
     if raw > 1 then dec_fail False EC_NonCanonicalEncoding else State_Monad.return (raw = 1)
   }"

definition dec_bytes :: "bytes reader" where
  "dec_bytes = do {
     n \<leftarrow> dec_u32;
     if unat n > kMaxPayloadBytes then dec_fail [] EC_PayloadTooLarge else dec_raw (unat n)
   }"

definition dec_text :: "nat \<Rightarrow> string reader" where
  "dec_text n =
     State (\<lambda>d. if rd_status d \<noteq> EC_Ok then ([], d)
                else if length (rd_rest d) < n then ([], fail_with EC_TruncatedInput d)
                else if \<not> is_valid_utf8 (take n (rd_rest d)) then ([], fail_with EC_InvalidUtf8 d)
                else (string_from_bytes (take n (rd_rest d)), d\<lparr>rd_rest := drop n (rd_rest d)\<rparr>))"

definition dec_str :: "string reader" where
  "dec_str = do {
     n \<leftarrow> dec_u16;
     if unat n > kMaxStringBytes then dec_fail [] EC_StringTooLong else dec_text (unat n)
   }"

definition dec_uuid :: "uuid128 reader" where
  "dec_uuid = do {
     raw \<leftarrow> dec_raw 16;
     State_Monad.return (if raw = [] then nil_uuid else Uuid128 raw)
   }"

definition dec_scalar32 :: "u32 reader" where
  "dec_scalar32 = do {
     raw \<leftarrow> dec_u64;
     if raw > 0xFFFFFFFF then dec_fail 0 EC_OutOfRange else State_Monad.return (ucast raw)
   }"

definition dec_size :: "nat reader" where
  "dec_size = do {raw \<leftarrow> dec_u64; State_Monad.return (unat raw)}"

definition dec_option :: "'a reader \<Rightarrow> 'a option reader" where
  "dec_option dec = do {
     present \<leftarrow> dec_bool;
     if present then do {x \<leftarrow> dec; State_Monad.return (Some x)} else State_Monad.return None
   }"

definition collection_count :: "u32 reader" where
  "collection_count = do {
     count \<leftarrow> dec_u32;
     State (\<lambda>d. if rd_status d \<noteq> EC_Ok then (0, d)
                else if unat count > kMaxCollectionElements then (0, fail_with EC_CollectionTooLarge d)
                else if unat count > length (rd_rest d) then (0, fail_with EC_TruncatedInput d)
                else (count, d))
   }"

primrec dec_items :: "nat \<Rightarrow> 'a reader \<Rightarrow> 'a list reader" where
  "dec_items 0 dec = State_Monad.return []"
| "dec_items (Suc n) dec = do {x \<leftarrow> dec; xs \<leftarrow> dec_items n dec; State_Monad.return (x # xs)}"

definition dec_list :: "(limits \<Rightarrow> nat) \<Rightarrow> 'a reader \<Rightarrow> 'a list reader" where
  "dec_list bound dec = do {
     count \<leftarrow> collection_count;
     d \<leftarrow> State_Monad.get;
     if unat count > bound (rd_limits d) then dec_fail [] EC_CollectionTooLarge else dec_items (unat count) dec
   }"

definition dec_enum :: "'a list \<Rightarrow> 'a reader" where
  "dec_enum values = do {
     raw \<leftarrow> dec_u8;
     if unat raw < length values then State_Monad.return (values ! unat raw)
     else dec_fail (hd values) EC_UnsupportedValue
   }"

definition enc_count :: "nat \<Rightarrow> encoder \<Rightarrow> encoder" where
  "enc_count value = enc_u32 (word_of_nat value)"

definition dec_count :: "nat reader" where
  "dec_count = do {raw \<leftarrow> dec_u32; State_Monad.return (unat raw)}"

definition error_codes :: "error_code list" where
  "error_codes = [
    EC_Ok, EC_InvalidArgument, EC_InvalidSyntax, EC_OutOfRange, EC_PayloadTooLarge,
    EC_CollectionTooLarge, EC_StringTooLong, EC_InvalidUtf8, EC_NonCanonicalEncoding,
    EC_TrailingGarbage, EC_UnknownMessageType, EC_UnsupportedValue, EC_MissingField,
    EC_DuplicateIdentity, EC_IntegrityFailure, EC_TruncatedInput, EC_VersionIncompatible,
    EC_CorruptState, EC_ImpossibleState, EC_StaleEpoch, EC_ForeignEpoch, EC_StalePolicyGeneration,
    EC_StaleTopologyGeneration, EC_StaleContractGeneration, EC_StaleCheckpointGeneration,
    EC_StaleAttempt, EC_StaleEvidence, EC_Superseded, EC_ReplayDetected, EC_NotAuthorized,
    EC_RevalidationRequired, EC_SequenceViolation, EC_NotFound, EC_AlreadyExists,
    EC_InvalidStateTransition, EC_CapacityExceeded, EC_ResourceExhausted, EC_ShuttingDown, EC_NotReady,
    EC_Deferred, EC_Denied, EC_DeadlineUnreachable, EC_VerificationMismatch, EC_Cancelled,
    EC_AmbiguousOutcome, EC_EnvelopeExhausted, EC_NotDurable, EC_IoFailure, EC_PeerClosed,
    EC_ConnectionRefused, EC_Unsupported, EC_Internal, EC_AccountingImbalance]"

definition enc_error_code :: "error_code \<Rightarrow> encoder \<Rightarrow> encoder" where
  "enc_error_code value = enc_u16 (word_of_nat (error_code_value value))"

definition dec_error_code :: "error_code reader" where
  "dec_error_code = do {
     raw \<leftarrow> dec_u16;
     case find (\<lambda>c. error_code_value c = unat raw) error_codes of
       Some candidate \<Rightarrow> State_Monad.return candidate
     | None \<Rightarrow> dec_fail EC_Internal EC_UnsupportedValue
   }"

definition expect_end :: "decoder \<Rightarrow> status" where
  "expect_end d =
     (if rd_status d \<noteq> EC_Ok then rd_status d
      else if rd_rest d \<noteq> [] then EC_TrailingGarbage else EC_Ok)"

definition encode_payload :: "('a \<Rightarrow> encoder \<Rightarrow> encoder) \<Rightarrow> 'a \<Rightarrow> bytes" where
  "encode_payload enc value = wr_raw (enc value new_encoder)"

definition decode_payload :: "'a reader \<Rightarrow> bytes \<Rightarrow> limits \<Rightarrow> 'a result" where
  "decode_payload dec payload lim =
     (let (value, d) = run_state dec (new_decoder payload lim) in
      if rd_status d \<noteq> EC_Ok then Inl (rd_status d)
      else if expect_end d \<noteq> EC_Ok then Inl (expect_end d)
      else Inr value)"

section \<open>What an encoder operation writes\<close>

definition written :: "(encoder \<Rightarrow> encoder) \<Rightarrow> bytes" where
  "written f = wr_raw (f new_encoder)"

definition appends :: "(encoder \<Rightarrow> encoder) \<Rightarrow> bool" where
  "appends f \<longleftrightarrow> (\<forall>e. f e = enc_raw (written f) e)"

lemma appends_raw [simp]: "appends (enc_raw bs)" "written (enc_raw bs) = bs"
  by (simp_all add: appends_def written_def enc_raw_def new_encoder_def)

lemma appends_by: "(\<And>e. f e = enc_raw bs e) \<Longrightarrow> appends f \<and> written f = bs"
  by (simp add: appends_def written_def enc_raw_def new_encoder_def)

lemma appendsD: "appends f \<Longrightarrow> f e = enc_raw (written f) e"
  by (simp add: appends_def)

lemma enc_all_simps [simp]: "enc_all [] e = e" "enc_all (f # fs) e = enc_all fs (f e)"
  by (simp_all add: enc_all_def)

lemma enc_raw_simps: "enc_raw bs (enc_raw as e) = enc_raw (as @ bs) e" "enc_raw [] e = e"
  by (simp_all add: enc_raw_def)

lemma appends_all_simps [simp]:
  "appends (enc_all [])" "written (enc_all []) = []"
  "appends f \<Longrightarrow> appends (enc_all fs) \<Longrightarrow> appends (enc_all (f # fs))"
  "appends f \<Longrightarrow> appends (enc_all fs) \<Longrightarrow> written (enc_all (f # fs)) = written f @ written (enc_all fs)"
proof -
  show "appends (enc_all [])" "written (enc_all []) = []"
    using appends_by [of "enc_all []" "[]"] by (simp_all add: enc_raw_simps)
  assume "appends f" "appends (enc_all fs)"
  then have "enc_all (f # fs) e = enc_raw (written f @ written (enc_all fs)) e" for e
    using appendsD [of f e] appendsD [of "enc_all fs" "f e"] by (simp add: enc_raw_simps)
  then show "appends (enc_all (f # fs))" "written (enc_all (f # fs)) = written f @ written (enc_all fs)"
    using appends_by by blast+
qed

lemma appends_all:
  assumes "list_all appends fs"
  shows "appends (enc_all fs) \<and> written (enc_all fs) = concat (map written fs)"
  using assms by (induction fs) simp_all

lemma appends_primitives [simp]:
  "appends (enc_u8 a)" "appends (enc_u16 b)" "appends (enc_u32 c)" "appends (enc_u64 d)" "appends (enc_i64 i)"
  "appends (enc_bool t)" "appends (enc_uuid u)" "appends (enc_scalar32 c)" "appends (enc_size n)" "appends (enc_enum vs x)"
  by (simp_all add: enc_u8_def enc_u16_def enc_u32_def enc_u64_def enc_i64_def enc_bool_def enc_uuid_def
      enc_scalar32_def enc_size_def enc_enum_def)

definition wire_string :: "string \<Rightarrow> bool" where
  "wire_string s \<longleftrightarrow> length s \<le> kMaxStringBytes \<and> is_valid_utf8 (bytes_from_string s)"

lemma appends_str [simp]: "wire_string s \<Longrightarrow> appends (enc_str s)"
  by (simp add: enc_str_def wire_string_def)

lemma appends_bytes [simp]: "length bs \<le> kMaxPayloadBytes \<Longrightarrow> appends (enc_bytes bs)"
  by (simp add: enc_bytes_def)

lemma appends_option [simp]: "(\<And>x. v = Some x \<Longrightarrow> appends (enc x)) \<Longrightarrow> appends (enc_option enc v)"
  by (cases v) simp_all

lemma appends_list [simp]: "(\<And>x. x \<in> set xs \<Longrightarrow> appends (enc x)) \<Longrightarrow> appends (enc_list enc xs)"
  unfolding enc_list_def by (rule appends_all [THEN conjunct1]) (simp add: list_all_iff)

lemma written_list:
  "(\<And>x. x \<in> set xs \<Longrightarrow> appends (enc x)) \<Longrightarrow>
   written (enc_list enc xs) = put_be 4 (word_of_nat (length xs) :: u32) @ concat (map (\<lambda>x. written (enc x)) xs)"
  unfolding enc_list_def using appends_all [of "enc_u32 (word_of_nat (length xs)) # map enc xs"] by (simp add: list_all_iff enc_u32_def comp_def)

section \<open>What a decoder operation reads\<close>

definition reads :: "'a reader \<Rightarrow> (limits \<Rightarrow> 'a \<Rightarrow> bytes \<Rightarrow> bool) \<Rightarrow> bool" where
  "reads m L \<longleftrightarrow>
     (\<forall>d v d'. run_state m d = (v, d') \<and> rd_status d' = EC_Ok \<longleftrightarrow>
        rd_status d = EC_Ok \<and>
        (\<exists>bs. L (rd_limits d) v bs \<and> rd_rest d = bs @ rd_rest d' \<and> d' = d\<lparr>rd_rest := rd_rest d'\<rparr>))"

lemma readsD:
  assumes "reads m L" and "run_state m d = (v, d')" and "rd_status d' = EC_Ok"
  obtains bs where "rd_status d = EC_Ok" and "L (rd_limits d) v bs" and "rd_rest d = bs @ rd_rest d'"
    and "d' = d\<lparr>rd_rest := rd_rest d'\<rparr>"
  using assms unfolding reads_def by blast

lemma reads_result:
  assumes "reads m L" and "run_state m d = (v, d')" and "rd_status d' = EC_Ok"
  shows "rd_status d = EC_Ok \<and> (\<exists>bs. L (rd_limits d) v bs \<and> rd_rest d = bs @ rd_rest d' \<and> d' = d\<lparr>rd_rest := rd_rest d'\<rparr>)"
  using assms unfolding reads_def by blast

lemma reads_run:
  assumes "reads m L" and "rd_status d = EC_Ok" and "L (rd_limits d) v bs" and "rd_rest d = bs @ r"
  shows "run_state m d = (v, d\<lparr>rd_rest := r\<rparr>)"
proof -
  let ?d = "d\<lparr>rd_rest := r\<rparr>"
  have "run_state m d = (v, ?d) \<and> rd_status ?d = EC_Ok \<longleftrightarrow> rd_status d = EC_Ok \<and>
      (\<exists>bs. L (rd_limits d) v bs \<and> rd_rest d = bs @ rd_rest ?d \<and> ?d = d\<lparr>rd_rest := rd_rest ?d\<rparr>)"
    using assms(1) unfolding reads_def by blast
  then show ?thesis using assms(2-4) by auto
qed

lemma readsI:
  assumes "\<And>d v d'. run_state m d = (v, d') \<Longrightarrow> rd_status d' = EC_Ok \<Longrightarrow>
      rd_status d = EC_Ok \<and> (\<exists>bs. L (rd_limits d) v bs \<and> rd_rest d = bs @ rd_rest d' \<and> d' = d\<lparr>rd_rest := rd_rest d'\<rparr>)"
    and "\<And>d v bs r. rd_status d = EC_Ok \<Longrightarrow> L (rd_limits d) v bs \<Longrightarrow> rd_rest d = bs @ r \<Longrightarrow>
      run_state m d = (v, d\<lparr>rd_rest := r\<rparr>)"
  shows "reads m L"
  unfolding reads_def
proof (intro allI iffI)
  fix d d' :: decoder and v
  assume "rd_status d = EC_Ok \<and> (\<exists>bs. L (rd_limits d) v bs \<and> rd_rest d = bs @ rd_rest d' \<and> d' = d\<lparr>rd_rest := rd_rest d'\<rparr>)"
  then obtain bs where "rd_status d = EC_Ok" "L (rd_limits d) v bs" "rd_rest d = bs @ rd_rest d'" "d' = d\<lparr>rd_rest := rd_rest d'\<rparr>"
    by blast
  moreover from this have "rd_status d' = EC_Ok" by (metis decoder.select_convs(3) decoder.surjective decoder.update_convs(1))
  ultimately show "run_state m d = (v, d') \<and> rd_status d' = EC_Ok" using assms(2) by metis
qed (use assms(1) in blast)

lemma reads_cong: "reads m L \<Longrightarrow> (\<And>lim v bs. L lim v bs \<longleftrightarrow> M lim v bs) \<Longrightarrow> reads m M"
  by (simp add: reads_def)

lemma reads_return: "reads (State_Monad.return x) (\<lambda>lim v bs. v = x \<and> bs = [])"
  by (rule readsI) auto

lemma reads_fail: "code \<noteq> EC_Ok \<Longrightarrow> reads (dec_fail x code) (\<lambda>lim v bs. False)"
  by (rule readsI) (auto simp: dec_fail_def fail_with_def split: if_splits)

lemma reads_if: "reads m L \<Longrightarrow> reads n M \<Longrightarrow> reads (if b then m else n) (\<lambda>lim v bs. if b then L lim v bs else M lim v bs)"
  by (cases b) simp_all

lemma reads_bind:
  assumes "reads m L" and "\<And>x. reads (f x) (M x)"
  shows "reads (m \<bind> f) (\<lambda>lim v bs. \<exists>x as cs. bs = as @ cs \<and> L lim x as \<and> M x lim v cs)"
proof (rule readsI)
  fix d v d' assume "run_state (m \<bind> f) d = (v, d')" and ok: "rd_status d' = EC_Ok"
  then obtain x d1 where m: "run_state m d = (x, d1)" and f: "run_state (f x) d1 = (v, d')"
    by (auto split: prod.splits)
  obtain cs where f': "rd_status d1 = EC_Ok" "M x (rd_limits d1) v cs" "rd_rest d1 = cs @ rd_rest d'" "d' = d1\<lparr>rd_rest := rd_rest d'\<rparr>"
    by (rule readsD [OF assms(2) f ok])
  obtain as where m': "rd_status d = EC_Ok" "L (rd_limits d) x as" "rd_rest d = as @ rd_rest d1" "d1 = d\<lparr>rd_rest := rd_rest d1\<rparr>"
    by (rule readsD [OF assms(1) m f'(1)])
  have "rd_limits d1 = rd_limits d" "d' = d\<lparr>rd_rest := rd_rest d'\<rparr>"
    using m'(4) f'(4) by (metis decoder.select_convs(2) decoder.surjective decoder.update_convs(1))+
  then show "rd_status d = EC_Ok \<and> (\<exists>bs. (\<exists>x as cs. bs = as @ cs \<and> L (rd_limits d) x as \<and> M x (rd_limits d) v cs) \<and>
      rd_rest d = bs @ rd_rest d' \<and> d' = d\<lparr>rd_rest := rd_rest d'\<rparr>)"
    using m'(1,2,3) f'(2,3) by auto
next
  fix d :: decoder and v bs r
  assume d: "rd_status d = EC_Ok" "\<exists>x as cs. bs = as @ cs \<and> L (rd_limits d) x as \<and> M x (rd_limits d) v cs" "rd_rest d = bs @ r"
  then obtain x as cs where x: "bs = as @ cs" "L (rd_limits d) x as" "M x (rd_limits d) v cs" by blast
  have "run_state m d = (x, d\<lparr>rd_rest := cs @ r\<rparr>)"
    by (rule reads_run [OF assms(1) d(1) x(2)]) (simp add: d(3) x(1))
  moreover have "run_state (f x) (d\<lparr>rd_rest := cs @ r\<rparr>) = (v, d\<lparr>rd_rest := cs @ r, rd_rest := r\<rparr>)"
    by (rule reads_run [OF assms(2)]) (simp_all add: d(1) x(3))
  ultimately show "run_state (m \<bind> f) d = (v, d\<lparr>rd_rest := r\<rparr>)" by simp
qed

lemma reads_raw: "reads (dec_raw n) (\<lambda>lim v bs. v = bs \<and> length bs = n)"
proof (rule readsI)
  fix d v d' assume "run_state (dec_raw n) d = (v, d')" "rd_status d' = EC_Ok"
  then show "rd_status d = EC_Ok \<and> (\<exists>bs. (v = bs \<and> length bs = n) \<and> rd_rest d = bs @ rd_rest d' \<and> d' = d\<lparr>rd_rest := rd_rest d'\<rparr>)"
    by (auto simp: dec_raw_def fail_with_def split: if_splits)
qed (auto simp: dec_raw_def)

section \<open>Exact codecs\<close>

text \<open>
  \<open>codes enc dec good\<close>: the decoder reads a value from some bytes exactly when the value is
  good and the bytes are those the encoder writes for it.
\<close>

definition codes :: "('a \<Rightarrow> encoder \<Rightarrow> encoder) \<Rightarrow> 'a reader \<Rightarrow> (limits \<Rightarrow> 'a \<Rightarrow> bool) \<Rightarrow> bool" where
  "codes enc dec good \<longleftrightarrow>
     reads dec (\<lambda>lim v bs. good lim v \<and> bs = written (enc v)) \<and> (\<forall>lim v. good lim v \<longrightarrow> appends (enc v))"

lemma codesI:
  "reads dec L \<Longrightarrow> (\<And>lim v bs. L lim v bs \<longleftrightarrow> good lim v \<and> bs = written (enc v)) \<Longrightarrow>
   (\<And>lim v. good lim v \<Longrightarrow> appends (enc v)) \<Longrightarrow> codes enc dec good"
  by (simp add: codes_def reads_def)

lemma codes_reads: "codes enc dec good \<Longrightarrow> reads dec (\<lambda>lim v bs. good lim v \<and> bs = written (enc v))"
  by (simp add: codes_def)

lemma codes_appends: "codes enc dec good \<Longrightarrow> good lim v \<Longrightarrow> appends (enc v)"
  by (auto simp: codes_def)

lemma reads_then:
  assumes "codes enc dec good" and "\<And>x. reads (f x) (M x)"
  shows "reads (dec \<bind> f) (\<lambda>lim v bs. \<exists>x cs. bs = written (enc x) @ cs \<and> good lim x \<and> M x lim v cs)"
  by (rule reads_cong [OF reads_bind [OF codes_reads [OF assms(1)] assms(2)]]) auto

lemma reads_word:
  assumes "8 * n = LENGTH('a::len)" and "0 < n"
  shows "reads (do {raw \<leftarrow> dec_raw n; State_Monad.return (get_be raw :: 'a word)}) (\<lambda>lim v bs. bs = put_be n v)"
  by (rule reads_cong [OF reads_bind [OF reads_raw reads_return]])
    (use assms get_put_be [OF assms] put_get_be [where 'a = 'a, of _ n] in auto)

lemma codes_u8: "codes enc_u8 dec_u8 (\<lambda>_ _. True)"
proof (rule codesI)
  show "reads dec_u8 (\<lambda>lim v bs. bs = put_be 1 v)" unfolding dec_u8_def by (rule reads_word) simp_all
  show "bs = put_be 1 v \<longleftrightarrow> True \<and> bs = written (enc_u8 v)" for bs and v :: u8
  proof -
    have "unat (v AND 0xFF) = unat v" using unat_u8_less [of v] by (simp add: unat_and_ff)
    then have "v AND 0xFF = v" by (simp add: word_unat_eq_iff)
    then show ?thesis by (simp add: enc_u8_def put_be_def)
  qed
qed simp

lemma codes_u16: "codes enc_u16 dec_u16 (\<lambda>_ _. True)"
  unfolding dec_u16_def by (rule codesI, rule reads_word) (simp_all add: enc_u16_def)

lemma codes_u32: "codes enc_u32 dec_u32 (\<lambda>_ _. True)"
  unfolding dec_u32_def by (rule codesI, rule reads_word) (simp_all add: enc_u32_def)

lemma codes_u64: "codes enc_u64 dec_u64 (\<lambda>_ _. True)"
  unfolding dec_u64_def by (rule codesI, rule reads_word) (simp_all add: enc_u64_def)

definition wire_nanos :: "nanos \<Rightarrow> bool" where
  "wire_nanos t \<longleftrightarrow> - (2 ^ 63) \<le> t \<and> t < 2 ^ 63"

lemma wire_nanos_sint: "wire_nanos (sint (x :: u64))" "wire_nanos t \<Longrightarrow> sint (word_of_int t :: u64) = t"
  using sint_greater_eq [of x] sint_less [of x]
  by (simp_all add: wire_nanos_def signed_of_int signed_take_bit_int_eq_self)

lemma codes_i64: "codes enc_i64 dec_i64 (\<lambda>_. wire_nanos)"
  unfolding dec_i64_def
  by (rule codesI, rule reads_then [OF codes_u64 reads_return]) (auto simp: enc_i64_def wire_nanos_sint)

lemma codes_bool: "codes enc_bool dec_bool (\<lambda>_ _. True)"
  unfolding dec_bool_def
proof (rule codesI, rule reads_then [OF codes_u8], rule reads_if [OF reads_fail reads_return])
  have one: "x \<le> 1 \<longleftrightarrow> x = 0 \<or> x = 1" for x :: u8
  proof -
    have "n \<le> 1 \<longleftrightarrow> n = 0 \<or> n = 1" for n :: nat by linarith
    from this [of "unat x"] have "unat x \<le> unat (1 :: u8) \<longleftrightarrow> unat x = unat (0 :: u8) \<or> unat x = unat (1 :: u8)"
      by (simp only: unsigned_0 unsigned_1)
    then show ?thesis unfolding word_unat_eq_iff [of x] word_le_nat_alt .
  qed
  show "(\<exists>x cs. bs = written (enc_u8 x) @ cs \<and> True \<and> (if 1 < x then False else v = (x = 1) \<and> cs = [])) \<longleftrightarrow>
      True \<and> bs = written (enc_bool v)" for bs v
  proof -
    have "(if 1 < x then False else P) \<longleftrightarrow> (x = 0 \<or> x = 1) \<and> P" for x :: u8 and P
      unfolding one [symmetric] not_less [symmetric] by simp
    then have "?thesis \<longleftrightarrow> (\<exists>x cs. bs = x # cs \<and> (x = 0 \<or> x = 1) \<and> v = (x = 1) \<and> cs = []) = (bs = [if v then 1 else 0])"
      by (simp add: enc_bool_def enc_u8_def)
    also have "\<dots>" using zero_neq_one [where 'a = u8] by (cases v) (simp_all only: if_True if_False simp_thms, metis, metis)
    finally show ?thesis by simp
  qed
qed simp_all

lemma codes_uuid: "codes enc_uuid dec_uuid (\<lambda>_. wf_uuid)"
  unfolding dec_uuid_def
proof (rule codesI, rule reads_bind [OF reads_raw reads_return])
  show "(\<exists>x as cs. bs = as @ cs \<and> (x = as \<and> length as = 16) \<and> v = (if x = [] then nil_uuid else Uuid128 x) \<and> cs = []) \<longleftrightarrow>
      wf_uuid v \<and> bs = written (enc_uuid v)" for bs v
    by (cases v) (auto simp: enc_uuid_def wf_uuid_def)
qed simp

lemma codes_scalar32: "codes enc_scalar32 dec_scalar32 (\<lambda>_ _. True)"
  unfolding dec_scalar32_def
proof (rule codesI, rule reads_then [OF codes_u64], rule reads_if [OF reads_fail reads_return])
  have up: "ucast (ucast v :: u64) = (v :: u32)" for v
    using unat_u32_less [of v] by (simp add: word_unat_eq_iff unat_ucast_mod)
  have down: "ucast (ucast x :: u32) = (x :: u64)" if "x \<le> 0xFFFFFFFF" for x
    using that by (simp add: word_unat_eq_iff unat_ucast_mod word_le_nat_alt)
  have small: "(ucast v :: u64) \<le> 0xFFFFFFFF" for v :: u32
    using unat_u32_less [of v] by (simp add: unat_ucast_mod word_le_nat_alt)
  show "(\<exists>x cs. bs = written (enc_u64 x) @ cs \<and> True \<and> (if 0xFFFFFFFF < x then False else v = ucast x \<and> cs = [])) \<longleftrightarrow>
      True \<and> bs = written (enc_scalar32 v)" for bs v
  proof (intro iffI)
    assume "\<exists>x cs. bs = written (enc_u64 x) @ cs \<and> True \<and> (if 0xFFFFFFFF < x then False else v = ucast x \<and> cs = [])"
    then obtain x where "bs = written (enc_u64 x)" "x \<le> 0xFFFFFFFF" "v = ucast x"
      by (metis append_Nil2 not_less)
    then show "True \<and> bs = written (enc_scalar32 v)" using down [of x] by (simp only: enc_scalar32_def simp_thms)
  next
    assume "True \<and> bs = written (enc_scalar32 v)"
    then show "\<exists>x cs. bs = written (enc_u64 x) @ cs \<and> True \<and> (if 0xFFFFFFFF < x then False else v = ucast x \<and> cs = [])"
      using small [of v] up [of v] unfolding enc_scalar32_def not_less [symmetric]
      by (intro exI [of _ "ucast v"] exI [of _ "[]"]) (simp only: simp_thms append_Nil2 if_False)
  qed
qed simp_all

lemma codes_size: "codes enc_size dec_size (\<lambda>_ n. n < 2 ^ 64)"
  unfolding dec_size_def
  by (rule codesI, rule reads_then [OF codes_u64 reads_return])
    (use unat_u64_less in \<open>auto simp: enc_size_def unat_of_nat_u64\<close>)

lemma small_count: "n \<le> 1048576 \<Longrightarrow> unat (word_of_nat n :: u32) = n"
  by (simp add: unat_of_nat)

lemma reads_guarded:
  "codes enc dec good \<Longrightarrow> code \<noteq> EC_Ok \<Longrightarrow> (\<And>x. reads (f x) (M x)) \<Longrightarrow>
   reads (do {x \<leftarrow> dec; if b x then dec_fail y code else f x})
     (\<lambda>lim v bs. \<exists>x cs. bs = written (enc x) @ cs \<and> good lim x \<and> \<not> b x \<and> M x lim v cs)"
  by (rule reads_cong, rule reads_then, assumption, rule reads_if [OF reads_fail], assumption+) auto

lemma codes_bytes: "codes enc_bytes dec_bytes (\<lambda>_ v. length v \<le> kMaxPayloadBytes)"
  unfolding dec_bytes_def
proof (rule codesI, rule reads_guarded [OF codes_u32 _ reads_raw])
  show "(\<exists>x cs. bs = written (enc_u32 x) @ cs \<and> True \<and> \<not> kMaxPayloadBytes < unat x \<and> v = cs \<and> length cs = unat x) \<longleftrightarrow>
      length v \<le> kMaxPayloadBytes \<and> bs = written (enc_bytes v)" (is "?l \<longleftrightarrow> ?r") for bs v
  proof
    assume ?r
    then show ?l
      by (intro exI [of _ "word_of_nat (length v)"] exI [of _ v]) (simp add: enc_bytes_def kMaxPayloadBytes_def small_count)
  qed (auto simp: enc_bytes_def)
qed simp_all

lemma reads_text: "reads (dec_text n) (\<lambda>lim v bs. v = string_from_bytes bs \<and> length bs = n \<and> is_valid_utf8 bs)"
proof (rule readsI)
  fix d v d' assume "run_state (dec_text n) d = (v, d')" "rd_status d' = EC_Ok"
  then show "rd_status d = EC_Ok \<and> (\<exists>bs. (v = string_from_bytes bs \<and> length bs = n \<and> is_valid_utf8 bs) \<and>
      rd_rest d = bs @ rd_rest d' \<and> d' = d\<lparr>rd_rest := rd_rest d'\<rparr>)"
    by (auto simp: dec_text_def fail_with_def split: if_splits intro!: exI [of _ "take n (rd_rest d)"])
qed (auto simp: dec_text_def)

lemma codes_str: "codes enc_str dec_str (\<lambda>_. wire_string)"
  unfolding dec_str_def
proof (rule codesI, rule reads_guarded [OF codes_u16 _ reads_text])
  have small: "unat (word_of_nat (length v) :: u16) = length v" if "length v \<le> 512" for v :: string
    using that by (simp add: unat_of_nat)
  show "(\<exists>x cs. bs = written (enc_u16 x) @ cs \<and> True \<and> \<not> kMaxStringBytes < unat x \<and>
      v = string_from_bytes cs \<and> length cs = unat x \<and> is_valid_utf8 cs) \<longleftrightarrow>
      wire_string v \<and> bs = written (enc_str v)" (is "?l \<longleftrightarrow> ?r") for bs v
  proof
    assume ?r
    then show ?l
      by (intro exI [of _ "word_of_nat (length v)"] exI [of _ "bytes_from_string v"])
        (simp add: wire_string_def enc_str_def kMaxStringBytes_def small)
  next
    assume ?l
    then obtain x cs where x: "bs = written (enc_u16 x) @ cs" "unat x \<le> kMaxStringBytes" "v = string_from_bytes cs"
      "length cs = unat x" "is_valid_utf8 cs" by (auto simp: not_less)
    have len: "length v = unat x" by (simp add: x(3,4) string_from_bytes_def)
    have "written (enc_str v) = bs"
      using x(2,5) by (simp add: enc_str_def len) (simp add: x)
    then show ?r using x(2,5) by (simp add: wire_string_def len) (simp add: x(3))
  qed
qed simp_all

lemma codes_option:
  assumes "codes enc dec good"
  shows "codes (enc_option enc) (dec_option dec) (\<lambda>lim v. \<forall>x. v = Some x \<longrightarrow> good lim x)"
  unfolding dec_option_def
proof (rule codesI, rule reads_then [OF codes_bool], rule reads_if [OF reads_then [OF assms reads_return] reads_return])
  show "(\<exists>x cs. bs = written (enc_bool x) @ cs \<and> True \<and>
      (if x then \<exists>xa csa. cs = written (enc xa) @ csa \<and> good lim xa \<and> v = Some xa \<and> csa = [] else v = None \<and> cs = [])) \<longleftrightarrow>
      (\<forall>x. v = Some x \<longrightarrow> good lim x) \<and> bs = written (enc_option enc v)" for lim v bs
  proof (cases v)
    case None
    then show ?thesis by (simp, metis append_Nil2)
  next
    case (Some y)
    have "written (enc_option enc (Some y)) = written (enc_bool True) @ written (enc y)" if "good lim y"
      using codes_appends [OF assms that] by simp
    then show ?thesis by (simp only: Some option.inject option.distinct) (metis append_Nil2)
  qed
  show "appends (enc_option enc v)" if "\<forall>x. v = Some x \<longrightarrow> good lim x" for lim v
    using that codes_appends [OF assms, of lim] by (cases v) simp_all
qed

lemma index_in_nth: "x \<in> set vs \<Longrightarrow> index_in vs x < length vs \<and> vs ! index_in vs x = x"
  by (induction vs) auto

lemma index_in_distinct: "distinct vs \<Longrightarrow> i < length vs \<Longrightarrow> index_in vs (vs ! i) = i"
  by (induction vs arbitrary: i) (auto simp: nth_Cons split: nat.splits)

lemma codes_enum:
  assumes "distinct vs" and "\<And>x. x \<in> set vs" and "length vs \<le> 256"
  shows "codes (enc_enum vs) (dec_enum vs) (\<lambda>_ _. True)"
  unfolding dec_enum_def
proof (rule codesI, rule reads_then [OF codes_u8], rule reads_if [OF reads_return reads_fail])
  show "(\<exists>x cs. bs = written (enc_u8 x) @ cs \<and> True \<and> (if unat x < length vs then v = vs ! unat x \<and> cs = [] else False)) \<longleftrightarrow>
      True \<and> bs = written (enc_enum vs v)" (is "?l \<longleftrightarrow> ?r") for bs v
  proof
    assume ?r
    then show ?l
      using index_in_nth [OF assms(2), of v] assms(3)
      by (intro exI [of _ "word_of_nat (index_in vs v)"] exI [of _ "[]"]) (simp add: enc_enum_def unat_of_nat)
  qed (auto simp: enc_enum_def index_in_distinct [OF assms(1)] split: if_splits)
qed simp_all

lemma reads_items:
  assumes "codes enc dec good"
  shows "reads (dec_items n dec)
    (\<lambda>lim vs bs. length vs = n \<and> list_all (good lim) vs \<and> bs = concat (map (\<lambda>v. written (enc v)) vs))"
proof (induction n)
  case 0
  show ?case by (simp, rule reads_cong [OF reads_return]) auto
next
  case (Suc n)
  show ?case
    unfolding dec_items.simps
    by (rule reads_cong [OF reads_then [OF assms reads_bind [OF Suc reads_return]]])
      (auto simp: length_Suc_conv)
qed

lemma reads_limit:
  assumes "reads m L" and "code \<noteq> EC_Ok"
  shows "reads (State_Monad.get \<bind> (\<lambda>d. if P (rd_limits d) then dec_fail x code else m)) (\<lambda>lim v bs. \<not> P lim \<and> L lim v bs)"
proof (rule readsI)
  fix d v d'
  assume "run_state (State_Monad.get \<bind> (\<lambda>d. if P (rd_limits d) then dec_fail x code else m)) d = (v, d')"
    and ok: "rd_status d' = EC_Ok"
  then have "\<not> P (rd_limits d)" and m: "run_state m d = (v, d')"
    using assms(2) by (auto simp: State_Monad.get_def dec_fail_def fail_with_def split: if_splits)
  then show "rd_status d = EC_Ok \<and> (\<exists>bs. (\<not> P (rd_limits d) \<and> L (rd_limits d) v bs) \<and>
      rd_rest d = bs @ rd_rest d' \<and> d' = d\<lparr>rd_rest := rd_rest d'\<rparr>)"
    using reads_result [OF assms(1) m ok] by simp
next
  fix d :: decoder and v bs r
  assume "rd_status d = EC_Ok" "\<not> P (rd_limits d) \<and> L (rd_limits d) v bs" "rd_rest d = bs @ r"
  then show "run_state (State_Monad.get \<bind> (\<lambda>d. if P (rd_limits d) then dec_fail x code else m)) d = (v, d\<lparr>rd_rest := r\<rparr>)"
    using reads_run [OF assms(1), of d v bs r] by (simp add: State_Monad.get_def)
qed

lemma reads_count:
  assumes "\<And>x. reads (f x) (M x)" and "\<And>x lim v bs. M x lim v bs \<Longrightarrow> unat x \<le> length bs"
  shows "reads (collection_count \<bind> f)
    (\<lambda>lim v bs. \<exists>x cs. bs = written (enc_u32 x) @ cs \<and> unat x \<le> kMaxCollectionElements \<and> M x lim v cs)"
proof -
  let ?check = "\<lambda>count. State (\<lambda>d. if rd_status d \<noteq> EC_Ok then (0, d)
                else if unat count > kMaxCollectionElements then (0, fail_with EC_CollectionTooLarge d)
                else if unat count > length (rd_rest d) then (0, fail_with EC_TruncatedInput d)
                else (count :: u32, d))"
  have "reads (?check count \<bind> f) (\<lambda>lim v bs. unat count \<le> kMaxCollectionElements \<and> M count lim v bs)" for count
  proof (rule readsI)
    fix d v d' assume run: "run_state (?check count \<bind> f) d = (v, d')" and ok: "rd_status d' = EC_Ok"
    have bad: "run_state (f 0) c \<noteq> (v, d')" if "rd_status c \<noteq> EC_Ok" for c
      using that reads_result [OF assms(1) _ ok] by blast
    have count: "unat count \<le> kMaxCollectionElements" "run_state (f count) d = (v, d')"
      using run ok bad [of d] bad [of "fail_with EC_CollectionTooLarge d"] bad [of "fail_with EC_TruncatedInput d"]
      by (auto simp: fail_with_def not_less split: if_splits)
    then show "rd_status d = EC_Ok \<and> (\<exists>bs. (unat count \<le> kMaxCollectionElements \<and> M count (rd_limits d) v bs) \<and>
        rd_rest d = bs @ rd_rest d' \<and> d' = d\<lparr>rd_rest := rd_rest d'\<rparr>)"
      using reads_result [OF assms(1) count(2) ok] by simp
  next
    fix d :: decoder and v bs r
    assume "rd_status d = EC_Ok" "unat count \<le> kMaxCollectionElements \<and> M count (rd_limits d) v bs" "rd_rest d = bs @ r"
    then show "run_state (?check count \<bind> f) d = (v, d\<lparr>rd_rest := r\<rparr>)"
      using reads_run [OF assms(1), of d count v bs r] assms(2) [of count "rd_limits d" v bs] by simp
  qed
  from reads_then [OF codes_u32 this] show ?thesis
    unfolding collection_count_def bind_assoc by simp
qed

lemma concat_nonempty:
  "(\<And>x. x \<in> set xs \<Longrightarrow> g x \<noteq> []) \<Longrightarrow> length xs \<le> length (concat (map g xs))"
proof (induction xs)
  case (Cons a xs)
  have "Suc 0 \<le> length (g a)" using Cons.prems by (simp add: Suc_le_eq)
  moreover have "length xs \<le> length (concat (map g xs))" using Cons by simp
  ultimately show ?case by (simp del: length_greater_0_conv)
qed simp

lemma codes_list:
  assumes "codes enc dec good" and "\<And>lim v. good lim v \<Longrightarrow> written (enc v) \<noteq> []"
  shows "codes (enc_list enc) (dec_list bound dec)
    (\<lambda>lim vs. length vs \<le> kMaxCollectionElements \<and> length vs \<le> bound lim \<and> list_all (good lim) vs)"
  unfolding dec_list_def
proof (rule codesI, rule reads_count [OF reads_limit [OF reads_items [OF assms(1)]]])
  fix lim vs bs
  show "(\<exists>x cs. bs = written (enc_u32 x) @ cs \<and> unat x \<le> kMaxCollectionElements \<and> \<not> bound lim < unat x \<and>
      length vs = unat x \<and> list_all (good lim) vs \<and> cs = concat (map (\<lambda>v. written (enc v)) vs)) \<longleftrightarrow>
    (length vs \<le> kMaxCollectionElements \<and> length vs \<le> bound lim \<and> list_all (good lim) vs) \<and> bs = written (enc_list enc vs)"
    (is "?l \<longleftrightarrow> ?r")
  proof -
    have w: "written (enc_list enc vs) = written (enc_u32 (word_of_nat (length vs))) @ concat (map (\<lambda>v. written (enc v)) vs)"
      if "list_all (good lim) vs"
      using that codes_appends [OF assms(1), of lim] by (subst written_list) (auto simp: list_all_iff enc_u32_def)
    show ?thesis
    proof
      assume ?r
      then show ?l
        by (intro exI [of _ "word_of_nat (length vs)"] exI) (simp add: w kMaxCollectionElements_def small_count)
    next
      assume ?l
      then obtain x where "bs = written (enc_u32 x) @ concat (map (\<lambda>v. written (enc v)) vs)" "length vs = unat x"
        "unat x \<le> kMaxCollectionElements" "\<not> bound lim < unat x" "list_all (good lim) vs" by blast
      then show ?r using w by simp
    qed
  qed
next
  show "unat x \<le> length bs" if "\<not> bound lim < unat x \<and> length vs = unat x \<and> list_all (good lim) vs \<and>
      bs = concat (map (\<lambda>v. written (enc v)) vs)" for x :: u32 and lim vs bs
    using that assms(2) concat_nonempty [of vs "\<lambda>v. written (enc v)"] by (auto simp: list_all_iff)
  show "appends (enc_list enc vs)"
    if "length vs \<le> kMaxCollectionElements \<and> length vs \<le> bound lim \<and> list_all (good lim) vs" for lim vs
    using that codes_appends [OF assms(1), of lim] by (auto simp: list_all_iff)
qed simp

lemma codes_count: "codes enc_count dec_count (\<lambda>_ n. n < 2 ^ 32)"
  unfolding dec_count_def
  by (rule codesI, rule reads_then [OF codes_u32 reads_return])
    (use unat_u32_less in \<open>auto simp: enc_count_def unat_of_nat\<close>)

lemma error_codes_complete: "c \<in> set error_codes"
  by (cases c) (simp_all add: error_codes_def)

lemma error_code_value_inject: "error_code_value c = error_code_value d \<Longrightarrow> c = d"
proof -
  have "distinct (map error_code_value error_codes)" by (simp add: error_codes_def)
  then show "error_code_value c = error_code_value d \<Longrightarrow> c = d"
    using error_codes_complete by (simp add: distinct_map inj_on_def)
qed

lemma error_code_value_small: "error_code_value c < 1000"
  by (cases c) simp_all

lemma find_error_code: "find (\<lambda>c. error_code_value c = n) error_codes = Some d \<longleftrightarrow> n = error_code_value d"
proof
  assume "n = error_code_value d"
  then have "find (\<lambda>c. error_code_value c = n) error_codes \<noteq> None"
    using error_codes_complete [of d] by (auto simp: find_None_iff)
  then obtain c where "find (\<lambda>c. error_code_value c = n) error_codes = Some c" by blast
  then show "find (\<lambda>c. error_code_value c = n) error_codes = Some d"
    using \<open>n = error_code_value d\<close> error_code_value_inject by (auto simp: find_Some_iff)
qed (auto simp: find_Some_iff)

lemma codes_error_code: "codes enc_error_code dec_error_code (\<lambda>_ _. True)"
  unfolding dec_error_code_def
proof (rule codesI, rule reads_then [OF codes_u16])
  let ?find = "\<lambda>x :: u16. find (\<lambda>c. error_code_value c = unat x) error_codes"
  show "reads (case ?find x of None \<Rightarrow> dec_fail EC_Internal EC_UnsupportedValue | Some candidate \<Rightarrow> State_Monad.return candidate)
      (\<lambda>lim v bs. ?find x = Some v \<and> bs = [])" for x
    by (cases "?find x") (auto intro: reads_cong [OF reads_fail] reads_cong [OF reads_return])
  have tag: "unat (word_of_nat (error_code_value v) :: u16) = error_code_value v" for v
    using error_code_value_small [of v] by (simp add: unat_of_nat)
  have "?find x = Some v \<longleftrightarrow> x = word_of_nat (error_code_value v)" for x v
    unfolding find_error_code word_unat_eq_iff tag ..
  then show "(\<exists>x cs. bs = written (enc_u16 x) @ cs \<and> True \<and> ?find x = Some v \<and> cs = []) \<longleftrightarrow>
      True \<and> bs = written (enc_error_code v)" for bs v
    by (simp add: enc_error_code_def)
  show "appends (enc_error_code v)" for v by (simp add: enc_error_code_def)
qed

section \<open>Codecs of records\<close>

text \<open>
  A record is written and read field by field. \<open>spells m P es good\<close>: \<open>m\<close> reads the values that
  satisfy \<open>P\<close> from what the operations \<open>es\<close> write for them. \<open>P\<close> says that the fields read
  before have the values that were read.
\<close>

named_theorems codecs \<open>exact codecs of the parts of a message\<close>

lemmas codes_primitives [codecs] =
  codes_u8 codes_u16 codes_u32 codes_u64 codes_i64 codes_bool codes_bytes codes_str codes_uuid codes_scalar32
  codes_size codes_count codes_error_code codes_option

definition spells :: "'a reader \<Rightarrow> ('a \<Rightarrow> bool) \<Rightarrow> ('a \<Rightarrow> (encoder \<Rightarrow> encoder) list) \<Rightarrow> (limits \<Rightarrow> 'a \<Rightarrow> bool) \<Rightarrow> bool" where
  "spells m P es good \<longleftrightarrow>
     reads m (\<lambda>lim v bs. P v \<and> good lim v \<and> bs = written (enc_all (es v))) \<and>
     (\<forall>lim v. good lim v \<longrightarrow> list_all appends (es v))"

lemma spells_return:
  assumes "P r" and "\<And>v. P v \<Longrightarrow> v = r"
  shows "spells (State_Monad.return r) P (\<lambda>_. []) (\<lambda>_ _. True)"
  unfolding spells_def appends_all_simps(2)
  by (intro conjI reads_cong [OF reads_return]) (use assms in blast, simp)

lemma spells_field:
  assumes "codes enc dec good" and "\<And>x. spells (f x) (\<lambda>v. P v \<and> get v = x) es g"
  shows "spells (dec \<bind> f) P (\<lambda>v. enc (get v) # es v) (\<lambda>lim v. good lim (get v) \<and> g lim v)"
proof -
  have "reads (f x) (\<lambda>lim v bs. (P v \<and> get v = x) \<and> g lim v \<and> bs = written (enc_all (es v)))" for x
    using assms(2) by (simp add: spells_def)
  from reads_then [OF assms(1) this]
  have "reads (dec \<bind> f) (\<lambda>lim v bs. P v \<and> (good lim (get v) \<and> g lim v) \<and> bs = written (enc_all (enc (get v) # es v)))"
  proof (rule reads_cong)
    fix lim v bs
    have "written (enc_all (enc (get v) # es v)) = written (enc (get v)) @ written (enc_all (es v))"
      if "good lim (get v)" "g lim v"
      using codes_appends [OF assms(1) that(1)] assms(2) that(2) appends_all [of "es v"] by (simp add: spells_def)
    then show "(\<exists>x cs. bs = written (enc x) @ cs \<and> good lim x \<and> (P v \<and> get v = x) \<and> g lim v \<and> cs = written (enc_all (es v))) \<longleftrightarrow>
        P v \<and> (good lim (get v) \<and> g lim v) \<and> bs = written (enc_all (enc (get v) # es v))"
      by auto
  qed
  moreover have "list_all appends (enc (get v) # es v)" if "good lim (get v)" "g lim v" for lim v
    using codes_appends [OF assms(1) that(1)] assms(2) that(2) by (simp add: spells_def)
  ultimately show ?thesis unfolding spells_def by blast
qed

lemma codes_record:
  "spells dec (\<lambda>_. True) es g \<Longrightarrow> (\<And>lim v. g lim v \<longleftrightarrow> good lim v) \<Longrightarrow> codes (\<lambda>v. enc_all (es v)) dec good"
  using appends_all by (simp add: spells_def codes_def)

text \<open>A codec that writes at least one byte can be the element of a collection.\<close>

definition items :: "('a \<Rightarrow> encoder \<Rightarrow> encoder) \<Rightarrow> 'a reader \<Rightarrow> (limits \<Rightarrow> 'a \<Rightarrow> bool) \<Rightarrow> bool" where
  "items enc dec good \<longleftrightarrow> codes enc dec good \<and> (\<forall>lim v. good lim v \<longrightarrow> written (enc v) \<noteq> [])"

lemma items_codes: "items enc dec good \<Longrightarrow> codes enc dec good"
  by (simp add: items_def)

lemma items_record:
  assumes "spells dec (\<lambda>_. True) (\<lambda>v. e v # es v) g" and "\<And>lim v. g lim v \<longleftrightarrow> good lim v"
    and "\<And>lim v. good lim v \<Longrightarrow> written (e v) \<noteq> []"
  shows "items (\<lambda>v. enc_all (e v # es v)) dec good"
proof -
  have "written (enc_all (e v # es v)) \<noteq> []" if "good lim v" for lim v
  proof -
    have "list_all appends (e v # es v)" using assms(1,2) that by (auto simp: spells_def)
    then show ?thesis using assms(3) [OF that] appends_all [of "e v # es v"] by simp
  qed
  then show ?thesis unfolding items_def using codes_record [OF assms(1,2)] by blast
qed

lemma items_list:
  "items enc dec good \<Longrightarrow> codes (enc_list enc) (dec_list bound dec)
     (\<lambda>lim vs. length vs \<le> kMaxCollectionElements \<and> length vs \<le> bound lim \<and> list_all (good lim) vs)"
  unfolding items_def by (rule codes_list) blast+

lemma nonempty_put_be: "0 < n \<Longrightarrow> put_be n v \<noteq> []"
  by (metis put_be_length length_greater_0_conv)

lemma written_nonempty [simp]:
  "written (enc_u8 a) \<noteq> []" "written (enc_u16 b) \<noteq> []" "written (enc_u32 c) \<noteq> []" "written (enc_u64 d) \<noteq> []"
  "written (enc_i64 i) \<noteq> []" "written (enc_bool t) \<noteq> []" "written (enc_scalar32 c) \<noteq> []" "written (enc_count n) \<noteq> []"
  "wf_uuid u \<Longrightarrow> written (enc_uuid u) \<noteq> []" "wire_string s \<Longrightarrow> written (enc_str s) \<noteq> []"
  "written (enc_enum vs x) \<noteq> []"
  by (auto simp: enc_u8_def enc_u16_def enc_u32_def enc_u64_def enc_i64_def enc_bool_def enc_scalar32_def enc_count_def
      enc_uuid_def wf_uuid_def enc_str_def wire_string_def enc_enum_def nonempty_put_be)

section \<open>Messages\<close>

text \<open>
  What every message codec promises: decoding a payload succeeds with a value exactly when the
  value is within the bounds of the protocol and the payload is its encoding. So a payload the
  decoder accepts was produced by the encoder, no two payloads decode to the same value, and
  no payload decodes to two values.
\<close>

locale wire_codec =
  fixes enc :: "'a \<Rightarrow> encoder \<Rightarrow> encoder" and dec :: "'a reader" and good :: "limits \<Rightarrow> 'a \<Rightarrow> bool"
  assumes codec: "codes enc dec good"
begin

lemma exact: "decode_payload dec bs lim = Inr v \<longleftrightarrow> good lim v \<and> bs = encode_payload enc v"
proof -
  let ?d = "new_decoder bs lim"
  obtain w d where run: "run_state dec ?d = (w, d)" by fastforce
  have "decode_payload dec bs lim = Inr v \<longleftrightarrow> w = v \<and> rd_status d = EC_Ok \<and> rd_rest d = []"
    by (simp add: decode_payload_def run expect_end_def)
  also have "\<dots> \<longleftrightarrow> good lim v \<and> bs = written (enc v)"
  proof
    assume "w = v \<and> rd_status d = EC_Ok \<and> rd_rest d = []"
    then show "good lim v \<and> bs = written (enc v)"
      using reads_result [OF codes_reads [OF codec] run] by (auto simp: new_decoder_def)
  next
    assume good: "good lim v \<and> bs = written (enc v)"
    then have "run_state dec ?d = (v, ?d\<lparr>rd_rest := []\<rparr>)"
      by (intro reads_run [OF codes_reads [OF codec], where bs = bs]) (simp_all add: new_decoder_def)
    then show "w = v \<and> rd_status d = EC_Ok \<and> rd_rest d = []" unfolding run by (simp add: new_decoder_def)
  qed
  finally show ?thesis by (simp add: encode_payload_def written_def)
qed

lemma roundtrip: "good lim v \<Longrightarrow> decode_payload dec (encode_payload enc v) lim = Inr v"
  by (simp add: exact)

lemma canonical: "decode_payload dec bs lim = Inr v \<Longrightarrow> encode_payload enc v = bs"
  by (simp add: exact)

lemma unambiguous: "good lim v \<Longrightarrow> good lim w \<Longrightarrow> encode_payload enc v = encode_payload enc w \<Longrightarrow> v = w"
  using roundtrip [of lim v] roundtrip [of lim w] by (metis sum.inject(2))

end

end
