(* ===== verification/Wire_Codecs.thy ===== *)
theory Wire_Codecs
  imports Wire
begin

text \<open>
  The codecs of the domain enumerations, identities, manifests, policies, topologies,
  contracts, requests and fences: \<^verbatim>\<open>encode\<close> and \<^verbatim>\<open>decode\<close> of \<^verbatim>\<open>include/ctf/wire.hpp\<close> and
  \<^verbatim>\<open>src/wire.cpp\<close> for each type. For each, \<open>fits_T\<close> is the set of values the protocol can carry under
  the decoder's limits, and \<open>codes_T\<close> says the decoder reads exactly those values from exactly
  what the encoder writes for them.
\<close>

section \<open>Enumerations\<close>

definition isolation_classes :: "isolation_class list" where
  "isolation_classes = [
     IC_TrainingCritical, IC_ServingLatency, IC_TrainingBulk, IC_BestEffort]"

abbreviation encode_isolation_class :: "isolation_class \<Rightarrow> encoder \<Rightarrow> encoder" where
  "encode_isolation_class \<equiv> enc_enum isolation_classes"

abbreviation decode_isolation_class :: "isolation_class reader" where
  "decode_isolation_class \<equiv> dec_enum isolation_classes"

definition destination_classes :: "destination_class list" where
  "destination_classes = [
     DC_LocalAttachedStore, DC_RemoteObjectStore, DC_PeerNodeMemory, DC_SyntheticLab]"

abbreviation encode_destination_class :: "destination_class \<Rightarrow> encoder \<Rightarrow> encoder" where
  "encode_destination_class \<equiv> enc_enum destination_classes"

abbreviation decode_destination_class :: "destination_class reader" where
  "decode_destination_class \<equiv> dec_enum destination_classes"

definition evidence_levels :: "evidence_level list" where
  "evidence_levels = [
     EL_None, EL_SourceComplete, EL_Transferred, EL_VerifiedAtDestination]"

abbreviation encode_evidence_level :: "evidence_level \<Rightarrow> encoder \<Rightarrow> encoder" where
  "encode_evidence_level \<equiv> enc_enum evidence_levels"

abbreviation decode_evidence_level :: "evidence_level reader" where
  "decode_evidence_level \<equiv> dec_enum evidence_levels"

definition durability_statuses :: "durability_status list" where
  "durability_statuses = [
     DS_NotEstablished, DS_ExternallyAsserted]"

abbreviation encode_durability_status :: "durability_status \<Rightarrow> encoder \<Rightarrow> encoder" where
  "encode_durability_status \<equiv> enc_enum durability_statuses"

abbreviation decode_durability_status :: "durability_status reader" where
  "decode_durability_status \<equiv> dec_enum durability_statuses"

definition session_states :: "session_state list" where
  "session_states = [
     SS_Submitted, SS_Deferred, SS_Admitted, SS_Transferring, SS_Paused, SS_SourceComplete, SS_Transferred,
     SS_VerifiedAtDestination, SS_TrafficSessionComplete, SS_Cancelled, SS_Superseded, SS_Failed,
     SS_RevalidationRequired]"

abbreviation encode_session_state :: "session_state \<Rightarrow> encoder \<Rightarrow> encoder" where
  "encode_session_state \<equiv> enc_enum session_states"

abbreviation decode_session_state :: "session_state reader" where
  "decode_session_state \<equiv> dec_enum session_states"

definition shard_states :: "shard_state list" where
  "shard_states = [
     SH_Pending, SH_Granted, SH_InFlight, SH_Transferred, SH_Verified, SH_Ambiguous, SH_Failed, SH_Cancelled]"

abbreviation encode_shard_state :: "shard_state \<Rightarrow> encoder \<Rightarrow> encoder" where
  "encode_shard_state \<equiv> enc_enum shard_states"

abbreviation decode_shard_state :: "shard_state reader" where
  "decode_shard_state \<equiv> dec_enum shard_states"

definition attempt_outcomes :: "attempt_outcome list" where
  "attempt_outcomes = [
     AO_Granted, AO_InFlight, AO_DeliveredUnacked, AO_DeliveredAcked, AO_Verified, AO_Failed, AO_Ambiguous,
     AO_Released, AO_Superseded]"

abbreviation encode_attempt_outcome :: "attempt_outcome \<Rightarrow> encoder \<Rightarrow> encoder" where
  "encode_attempt_outcome \<equiv> enc_enum attempt_outcomes"

abbreviation decode_attempt_outcome :: "attempt_outcome reader" where
  "decode_attempt_outcome \<equiv> dec_enum attempt_outcomes"

definition decision_kinds :: "decision_kind list" where
  "decision_kinds = [
     DK_Admit, DK_Defer, DK_Deny]"

abbreviation encode_decision_kind :: "decision_kind \<Rightarrow> encoder \<Rightarrow> encoder" where
  "encode_decision_kind \<equiv> enc_enum decision_kinds"

abbreviation decode_decision_kind :: "decision_kind reader" where
  "decode_decision_kind \<equiv> dec_enum decision_kinds"

definition event_kinds :: "event_kind list" where
  "event_kinds = [
     EK_SessionSubmitted, EK_SessionAdmitted, EK_SessionDeferred, EK_SessionDenied, EK_SessionSuperseded,
     EK_SessionCancelled, EK_SessionCompleted, EK_WaveGranted, EK_TransferObserved,
     EK_VerificationObserved, EK_AmbiguityRecorded, EK_RevalidationRequired, EK_FenceRejected, EK_Shutdown,
     EK_SourceCompleteObserved, EK_SessionPaused, EK_SessionResumed, EK_DurabilityAsserted]"

abbreviation encode_event_kind :: "event_kind \<Rightarrow> encoder \<Rightarrow> encoder" where
  "encode_event_kind \<equiv> enc_enum event_kinds"

abbreviation decode_event_kind :: "event_kind reader" where
  "decode_event_kind \<equiv> dec_enum event_kinds"

definition verification_outcomes :: "verification_outcome list" where
  "verification_outcomes = [
     VO_Verified, VO_DigestMismatch, VO_Truncated, VO_Ambiguous, VO_Rejected]"

abbreviation encode_verification_outcome :: "verification_outcome \<Rightarrow> encoder \<Rightarrow> encoder" where
  "encode_verification_outcome \<equiv> enc_enum verification_outcomes"

abbreviation decode_verification_outcome :: "verification_outcome reader" where
  "decode_verification_outcome \<equiv> dec_enum verification_outcomes"

definition reason_codes :: "reason_code list" where
  "reason_codes = [
     RC_Admitted, RC_DuplicateCommand, RC_ClassCeilingSaturated, RC_WorkloadCeilingSaturated,
     RC_FabricSessionLimit, RC_PathCapacityUnavailable, RC_CreditUnavailable, RC_UnknownWorkload,
     RC_ContractGenerationStale, RC_PolicyGenerationStale, RC_TopologyGenerationStale,
     RC_CheckpointGenerationStale, RC_SupersessionDeniedByPolicy, RC_SessionLimitPerWorkload,
     RC_RequestedRateUnsupported, RC_ManifestInvalid, RC_ManifestMismatch, RC_DestinationNotPermitted,
     RC_CheckpointTooLarge, RC_DeadlineUnreachable, RC_FabricShuttingDown, RC_AuthorityStale,
     RC_AttemptStale, RC_VerificationRequired, RC_VerificationMismatch, RC_EvidenceStale,
     RC_SessionNotFound, RC_StateNotResumable, RC_AmbiguousSinkOutcome, RC_CancelledByOperator,
     RC_SupersededByNewerGeneration, RC_ResourceLimit, RC_Internal]"

abbreviation encode_reason_code :: "reason_code \<Rightarrow> encoder \<Rightarrow> encoder" where
  "encode_reason_code \<equiv> enc_enum reason_codes"

abbreviation decode_reason_code :: "reason_code reader" where
  "decode_reason_code \<equiv> dec_enum reason_codes"

lemma codes_isolation_class [codecs]: "codes encode_isolation_class decode_isolation_class (\<lambda>_ _. True)"
proof (rule codes_enum)
  show "x \<in> set isolation_classes" for x by (cases x) (simp_all add: isolation_classes_def)
qed (simp_all add: isolation_classes_def)

lemma codes_destination_class [codecs]: "codes encode_destination_class decode_destination_class (\<lambda>_ _. True)"
proof (rule codes_enum)
  show "x \<in> set destination_classes" for x by (cases x) (simp_all add: destination_classes_def)
qed (simp_all add: destination_classes_def)

lemma codes_evidence_level [codecs]: "codes encode_evidence_level decode_evidence_level (\<lambda>_ _. True)"
proof (rule codes_enum)
  show "x \<in> set evidence_levels" for x by (cases x) (simp_all add: evidence_levels_def)
qed (simp_all add: evidence_levels_def)

lemma codes_durability_status [codecs]: "codes encode_durability_status decode_durability_status (\<lambda>_ _. True)"
proof (rule codes_enum)
  show "x \<in> set durability_statuses" for x by (cases x) (simp_all add: durability_statuses_def)
qed (simp_all add: durability_statuses_def)

lemma codes_session_state [codecs]: "codes encode_session_state decode_session_state (\<lambda>_ _. True)"
proof (rule codes_enum)
  show "x \<in> set session_states" for x by (cases x) (simp_all add: session_states_def)
qed (simp_all add: session_states_def)

lemma codes_shard_state [codecs]: "codes encode_shard_state decode_shard_state (\<lambda>_ _. True)"
proof (rule codes_enum)
  show "x \<in> set shard_states" for x by (cases x) (simp_all add: shard_states_def)
qed (simp_all add: shard_states_def)

lemma codes_attempt_outcome [codecs]: "codes encode_attempt_outcome decode_attempt_outcome (\<lambda>_ _. True)"
proof (rule codes_enum)
  show "x \<in> set attempt_outcomes" for x by (cases x) (simp_all add: attempt_outcomes_def)
qed (simp_all add: attempt_outcomes_def)

lemma codes_decision_kind [codecs]: "codes encode_decision_kind decode_decision_kind (\<lambda>_ _. True)"
proof (rule codes_enum)
  show "x \<in> set decision_kinds" for x by (cases x) (simp_all add: decision_kinds_def)
qed (simp_all add: decision_kinds_def)

lemma codes_event_kind [codecs]: "codes encode_event_kind decode_event_kind (\<lambda>_ _. True)"
proof (rule codes_enum)
  show "x \<in> set event_kinds" for x by (cases x) (simp_all add: event_kinds_def)
qed (simp_all add: event_kinds_def)

lemma codes_verification_outcome [codecs]: "codes encode_verification_outcome decode_verification_outcome (\<lambda>_ _. True)"
proof (rule codes_enum)
  show "x \<in> set verification_outcomes" for x by (cases x) (simp_all add: verification_outcomes_def)
qed (simp_all add: verification_outcomes_def)

lemma codes_reason_code [codecs]: "codes encode_reason_code decode_reason_code (\<lambda>_ _. True)"
proof (rule codes_enum)
  show "x \<in> set reason_codes" for x by (cases x) (simp_all add: reason_codes_def)
qed (simp_all add: reason_codes_def)

section \<open>Digests and epochs\<close>

definition encode_digest :: "digest \<Rightarrow> encoder \<Rightarrow> encoder" where
  "encode_digest v = enc_all [enc_u32 (crc32c_value v), enc_u64 (fnv1a64_value v)]"

definition decode_digest :: "digest reader" where
  "decode_digest = do {crc \<leftarrow> dec_u32; fnv \<leftarrow> dec_u64; State_Monad.return (Digest crc fnv)}"

lemma codes_digest [codecs]: "codes encode_digest decode_digest (\<lambda>_ _. True)"
  unfolding encode_digest_def [abs_def] decode_digest_def
  by (rule codes_record, (rule codecs [THEN spells_field] codecs)+, rule spells_return, simp, rule digest.expand)
    simp_all

definition encode_coordinator_epoch :: "coordinator_epoch \<Rightarrow> encoder \<Rightarrow> encoder" where
  "encode_coordinator_epoch v = enc_all [enc_u64 (incarnation v), enc_u64 (epoch_term v)]"

definition decode_coordinator_epoch :: "coordinator_epoch reader" where
  "decode_coordinator_epoch = do {
     inc \<leftarrow> dec_u64; trm \<leftarrow> dec_u64; State_Monad.return (CoordinatorEpoch inc trm)
   }"

lemma codes_coordinator_epoch [codecs]: "codes encode_coordinator_epoch decode_coordinator_epoch (\<lambda>_ _. True)"
  unfolding encode_coordinator_epoch_def [abs_def] decode_coordinator_epoch_def
  by (rule codes_record, (rule codecs [THEN spells_field] codecs)+, rule spells_return, simp, rule coordinator_epoch.expand)
    simp_all

lemma written_epoch [simp]: "written (encode_coordinator_epoch v) \<noteq> []"
  by (simp add: encode_coordinator_epoch_def)

section \<open>Manifests, policies, topologies, contracts and requests\<close>

definition encode_shard_descriptor :: "shard_descriptor \<Rightarrow> encoder \<Rightarrow> encoder" where
  "encode_shard_descriptor v = enc_all [
     enc_scalar32 (sd_index v), enc_u64 (sd_declared_bytes v), encode_digest (sd_declared_digest v),
     enc_scalar32 (sd_path_class v)]"

definition decode_shard_descriptor :: "shard_descriptor reader" where
  "decode_shard_descriptor = do {
     index \<leftarrow> dec_scalar32; declared_bytes \<leftarrow> dec_u64;
     declared_digest \<leftarrow> decode_digest; path_class \<leftarrow> dec_scalar32;
     State_Monad.return \<lparr>
       sd_index = index, sd_declared_bytes = declared_bytes, sd_declared_digest = declared_digest,
       sd_path_class = path_class\<rparr>
   }"

lemma items_shard_descriptor: "items encode_shard_descriptor decode_shard_descriptor (\<lambda>_ _. True)"
  unfolding encode_shard_descriptor_def [abs_def] decode_shard_descriptor_def
  by (rule items_record, (rule codecs [THEN spells_field] codecs)+, rule spells_return, simp, rule shard_descriptor.equality)
    simp_all

lemmas codes_shard_descriptor [codecs] = items_shard_descriptor [THEN items_codes]

lemma codes_shard_descriptor_list [codecs]:
  "codes (enc_list encode_shard_descriptor) (dec_list bound decode_shard_descriptor) (\<lambda>lim vs. length vs \<le> kMaxCollectionElements \<and> length vs \<le> bound lim)"
  using items_list [OF items_shard_descriptor, of bound] by (simp add: list_all_iff)

definition encode_checkpoint_manifest :: "checkpoint_manifest \<Rightarrow> encoder \<Rightarrow> encoder" where
  "encode_checkpoint_manifest v = enc_all [
     enc_uuid (mf_checkpoint v), enc_u64 (mf_generation v), enc_uuid (mf_workload v),
     enc_u64 (mf_contract_generation v), enc_u64 (mf_total_bytes v),
     enc_list encode_shard_descriptor (mf_shards v), encode_digest (mf_digest v), enc_i64 (mf_declared_at v)]"

definition decode_checkpoint_manifest :: "checkpoint_manifest reader" where
  "decode_checkpoint_manifest = do {
     checkpoint \<leftarrow> dec_uuid; generation \<leftarrow> dec_u64; workload \<leftarrow> dec_uuid;
     contract_generation \<leftarrow> dec_u64; total_bytes \<leftarrow> dec_u64;
     shards \<leftarrow> dec_list (\<lambda>lim. unat (lim_max_shards_per_checkpoint lim)) decode_shard_descriptor;
     digest \<leftarrow> decode_digest; declared_at \<leftarrow> dec_i64;
     State_Monad.return \<lparr>
       mf_checkpoint = checkpoint, mf_generation = generation, mf_workload = workload,
       mf_contract_generation = contract_generation, mf_total_bytes = total_bytes, mf_shards = shards,
       mf_digest = digest, mf_declared_at = declared_at\<rparr>
   }"

definition fits_checkpoint_manifest :: "limits \<Rightarrow> checkpoint_manifest \<Rightarrow> bool" where
  "fits_checkpoint_manifest lim v \<longleftrightarrow>
     wf_uuid (mf_checkpoint v) \<and> wf_uuid (mf_workload v) \<and>
     length (mf_shards v) \<le> kMaxCollectionElements \<and> length (mf_shards v) \<le> unat (lim_max_shards_per_checkpoint lim) \<and>
     wire_nanos (mf_declared_at v)"

lemma codes_checkpoint_manifest [codecs]: "codes encode_checkpoint_manifest decode_checkpoint_manifest fits_checkpoint_manifest"
  unfolding encode_checkpoint_manifest_def [abs_def] decode_checkpoint_manifest_def
  by (rule codes_record, (rule codecs [THEN spells_field] codecs)+, rule spells_return, simp, rule checkpoint_manifest.equality)
    (simp_all add: fits_checkpoint_manifest_def)

definition encode_limits :: "limits \<Rightarrow> encoder \<Rightarrow> encoder" where
  "encode_limits v = enc_all [
     enc_u32 (lim_max_shards_per_checkpoint v), enc_u64 (lim_max_checkpoint_bytes v),
     enc_u32 (lim_max_sessions v), enc_u32 (lim_max_attempts_in_flight v),
     enc_u32 (lim_max_retained_history v), enc_u32 (lim_max_wave_width v),
     enc_u32 (lim_max_path_classes v), enc_u32 (lim_max_sessions_per_workload v),
     enc_u32 (lim_max_workloads v), enc_size (lim_max_identity_text_bytes v),
     enc_size (lim_max_string_bytes v), enc_u32 (lim_max_supersession_chain v)]"

definition decode_limits :: "limits reader" where
  "decode_limits = do {
     max_shards_per_checkpoint \<leftarrow> dec_u32; max_checkpoint_bytes \<leftarrow> dec_u64;
     max_sessions \<leftarrow> dec_u32; max_attempts_in_flight \<leftarrow> dec_u32;
     max_retained_history \<leftarrow> dec_u32; max_wave_width \<leftarrow> dec_u32;
     max_path_classes \<leftarrow> dec_u32; max_sessions_per_workload \<leftarrow> dec_u32;
     max_workloads \<leftarrow> dec_u32; max_identity_text_bytes \<leftarrow> dec_size;
     max_string_bytes \<leftarrow> dec_size; max_supersession_chain \<leftarrow> dec_u32;
     State_Monad.return \<lparr>
       lim_max_shards_per_checkpoint = max_shards_per_checkpoint,
       lim_max_checkpoint_bytes = max_checkpoint_bytes, lim_max_sessions = max_sessions,
       lim_max_attempts_in_flight = max_attempts_in_flight,
       lim_max_retained_history = max_retained_history, lim_max_wave_width = max_wave_width,
       lim_max_path_classes = max_path_classes, lim_max_sessions_per_workload = max_sessions_per_workload,
       lim_max_workloads = max_workloads, lim_max_identity_text_bytes = max_identity_text_bytes,
       lim_max_string_bytes = max_string_bytes, lim_max_supersession_chain = max_supersession_chain\<rparr>
   }"

definition fits_limits :: "limits \<Rightarrow> limits \<Rightarrow> bool" where
  "fits_limits lim v \<longleftrightarrow>
     (lim_max_identity_text_bytes v) < 2 ^ 64 \<and> (lim_max_string_bytes v) < 2 ^ 64"

lemma codes_limits [codecs]: "codes encode_limits decode_limits fits_limits"
  unfolding encode_limits_def [abs_def] decode_limits_def
  by (rule codes_record, (rule codecs [THEN spells_field] codecs)+, rule spells_return, simp, rule limits.equality)
    (simp_all add: fits_limits_def)

definition encode_isolation_envelope_config :: "isolation_envelope_config \<Rightarrow> encoder \<Rightarrow> encoder" where
  "encode_isolation_envelope_config v = enc_all [
     encode_isolation_class (ie_isolation v), enc_u64 (ie_ceiling_bps v), enc_u64 (ie_burst_window_ns v),
     enc_u32 (ie_max_in_flight_sessions v)]"

definition decode_isolation_envelope_config :: "isolation_envelope_config reader" where
  "decode_isolation_envelope_config = do {
     isolation \<leftarrow> decode_isolation_class; ceiling_bps \<leftarrow> dec_u64;
     burst_window_ns \<leftarrow> dec_u64; max_in_flight_sessions \<leftarrow> dec_u32;
     State_Monad.return \<lparr>
       ie_isolation = isolation, ie_ceiling_bps = ceiling_bps, ie_burst_window_ns = burst_window_ns,
       ie_max_in_flight_sessions = max_in_flight_sessions\<rparr>
   }"

lemma items_isolation_envelope_config: "items encode_isolation_envelope_config decode_isolation_envelope_config (\<lambda>_ _. True)"
  unfolding encode_isolation_envelope_config_def [abs_def] decode_isolation_envelope_config_def
  by (rule items_record, (rule codecs [THEN spells_field] codecs)+, rule spells_return, simp, rule isolation_envelope_config.equality)
    simp_all

lemmas codes_isolation_envelope_config [codecs] = items_isolation_envelope_config [THEN items_codes]

lemma codes_isolation_envelope_config_list [codecs]:
  "codes (enc_list encode_isolation_envelope_config) (dec_list bound decode_isolation_envelope_config) (\<lambda>lim vs. length vs \<le> kMaxCollectionElements \<and> length vs \<le> bound lim)"
  using items_list [OF items_isolation_envelope_config, of bound] by (simp add: list_all_iff)

definition encode_policy_snapshot :: "policy_snapshot \<Rightarrow> encoder \<Rightarrow> encoder" where
  "encode_policy_snapshot v = enc_all [
     enc_u64 (po_generation v), enc_list encode_isolation_envelope_config (po_envelopes v),
     enc_u32 (po_max_wave_width v), enc_u64 (po_max_session_bytes v), enc_u32 (po_max_sessions v),
     enc_u32 (po_max_attempts_in_flight v), enc_u32 (po_retained_history v),
     enc_bool (po_require_destination_verification v), enc_i64 (po_defer_horizon_ns v),
     enc_i64 (po_default_deadline_ns v), enc_i64 (po_minimum_rate_bps_for_admission v),
     encode_limits (po_limits v)]"

definition decode_policy_snapshot :: "policy_snapshot reader" where
  "decode_policy_snapshot = do {
     generation \<leftarrow> dec_u64;
     envelopes \<leftarrow> dec_list (\<lambda>_. 8) decode_isolation_envelope_config;
     max_wave_width \<leftarrow> dec_u32; max_session_bytes \<leftarrow> dec_u64;
     max_sessions \<leftarrow> dec_u32; max_attempts_in_flight \<leftarrow> dec_u32;
     retained_history \<leftarrow> dec_u32; require_destination_verification \<leftarrow> dec_bool;
     defer_horizon_ns \<leftarrow> dec_i64; default_deadline_ns \<leftarrow> dec_i64;
     minimum_rate_bps_for_admission \<leftarrow> dec_i64; limits \<leftarrow> decode_limits;
     State_Monad.return \<lparr>
       po_generation = generation, po_envelopes = envelopes, po_max_wave_width = max_wave_width,
       po_max_session_bytes = max_session_bytes, po_max_sessions = max_sessions,
       po_max_attempts_in_flight = max_attempts_in_flight, po_retained_history = retained_history,
       po_require_destination_verification = require_destination_verification,
       po_defer_horizon_ns = defer_horizon_ns, po_default_deadline_ns = default_deadline_ns,
       po_minimum_rate_bps_for_admission = minimum_rate_bps_for_admission, po_limits = limits\<rparr>
   }"

definition fits_policy_snapshot :: "limits \<Rightarrow> policy_snapshot \<Rightarrow> bool" where
  "fits_policy_snapshot lim v \<longleftrightarrow>
     length (po_envelopes v) \<le> kMaxCollectionElements \<and> length (po_envelopes v) \<le> 8 \<and>
     wire_nanos (po_defer_horizon_ns v) \<and> wire_nanos (po_default_deadline_ns v) \<and>
     wire_nanos (po_minimum_rate_bps_for_admission v) \<and> fits_limits lim (po_limits v)"

lemma codes_policy_snapshot [codecs]: "codes encode_policy_snapshot decode_policy_snapshot fits_policy_snapshot"
  unfolding encode_policy_snapshot_def [abs_def] decode_policy_snapshot_def
  by (rule codes_record, (rule codecs [THEN spells_field] codecs)+, rule spells_return, simp, rule policy_snapshot.equality)
    (simp_all add: fits_policy_snapshot_def)

definition encode_path_class :: "path_class \<Rightarrow> encoder \<Rightarrow> encoder" where
  "encode_path_class v = enc_all [
     enc_scalar32 (pc_id v), encode_destination_class (pc_destination v), enc_u64 (pc_capacity_bps v),
     enc_bool (pc_synthetic v), enc_str (pc_label v)]"

definition decode_path_class :: "path_class reader" where
  "decode_path_class = do {
     id \<leftarrow> dec_scalar32; destination \<leftarrow> decode_destination_class;
     capacity_bps \<leftarrow> dec_u64; synthetic \<leftarrow> dec_bool; label \<leftarrow> dec_str;
     State_Monad.return \<lparr>
       pc_id = id, pc_destination = destination, pc_capacity_bps = capacity_bps, pc_synthetic = synthetic,
       pc_label = label\<rparr>
   }"

definition fits_path_class :: "limits \<Rightarrow> path_class \<Rightarrow> bool" where
  "fits_path_class lim v \<longleftrightarrow>
     wire_string (pc_label v)"

lemma items_path_class: "items encode_path_class decode_path_class fits_path_class"
  unfolding encode_path_class_def [abs_def] decode_path_class_def
  by (rule items_record, (rule codecs [THEN spells_field] codecs)+, rule spells_return, simp, rule path_class.equality)
    (simp_all add: fits_path_class_def)

lemmas codes_path_class [codecs] = items_path_class [THEN items_codes]

lemma codes_path_class_list [codecs]:
  "codes (enc_list encode_path_class) (dec_list bound decode_path_class) (\<lambda>lim vs. length vs \<le> kMaxCollectionElements \<and> length vs \<le> bound lim \<and> list_all (fits_path_class lim) vs)"
  by (rule items_list [OF items_path_class])

definition encode_topology_snapshot :: "topology_snapshot \<Rightarrow> encoder \<Rightarrow> encoder" where
  "encode_topology_snapshot v = enc_all [
     enc_u64 (to_generation v), enc_list encode_path_class (to_path_classes v)]"

definition decode_topology_snapshot :: "topology_snapshot reader" where
  "decode_topology_snapshot = do {
     generation \<leftarrow> dec_u64;
     path_classes \<leftarrow> dec_list (\<lambda>lim. unat (lim_max_path_classes lim)) decode_path_class;
     State_Monad.return \<lparr>
       to_generation = generation, to_path_classes = path_classes\<rparr>
   }"

definition fits_topology_snapshot :: "limits \<Rightarrow> topology_snapshot \<Rightarrow> bool" where
  "fits_topology_snapshot lim v \<longleftrightarrow>
     length (to_path_classes v) \<le> kMaxCollectionElements \<and> length (to_path_classes v) \<le> unat (lim_max_path_classes lim) \<and> list_all (fits_path_class lim) (to_path_classes v)"

lemma codes_topology_snapshot [codecs]: "codes encode_topology_snapshot decode_topology_snapshot fits_topology_snapshot"
  unfolding encode_topology_snapshot_def [abs_def] decode_topology_snapshot_def
  by (rule codes_record, (rule codecs [THEN spells_field] codecs)+, rule spells_return, simp, rule topology_snapshot.equality)
    (simp_all add: fits_topology_snapshot_def)

definition encode_workload_contract :: "workload_contract \<Rightarrow> encoder \<Rightarrow> encoder" where
  "encode_workload_contract v = enc_all [
     enc_uuid (wc_workload v), enc_u64 (wc_generation v), encode_isolation_class (wc_isolation v),
     enc_u64 (wc_ceiling_bps v), enc_u64 (wc_floor_bps v), enc_u32 (wc_max_in_flight_sessions v),
     enc_u32 (wc_max_shards_per_wave v), enc_bool (wc_allow_supersession v),
     enc_i64 (wc_deadline_budget_ns v)]"

definition decode_workload_contract :: "workload_contract reader" where
  "decode_workload_contract = do {
     workload \<leftarrow> dec_uuid; generation \<leftarrow> dec_u64;
     isolation \<leftarrow> decode_isolation_class; ceiling_bps \<leftarrow> dec_u64;
     floor_bps \<leftarrow> dec_u64; max_in_flight_sessions \<leftarrow> dec_u32;
     max_shards_per_wave \<leftarrow> dec_u32; allow_supersession \<leftarrow> dec_bool;
     deadline_budget_ns \<leftarrow> dec_i64;
     State_Monad.return \<lparr>
       wc_workload = workload, wc_generation = generation, wc_isolation = isolation,
       wc_ceiling_bps = ceiling_bps, wc_floor_bps = floor_bps,
       wc_max_in_flight_sessions = max_in_flight_sessions, wc_max_shards_per_wave = max_shards_per_wave,
       wc_allow_supersession = allow_supersession, wc_deadline_budget_ns = deadline_budget_ns\<rparr>
   }"

definition fits_workload_contract :: "limits \<Rightarrow> workload_contract \<Rightarrow> bool" where
  "fits_workload_contract lim v \<longleftrightarrow>
     wf_uuid (wc_workload v) \<and> wire_nanos (wc_deadline_budget_ns v)"

lemma codes_workload_contract [codecs]: "codes encode_workload_contract decode_workload_contract fits_workload_contract"
  unfolding encode_workload_contract_def [abs_def] decode_workload_contract_def
  by (rule codes_record, (rule codecs [THEN spells_field] codecs)+, rule spells_return, simp, rule workload_contract.equality)
    (simp_all add: fits_workload_contract_def)

definition encode_session_request :: "session_request \<Rightarrow> encoder \<Rightarrow> encoder" where
  "encode_session_request v = enc_all [
     enc_uuid (rq_command v), enc_uuid (rq_workload v), enc_u64 (rq_contract_generation v),
     enc_u64 (rq_policy_generation v), enc_u64 (rq_topology_generation v), enc_uuid (rq_checkpoint v),
     enc_u64 (rq_checkpoint_generation v), encode_isolation_class (rq_requested_isolation v),
     encode_destination_class (rq_destination v), enc_u64 (rq_requested_rate_bps v),
     enc_i64 (rq_deadline_horizon_ns v), encode_checkpoint_manifest (rq_manifest v)]"

definition decode_session_request :: "session_request reader" where
  "decode_session_request = do {
     command \<leftarrow> dec_uuid; workload \<leftarrow> dec_uuid;
     contract_generation \<leftarrow> dec_u64; policy_generation \<leftarrow> dec_u64;
     topology_generation \<leftarrow> dec_u64; checkpoint \<leftarrow> dec_uuid;
     checkpoint_generation \<leftarrow> dec_u64; requested_isolation \<leftarrow> decode_isolation_class;
     destination \<leftarrow> decode_destination_class; requested_rate_bps \<leftarrow> dec_u64;
     deadline_horizon_ns \<leftarrow> dec_i64; manifest \<leftarrow> decode_checkpoint_manifest;
     State_Monad.return \<lparr>
       rq_command = command, rq_workload = workload, rq_contract_generation = contract_generation,
       rq_policy_generation = policy_generation, rq_topology_generation = topology_generation,
       rq_checkpoint = checkpoint, rq_checkpoint_generation = checkpoint_generation,
       rq_requested_isolation = requested_isolation, rq_destination = destination,
       rq_requested_rate_bps = requested_rate_bps, rq_deadline_horizon_ns = deadline_horizon_ns,
       rq_manifest = manifest\<rparr>
   }"

definition fits_session_request :: "limits \<Rightarrow> session_request \<Rightarrow> bool" where
  "fits_session_request lim v \<longleftrightarrow>
     wf_uuid (rq_command v) \<and> wf_uuid (rq_workload v) \<and> wf_uuid (rq_checkpoint v) \<and>
     wire_nanos (rq_deadline_horizon_ns v) \<and> fits_checkpoint_manifest lim (rq_manifest v)"

lemma codes_session_request [codecs]: "codes encode_session_request decode_session_request fits_session_request"
  unfolding encode_session_request_def [abs_def] decode_session_request_def
  by (rule codes_record, (rule codecs [THEN spells_field] codecs)+, rule spells_return, simp, rule session_request.equality)
    (simp_all add: fits_session_request_def)

definition encode_command_fence :: "command_fence \<Rightarrow> encoder \<Rightarrow> encoder" where
  "encode_command_fence v = enc_all [
     encode_coordinator_epoch (cf_epoch v), enc_u64 (cf_policy_generation v),
     enc_u64 (cf_topology_generation v), enc_u64 (cf_contract_generation v),
     enc_option enc_u64 (cf_checkpoint_generation v), enc_option enc_u64 (cf_attempt_sequence v)]"

definition decode_command_fence :: "command_fence reader" where
  "decode_command_fence = do {
     epoch \<leftarrow> decode_coordinator_epoch; policy_generation \<leftarrow> dec_u64;
     topology_generation \<leftarrow> dec_u64; contract_generation \<leftarrow> dec_u64;
     checkpoint_generation \<leftarrow> dec_option dec_u64;
     attempt_sequence \<leftarrow> dec_option dec_u64;
     State_Monad.return \<lparr>
       cf_epoch = epoch, cf_policy_generation = policy_generation,
       cf_topology_generation = topology_generation, cf_contract_generation = contract_generation,
       cf_checkpoint_generation = checkpoint_generation, cf_attempt_sequence = attempt_sequence\<rparr>
   }"

lemma codes_command_fence [codecs]: "codes encode_command_fence decode_command_fence (\<lambda>_ _. True)"
  unfolding encode_command_fence_def [abs_def] decode_command_fence_def
  by (rule codes_record, (rule codecs [THEN spells_field] codecs)+, rule spells_return, simp, rule command_fence.equality)
    simp_all

end
