(* ===== verification/Wire_Outcomes.thy ===== *)
theory Wire_Outcomes
  imports Wire_Codecs Engine_Inspect
begin

text \<open>
  The codecs of envelopes, decisions, grants, evidence, views and accounting, from
  \<^verbatim>\<open>src/wire.cpp\<close>, in the same form. The engine model leaves out the human-readable detail of a
  decision, of a wave outcome and of an event; on the wire it is a field of its own.
\<close>

record decision_message = admission_decision +
  ad_detail :: string

record outcome_message = wave_outcome +
  wo_detail :: string

record event_message = fabric_event +
  fe_detail :: string

lemma codes_scalar32_list [codecs]:
  "codes (enc_list enc_scalar32) (dec_list bound dec_scalar32) (\<lambda>lim vs. length vs \<le> kMaxCollectionElements \<and> length vs \<le> bound lim)"
  using codes_list [OF codes_scalar32, of bound] by (simp add: list_all_iff)

definition encode_wave_plan :: "wave_plan \<Rightarrow> encoder \<Rightarrow> encoder" where
  "encode_wave_plan v = enc_all [
     enc_scalar32 (wp_index v), enc_list enc_scalar32 (wp_shards v), enc_u64 (wp_planned_bytes v)]"

definition decode_wave_plan :: "wave_plan reader" where
  "decode_wave_plan = do {
     index \<leftarrow> dec_scalar32;
     shards \<leftarrow> dec_list (\<lambda>lim. unat (lim_max_shards_per_checkpoint lim)) dec_scalar32;
     planned_bytes \<leftarrow> dec_u64;
     State_Monad.return \<lparr>
       wp_index = index, wp_shards = shards, wp_planned_bytes = planned_bytes\<rparr>
   }"

definition fits_wave_plan :: "limits \<Rightarrow> wave_plan \<Rightarrow> bool" where
  "fits_wave_plan lim v \<longleftrightarrow>
     length (wp_shards v) \<le> kMaxCollectionElements \<and> length (wp_shards v) \<le> unat (lim_max_shards_per_checkpoint lim)"

lemma items_wave_plan: "items encode_wave_plan decode_wave_plan fits_wave_plan"
  unfolding encode_wave_plan_def [abs_def] decode_wave_plan_def
  by (rule items_record, (rule codecs [THEN spells_field] codecs)+, rule spells_return, simp, rule wave_plan.equality)
    (simp_all add: fits_wave_plan_def)

lemmas codes_wave_plan [codecs] = items_wave_plan [THEN items_codes]

lemma codes_wave_plan_list [codecs]:
  "codes (enc_list encode_wave_plan) (dec_list bound decode_wave_plan) (\<lambda>lim vs. length vs \<le> kMaxCollectionElements \<and> length vs \<le> bound lim \<and> list_all (fits_wave_plan lim) vs)"
  by (rule items_list [OF items_wave_plan])

definition encode_traffic_envelope :: "traffic_envelope \<Rightarrow> encoder \<Rightarrow> encoder" where
  "encode_traffic_envelope v = enc_all [
     enc_uuid (te_session v), enc_u64 (te_sequence v), encode_isolation_class (te_isolation v),
     enc_u64 (te_rate_bps v), enc_u64 (te_burst_bytes v), enc_u32 (te_wave_width v),
     enc_list encode_wave_plan (te_waves v), enc_option enc_scalar32 (te_path_class v),
     enc_i64 (te_issued_at v), enc_i64 (te_deadline_target v)]"

definition decode_traffic_envelope :: "traffic_envelope reader" where
  "decode_traffic_envelope = do {
     session \<leftarrow> dec_uuid; sequence \<leftarrow> dec_u64;
     isolation \<leftarrow> decode_isolation_class; rate_bps \<leftarrow> dec_u64;
     burst_bytes \<leftarrow> dec_u64; wave_width \<leftarrow> dec_u32;
     waves \<leftarrow> dec_list (\<lambda>lim. unat (lim_max_shards_per_checkpoint lim)) decode_wave_plan;
     path_class \<leftarrow> dec_option dec_scalar32; issued_at \<leftarrow> dec_i64;
     deadline_target \<leftarrow> dec_i64;
     State_Monad.return \<lparr>
       te_session = session, te_sequence = sequence, te_isolation = isolation, te_rate_bps = rate_bps,
       te_burst_bytes = burst_bytes, te_wave_width = wave_width, te_waves = waves,
       te_path_class = path_class, te_issued_at = issued_at, te_deadline_target = deadline_target\<rparr>
   }"

definition fits_traffic_envelope :: "limits \<Rightarrow> traffic_envelope \<Rightarrow> bool" where
  "fits_traffic_envelope lim v \<longleftrightarrow>
     wf_uuid (te_session v) \<and>
     length (te_waves v) \<le> kMaxCollectionElements \<and> length (te_waves v) \<le> unat (lim_max_shards_per_checkpoint lim) \<and> list_all (fits_wave_plan lim) (te_waves v) \<and>
     wire_nanos (te_issued_at v) \<and> wire_nanos (te_deadline_target v)"

lemma codes_traffic_envelope [codecs]: "codes encode_traffic_envelope decode_traffic_envelope fits_traffic_envelope"
  unfolding encode_traffic_envelope_def [abs_def] decode_traffic_envelope_def
  by (rule codes_record, (rule codecs [THEN spells_field] codecs)+, rule spells_return, simp, rule traffic_envelope.equality)
    (simp_all add: fits_traffic_envelope_def)

lemma codes_uuid_list [codecs]:
  "codes (enc_list enc_uuid) (dec_list bound dec_uuid) (\<lambda>lim vs. length vs \<le> kMaxCollectionElements \<and> length vs \<le> bound lim \<and> list_all wf_uuid vs)"
  by (rule codes_list [OF codes_uuid]) simp

definition encode_decision :: "decision_message \<Rightarrow> encoder \<Rightarrow> encoder" where
  "encode_decision v = enc_all [
     encode_decision_kind (ad_kind v), encode_reason_code (ad_reason v), enc_str (ad_detail v),
     enc_uuid (ad_session v), enc_option encode_traffic_envelope (ad_envelope v),
     enc_list enc_uuid (ad_superseded v), enc_option enc_i64 (ad_retry_after v),
     encode_coordinator_epoch (ad_epoch v), enc_i64 (ad_decided_at v)]"

definition decode_decision :: "decision_message reader" where
  "decode_decision = do {
     kind \<leftarrow> decode_decision_kind; reason \<leftarrow> decode_reason_code;
     detail \<leftarrow> dec_str; session \<leftarrow> dec_uuid;
     envelope \<leftarrow> dec_option decode_traffic_envelope;
     superseded \<leftarrow> dec_list (\<lambda>lim. unat (lim_max_supersession_chain lim * 8)) dec_uuid;
     retry_after \<leftarrow> dec_option dec_i64; epoch \<leftarrow> decode_coordinator_epoch;
     decided_at \<leftarrow> dec_i64;
     State_Monad.return \<lparr>
       ad_kind = kind, ad_reason = reason, ad_session = session, ad_envelope = envelope,
       ad_superseded = superseded, ad_retry_after = retry_after, ad_epoch = epoch,
       ad_decided_at = decided_at, ad_detail = detail\<rparr>
   }"

definition fits_decision :: "limits \<Rightarrow> decision_message \<Rightarrow> bool" where
  "fits_decision lim v \<longleftrightarrow>
     wire_string (ad_detail v) \<and> wf_uuid (ad_session v) \<and>
     (\<forall>x. ad_envelope v = Some x \<longrightarrow> fits_traffic_envelope lim x) \<and>
     length (ad_superseded v) \<le> kMaxCollectionElements \<and> length (ad_superseded v) \<le> unat (lim_max_supersession_chain lim * 8) \<and> list_all wf_uuid (ad_superseded v) \<and>
     (\<forall>x. ad_retry_after v = Some x \<longrightarrow> wire_nanos x) \<and>
     wire_nanos (ad_decided_at v)"

lemma codes_decision [codecs]: "codes encode_decision decode_decision fits_decision"
  unfolding encode_decision_def [abs_def] decode_decision_def
  by (rule codes_record, (rule codecs [THEN spells_field] codecs)+, rule spells_return, simp, rule decision_message.equality)
    (simp_all add: fits_decision_def)

definition encode_wave_grant :: "wave_grant \<Rightarrow> encoder \<Rightarrow> encoder" where
  "encode_wave_grant v = enc_all [
     enc_uuid (wg_session v), enc_uuid (wg_attempt v), enc_u64 (wg_sequence v), enc_scalar32 (wg_shard v),
     enc_scalar32 (wg_wave v), enc_u64 (wg_max_bytes v), enc_u64 (wg_rate_bps v),
     enc_u64 (wg_burst_bytes v), enc_i64 (wg_issued_at v), enc_i64 (wg_expires_at v),
     encode_coordinator_epoch (wg_epoch v)]"

definition decode_wave_grant :: "wave_grant reader" where
  "decode_wave_grant = do {
     session \<leftarrow> dec_uuid; attempt \<leftarrow> dec_uuid; sequence \<leftarrow> dec_u64;
     shard \<leftarrow> dec_scalar32; wave \<leftarrow> dec_scalar32; max_bytes \<leftarrow> dec_u64;
     rate_bps \<leftarrow> dec_u64; burst_bytes \<leftarrow> dec_u64; issued_at \<leftarrow> dec_i64;
     expires_at \<leftarrow> dec_i64; epoch \<leftarrow> decode_coordinator_epoch;
     State_Monad.return \<lparr>
       wg_session = session, wg_attempt = attempt, wg_sequence = sequence, wg_shard = shard,
       wg_wave = wave, wg_max_bytes = max_bytes, wg_rate_bps = rate_bps, wg_burst_bytes = burst_bytes,
       wg_issued_at = issued_at, wg_expires_at = expires_at, wg_epoch = epoch\<rparr>
   }"

definition fits_wave_grant :: "limits \<Rightarrow> wave_grant \<Rightarrow> bool" where
  "fits_wave_grant lim v \<longleftrightarrow>
     wf_uuid (wg_session v) \<and> wf_uuid (wg_attempt v) \<and> wire_nanos (wg_issued_at v) \<and>
     wire_nanos (wg_expires_at v)"

lemma codes_wave_grant [codecs]: "codes encode_wave_grant decode_wave_grant fits_wave_grant"
  unfolding encode_wave_grant_def [abs_def] decode_wave_grant_def
  by (rule codes_record, (rule codecs [THEN spells_field] codecs)+, rule spells_return, simp, rule wave_grant.equality)
    (simp_all add: fits_wave_grant_def)

definition encode_wave_outcome :: "outcome_message \<Rightarrow> encoder \<Rightarrow> encoder" where
  "encode_wave_outcome v = enc_all [
     enc_bool (wo_granted v), encode_reason_code (wo_reason v), enc_str (wo_detail v),
     enc_option encode_wave_grant (wo_grant v), enc_option enc_i64 (wo_retry_after v),
     enc_i64 (wo_decided_at v)]"

definition decode_wave_outcome :: "outcome_message reader" where
  "decode_wave_outcome = do {
     granted \<leftarrow> dec_bool; reason \<leftarrow> decode_reason_code; detail \<leftarrow> dec_str;
     grant \<leftarrow> dec_option decode_wave_grant; retry_after \<leftarrow> dec_option dec_i64;
     decided_at \<leftarrow> dec_i64;
     State_Monad.return \<lparr>
       wo_granted = granted, wo_reason = reason, wo_grant = grant, wo_retry_after = retry_after,
       wo_decided_at = decided_at, wo_detail = detail\<rparr>
   }"

definition fits_wave_outcome :: "limits \<Rightarrow> outcome_message \<Rightarrow> bool" where
  "fits_wave_outcome lim v \<longleftrightarrow>
     wire_string (wo_detail v) \<and>
     (\<forall>x. wo_grant v = Some x \<longrightarrow> fits_wave_grant lim x) \<and>
     (\<forall>x. wo_retry_after v = Some x \<longrightarrow> wire_nanos x) \<and>
     wire_nanos (wo_decided_at v)"

lemma codes_wave_outcome [codecs]: "codes encode_wave_outcome decode_wave_outcome fits_wave_outcome"
  unfolding encode_wave_outcome_def [abs_def] decode_wave_outcome_def
  by (rule codes_record, (rule codecs [THEN spells_field] codecs)+, rule spells_return, simp, rule outcome_message.equality)
    (simp_all add: fits_wave_outcome_def)

definition encode_source_complete :: "source_complete_evidence \<Rightarrow> encoder \<Rightarrow> encoder" where
  "encode_source_complete v = enc_all [
     enc_uuid (sc_session v), enc_uuid (sc_attempt v), enc_u64 (sc_sequence v), enc_scalar32 (sc_wave v),
     enc_scalar32 (sc_shard v), enc_u64 (sc_source_bytes v), encode_digest (sc_source_digest v),
     enc_i64 (sc_observed_at v)]"

definition decode_source_complete :: "source_complete_evidence reader" where
  "decode_source_complete = do {
     session \<leftarrow> dec_uuid; attempt \<leftarrow> dec_uuid; sequence \<leftarrow> dec_u64;
     wave \<leftarrow> dec_scalar32; shard \<leftarrow> dec_scalar32; source_bytes \<leftarrow> dec_u64;
     source_digest \<leftarrow> decode_digest; observed_at \<leftarrow> dec_i64;
     State_Monad.return \<lparr>
       sc_session = session, sc_attempt = attempt, sc_sequence = sequence, sc_wave = wave,
       sc_shard = shard, sc_source_bytes = source_bytes, sc_source_digest = source_digest,
       sc_observed_at = observed_at\<rparr>
   }"

definition fits_source_complete :: "limits \<Rightarrow> source_complete_evidence \<Rightarrow> bool" where
  "fits_source_complete lim v \<longleftrightarrow>
     wf_uuid (sc_session v) \<and> wf_uuid (sc_attempt v) \<and> wire_nanos (sc_observed_at v)"

lemma codes_source_complete [codecs]: "codes encode_source_complete decode_source_complete fits_source_complete"
  unfolding encode_source_complete_def [abs_def] decode_source_complete_def
  by (rule codes_record, (rule codecs [THEN spells_field] codecs)+, rule spells_return, simp, rule source_complete_evidence.equality)
    (simp_all add: fits_source_complete_def)

definition encode_transfer_evidence :: "transfer_evidence \<Rightarrow> encoder \<Rightarrow> encoder" where
  "encode_transfer_evidence v = enc_all [
     enc_uuid (tr_session v), enc_uuid (tr_attempt v), enc_u64 (tr_sequence v), enc_scalar32 (tr_shard v),
     enc_u64 (tr_arrived_bytes v), encode_digest (tr_arrived_digest v), enc_bool (tr_sink_acknowledged v),
     enc_i64 (tr_observed_at v)]"

definition decode_transfer_evidence :: "transfer_evidence reader" where
  "decode_transfer_evidence = do {
     session \<leftarrow> dec_uuid; attempt \<leftarrow> dec_uuid; sequence \<leftarrow> dec_u64;
     shard \<leftarrow> dec_scalar32; arrived_bytes \<leftarrow> dec_u64;
     arrived_digest \<leftarrow> decode_digest; sink_acknowledged \<leftarrow> dec_bool;
     observed_at \<leftarrow> dec_i64;
     State_Monad.return \<lparr>
       tr_session = session, tr_attempt = attempt, tr_sequence = sequence, tr_shard = shard,
       tr_arrived_bytes = arrived_bytes, tr_arrived_digest = arrived_digest,
       tr_sink_acknowledged = sink_acknowledged, tr_observed_at = observed_at\<rparr>
   }"

definition fits_transfer_evidence :: "limits \<Rightarrow> transfer_evidence \<Rightarrow> bool" where
  "fits_transfer_evidence lim v \<longleftrightarrow>
     wf_uuid (tr_session v) \<and> wf_uuid (tr_attempt v) \<and> wire_nanos (tr_observed_at v)"

lemma codes_transfer_evidence [codecs]: "codes encode_transfer_evidence decode_transfer_evidence fits_transfer_evidence"
  unfolding encode_transfer_evidence_def [abs_def] decode_transfer_evidence_def
  by (rule codes_record, (rule codecs [THEN spells_field] codecs)+, rule spells_return, simp, rule transfer_evidence.equality)
    (simp_all add: fits_transfer_evidence_def)

definition encode_verification_evidence :: "verification_evidence \<Rightarrow> encoder \<Rightarrow> encoder" where
  "encode_verification_evidence v = enc_all [
     enc_uuid (vf_session v), enc_uuid (vf_attempt v), enc_u64 (vf_sequence v), enc_scalar32 (vf_shard v),
     enc_u64 (vf_verified_bytes v), encode_digest (vf_verified_digest v),
     encode_verification_outcome (vf_outcome v), enc_str (vf_verifier_identity v),
     enc_i64 (vf_observed_at v)]"

definition decode_verification_evidence :: "verification_evidence reader" where
  "decode_verification_evidence = do {
     session \<leftarrow> dec_uuid; attempt \<leftarrow> dec_uuid; sequence \<leftarrow> dec_u64;
     shard \<leftarrow> dec_scalar32; verified_bytes \<leftarrow> dec_u64;
     verified_digest \<leftarrow> decode_digest; outcome \<leftarrow> decode_verification_outcome;
     verifier_identity \<leftarrow> dec_str; observed_at \<leftarrow> dec_i64;
     State_Monad.return \<lparr>
       vf_session = session, vf_attempt = attempt, vf_sequence = sequence, vf_shard = shard,
       vf_verified_bytes = verified_bytes, vf_verified_digest = verified_digest, vf_outcome = outcome,
       vf_verifier_identity = verifier_identity, vf_observed_at = observed_at\<rparr>
   }"

definition fits_verification_evidence :: "limits \<Rightarrow> verification_evidence \<Rightarrow> bool" where
  "fits_verification_evidence lim v \<longleftrightarrow>
     wf_uuid (vf_session v) \<and> wf_uuid (vf_attempt v) \<and>
     wire_string (vf_verifier_identity v) \<and> wire_nanos (vf_observed_at v)"

lemma codes_verification_evidence [codecs]: "codes encode_verification_evidence decode_verification_evidence fits_verification_evidence"
  unfolding encode_verification_evidence_def [abs_def] decode_verification_evidence_def
  by (rule codes_record, (rule codecs [THEN spells_field] codecs)+, rule spells_return, simp, rule verification_evidence.equality)
    (simp_all add: fits_verification_evidence_def)

definition encode_durability_assertion :: "durability_assertion \<Rightarrow> encoder \<Rightarrow> encoder" where
  "encode_durability_assertion v = enc_all [
     encode_durability_status (da_status v), enc_str (da_backend_identity v),
     encode_digest (da_evidence_digest v), enc_i64 (da_observed_at v)]"

definition decode_durability_assertion :: "durability_assertion reader" where
  "decode_durability_assertion = do {
     status \<leftarrow> decode_durability_status; backend_identity \<leftarrow> dec_str;
     evidence_digest \<leftarrow> decode_digest; observed_at \<leftarrow> dec_i64;
     State_Monad.return \<lparr>
       da_status = status, da_backend_identity = backend_identity, da_evidence_digest = evidence_digest,
       da_observed_at = observed_at\<rparr>
   }"

definition fits_durability_assertion :: "limits \<Rightarrow> durability_assertion \<Rightarrow> bool" where
  "fits_durability_assertion lim v \<longleftrightarrow>
     wire_string (da_backend_identity v) \<and> wire_nanos (da_observed_at v)"

lemma codes_durability_assertion [codecs]: "codes encode_durability_assertion decode_durability_assertion fits_durability_assertion"
  unfolding encode_durability_assertion_def [abs_def] decode_durability_assertion_def
  by (rule codes_record, (rule codecs [THEN spells_field] codecs)+, rule spells_return, simp, rule durability_assertion.equality)
    (simp_all add: fits_durability_assertion_def)

definition encode_shard_progress :: "shard_progress \<Rightarrow> encoder \<Rightarrow> encoder" where
  "encode_shard_progress v = enc_all [
     enc_scalar32 (sg_index v), encode_shard_state (sg_state v), enc_u64 (sg_declared_bytes v),
     enc_u64 (sg_transferred_bytes v), enc_u64 (sg_verified_bytes v), enc_u64 (sg_sequence v),
     enc_option enc_uuid (sg_attempt v), encode_digest (sg_declared_digest v),
     enc_option encode_digest (sg_observed_digest v)]"

definition decode_shard_progress :: "shard_progress reader" where
  "decode_shard_progress = do {
     index \<leftarrow> dec_scalar32; state \<leftarrow> decode_shard_state;
     declared_bytes \<leftarrow> dec_u64; transferred_bytes \<leftarrow> dec_u64;
     verified_bytes \<leftarrow> dec_u64; sequence \<leftarrow> dec_u64;
     attempt \<leftarrow> dec_option dec_uuid; declared_digest \<leftarrow> decode_digest;
     observed_digest \<leftarrow> dec_option decode_digest;
     State_Monad.return \<lparr>
       sg_index = index, sg_state = state, sg_declared_bytes = declared_bytes,
       sg_transferred_bytes = transferred_bytes, sg_verified_bytes = verified_bytes,
       sg_sequence = sequence, sg_attempt = attempt, sg_declared_digest = declared_digest,
       sg_observed_digest = observed_digest\<rparr>
   }"

definition fits_shard_progress :: "limits \<Rightarrow> shard_progress \<Rightarrow> bool" where
  "fits_shard_progress lim v \<longleftrightarrow>
     (\<forall>x. sg_attempt v = Some x \<longrightarrow> wf_uuid x)"

lemma items_shard_progress: "items encode_shard_progress decode_shard_progress fits_shard_progress"
  unfolding encode_shard_progress_def [abs_def] decode_shard_progress_def
  by (rule items_record, (rule codecs [THEN spells_field] codecs)+, rule spells_return, simp, rule shard_progress.equality)
    (simp_all add: fits_shard_progress_def)

lemmas codes_shard_progress [codecs] = items_shard_progress [THEN items_codes]

lemma codes_shard_progress_list [codecs]:
  "codes (enc_list encode_shard_progress) (dec_list bound decode_shard_progress) (\<lambda>lim vs. length vs \<le> kMaxCollectionElements \<and> length vs \<le> bound lim \<and> list_all (fits_shard_progress lim) vs)"
  by (rule items_list [OF items_shard_progress])

definition encode_session_view :: "session_view \<Rightarrow> encoder \<Rightarrow> encoder" where
  "encode_session_view v = enc_all [
     enc_uuid (vw_session v), enc_uuid (vw_checkpoint v), enc_u64 (vw_checkpoint_generation v),
     enc_uuid (vw_workload v), enc_u64 (vw_contract_generation v), encode_isolation_class (vw_isolation v),
     encode_destination_class (vw_destination v), encode_session_state (vw_state v),
     encode_evidence_level (vw_evidence v), encode_durability_status (vw_durability v),
     enc_u64 (vw_declared_bytes v), enc_u64 (vw_transferred_bytes v), enc_u64 (vw_verified_bytes v),
     enc_count (vw_shards_total v), enc_count (vw_shards_transferred v), enc_count (vw_shards_verified v),
     enc_count (vw_shards_ambiguous v), enc_option encode_reason_code (vw_last_reason v),
     enc_str (vw_last_detail v), enc_str (vw_stale_reason v), enc_option enc_uuid (vw_superseded_by v),
     enc_option encode_traffic_envelope (vw_envelope v), enc_list encode_shard_progress (vw_shards v),
     enc_i64 (vw_created_at v), enc_i64 (vw_updated_at v), enc_option enc_i64 (vw_deadline_target v)]"

definition decode_session_view :: "session_view reader" where
  "decode_session_view = do {
     session \<leftarrow> dec_uuid; checkpoint \<leftarrow> dec_uuid;
     checkpoint_generation \<leftarrow> dec_u64; workload \<leftarrow> dec_uuid;
     contract_generation \<leftarrow> dec_u64; isolation \<leftarrow> decode_isolation_class;
     destination \<leftarrow> decode_destination_class; state \<leftarrow> decode_session_state;
     evidence \<leftarrow> decode_evidence_level; durability \<leftarrow> decode_durability_status;
     declared_bytes \<leftarrow> dec_u64; transferred_bytes \<leftarrow> dec_u64;
     verified_bytes \<leftarrow> dec_u64; shards_total \<leftarrow> dec_count;
     shards_transferred \<leftarrow> dec_count; shards_verified \<leftarrow> dec_count;
     shards_ambiguous \<leftarrow> dec_count; last_reason \<leftarrow> dec_option decode_reason_code;
     last_detail \<leftarrow> dec_str; stale_reason \<leftarrow> dec_str;
     superseded_by \<leftarrow> dec_option dec_uuid;
     envelope \<leftarrow> dec_option decode_traffic_envelope;
     shards \<leftarrow> dec_list (\<lambda>lim. unat (lim_max_shards_per_checkpoint lim)) decode_shard_progress;
     created_at \<leftarrow> dec_i64; updated_at \<leftarrow> dec_i64;
     deadline_target \<leftarrow> dec_option dec_i64;
     State_Monad.return \<lparr>
       vw_session = session, vw_checkpoint = checkpoint, vw_checkpoint_generation = checkpoint_generation,
       vw_workload = workload, vw_contract_generation = contract_generation, vw_isolation = isolation,
       vw_destination = destination, vw_state = state, vw_evidence = evidence, vw_durability = durability,
       vw_declared_bytes = declared_bytes, vw_transferred_bytes = transferred_bytes,
       vw_verified_bytes = verified_bytes, vw_shards_total = shards_total,
       vw_shards_transferred = shards_transferred, vw_shards_verified = shards_verified,
       vw_shards_ambiguous = shards_ambiguous, vw_last_reason = last_reason, vw_last_detail = last_detail,
       vw_stale_reason = stale_reason, vw_superseded_by = superseded_by, vw_envelope = envelope,
       vw_shards = shards, vw_created_at = created_at, vw_updated_at = updated_at,
       vw_deadline_target = deadline_target\<rparr>
   }"

definition fits_session_view :: "limits \<Rightarrow> session_view \<Rightarrow> bool" where
  "fits_session_view lim v \<longleftrightarrow>
     wf_uuid (vw_session v) \<and> wf_uuid (vw_checkpoint v) \<and> wf_uuid (vw_workload v) \<and>
     (vw_shards_total v) < 2 ^ 32 \<and> (vw_shards_transferred v) < 2 ^ 32 \<and>
     (vw_shards_verified v) < 2 ^ 32 \<and> (vw_shards_ambiguous v) < 2 ^ 32 \<and>
     wire_string (vw_last_detail v) \<and> wire_string (vw_stale_reason v) \<and>
     (\<forall>x. vw_superseded_by v = Some x \<longrightarrow> wf_uuid x) \<and>
     (\<forall>x. vw_envelope v = Some x \<longrightarrow> fits_traffic_envelope lim x) \<and>
     length (vw_shards v) \<le> kMaxCollectionElements \<and> length (vw_shards v) \<le> unat (lim_max_shards_per_checkpoint lim) \<and> list_all (fits_shard_progress lim) (vw_shards v) \<and>
     wire_nanos (vw_created_at v) \<and> wire_nanos (vw_updated_at v) \<and>
     (\<forall>x. vw_deadline_target v = Some x \<longrightarrow> wire_nanos x)"

lemma codes_session_view [codecs]: "codes encode_session_view decode_session_view fits_session_view"
  unfolding encode_session_view_def [abs_def] decode_session_view_def
  by (rule codes_record, (rule codecs [THEN spells_field] codecs)+, rule spells_return, simp, rule session_view.equality)
    (simp_all add: fits_session_view_def)

definition encode_session_summary :: "session_summary \<Rightarrow> encoder \<Rightarrow> encoder" where
  "encode_session_summary v = enc_all [
     enc_uuid (su_session v), enc_uuid (su_checkpoint v), enc_u64 (su_checkpoint_generation v),
     enc_uuid (su_workload v), encode_session_state (su_state v), encode_evidence_level (su_evidence v),
     enc_u64 (su_declared_bytes v), enc_u64 (su_transferred_bytes v), enc_u64 (su_verified_bytes v),
     enc_i64 (su_updated_at v)]"

definition decode_session_summary :: "session_summary reader" where
  "decode_session_summary = do {
     session \<leftarrow> dec_uuid; checkpoint \<leftarrow> dec_uuid;
     checkpoint_generation \<leftarrow> dec_u64; workload \<leftarrow> dec_uuid;
     state \<leftarrow> decode_session_state; evidence \<leftarrow> decode_evidence_level;
     declared_bytes \<leftarrow> dec_u64; transferred_bytes \<leftarrow> dec_u64;
     verified_bytes \<leftarrow> dec_u64; updated_at \<leftarrow> dec_i64;
     State_Monad.return \<lparr>
       su_session = session, su_checkpoint = checkpoint, su_checkpoint_generation = checkpoint_generation,
       su_workload = workload, su_state = state, su_evidence = evidence,
       su_declared_bytes = declared_bytes, su_transferred_bytes = transferred_bytes,
       su_verified_bytes = verified_bytes, su_updated_at = updated_at\<rparr>
   }"

definition fits_session_summary :: "limits \<Rightarrow> session_summary \<Rightarrow> bool" where
  "fits_session_summary lim v \<longleftrightarrow>
     wf_uuid (su_session v) \<and> wf_uuid (su_checkpoint v) \<and> wf_uuid (su_workload v) \<and>
     wire_nanos (su_updated_at v)"

lemma items_session_summary: "items encode_session_summary decode_session_summary fits_session_summary"
  unfolding encode_session_summary_def [abs_def] decode_session_summary_def
  by (rule items_record, (rule codecs [THEN spells_field] codecs)+, rule spells_return, simp, rule session_summary.equality)
    (simp_all add: fits_session_summary_def)

lemmas codes_session_summary [codecs] = items_session_summary [THEN items_codes]

definition encode_accounting_snapshot :: "accounting_snapshot \<Rightarrow> encoder \<Rightarrow> encoder" where
  "encode_accounting_snapshot v = enc_all [
     enc_u64 (ac_bytes_admitted v), enc_u64 (ac_bytes_transferred v), enc_u64 (ac_bytes_verified v),
     enc_u64 (ac_bytes_cancelled v), enc_u64 (ac_bytes_wasted v), enc_u64 (ac_bytes_unproven v),
     enc_u64 (ac_bytes_deferred v), enc_u64 (ac_granted_outstanding_bytes v),
     enc_u64 (ac_sessions_admitted v), enc_u64 (ac_sessions_deferred v), enc_u64 (ac_sessions_denied v),
     enc_u64 (ac_sessions_completed v), enc_u64 (ac_sessions_cancelled v),
     enc_u64 (ac_sessions_superseded v), enc_u64 (ac_sessions_failed v), enc_u64 (ac_commands_processed v),
     enc_u32 (ac_active_sessions v), enc_u32 (ac_active_attempts v)]"

definition decode_accounting_snapshot :: "accounting_snapshot reader" where
  "decode_accounting_snapshot = do {
     bytes_admitted \<leftarrow> dec_u64; bytes_transferred \<leftarrow> dec_u64;
     bytes_verified \<leftarrow> dec_u64; bytes_cancelled \<leftarrow> dec_u64;
     bytes_wasted \<leftarrow> dec_u64; bytes_unproven \<leftarrow> dec_u64;
     bytes_deferred \<leftarrow> dec_u64; granted_outstanding_bytes \<leftarrow> dec_u64;
     sessions_admitted \<leftarrow> dec_u64; sessions_deferred \<leftarrow> dec_u64;
     sessions_denied \<leftarrow> dec_u64; sessions_completed \<leftarrow> dec_u64;
     sessions_cancelled \<leftarrow> dec_u64; sessions_superseded \<leftarrow> dec_u64;
     sessions_failed \<leftarrow> dec_u64; commands_processed \<leftarrow> dec_u64;
     active_sessions \<leftarrow> dec_u32; active_attempts \<leftarrow> dec_u32;
     State_Monad.return \<lparr>
       ac_bytes_admitted = bytes_admitted, ac_bytes_transferred = bytes_transferred,
       ac_bytes_verified = bytes_verified, ac_bytes_cancelled = bytes_cancelled,
       ac_bytes_wasted = bytes_wasted, ac_bytes_unproven = bytes_unproven,
       ac_bytes_deferred = bytes_deferred, ac_granted_outstanding_bytes = granted_outstanding_bytes,
       ac_sessions_admitted = sessions_admitted, ac_sessions_deferred = sessions_deferred,
       ac_sessions_denied = sessions_denied, ac_sessions_completed = sessions_completed,
       ac_sessions_cancelled = sessions_cancelled, ac_sessions_superseded = sessions_superseded,
       ac_sessions_failed = sessions_failed, ac_commands_processed = commands_processed,
       ac_active_sessions = active_sessions, ac_active_attempts = active_attempts\<rparr>
   }"

lemma codes_accounting_snapshot [codecs]: "codes encode_accounting_snapshot decode_accounting_snapshot (\<lambda>_ _. True)"
  unfolding encode_accounting_snapshot_def [abs_def] decode_accounting_snapshot_def
  by (rule codes_record, (rule codecs [THEN spells_field] codecs)+, rule spells_return, simp, rule accounting_snapshot.equality)
    simp_all

lemma codes_str_list [codecs]:
  "codes (enc_list enc_str) (dec_list bound dec_str) (\<lambda>lim vs. length vs \<le> kMaxCollectionElements \<and> length vs \<le> bound lim \<and> list_all wire_string vs)"
  by (rule codes_list [OF codes_str]) simp

definition encode_explanation :: "explanation \<Rightarrow> encoder \<Rightarrow> encoder" where
  "encode_explanation v = enc_all [
     enc_uuid (xp_session v), enc_str (xp_summary v), enc_list enc_str (xp_timeline v)]"

definition decode_explanation :: "explanation reader" where
  "decode_explanation = do {
     session \<leftarrow> dec_uuid; summary \<leftarrow> dec_str;
     timeline \<leftarrow> dec_list (\<lambda>_. 4096) dec_str;
     State_Monad.return \<lparr>
       xp_session = session, xp_summary = summary, xp_timeline = timeline\<rparr>
   }"

definition fits_explanation :: "limits \<Rightarrow> explanation \<Rightarrow> bool" where
  "fits_explanation lim v \<longleftrightarrow>
     wf_uuid (xp_session v) \<and> wire_string (xp_summary v) \<and>
     length (xp_timeline v) \<le> kMaxCollectionElements \<and> length (xp_timeline v) \<le> 4096 \<and> list_all wire_string (xp_timeline v)"

lemma codes_explanation [codecs]: "codes encode_explanation decode_explanation fits_explanation"
  unfolding encode_explanation_def [abs_def] decode_explanation_def
  by (rule codes_record, (rule codecs [THEN spells_field] codecs)+, rule spells_return, simp, rule explanation.equality)
    (simp_all add: fits_explanation_def)

definition encode_fabric_event :: "event_message \<Rightarrow> encoder \<Rightarrow> encoder" where
  "encode_fabric_event v = enc_all [
     encode_event_kind (fe_kind v), enc_uuid (fe_session v), encode_reason_code (fe_reason v),
     enc_str (fe_detail v), enc_i64 (fe_at v)]"

definition decode_fabric_event :: "event_message reader" where
  "decode_fabric_event = do {
     kind \<leftarrow> decode_event_kind; session \<leftarrow> dec_uuid;
     reason \<leftarrow> decode_reason_code; detail \<leftarrow> dec_str; at \<leftarrow> dec_i64;
     State_Monad.return \<lparr>
       fe_kind = kind, fe_session = session, fe_reason = reason, fe_at = at, fe_detail = detail\<rparr>
   }"

definition fits_fabric_event :: "limits \<Rightarrow> event_message \<Rightarrow> bool" where
  "fits_fabric_event lim v \<longleftrightarrow>
     wf_uuid (fe_session v) \<and> wire_string (fe_detail v) \<and> wire_nanos (fe_at v)"

lemma codes_fabric_event [codecs]: "codes encode_fabric_event decode_fabric_event fits_fabric_event"
  unfolding encode_fabric_event_def [abs_def] decode_fabric_event_def
  by (rule codes_record, (rule codecs [THEN spells_field] codecs)+, rule spells_return, simp, rule event_message.equality)
    (simp_all add: fits_fabric_event_def)

end
