(* ===== verification/Protocol_Messages.thy ===== *)
theory Protocol_Messages
  imports Wire_Outcomes Engine_Snapshot
begin

text \<open>
  The message payloads of \<^verbatim>\<open>include/ctf/protocol.hpp\<close> and their codecs in
  \<^verbatim>\<open>src/protocol.cpp\<close>, in the same form as the domain codecs. Each payload the protocol carries
  instantiates the interface of a message codec.
\<close>

section \<open>Payloads\<close>

datatype client_kind = CK_Sender | CK_Sink | CK_Operator | CK_Observer

record shard_begin =
  sb_session :: session_id
  sb_attempt :: attempt_id
  sb_sequence :: attempt_sequence
  sb_checkpoint :: checkpoint_id
  sb_checkpoint_generation :: generation
  sb_workload :: workload_id
  sb_shard :: shard_index
  sb_declared_bytes :: u64
  sb_declared_digest :: digest

record shard_data =
  dt_attempt :: attempt_id
  dt_sequence :: attempt_sequence
  dt_offset :: u64
  dt_data :: bytes

record shard_end =
  ed_bytes_sent :: u64
  ed_sent_digest :: digest
  ed_truncated :: bool

record shard_ack =
  ak_bytes_received :: u64
  ak_verified :: bool
  ak_truncated :: bool
  ak_received_digest :: digest
  ak_detail :: string

record hello_request =
  hq_kind :: client_kind
  hq_identity :: string

record hello_response =
  hr_epoch :: coordinator_epoch
  hr_policy_generation :: generation
  hr_topology_generation :: generation
  hr_contracts :: "contract_generation_record list"
  hr_limits :: limits
  hr_server_label :: string

record submit_request =
  sq_request :: session_request
  sq_fence :: command_fence

record session_query =
  qs_session :: session_id

record sessions_query =
  ql_has_workload :: bool
  ql_workload :: workload_id
  ql_limit :: u32

record cancel_request =
  cn_session :: session_id
  cn_fence :: command_fence
  cn_reason :: reason_code
  cn_detail :: string

record pause_request =
  pz_session :: session_id
  pz_fence :: command_fence
  pz_reason :: string

record resume_request =
  rs_session :: session_id
  rs_fence :: command_fence

record revalidate_request =
  rv_session :: session_id
  rv_fence :: command_fence

record wave_request =
  wq_session :: session_id
  wq_shard :: shard_index
  wq_fence :: command_fence

record ambiguity_request =
  aq_session :: session_id
  aq_attempt :: attempt_id
  aq_sequence :: attempt_sequence
  aq_cause :: string
  aq_fence :: command_fence

record source_complete_request =
  cq_evidence :: source_complete_evidence
  cq_fence :: command_fence

record transfer_report =
  tq_evidence :: transfer_evidence
  tq_fence :: command_fence

record verification_report =
  vq_evidence :: verification_evidence
  vq_fence :: command_fence

record durability_request =
  dq_session :: session_id
  dq_assertion :: durability_assertion
  dq_fence :: command_fence

record session_list_response =
  lr_sessions :: "session_summary list"

record status_payload =
  st_code :: error_code
  st_reason :: reason_code
  st_detail :: string

section \<open>Codecs\<close>

definition client_kinds :: "client_kind list" where
  "client_kinds = [CK_Sender, CK_Sink, CK_Operator, CK_Observer]"

abbreviation encode_client_kind :: "client_kind \<Rightarrow> encoder \<Rightarrow> encoder" where
  "encode_client_kind \<equiv> enc_enum client_kinds"

abbreviation decode_client_kind :: "client_kind reader" where
  "decode_client_kind \<equiv> dec_enum client_kinds"

lemma codes_client_kind [codecs]: "codes encode_client_kind decode_client_kind (\<lambda>_ _. True)"
proof (rule codes_enum)
  show "x \<in> set client_kinds" for x by (cases x) (simp_all add: client_kinds_def)
qed (simp_all add: client_kinds_def)

definition encode_shard_begin :: "shard_begin \<Rightarrow> encoder \<Rightarrow> encoder" where
  "encode_shard_begin v = enc_all [
     enc_uuid (sb_session v), enc_uuid (sb_attempt v), enc_u64 (sb_sequence v), enc_uuid (sb_checkpoint v),
     enc_u64 (sb_checkpoint_generation v), enc_uuid (sb_workload v), enc_scalar32 (sb_shard v),
     enc_u64 (sb_declared_bytes v), encode_digest (sb_declared_digest v)]"

definition decode_shard_begin :: "shard_begin reader" where
  "decode_shard_begin = do {
     session \<leftarrow> dec_uuid; attempt \<leftarrow> dec_uuid; sequence \<leftarrow> dec_u64;
     checkpoint \<leftarrow> dec_uuid; checkpoint_generation \<leftarrow> dec_u64;
     workload \<leftarrow> dec_uuid; shard \<leftarrow> dec_scalar32; declared_bytes \<leftarrow> dec_u64;
     declared_digest \<leftarrow> decode_digest;
     State_Monad.return \<lparr>
       sb_session = session, sb_attempt = attempt, sb_sequence = sequence, sb_checkpoint = checkpoint,
       sb_checkpoint_generation = checkpoint_generation, sb_workload = workload, sb_shard = shard,
       sb_declared_bytes = declared_bytes, sb_declared_digest = declared_digest\<rparr>
   }"

definition fits_shard_begin :: "limits \<Rightarrow> shard_begin \<Rightarrow> bool" where
  "fits_shard_begin lim v \<longleftrightarrow>
     wf_uuid (sb_session v) \<and> wf_uuid (sb_attempt v) \<and> wf_uuid (sb_checkpoint v) \<and>
     wf_uuid (sb_workload v)"

lemma codes_shard_begin [codecs]: "codes encode_shard_begin decode_shard_begin fits_shard_begin"
  unfolding encode_shard_begin_def [abs_def] decode_shard_begin_def
  by (rule codes_record, (rule codecs [THEN spells_field] codecs)+, rule spells_return, simp, rule shard_begin.equality)
    (simp_all add: fits_shard_begin_def)

definition encode_shard_data :: "shard_data \<Rightarrow> encoder \<Rightarrow> encoder" where
  "encode_shard_data v = enc_all [
     enc_uuid (dt_attempt v), enc_u64 (dt_sequence v), enc_u64 (dt_offset v), enc_bytes (dt_data v)]"

definition decode_shard_data :: "shard_data reader" where
  "decode_shard_data = do {
     attempt \<leftarrow> dec_uuid; sequence \<leftarrow> dec_u64; offset \<leftarrow> dec_u64;
     data \<leftarrow> dec_bytes;
     State_Monad.return \<lparr>
       dt_attempt = attempt, dt_sequence = sequence, dt_offset = offset, dt_data = data\<rparr>
   }"

definition fits_shard_data :: "limits \<Rightarrow> shard_data \<Rightarrow> bool" where
  "fits_shard_data lim v \<longleftrightarrow>
     wf_uuid (dt_attempt v) \<and> length (dt_data v) \<le> kMaxPayloadBytes"

lemma codes_shard_data [codecs]: "codes encode_shard_data decode_shard_data fits_shard_data"
  unfolding encode_shard_data_def [abs_def] decode_shard_data_def
  by (rule codes_record, (rule codecs [THEN spells_field] codecs)+, rule spells_return, simp, rule shard_data.equality)
    (simp_all add: fits_shard_data_def)

definition encode_shard_end :: "shard_end \<Rightarrow> encoder \<Rightarrow> encoder" where
  "encode_shard_end v = enc_all [
     enc_u64 (ed_bytes_sent v), encode_digest (ed_sent_digest v), enc_bool (ed_truncated v)]"

definition decode_shard_end :: "shard_end reader" where
  "decode_shard_end = do {
     bytes_sent \<leftarrow> dec_u64; sent_digest \<leftarrow> decode_digest;
     truncated \<leftarrow> dec_bool;
     State_Monad.return \<lparr>
       ed_bytes_sent = bytes_sent, ed_sent_digest = sent_digest, ed_truncated = truncated\<rparr>
   }"

lemma codes_shard_end [codecs]: "codes encode_shard_end decode_shard_end (\<lambda>_ _. True)"
  unfolding encode_shard_end_def [abs_def] decode_shard_end_def
  by (rule codes_record, (rule codecs [THEN spells_field] codecs)+, rule spells_return, simp, rule shard_end.equality)
    simp_all

definition encode_shard_ack :: "shard_ack \<Rightarrow> encoder \<Rightarrow> encoder" where
  "encode_shard_ack v = enc_all [
     enc_u64 (ak_bytes_received v), enc_bool (ak_verified v), enc_bool (ak_truncated v),
     encode_digest (ak_received_digest v), enc_str (ak_detail v)]"

definition decode_shard_ack :: "shard_ack reader" where
  "decode_shard_ack = do {
     bytes_received \<leftarrow> dec_u64; verified \<leftarrow> dec_bool; truncated \<leftarrow> dec_bool;
     received_digest \<leftarrow> decode_digest; detail \<leftarrow> dec_str;
     State_Monad.return \<lparr>
       ak_bytes_received = bytes_received, ak_verified = verified, ak_truncated = truncated,
       ak_received_digest = received_digest, ak_detail = detail\<rparr>
   }"

definition fits_shard_ack :: "limits \<Rightarrow> shard_ack \<Rightarrow> bool" where
  "fits_shard_ack lim v \<longleftrightarrow>
     wire_string (ak_detail v)"

lemma codes_shard_ack [codecs]: "codes encode_shard_ack decode_shard_ack fits_shard_ack"
  unfolding encode_shard_ack_def [abs_def] decode_shard_ack_def
  by (rule codes_record, (rule codecs [THEN spells_field] codecs)+, rule spells_return, simp, rule shard_ack.equality)
    (simp_all add: fits_shard_ack_def)

definition encode_hello_request :: "hello_request \<Rightarrow> encoder \<Rightarrow> encoder" where
  "encode_hello_request v = enc_all [
     encode_client_kind (hq_kind v), enc_str (hq_identity v)]"

definition decode_hello_request :: "hello_request reader" where
  "decode_hello_request = do {
     kind \<leftarrow> decode_client_kind; identity \<leftarrow> dec_str;
     State_Monad.return \<lparr>
       hq_kind = kind, hq_identity = identity\<rparr>
   }"

definition fits_hello_request :: "limits \<Rightarrow> hello_request \<Rightarrow> bool" where
  "fits_hello_request lim v \<longleftrightarrow>
     wire_string (hq_identity v)"

lemma codes_hello_request [codecs]: "codes encode_hello_request decode_hello_request fits_hello_request"
  unfolding encode_hello_request_def [abs_def] decode_hello_request_def
  by (rule codes_record, (rule codecs [THEN spells_field] codecs)+, rule spells_return, simp, rule hello_request.equality)
    (simp_all add: fits_hello_request_def)

definition encode_contract_generation :: "contract_generation_record \<Rightarrow> encoder \<Rightarrow> encoder" where
  "encode_contract_generation v = enc_all [
     enc_uuid (cg_workload v), enc_u64 (cg_generation v)]"

definition decode_contract_generation :: "contract_generation_record reader" where
  "decode_contract_generation = do {
     workload \<leftarrow> dec_uuid; generation \<leftarrow> dec_u64;
     State_Monad.return \<lparr>
       cg_workload = workload, cg_generation = generation\<rparr>
   }"

definition fits_contract_generation :: "limits \<Rightarrow> contract_generation_record \<Rightarrow> bool" where
  "fits_contract_generation lim v \<longleftrightarrow>
     wf_uuid (cg_workload v)"

lemma items_contract_generation: "items encode_contract_generation decode_contract_generation fits_contract_generation"
  unfolding encode_contract_generation_def [abs_def] decode_contract_generation_def
  by (rule items_record, (rule codecs [THEN spells_field] codecs)+, rule spells_return, simp, rule contract_generation_record.equality)
    (simp_all add: fits_contract_generation_def)

lemmas codes_contract_generation [codecs] = items_contract_generation [THEN items_codes]

lemma codes_contract_generation_list [codecs]:
  "codes (enc_list encode_contract_generation) (dec_list bound decode_contract_generation) (\<lambda>lim vs. length vs \<le> kMaxCollectionElements \<and> length vs \<le> bound lim \<and> list_all (fits_contract_generation lim) vs)"
  by (rule items_list [OF items_contract_generation])

definition encode_hello_response :: "hello_response \<Rightarrow> encoder \<Rightarrow> encoder" where
  "encode_hello_response v = enc_all [
     encode_coordinator_epoch (hr_epoch v), enc_u64 (hr_policy_generation v),
     enc_u64 (hr_topology_generation v), enc_list encode_contract_generation (hr_contracts v),
     encode_limits (hr_limits v), enc_str (hr_server_label v)]"

definition decode_hello_response :: "hello_response reader" where
  "decode_hello_response = do {
     epoch \<leftarrow> decode_coordinator_epoch; policy_generation \<leftarrow> dec_u64;
     topology_generation \<leftarrow> dec_u64;
     contracts \<leftarrow> dec_list (\<lambda>lim. unat (lim_max_workloads lim)) decode_contract_generation;
     limits \<leftarrow> decode_limits; server_label \<leftarrow> dec_str;
     State_Monad.return \<lparr>
       hr_epoch = epoch, hr_policy_generation = policy_generation,
       hr_topology_generation = topology_generation, hr_contracts = contracts, hr_limits = limits,
       hr_server_label = server_label\<rparr>
   }"

definition fits_hello_response :: "limits \<Rightarrow> hello_response \<Rightarrow> bool" where
  "fits_hello_response lim v \<longleftrightarrow>
     length (hr_contracts v) \<le> kMaxCollectionElements \<and> length (hr_contracts v) \<le> unat (lim_max_workloads lim) \<and> list_all (fits_contract_generation lim) (hr_contracts v) \<and>
     fits_limits lim (hr_limits v) \<and> wire_string (hr_server_label v)"

lemma codes_hello_response [codecs]: "codes encode_hello_response decode_hello_response fits_hello_response"
  unfolding encode_hello_response_def [abs_def] decode_hello_response_def
  by (rule codes_record, (rule codecs [THEN spells_field] codecs)+, rule spells_return, simp, rule hello_response.equality)
    (simp_all add: fits_hello_response_def)

definition encode_submit_request :: "submit_request \<Rightarrow> encoder \<Rightarrow> encoder" where
  "encode_submit_request v = enc_all [
     encode_session_request (sq_request v), encode_command_fence (sq_fence v)]"

definition decode_submit_request :: "submit_request reader" where
  "decode_submit_request = do {
     request \<leftarrow> decode_session_request; fence \<leftarrow> decode_command_fence;
     State_Monad.return \<lparr>
       sq_request = request, sq_fence = fence\<rparr>
   }"

definition fits_submit_request :: "limits \<Rightarrow> submit_request \<Rightarrow> bool" where
  "fits_submit_request lim v \<longleftrightarrow>
     fits_session_request lim (sq_request v)"

lemma codes_submit_request [codecs]: "codes encode_submit_request decode_submit_request fits_submit_request"
  unfolding encode_submit_request_def [abs_def] decode_submit_request_def
  by (rule codes_record, (rule codecs [THEN spells_field] codecs)+, rule spells_return, simp, rule submit_request.equality)
    (simp_all add: fits_submit_request_def)

definition encode_session_query :: "session_query \<Rightarrow> encoder \<Rightarrow> encoder" where
  "encode_session_query v = enc_all [
     enc_uuid (qs_session v)]"

definition decode_session_query :: "session_query reader" where
  "decode_session_query = do {
     session \<leftarrow> dec_uuid;
     State_Monad.return \<lparr>
       qs_session = session\<rparr>
   }"

definition fits_session_query :: "limits \<Rightarrow> session_query \<Rightarrow> bool" where
  "fits_session_query lim v \<longleftrightarrow>
     wf_uuid (qs_session v)"

lemma codes_session_query [codecs]: "codes encode_session_query decode_session_query fits_session_query"
  unfolding encode_session_query_def [abs_def] decode_session_query_def
  by (rule codes_record, (rule codecs [THEN spells_field] codecs)+, rule spells_return, simp, rule session_query.equality)
    (simp_all add: fits_session_query_def)

definition encode_sessions_query :: "sessions_query \<Rightarrow> encoder \<Rightarrow> encoder" where
  "encode_sessions_query v = enc_all [
     enc_bool (ql_has_workload v), enc_uuid (ql_workload v), enc_u32 (ql_limit v)]"

definition decode_sessions_query :: "sessions_query reader" where
  "decode_sessions_query = do {
     has_workload \<leftarrow> dec_bool; workload \<leftarrow> dec_uuid; limit \<leftarrow> dec_u32;
     State_Monad.return \<lparr>
       ql_has_workload = has_workload, ql_workload = workload, ql_limit = limit\<rparr>
   }"

definition fits_sessions_query :: "limits \<Rightarrow> sessions_query \<Rightarrow> bool" where
  "fits_sessions_query lim v \<longleftrightarrow>
     wf_uuid (ql_workload v)"

lemma codes_sessions_query [codecs]: "codes encode_sessions_query decode_sessions_query fits_sessions_query"
  unfolding encode_sessions_query_def [abs_def] decode_sessions_query_def
  by (rule codes_record, (rule codecs [THEN spells_field] codecs)+, rule spells_return, simp, rule sessions_query.equality)
    (simp_all add: fits_sessions_query_def)

definition encode_cancel_request :: "cancel_request \<Rightarrow> encoder \<Rightarrow> encoder" where
  "encode_cancel_request v = enc_all [
     enc_uuid (cn_session v), encode_command_fence (cn_fence v), encode_reason_code (cn_reason v),
     enc_str (cn_detail v)]"

definition decode_cancel_request :: "cancel_request reader" where
  "decode_cancel_request = do {
     session \<leftarrow> dec_uuid; fence \<leftarrow> decode_command_fence;
     reason \<leftarrow> decode_reason_code; detail \<leftarrow> dec_str;
     State_Monad.return \<lparr>
       cn_session = session, cn_fence = fence, cn_reason = reason, cn_detail = detail\<rparr>
   }"

definition fits_cancel_request :: "limits \<Rightarrow> cancel_request \<Rightarrow> bool" where
  "fits_cancel_request lim v \<longleftrightarrow>
     wf_uuid (cn_session v) \<and> wire_string (cn_detail v)"

lemma codes_cancel_request [codecs]: "codes encode_cancel_request decode_cancel_request fits_cancel_request"
  unfolding encode_cancel_request_def [abs_def] decode_cancel_request_def
  by (rule codes_record, (rule codecs [THEN spells_field] codecs)+, rule spells_return, simp, rule cancel_request.equality)
    (simp_all add: fits_cancel_request_def)

definition encode_pause_request :: "pause_request \<Rightarrow> encoder \<Rightarrow> encoder" where
  "encode_pause_request v = enc_all [
     enc_uuid (pz_session v), encode_command_fence (pz_fence v), enc_str (pz_reason v)]"

definition decode_pause_request :: "pause_request reader" where
  "decode_pause_request = do {
     session \<leftarrow> dec_uuid; fence \<leftarrow> decode_command_fence; reason \<leftarrow> dec_str;
     State_Monad.return \<lparr>
       pz_session = session, pz_fence = fence, pz_reason = reason\<rparr>
   }"

definition fits_pause_request :: "limits \<Rightarrow> pause_request \<Rightarrow> bool" where
  "fits_pause_request lim v \<longleftrightarrow>
     wf_uuid (pz_session v) \<and> wire_string (pz_reason v)"

lemma codes_pause_request [codecs]: "codes encode_pause_request decode_pause_request fits_pause_request"
  unfolding encode_pause_request_def [abs_def] decode_pause_request_def
  by (rule codes_record, (rule codecs [THEN spells_field] codecs)+, rule spells_return, simp, rule pause_request.equality)
    (simp_all add: fits_pause_request_def)

definition encode_resume_request :: "resume_request \<Rightarrow> encoder \<Rightarrow> encoder" where
  "encode_resume_request v = enc_all [
     enc_uuid (rs_session v), encode_command_fence (rs_fence v)]"

definition decode_resume_request :: "resume_request reader" where
  "decode_resume_request = do {
     session \<leftarrow> dec_uuid; fence \<leftarrow> decode_command_fence;
     State_Monad.return \<lparr>
       rs_session = session, rs_fence = fence\<rparr>
   }"

definition fits_resume_request :: "limits \<Rightarrow> resume_request \<Rightarrow> bool" where
  "fits_resume_request lim v \<longleftrightarrow>
     wf_uuid (rs_session v)"

lemma codes_resume_request [codecs]: "codes encode_resume_request decode_resume_request fits_resume_request"
  unfolding encode_resume_request_def [abs_def] decode_resume_request_def
  by (rule codes_record, (rule codecs [THEN spells_field] codecs)+, rule spells_return, simp, rule resume_request.equality)
    (simp_all add: fits_resume_request_def)

definition encode_revalidate_request :: "revalidate_request \<Rightarrow> encoder \<Rightarrow> encoder" where
  "encode_revalidate_request v = enc_all [
     enc_uuid (rv_session v), encode_command_fence (rv_fence v)]"

definition decode_revalidate_request :: "revalidate_request reader" where
  "decode_revalidate_request = do {
     session \<leftarrow> dec_uuid; fence \<leftarrow> decode_command_fence;
     State_Monad.return \<lparr>
       rv_session = session, rv_fence = fence\<rparr>
   }"

definition fits_revalidate_request :: "limits \<Rightarrow> revalidate_request \<Rightarrow> bool" where
  "fits_revalidate_request lim v \<longleftrightarrow>
     wf_uuid (rv_session v)"

lemma codes_revalidate_request [codecs]: "codes encode_revalidate_request decode_revalidate_request fits_revalidate_request"
  unfolding encode_revalidate_request_def [abs_def] decode_revalidate_request_def
  by (rule codes_record, (rule codecs [THEN spells_field] codecs)+, rule spells_return, simp, rule revalidate_request.equality)
    (simp_all add: fits_revalidate_request_def)

definition encode_wave_request :: "wave_request \<Rightarrow> encoder \<Rightarrow> encoder" where
  "encode_wave_request v = enc_all [
     enc_uuid (wq_session v), enc_scalar32 (wq_shard v), encode_command_fence (wq_fence v)]"

definition decode_wave_request :: "wave_request reader" where
  "decode_wave_request = do {
     session \<leftarrow> dec_uuid; shard \<leftarrow> dec_scalar32;
     fence \<leftarrow> decode_command_fence;
     State_Monad.return \<lparr>
       wq_session = session, wq_shard = shard, wq_fence = fence\<rparr>
   }"

definition fits_wave_request :: "limits \<Rightarrow> wave_request \<Rightarrow> bool" where
  "fits_wave_request lim v \<longleftrightarrow>
     wf_uuid (wq_session v)"

lemma codes_wave_request [codecs]: "codes encode_wave_request decode_wave_request fits_wave_request"
  unfolding encode_wave_request_def [abs_def] decode_wave_request_def
  by (rule codes_record, (rule codecs [THEN spells_field] codecs)+, rule spells_return, simp, rule wave_request.equality)
    (simp_all add: fits_wave_request_def)

definition encode_ambiguity_request :: "ambiguity_request \<Rightarrow> encoder \<Rightarrow> encoder" where
  "encode_ambiguity_request v = enc_all [
     enc_uuid (aq_session v), enc_uuid (aq_attempt v), enc_u64 (aq_sequence v), enc_str (aq_cause v),
     encode_command_fence (aq_fence v)]"

definition decode_ambiguity_request :: "ambiguity_request reader" where
  "decode_ambiguity_request = do {
     session \<leftarrow> dec_uuid; attempt \<leftarrow> dec_uuid; sequence \<leftarrow> dec_u64;
     cause \<leftarrow> dec_str; fence \<leftarrow> decode_command_fence;
     State_Monad.return \<lparr>
       aq_session = session, aq_attempt = attempt, aq_sequence = sequence, aq_cause = cause,
       aq_fence = fence\<rparr>
   }"

definition fits_ambiguity_request :: "limits \<Rightarrow> ambiguity_request \<Rightarrow> bool" where
  "fits_ambiguity_request lim v \<longleftrightarrow>
     wf_uuid (aq_session v) \<and> wf_uuid (aq_attempt v) \<and> wire_string (aq_cause v)"

lemma codes_ambiguity_request [codecs]: "codes encode_ambiguity_request decode_ambiguity_request fits_ambiguity_request"
  unfolding encode_ambiguity_request_def [abs_def] decode_ambiguity_request_def
  by (rule codes_record, (rule codecs [THEN spells_field] codecs)+, rule spells_return, simp, rule ambiguity_request.equality)
    (simp_all add: fits_ambiguity_request_def)

definition encode_source_complete_request :: "source_complete_request \<Rightarrow> encoder \<Rightarrow> encoder" where
  "encode_source_complete_request v = enc_all [
     encode_source_complete (cq_evidence v), encode_command_fence (cq_fence v)]"

definition decode_source_complete_request :: "source_complete_request reader" where
  "decode_source_complete_request = do {
     evidence \<leftarrow> decode_source_complete; fence \<leftarrow> decode_command_fence;
     State_Monad.return \<lparr>
       cq_evidence = evidence, cq_fence = fence\<rparr>
   }"

definition fits_source_complete_request :: "limits \<Rightarrow> source_complete_request \<Rightarrow> bool" where
  "fits_source_complete_request lim v \<longleftrightarrow>
     fits_source_complete lim (cq_evidence v)"

lemma codes_source_complete_request [codecs]: "codes encode_source_complete_request decode_source_complete_request fits_source_complete_request"
  unfolding encode_source_complete_request_def [abs_def] decode_source_complete_request_def
  by (rule codes_record, (rule codecs [THEN spells_field] codecs)+, rule spells_return, simp, rule source_complete_request.equality)
    (simp_all add: fits_source_complete_request_def)

definition encode_transfer_report :: "transfer_report \<Rightarrow> encoder \<Rightarrow> encoder" where
  "encode_transfer_report v = enc_all [
     encode_transfer_evidence (tq_evidence v), encode_command_fence (tq_fence v)]"

definition decode_transfer_report :: "transfer_report reader" where
  "decode_transfer_report = do {
     evidence \<leftarrow> decode_transfer_evidence; fence \<leftarrow> decode_command_fence;
     State_Monad.return \<lparr>
       tq_evidence = evidence, tq_fence = fence\<rparr>
   }"

definition fits_transfer_report :: "limits \<Rightarrow> transfer_report \<Rightarrow> bool" where
  "fits_transfer_report lim v \<longleftrightarrow>
     fits_transfer_evidence lim (tq_evidence v)"

lemma codes_transfer_report [codecs]: "codes encode_transfer_report decode_transfer_report fits_transfer_report"
  unfolding encode_transfer_report_def [abs_def] decode_transfer_report_def
  by (rule codes_record, (rule codecs [THEN spells_field] codecs)+, rule spells_return, simp, rule transfer_report.equality)
    (simp_all add: fits_transfer_report_def)

definition encode_verification_report :: "verification_report \<Rightarrow> encoder \<Rightarrow> encoder" where
  "encode_verification_report v = enc_all [
     encode_verification_evidence (vq_evidence v), encode_command_fence (vq_fence v)]"

definition decode_verification_report :: "verification_report reader" where
  "decode_verification_report = do {
     evidence \<leftarrow> decode_verification_evidence; fence \<leftarrow> decode_command_fence;
     State_Monad.return \<lparr>
       vq_evidence = evidence, vq_fence = fence\<rparr>
   }"

definition fits_verification_report :: "limits \<Rightarrow> verification_report \<Rightarrow> bool" where
  "fits_verification_report lim v \<longleftrightarrow>
     fits_verification_evidence lim (vq_evidence v)"

lemma codes_verification_report [codecs]: "codes encode_verification_report decode_verification_report fits_verification_report"
  unfolding encode_verification_report_def [abs_def] decode_verification_report_def
  by (rule codes_record, (rule codecs [THEN spells_field] codecs)+, rule spells_return, simp, rule verification_report.equality)
    (simp_all add: fits_verification_report_def)

definition encode_durability_request :: "durability_request \<Rightarrow> encoder \<Rightarrow> encoder" where
  "encode_durability_request v = enc_all [
     enc_uuid (dq_session v), encode_durability_assertion (dq_assertion v),
     encode_command_fence (dq_fence v)]"

definition decode_durability_request :: "durability_request reader" where
  "decode_durability_request = do {
     session \<leftarrow> dec_uuid; assertion \<leftarrow> decode_durability_assertion;
     fence \<leftarrow> decode_command_fence;
     State_Monad.return \<lparr>
       dq_session = session, dq_assertion = assertion, dq_fence = fence\<rparr>
   }"

definition fits_durability_request :: "limits \<Rightarrow> durability_request \<Rightarrow> bool" where
  "fits_durability_request lim v \<longleftrightarrow>
     wf_uuid (dq_session v) \<and> fits_durability_assertion lim (dq_assertion v)"

lemma codes_durability_request [codecs]: "codes encode_durability_request decode_durability_request fits_durability_request"
  unfolding encode_durability_request_def [abs_def] decode_durability_request_def
  by (rule codes_record, (rule codecs [THEN spells_field] codecs)+, rule spells_return, simp, rule durability_request.equality)
    (simp_all add: fits_durability_request_def)

lemma codes_session_summary_list [codecs]:
  "codes (enc_list encode_session_summary) (dec_list bound decode_session_summary) (\<lambda>lim vs. length vs \<le> kMaxCollectionElements \<and> length vs \<le> bound lim \<and> list_all (fits_session_summary lim) vs)"
  by (rule items_list [OF items_session_summary])

definition encode_session_list_response :: "session_list_response \<Rightarrow> encoder \<Rightarrow> encoder" where
  "encode_session_list_response v = enc_all [
     enc_list encode_session_summary (lr_sessions v)]"

definition decode_session_list_response :: "session_list_response reader" where
  "decode_session_list_response = do {
     sessions \<leftarrow> dec_list (\<lambda>lim. unat (lim_max_sessions lim)) decode_session_summary;
     State_Monad.return \<lparr>
       lr_sessions = sessions\<rparr>
   }"

definition fits_session_list_response :: "limits \<Rightarrow> session_list_response \<Rightarrow> bool" where
  "fits_session_list_response lim v \<longleftrightarrow>
     length (lr_sessions v) \<le> kMaxCollectionElements \<and> length (lr_sessions v) \<le> unat (lim_max_sessions lim) \<and> list_all (fits_session_summary lim) (lr_sessions v)"

lemma codes_session_list_response [codecs]: "codes encode_session_list_response decode_session_list_response fits_session_list_response"
  unfolding encode_session_list_response_def [abs_def] decode_session_list_response_def
  by (rule codes_record, (rule codecs [THEN spells_field] codecs)+, rule spells_return, simp, rule session_list_response.equality)
    (simp_all add: fits_session_list_response_def)

definition encode_status_payload :: "status_payload \<Rightarrow> encoder \<Rightarrow> encoder" where
  "encode_status_payload v = enc_all [
     enc_error_code (st_code v), encode_reason_code (st_reason v), enc_str (st_detail v)]"

definition decode_status_payload :: "status_payload reader" where
  "decode_status_payload = do {
     code \<leftarrow> dec_error_code; reason \<leftarrow> decode_reason_code; detail \<leftarrow> dec_str;
     State_Monad.return \<lparr>
       st_code = code, st_reason = reason, st_detail = detail\<rparr>
   }"

definition fits_status_payload :: "limits \<Rightarrow> status_payload \<Rightarrow> bool" where
  "fits_status_payload lim v \<longleftrightarrow>
     wire_string (st_detail v)"

lemma codes_status_payload [codecs]: "codes encode_status_payload decode_status_payload fits_status_payload"
  unfolding encode_status_payload_def [abs_def] decode_status_payload_def
  by (rule codes_record, (rule codecs [THEN spells_field] codecs)+, rule spells_return, simp, rule status_payload.equality)
    (simp_all add: fits_status_payload_def)

section \<open>Every payload codec is exact\<close>

interpretation shard_begin_codec: wire_codec encode_shard_begin decode_shard_begin fits_shard_begin
  by unfold_locales (rule codes_shard_begin)

interpretation shard_data_codec: wire_codec encode_shard_data decode_shard_data fits_shard_data
  by unfold_locales (rule codes_shard_data)

interpretation shard_end_codec: wire_codec encode_shard_end decode_shard_end "\<lambda>_ _. True"
  by unfold_locales (rule codes_shard_end)

interpretation shard_ack_codec: wire_codec encode_shard_ack decode_shard_ack fits_shard_ack
  by unfold_locales (rule codes_shard_ack)

interpretation hello_request_codec: wire_codec encode_hello_request decode_hello_request fits_hello_request
  by unfold_locales (rule codes_hello_request)

interpretation hello_response_codec: wire_codec encode_hello_response decode_hello_response fits_hello_response
  by unfold_locales (rule codes_hello_response)

interpretation submit_request_codec: wire_codec encode_submit_request decode_submit_request fits_submit_request
  by unfold_locales (rule codes_submit_request)

interpretation session_query_codec: wire_codec encode_session_query decode_session_query fits_session_query
  by unfold_locales (rule codes_session_query)

interpretation sessions_query_codec: wire_codec encode_sessions_query decode_sessions_query fits_sessions_query
  by unfold_locales (rule codes_sessions_query)

interpretation cancel_request_codec: wire_codec encode_cancel_request decode_cancel_request fits_cancel_request
  by unfold_locales (rule codes_cancel_request)

interpretation pause_request_codec: wire_codec encode_pause_request decode_pause_request fits_pause_request
  by unfold_locales (rule codes_pause_request)

interpretation resume_request_codec: wire_codec encode_resume_request decode_resume_request fits_resume_request
  by unfold_locales (rule codes_resume_request)

interpretation revalidate_request_codec: wire_codec encode_revalidate_request decode_revalidate_request fits_revalidate_request
  by unfold_locales (rule codes_revalidate_request)

interpretation wave_request_codec: wire_codec encode_wave_request decode_wave_request fits_wave_request
  by unfold_locales (rule codes_wave_request)

interpretation ambiguity_request_codec: wire_codec encode_ambiguity_request decode_ambiguity_request fits_ambiguity_request
  by unfold_locales (rule codes_ambiguity_request)

interpretation source_complete_request_codec: wire_codec encode_source_complete_request decode_source_complete_request fits_source_complete_request
  by unfold_locales (rule codes_source_complete_request)

interpretation transfer_report_codec: wire_codec encode_transfer_report decode_transfer_report fits_transfer_report
  by unfold_locales (rule codes_transfer_report)

interpretation verification_report_codec: wire_codec encode_verification_report decode_verification_report fits_verification_report
  by unfold_locales (rule codes_verification_report)

interpretation durability_request_codec: wire_codec encode_durability_request decode_durability_request fits_durability_request
  by unfold_locales (rule codes_durability_request)

interpretation session_list_response_codec: wire_codec encode_session_list_response decode_session_list_response fits_session_list_response
  by unfold_locales (rule codes_session_list_response)

interpretation status_payload_codec: wire_codec encode_status_payload decode_status_payload fits_status_payload
  by unfold_locales (rule codes_status_payload)

interpretation decision_codec: wire_codec encode_decision decode_decision fits_decision
  by unfold_locales (rule codes_decision)

interpretation wave_outcome_codec: wire_codec encode_wave_outcome decode_wave_outcome fits_wave_outcome
  by unfold_locales (rule codes_wave_outcome)

interpretation session_view_codec: wire_codec encode_session_view decode_session_view fits_session_view
  by unfold_locales (rule codes_session_view)

interpretation accounting_snapshot_codec: wire_codec encode_accounting_snapshot decode_accounting_snapshot "\<lambda>_ _. True"
  by unfold_locales (rule codes_accounting_snapshot)

interpretation explanation_codec: wire_codec encode_explanation decode_explanation fits_explanation
  by unfold_locales (rule codes_explanation)

end
