(* ===== verification/Frame.thy ===== *)
theory Frame
  imports Wire
begin

text \<open>
  Framing, \<^verbatim>\<open>encode_frame\<close> and \<^verbatim>\<open>decode_frame\<close> of \<^verbatim>\<open>src/wire.cpp\<close>: a header of 32 bytes with
  independent checksums of its first 24 bytes and of the payload. The theorems are that the
  decoder accepts exactly the frames the encoder makes of the values it returns, and that a
  frame in which any one byte was changed on the way is refused, which rests on the CRC-32C
  step being injective in its register and in its input.
\<close>

record frame_header =
  fh_protocol_version :: u16
  fh_message_type :: u16
  fh_flags :: u32
  fh_sequence :: u64
  fh_payload_bytes :: u32
  fh_payload_crc :: u32

definition kProtocolVersion :: u16 where
  "kProtocolVersion = 1"

definition kFrameMagic :: u32 where
  "kFrameMagic = 0x31465443"

definition kFrameHeaderBytes :: nat where
  "kFrameHeaderBytes = 32"

definition kHeaderChecksumCoverage :: nat where
  "kHeaderChecksumCoverage = 24"

definition frame_prefix :: "frame_header \<Rightarrow> nat \<Rightarrow> bytes" where
  "frame_prefix header count =
     put_be 4 kFrameMagic @ put_be 2 (fh_protocol_version header) @ put_be 2 (fh_message_type header) @
     put_be 4 (fh_flags header) @ put_be 8 (fh_sequence header) @ put_be 4 (word_of_nat count :: u32)"

definition encode_frame :: "frame_header \<Rightarrow> bytes \<Rightarrow> bytes result" where
  "encode_frame header payload =
     (if length payload > kMaxPayloadBytes then Inl EC_PayloadTooLarge
      else let raw = frame_prefix header (length payload) in
        Inr (raw @ put_be 4 (crc32c raw 0) @ put_be 4 (crc32c payload 0) @ payload))"

definition field_at :: "bytes \<Rightarrow> nat \<Rightarrow> nat \<Rightarrow> bytes" where
  "field_at bs offset count = take count (drop offset bs)"

definition decode_frame :: "bytes \<Rightarrow> (bytes \<times> frame_header) result" where
  "decode_frame frame =
     (let version = get_be (field_at frame 4 2) :: u16;
          payload_bytes = get_be (field_at frame 20 4) :: u32;
          expected = kFrameHeaderBytes + unat payload_bytes;
          payload = field_at frame kFrameHeaderBytes (unat payload_bytes) in
      if length frame < kFrameHeaderBytes then Inl EC_TruncatedInput
      else if get_be (field_at frame 0 4) \<noteq> kFrameMagic then Inl EC_InvalidSyntax
      else if version \<noteq> kProtocolVersion then Inl EC_VersionIncompatible
      else if get_be (field_at frame kHeaderChecksumCoverage 4) \<noteq> crc32c (field_at frame 0 kHeaderChecksumCoverage) 0
        then Inl EC_IntegrityFailure
      else if unat payload_bytes > kMaxPayloadBytes then Inl EC_PayloadTooLarge
      else if length frame \<noteq> expected
        then Inl (if length frame < expected then EC_TruncatedInput else EC_TrailingGarbage)
      else if get_be (field_at frame 28 4) \<noteq> crc32c payload 0 then Inl EC_IntegrityFailure
      else Inr (payload, \<lparr>fh_protocol_version = version, fh_message_type = get_be (field_at frame 6 2),
        fh_flags = get_be (field_at frame 8 4), fh_sequence = get_be (field_at frame 12 8),
        fh_payload_bytes = payload_bytes, fh_payload_crc = get_be (field_at frame 28 4)\<rparr>))"

section \<open>Exactness\<close>

lemma length_frame_prefix [simp]: "length (frame_prefix header n) = 24"
  by (simp add: frame_prefix_def)

lemma field_at_simps [simp]:
  "field_at (xs @ ys) 0 n = (if length xs \<le> n then xs @ field_at ys 0 (n - length xs) else field_at xs 0 n)"
  "length xs \<le> i \<Longrightarrow> field_at (xs @ ys) i n = field_at ys (i - length xs) n"
  "field_at xs i 0 = []"
  "length xs = n \<Longrightarrow> field_at xs 0 n = xs"
  by (simp_all add: field_at_def)

lemma split_at: "n \<le> length xs \<Longrightarrow> \<exists>as bs. xs = as @ bs \<and> length as = n"
  by (metis append_take_drop_id length_take min.absorb2)

lemma frame_parts:
  assumes "32 \<le> length (frame :: bytes)"
  obtains m v t g q l hc pc p where "frame = m @ v @ t @ g @ q @ l @ hc @ pc @ p" and
    "length m = 4" "length v = 2" "length t = 2" "length g = 4" "length q = 8" "length l = 4" "length hc = 4" "length pc = 4"
proof -
  have 1: "frame = field_at frame 0 4 @ field_at frame 4 2 @ field_at frame 6 2 @ field_at frame 8 4 @ field_at frame 12 8 @
      field_at frame 20 4 @ field_at frame 24 4 @ field_at frame 28 4 @ drop 32 frame"
    using append_take_drop_id [of 2 "drop 4 frame"] append_take_drop_id [of 2 "drop 6 frame"]
      append_take_drop_id [of 4 "drop 8 frame"] append_take_drop_id [of 8 "drop 12 frame"]
      append_take_drop_id [of 4 "drop 20 frame"] append_take_drop_id [of 4 "drop 24 frame"]
      append_take_drop_id [of 4 "drop 28 frame"]
    by (simp add: field_at_def)
  show thesis by (rule that [OF 1]) (use assms in \<open>simp_all add: field_at_def\<close>)
qed

lemma put_get_word:
  "length bs = n \<Longrightarrow> 8 * n = LENGTH('a::len) \<Longrightarrow> 0 < n \<Longrightarrow> get_be bs = (x :: 'a word) \<longleftrightarrow> bs = put_be n x"
  using get_put_be [where 'a = 'a, of n x] put_get_be [where 'a = 'a, of bs n] by auto

lemma decode_frame_parts:
  assumes "length m = 4" "length v = 2" "length t = 2" "length g = 4" "length q = 8" "length l = 4" "length hc = 4" "length pc = 4"
  shows "decode_frame (m @ v @ t @ g @ q @ l @ hc @ pc @ p) = Inr (payload, header) \<longleftrightarrow>
    m = put_be 4 kFrameMagic \<and> v = put_be 2 kProtocolVersion \<and> hc = put_be 4 (crc32c (m @ v @ t @ g @ q @ l) 0) \<and>
    length p \<le> kMaxPayloadBytes \<and> l = put_be 4 (word_of_nat (length p) :: u32) \<and> pc = put_be 4 (crc32c p 0) \<and>
    payload = p \<and> header = \<lparr>fh_protocol_version = kProtocolVersion, fh_message_type = get_be t, fh_flags = get_be g,
      fh_sequence = get_be q, fh_payload_bytes = word_of_nat (length p), fh_payload_crc = crc32c p 0\<rparr>"
proof -
  have len: "length p = unat (get_be l :: u32) \<and> unat (get_be l :: u32) \<le> kMaxPayloadBytes \<longleftrightarrow>
      length p \<le> kMaxPayloadBytes \<and> get_be l = (word_of_nat (length p) :: u32)"
    by (auto simp: kMaxPayloadBytes_def small_count)
  let ?frame = "m @ v @ t @ g @ q @ l @ hc @ pc @ p"
  have fields: "field_at ?frame 0 4 = m" "field_at ?frame 4 2 = v" "field_at ?frame 6 2 = t" "field_at ?frame 8 4 = g"
    "field_at ?frame 12 8 = q" "field_at ?frame 20 4 = l" "field_at ?frame 24 4 = hc" "field_at ?frame 28 4 = pc"
    "field_at ?frame 0 24 = m @ v @ t @ g @ q @ l" "length ?frame = 32 + length p"
    "length p = n \<Longrightarrow> field_at ?frame 32 n = p" for n
    using assms by simp_all
  note puts = put_get_word [where 'a = 32, OF assms(1), symmetric] put_get_word [where 'a = 16, OF assms(2), symmetric]
    put_get_word [where 'a = 32, OF assms(6), symmetric] put_get_word [where 'a = 32, OF assms(7), symmetric]
    put_get_word [where 'a = 32, OF assms(8), symmetric]
  show ?thesis
  proof (cases "length p = unat (get_be l :: u32) \<and> unat (get_be l :: u32) \<le> kMaxPayloadBytes")
    case True
    then have l: "length p \<le> kMaxPayloadBytes" "get_be l = (word_of_nat (length p) :: u32)" "unat (word_of_nat (length p) :: u32) = length p"
      using len by auto
    show ?thesis
      unfolding decode_frame_def kFrameHeaderBytes_def kHeaderChecksumCoverage_def Let_def fields
      using l fields(11) [OF refl] by (auto simp: puts)
  next
    case False
    then have "\<not> (length p \<le> kMaxPayloadBytes \<and> l = put_be 4 (word_of_nat (length p) :: u32))"
      using len by (simp add: puts)
    moreover have "decode_frame ?frame \<noteq> Inr (payload, header)"
      unfolding decode_frame_def kFrameHeaderBytes_def kHeaderChecksumCoverage_def Let_def fields
      using False by (auto split: if_splits)
    ultimately show ?thesis by blast
  qed
qed

lemma decode_frame_iff:
  "decode_frame frame = Inr (payload, header) \<longleftrightarrow>
     encode_frame header payload = Inr frame \<and> fh_protocol_version header = kProtocolVersion \<and>
     fh_payload_bytes header = word_of_nat (length payload) \<and> fh_payload_crc header = crc32c payload 0"
  (is "?accept \<longleftrightarrow> ?r")
proof
  assume ?accept
  then have "32 \<le> length frame" by (auto simp: decode_frame_def kFrameHeaderBytes_def Let_def split: if_splits)
  then obtain m v t g q l hc pc p where frame: "frame = m @ v @ t @ g @ q @ l @ hc @ pc @ p" and
    len: "length m = 4" "length v = 2" "length t = 2" "length g = 4" "length q = 8" "length l = 4" "length hc = 4" "length pc = 4"
    by (rule frame_parts)
  note parts = \<open>?accept\<close> [unfolded frame decode_frame_parts [OF len]]
  then show ?r
    using put_get_be [where 'a = 16, of t 2] put_get_be [where 'a = 32, of g 4] put_get_be [where 'a = 64, of q 8] len
    by (simp add: encode_frame_def frame_prefix_def Let_def frame)
next
  assume r: ?r
  then have small: "length payload \<le> kMaxPayloadBytes" by (simp add: encode_frame_def split: if_splits)
  let ?m = "put_be 4 kFrameMagic" and ?v = "put_be 2 kProtocolVersion" and ?t = "put_be 2 (fh_message_type header)"
    and ?g = "put_be 4 (fh_flags header)" and ?q = "put_be 8 (fh_sequence header)"
    and ?l = "put_be 4 (word_of_nat (length payload) :: u32)"
  have frame: "frame = ?m @ ?v @ ?t @ ?g @ ?q @ ?l @ put_be 4 (crc32c (?m @ ?v @ ?t @ ?g @ ?q @ ?l) 0) @
      put_be 4 (crc32c payload 0) @ payload"
    using r small by (auto simp: encode_frame_def frame_prefix_def Let_def)
  show ?accept
    unfolding frame
    by (subst decode_frame_parts) (use r small in \<open>simp_all add: get_put_be\<close>)
qed

section \<open>Corruption of one byte\<close>

lemma crc_step_inject:
  assumes "crc_step a = crc_step b" shows "a = b"
proof -
  have zero: "x = 0" if "crc_step x = 0" for x
  proof (rule bit_eqI)
    fix n
    have step: "bit (crc_step x) i \<longleftrightarrow> (bit x (Suc i) \<noteq> (bit x 0 \<and> bit kCrc32cPolynomial i))" if "i < 32" for i
      using that by (auto simp: crc_step_def and_one_eq_bit bit_simps)
    have "\<not> bit x 32" using bit_imp_le_length [of x 32] by auto
    then have "\<not> bit x 0" using step [of 31] that by (simp add: kCrc32cPolynomial_def bit_simps)
    moreover have "\<not> bit x (Suc i)" for i
      using step [of i] that calculation bit_imp_le_length [of x "Suc i"] by (cases "i < 32") auto
    ultimately show "bit x n \<longleftrightarrow> bit 0 n" by (cases n) simp_all
  qed
  have "crc_step (a XOR b) = 0" using assms by (simp add: crc_step_xor)
  then have "a XOR b = 0" by (rule zero)
  then have "(a XOR b) XOR b = b" by simp
  then show "a = b" by (simp add: xor.assoc)
qed

lemma crc_steps_inject: "(crc_step ^^ n) a = (crc_step ^^ n) b \<Longrightarrow> a = b"
  by (induction n) (auto dest: crc_step_inject)

lemma crc_register_inject: "foldl crc_bitwise_byte a bs = foldl crc_bitwise_byte b bs \<Longrightarrow> a = b"
proof (induction bs arbitrary: a b)
  case (Cons x bs)
  then have "(crc_step ^^ 8) (a XOR ucast x) = (crc_step ^^ 8) (b XOR ucast x)"
    using Cons.IH [of "crc_bitwise_byte a x" "crc_bitwise_byte b x"] by (simp add: crc_bitwise_byte_def)
  then have "a XOR ucast x = b XOR ucast x" by (rule crc_steps_inject)
  then have "(a XOR ucast x) XOR ucast x = (b XOR ucast x) XOR ucast x" by simp
  then show "a = b" by (simp add: xor.assoc)
qed simp

lemma crc_byte_inject:
  assumes "crc_bitwise_byte a x = crc_bitwise_byte a y" shows "x = y"
proof -
  have "(a XOR ucast x) = (a XOR ucast y)" using assms crc_steps_inject unfolding crc_bitwise_byte_def by blast
  then have "a XOR (a XOR ucast x) = a XOR (a XOR ucast y)" by simp
  then have "(ucast x :: u32) = ucast y" by (simp flip: xor.assoc)
  then have "unat (ucast x :: u32) = unat (ucast y :: u32)" by simp
  then show "x = y" using unat_u8_less [of x] unat_u8_less [of y] by (simp add: unat_ucast_mod word_unat_eq_iff)
qed

lemma crc32c_update:
  assumes "i < length bs" and "b \<noteq> bs ! i"
  shows "crc32c (bs[i := b]) seed \<noteq> crc32c bs seed"
proof
  let ?as = "take i bs" and ?cs = "drop (Suc i) bs"
  have split: "bs = ?as @ bs ! i # ?cs" "bs[i := b] = ?as @ b # ?cs"
    using assms(1) by (simp_all add: id_take_nth_drop upd_conv_take_nth_drop)
  assume "crc32c (bs[i := b]) seed = crc32c bs seed"
  then have "foldl crc_bitwise_byte (NOT seed) (?as @ b # ?cs) = foldl crc_bitwise_byte (NOT seed) (?as @ bs ! i # ?cs)"
    unfolding crc32c_bitwise bit.compl_eq_compl_iff split [symmetric] .
  then have "crc_bitwise_byte (foldl crc_bitwise_byte (NOT seed) ?as) b = crc_bitwise_byte (foldl crc_bitwise_byte (NOT seed) ?as) (bs ! i)"
    using crc_register_inject by (simp only: foldl_append foldl_Cons)
  then show False using crc_byte_inject assms(2) by blast
qed

lemma put_be_inject: "8 * n = LENGTH('a::len) \<Longrightarrow> 0 < n \<Longrightarrow> put_be n (x :: 'a word) = put_be n y \<longleftrightarrow> x = y"
  by (metis get_put_be)

lemma list_update_changes: "i < length xs \<Longrightarrow> b \<noteq> xs ! i \<Longrightarrow> xs[i := b] \<noteq> xs"
  by (metis nth_list_update_eq)

text \<open>A block and its checksum cannot both stay consistent when one byte of them changes.\<close>

lemma checked_update:
  assumes "length xs = length ys" and "i < length xs + 4" and "b \<noteq> (xs @ put_be 4 (crc32c xs 0)) ! i"
  shows "(xs @ put_be 4 (crc32c xs 0))[i := b] \<noteq> ys @ put_be 4 (crc32c ys 0)"
proof (cases "i < length xs")
  case True
  then have "crc32c (xs[i := b]) 0 \<noteq> crc32c xs 0" using assms(3) by (intro crc32c_update) (simp_all add: nth_append)
  then show ?thesis using assms(1) True by (auto simp: list_update_append put_be_inject)
next
  case False
  then have "(put_be 4 (crc32c xs 0))[i - length xs := b] \<noteq> put_be 4 (crc32c xs 0)"
    using assms(2,3) by (intro list_update_changes) (simp_all add: nth_append)
  then show ?thesis using assms(1) False by (auto simp: list_update_append)
qed

lemma checked_update':
  assumes "length xs = length ys" and "i < length xs + 4" and "b \<noteq> (put_be 4 (crc32c xs 0) @ xs) ! i"
  shows "(put_be 4 (crc32c xs 0) @ xs)[i := b] \<noteq> put_be 4 (crc32c ys 0) @ ys"
proof (cases "i < 4")
  case False
  then have "crc32c (xs[i - 4 := b]) 0 \<noteq> crc32c xs 0" using assms(2,3) by (intro crc32c_update) (simp_all add: nth_append)
  then show ?thesis using assms(1) False by (auto simp: list_update_append put_be_inject)
next
  case True
  then have "(put_be 4 (crc32c xs 0))[i := b] \<noteq> put_be 4 (crc32c xs 0)"
    using assms(2,3) by (intro list_update_changes) (simp_all add: nth_append)
  then show ?thesis using assms(1) True by (auto simp: list_update_append)
qed

lemma encode_frame_blocks:
  assumes "encode_frame header payload = Inr frame"
  obtains pre where "length pre = 24" and "frame = (pre @ put_be 4 (crc32c pre 0)) @ (put_be 4 (crc32c payload 0) @ payload)"
  by (rule that [of "frame_prefix header (length payload)"])
    (use assms in \<open>auto simp: encode_frame_def Let_def split: if_splits\<close>)

text \<open>
  C26. A frame made by \<^verbatim>\<open>encode_frame\<close> in which one byte, in the header, a checksum or the
  payload, is replaced by any other value is refused by \<^verbatim>\<open>decode_frame\<close>.
\<close>

theorem corrupted_frame_refused:
  assumes "encode_frame header payload = Inr frame" and "i < length frame" and "b \<noteq> frame ! i"
  shows "\<exists>e. decode_frame (frame[i := b]) = Inl e"
proof (rule ccontr)
  assume "\<nexists>e. decode_frame (frame[i := b]) = Inl e"
  then obtain payload' header' where "decode_frame (frame[i := b]) = Inr (payload', header')" by (metis sum.exhaust surj_pair)
  then have "encode_frame header' payload' = Inr (frame[i := b])" by (simp add: decode_frame_iff)
  then obtain pre' where pre': "length pre' = 24"
    "frame[i := b] = (pre' @ put_be 4 (crc32c pre' 0)) @ (put_be 4 (crc32c payload' 0) @ payload')"
    by (rule encode_frame_blocks)
  obtain pre where pre: "length pre = 24" "frame = (pre @ put_be 4 (crc32c pre 0)) @ (put_be 4 (crc32c payload 0) @ payload)"
    by (rule encode_frame_blocks [OF assms(1)])
  have len: "length payload = length payload'" using arg_cong [OF pre'(2), of length] pre pre' by simp
  show False
  proof (cases "i < 28")
    case True
    then have "(pre @ put_be 4 (crc32c pre 0))[i := b] = pre' @ put_be 4 (crc32c pre' 0)"
      using pre pre' by (simp add: list_update_append1 del: append_assoc)
    then show False
      using checked_update [of pre pre' i b] pre(1) pre'(1) True assms(3)
      by (simp add: pre(2) nth_append [of "pre @ _"] del: append_assoc)
  next
    case False
    then have "(put_be 4 (crc32c payload 0) @ payload)[i - 28 := b] = put_be 4 (crc32c payload' 0) @ payload'"
      using pre pre' by (simp add: list_update_append del: append_assoc)
    moreover have "i - 28 < length payload + 4" using assms(2) False by (simp add: pre)
    ultimately show False
      using checked_update' [of payload payload' "i - 28" b] pre(1) False assms(2,3) len
      by (simp add: pre(2) nth_append [of "pre @ _"] del: append_assoc)
  qed
qed

definition sample_header :: frame_header where
  "sample_header = \<lparr>fh_protocol_version = kProtocolVersion, fh_message_type = 5, fh_flags = 0, fh_sequence = 1,
     fh_payload_bytes = 2, fh_payload_crc = 0\<rparr>"

theorem corrupted_frame_refused_witness:
  "\<exists>frame e. encode_frame sample_header [7, 9] = Inr frame \<and> decode_frame (frame[33 := 8]) = Inl e"
proof -
  obtain frame where frame: "encode_frame sample_header [7, 9] = Inr frame"
    by (simp add: encode_frame_def kMaxPayloadBytes_def Let_def)
  then have "length frame = 34" "frame ! 33 = 9"
    by (auto simp: encode_frame_def kMaxPayloadBytes_def Let_def nth_append split: if_splits)
  then have "\<exists>e. decode_frame (frame[33 := 8]) = Inl e" using corrupted_frame_refused [OF frame, of 33 8] by simp
  with frame show ?thesis by blast
qed

text \<open>
  C27. \<^verbatim>\<open>decode_frame\<close> accepts a byte string with a payload and a header exactly when the byte
  string is the frame \<^verbatim>\<open>encode_frame\<close> makes of them, at the supported protocol version and
  with the size and checksum the header reports being those of the payload. Frames have one
  encoding: nothing else is accepted, and everything sent is read back as it was.
\<close>

theorem frame_exact:
  "decode_frame frame = Inr (payload, header) \<longleftrightarrow>
     encode_frame header payload = Inr frame \<and> fh_protocol_version header = kProtocolVersion \<and>
     fh_payload_bytes header = word_of_nat (length payload) \<and> fh_payload_crc header = crc32c payload 0"
  by (rule decode_frame_iff)

end
