(* ===== verification/Protocol.thy ===== *)
theory Protocol
  imports Protocol_Messages Frame
begin

text \<open>
  Message types and the framed message channel of \<^verbatim>\<open>src/protocol.cpp\<close>. The bytes of a
  connection arrive in pieces of any size: an arrival is what one \<^verbatim>\<open>recv\<close> of
  \<^verbatim>\<open>TcpSocket::read_some\<close> reports, bytes, the end of the stream or a failure, and a buffer
  smaller than a piece leaves the rest of it for the next read. The theorems are that the
  channel delivers what was sent, in order, whatever the pieces, and that the accepted sequence
  numbers strictly increase.
\<close>

section \<open>Message types\<close>

datatype message_type =
    MT_HelloRequest
  | MT_HelloResponse
  | MT_SubmitSession
  | MT_DecisionResponse
  | MT_RevalidateSession
  | MT_RequestWave
  | MT_WaveResponse
  | MT_ReportSourceComplete
  | MT_ReportTransfer
  | MT_ReportVerification
  | MT_ReportAmbiguous
  | MT_CancelSession
  | MT_PauseSession
  | MT_ResumeSession
  | MT_RecordDurability
  | MT_QuerySession
  | MT_SessionViewResponse
  | MT_QuerySessions
  | MT_SessionListResponse
  | MT_QueryAccounting
  | MT_AccountingResponse
  | MT_QueryExplain
  | MT_ExplanationResponse
  | MT_QueryInvariants
  | MT_StatusResponse
  | MT_ShutdownRequest
  | MT_ShardBegin
  | MT_ShardData
  | MT_ShardEnd
  | MT_ShardAck

primrec message_type_value :: "message_type \<Rightarrow> nat" where
  "message_type_value MT_HelloRequest = 1"
| "message_type_value MT_HelloResponse = 2"
| "message_type_value MT_SubmitSession = 16"
| "message_type_value MT_DecisionResponse = 17"
| "message_type_value MT_RevalidateSession = 18"
| "message_type_value MT_RequestWave = 19"
| "message_type_value MT_WaveResponse = 20"
| "message_type_value MT_ReportSourceComplete = 21"
| "message_type_value MT_ReportTransfer = 22"
| "message_type_value MT_ReportVerification = 23"
| "message_type_value MT_ReportAmbiguous = 24"
| "message_type_value MT_CancelSession = 25"
| "message_type_value MT_PauseSession = 26"
| "message_type_value MT_ResumeSession = 27"
| "message_type_value MT_RecordDurability = 28"
| "message_type_value MT_QuerySession = 32"
| "message_type_value MT_SessionViewResponse = 33"
| "message_type_value MT_QuerySessions = 34"
| "message_type_value MT_SessionListResponse = 35"
| "message_type_value MT_QueryAccounting = 36"
| "message_type_value MT_AccountingResponse = 37"
| "message_type_value MT_QueryExplain = 38"
| "message_type_value MT_ExplanationResponse = 39"
| "message_type_value MT_QueryInvariants = 40"
| "message_type_value MT_StatusResponse = 48"
| "message_type_value MT_ShutdownRequest = 56"
| "message_type_value MT_ShardBegin = 64"
| "message_type_value MT_ShardData = 65"
| "message_type_value MT_ShardEnd = 66"
| "message_type_value MT_ShardAck = 67"

definition message_types :: "message_type list" where
  "message_types = [
     MT_HelloRequest, MT_HelloResponse, MT_SubmitSession, MT_DecisionResponse, MT_RevalidateSession,
     MT_RequestWave, MT_WaveResponse, MT_ReportSourceComplete, MT_ReportTransfer, MT_ReportVerification,
     MT_ReportAmbiguous, MT_CancelSession, MT_PauseSession, MT_ResumeSession, MT_RecordDurability,
     MT_QuerySession, MT_SessionViewResponse, MT_QuerySessions, MT_SessionListResponse, MT_QueryAccounting,
     MT_AccountingResponse, MT_QueryExplain, MT_ExplanationResponse, MT_QueryInvariants, MT_StatusResponse,
     MT_ShutdownRequest, MT_ShardBegin, MT_ShardData, MT_ShardEnd, MT_ShardAck]"

definition message_type_of :: "u16 \<Rightarrow> message_type option" where
  "message_type_of raw = find (\<lambda>t. message_type_value t = unat raw) message_types"

fun is_request :: "message_type \<Rightarrow> bool" where
  "is_request MT_ShardAck = False"
| "is_request MT_HelloResponse = False"
| "is_request MT_DecisionResponse = False"
| "is_request MT_WaveResponse = False"
| "is_request MT_SessionViewResponse = False"
| "is_request MT_SessionListResponse = False"
| "is_request MT_AccountingResponse = False"
| "is_request MT_ExplanationResponse = False"
| "is_request MT_StatusResponse = False"
| "is_request _ = True"

fun response_for :: "message_type \<Rightarrow> message_type option" where
  "response_for MT_HelloRequest = Some MT_HelloResponse"
| "response_for MT_SubmitSession = Some MT_DecisionResponse"
| "response_for MT_RevalidateSession = Some MT_DecisionResponse"
| "response_for MT_RequestWave = Some MT_WaveResponse"
| "response_for MT_QuerySession = Some MT_SessionViewResponse"
| "response_for MT_QuerySessions = Some MT_SessionListResponse"
| "response_for MT_QueryAccounting = Some MT_AccountingResponse"
| "response_for MT_QueryExplain = Some MT_ExplanationResponse"
| "response_for MT_ReportSourceComplete = Some MT_StatusResponse"
| "response_for MT_ReportTransfer = Some MT_StatusResponse"
| "response_for MT_ReportVerification = Some MT_StatusResponse"
| "response_for MT_ReportAmbiguous = Some MT_StatusResponse"
| "response_for MT_CancelSession = Some MT_StatusResponse"
| "response_for MT_PauseSession = Some MT_StatusResponse"
| "response_for MT_ResumeSession = Some MT_StatusResponse"
| "response_for MT_RecordDurability = Some MT_StatusResponse"
| "response_for MT_QueryInvariants = Some MT_StatusResponse"
| "response_for MT_ShutdownRequest = Some MT_StatusResponse"
| "response_for MT_ShardData = Some MT_ShardAck"
| "response_for MT_ShardEnd = Some MT_ShardAck"
| "response_for _ = None"

section \<open>Sockets\<close>

text \<open>
  One element of \<open>recv_event\<close> or \<open>send_event\<close> is what one round of the loops of
  \<^verbatim>\<open>TcpSocket::read_some\<close> and \<^verbatim>\<open>TcpSocket::write_all\<close> observes of the operating system: the stop
  token, a failed wait, the result of \<^verbatim>\<open>recv\<close> or \<^verbatim>\<open>send\<close>. Once the events are used up the peer
  has closed its end and the kernel takes every byte offered. \<open>sk_written\<close> collects the bytes
  handed to the kernel.
\<close>

datatype recv_event = Arrived bytes | EndOfStream | RecvInterrupted | RecvReset | RecvStopped | RecvFailed

datatype send_event = Sent nat | SendInterrupted | SendStopped | SendFailed

record tcp_socket =
  sk_valid :: bool
  sk_arrivals :: "recv_event list"
  sk_sends :: "send_event list"
  sk_written :: bytes

fun recv_loop :: "nat \<Rightarrow> recv_event list \<Rightarrow> bytes result \<times> recv_event list" where
  "recv_loop n [] = (Inr [], [])"
| "recv_loop n (RecvStopped # es) = (Inl EC_ShuttingDown, RecvStopped # es)"
| "recv_loop n (RecvFailed # es) = (Inl EC_IoFailure, es)"
| "recv_loop n (RecvInterrupted # es) = recv_loop n es"
| "recv_loop n (RecvReset # es) = (Inr [], es)"
| "recv_loop n (EndOfStream # es) = (Inr [], EndOfStream # es)"
| "recv_loop n (Arrived bs # es) =
     (if length bs \<le> n then (Inr bs, es) else (Inr (take n bs), Arrived (drop n bs) # es))"

definition read_some :: "nat \<Rightarrow> tcp_socket \<Rightarrow> bytes result \<times> tcp_socket" where
  "read_some n s =
     (if \<not> sk_valid s then (Inl EC_NotReady, s)
      else if n = 0 then (Inr [], s)
      else let (r, es) = recv_loop n (sk_arrivals s) in (r, s\<lparr>sk_arrivals := es\<rparr>))"

fun send_loop :: "bytes \<Rightarrow> send_event list \<Rightarrow> status \<times> bytes \<times> send_event list" where
  "send_loop [] es = (EC_Ok, [], es)"
| "send_loop data [] = (EC_Ok, data, [])"
| "send_loop data (SendStopped # es) = (EC_ShuttingDown, [], SendStopped # es)"
| "send_loop data (SendFailed # es) = (EC_IoFailure, [], es)"
| "send_loop data (SendInterrupted # es) = send_loop data es"
| "send_loop data (Sent n # es) =
     (if n = 0 then (EC_IoFailure, [], es)
      else let (st, out, es') = send_loop (drop n data) es in (st, take n data @ out, es'))"

definition write_all :: "bytes \<Rightarrow> tcp_socket \<Rightarrow> status \<times> tcp_socket" where
  "write_all data s =
     (if \<not> sk_valid s then (EC_NotReady, s)
      else let (st, out, es) = send_loop data (sk_sends s) in
        (st, s\<lparr>sk_sends := es, sk_written := sk_written s @ out\<rparr>))"

function (sequential) read_exactly :: "nat \<Rightarrow> tcp_socket \<Rightarrow> bytes result \<times> tcp_socket" where
  "read_exactly 0 s = (Inr [], s)"
| "read_exactly n s =
     (case read_some n s of
        (Inl code, s') \<Rightarrow> (Inl code, s')
      | (Inr bs, s') \<Rightarrow>
          if bs = [] then (Inl EC_PeerClosed, s')
          else case read_exactly (n - length bs) s' of
            (Inl code, s'') \<Rightarrow> (Inl code, s'')
          | (Inr cs, s'') \<Rightarrow> (Inr (bs @ cs), s''))"
  by pat_completeness auto
termination
  by (relation "measure fst") (auto simp: neq_Nil_conv)

section \<open>MessageChannel\<close>

record message =
  ms_type :: message_type
  ms_sequence :: u64
  ms_payload :: bytes

record message_channel =
  ch_socket :: tcp_socket
  ch_send_sequence :: u64
  ch_last_received_sequence :: u64
  ch_received_any :: bool

definition new_channel :: "tcp_socket \<Rightarrow> message_channel" where
  "new_channel s = \<lparr>ch_socket = s, ch_send_sequence = 0, ch_last_received_sequence = 0, ch_received_any = False\<rparr>"

definition send_message :: "message_type \<Rightarrow> bytes \<Rightarrow> message_channel \<Rightarrow> status \<times> message_channel" where
  "send_message type payload c =
     (let sequence = ch_send_sequence c + 1;
          c = c\<lparr>ch_send_sequence := sequence\<rparr>;
          header = \<lparr>fh_protocol_version = kProtocolVersion, fh_message_type = word_of_nat (message_type_value type),
            fh_flags = 0, fh_sequence = sequence, fh_payload_bytes = word_of_nat (length payload), fh_payload_crc = 0\<rparr> in
      case encode_frame header payload of
        Inl code \<Rightarrow> (code, c)
      | Inr frame \<Rightarrow> let (st, s) = write_all frame (ch_socket c) in (st, c\<lparr>ch_socket := s\<rparr>))"

definition accept_frame :: "bytes \<Rightarrow> message_channel \<Rightarrow> message result \<times> message_channel" where
  "accept_frame frame c =
     (case decode_frame frame of
        Inl code \<Rightarrow> (Inl code, c)
      | Inr (payload, header) \<Rightarrow>
          (case message_type_of (fh_message_type header) of
             None \<Rightarrow> (Inl EC_UnknownMessageType, c)
           | Some type \<Rightarrow>
               if ch_received_any c \<and> fh_sequence header \<le> ch_last_received_sequence c
               then (Inl EC_SequenceViolation, c)
               else (Inr \<lparr>ms_type = type, ms_sequence = fh_sequence header, ms_payload = payload\<rparr>,
                 c\<lparr>ch_received_any := True, ch_last_received_sequence := fh_sequence header\<rparr>)))"

definition receive_message :: "message_channel \<Rightarrow> message result \<times> message_channel" where
  "receive_message c =
     (case read_exactly kFrameHeaderBytes (ch_socket c) of
        (Inl code, s) \<Rightarrow> (Inl code, c\<lparr>ch_socket := s\<rparr>)
      | (Inr header_bytes, s) \<Rightarrow>
          let payload_bytes = get_be (field_at header_bytes 20 4) :: u32; c = c\<lparr>ch_socket := s\<rparr> in
          if get_be (field_at header_bytes 0 4) \<noteq> kFrameMagic then (Inl EC_InvalidSyntax, c)
          else if unat payload_bytes > kMaxPayloadBytes then (Inl EC_PayloadTooLarge, c)
          else case read_exactly (unat payload_bytes) s of
            (Inl code, s') \<Rightarrow> (Inl code, c\<lparr>ch_socket := s'\<rparr>)
          | (Inr body, s') \<Rightarrow> accept_frame (header_bytes @ body) (c\<lparr>ch_socket := s'\<rparr>))"

primrec send_messages :: "(message_type \<times> bytes) list \<Rightarrow> message_channel \<Rightarrow> status \<times> message_channel" where
  "send_messages [] c = (EC_Ok, c)"
| "send_messages (m # ms) c =
     (let (st, c') = send_message (fst m) (snd m) c in if st \<noteq> EC_Ok then (st, c') else send_messages ms c')"

primrec receive_messages :: "nat \<Rightarrow> message_channel \<Rightarrow> message list \<times> message_channel" where
  "receive_messages 0 c = ([], c)"
| "receive_messages (Suc n) c =
     (case receive_message c of
        (Inl code, c') \<Rightarrow> ([], c')
      | (Inr m, c') \<Rightarrow> let (ms, c'') = receive_messages n c' in (m # ms, c''))"

section \<open>Sequence numbers\<close>

lemma receive_sequence:
  assumes "receive_message c = (Inr m, c')"
  shows "(ch_received_any c \<longrightarrow> ch_last_received_sequence c < ms_sequence m) \<and>
    ch_received_any c' \<and> ch_last_received_sequence c' = ms_sequence m"
  using assms unfolding receive_message_def accept_frame_def Let_def
  by (auto split: prod.splits sum.splits option.splits if_splits)

lemma received_increasing:
  "receive_messages n c = (ms, c') \<Longrightarrow>
     sorted_wrt (<) (map ms_sequence ms) \<and>
     (ch_received_any c \<longrightarrow> list_all (\<lambda>m. ch_last_received_sequence c < ms_sequence m) ms)"
proof (induction n arbitrary: c ms)
  case (Suc n)
  show ?case
  proof (cases "receive_message c")
    case (Pair r c1)
    show ?thesis
    proof (cases r)
      case (Inl code)
      then show ?thesis using Suc.prems Pair by simp
    next
      case (Inr m)
      obtain ms1 where rest: "receive_messages n c1 = (ms1, c')" "ms = m # ms1"
        using Suc.prems Pair Inr by (auto split: prod.splits)
      note step = receive_sequence [OF Pair [unfolded Inr]]
      have "sorted_wrt (<) (map ms_sequence ms1) \<and> list_all (\<lambda>x. ms_sequence m < ms_sequence x) ms1"
        using Suc.IH [OF rest(1)] step by simp
      then show ?thesis using step rest(2) by (auto simp: list_all_iff intro: less_trans)
    qed
  qed
qed simp

section \<open>Delivery\<close>

definition calm_arrivals :: "recv_event list \<Rightarrow> bool" where
  "calm_arrivals es \<longleftrightarrow> list_all (\<lambda>e. e = RecvInterrupted \<or> (\<exists>bs. e = Arrived bs \<and> bs \<noteq> [])) es"

fun arriving :: "recv_event list \<Rightarrow> bytes" where
  "arriving (Arrived bs # es) = bs @ arriving es"
| "arriving (_ # es) = arriving es"
| "arriving [] = []"

definition calm_sends :: "send_event list \<Rightarrow> bool" where
  "calm_sends es \<longleftrightarrow> list_all (\<lambda>e. e = SendInterrupted \<or> (\<exists>n > 0. e = Sent n)) es"

lemma recv_loop_calm:
  "calm_arrivals es \<Longrightarrow> arriving es \<noteq> [] \<Longrightarrow> 0 < n \<Longrightarrow>
   \<exists>bs es'. recv_loop n es = (Inr bs, es') \<and> bs \<noteq> [] \<and> length bs \<le> n \<and> calm_arrivals es' \<and> arriving es = bs @ arriving es'"
  by (induction n es rule: recv_loop.induct) (auto simp: calm_arrivals_def)

lemma read_exactly_calm:
  "sk_valid s \<Longrightarrow> calm_arrivals (sk_arrivals s) \<Longrightarrow> n \<le> length (arriving (sk_arrivals s)) \<Longrightarrow>
   \<exists>es. read_exactly n s = (Inr (take n (arriving (sk_arrivals s))), s\<lparr>sk_arrivals := es\<rparr>) \<and> calm_arrivals es \<and>
     arriving es = drop n (arriving (sk_arrivals s))"
proof (induction n arbitrary: s rule: less_induct)
  case (less n)
  show ?case
  proof (cases n)
    case 0
    then show ?thesis using less.prems by (auto intro!: exI [of _ "sk_arrivals s"])
  next
    case (Suc k)
    then have "arriving (sk_arrivals s) \<noteq> []" using less.prems(3) by auto
    then obtain bs es where step: "recv_loop n (sk_arrivals s) = (Inr bs, es)" "bs \<noteq> []" "length bs \<le> n"
      "calm_arrivals es" "arriving (sk_arrivals s) = bs @ arriving es"
      using recv_loop_calm [of "sk_arrivals s" n] less.prems Suc by auto
    let ?s = "s\<lparr>sk_arrivals := es\<rparr>"
    have some: "read_some n s = (Inr bs, ?s)" using step(1) less.prems(1) Suc by (simp add: read_some_def)
    have "n - length bs < n" using step(2) Suc by (cases bs) auto
    moreover have "n - length bs \<le> length (arriving es)" using less.prems(3) step(5) by simp
    ultimately obtain es' where
      rest: "read_exactly (n - length bs) ?s = (Inr (take (n - length bs) (arriving es)), ?s\<lparr>sk_arrivals := es'\<rparr>)"
      "calm_arrivals es'" "arriving es' = drop (n - length bs) (arriving es)"
      using less.IH [of "n - length bs" ?s] less.prems(1) step(4) by auto
    have "read_exactly n s = (Inr (bs @ take (n - length bs) (arriving es)), s\<lparr>sk_arrivals := es'\<rparr>)"
      using some rest(1) step(2) by (simp add: Suc)
    then show ?thesis using rest(2,3) step(3,5) by auto
  qed
qed

lemma send_loop_calm: "calm_sends es \<Longrightarrow> \<exists>es'. send_loop data es = (EC_Ok, data, es') \<and> calm_sends es'"
  by (induction data es rule: send_loop.induct) (auto simp: calm_sends_def)

lemma message_types_complete: "t \<in> set message_types"
  by (cases t) (simp_all add: message_types_def)

lemma message_type_value_inject: "message_type_value t = message_type_value u \<Longrightarrow> t = u"
proof -
  have "distinct (map message_type_value message_types)" by (simp add: message_types_def)
  then show "message_type_value t = message_type_value u \<Longrightarrow> t = u"
    using message_types_complete by (simp add: distinct_map inj_on_def)
qed

lemma message_type_of_value [simp]: "message_type_of (word_of_nat (message_type_value t)) = Some t"
proof -
  have "message_type_value t < 100" by (cases t) simp_all
  then have tag: "unat (word_of_nat (message_type_value t) :: u16) = message_type_value t" by (simp add: unat_of_nat)
  have "message_type_of (word_of_nat (message_type_value t)) \<noteq> None"
    using message_types_complete [of t] by (auto simp: message_type_of_def find_None_iff tag)
  then obtain u where "message_type_of (word_of_nat (message_type_value t)) = Some u" by blast
  moreover from this have "message_type_value u = message_type_value t" by (auto simp: message_type_of_def find_Some_iff tag)
  ultimately show ?thesis using message_type_value_inject by simp
qed

definition header_for :: "message_type \<Rightarrow> u64 \<Rightarrow> bytes \<Rightarrow> frame_header" where
  "header_for type sequence payload =
     \<lparr>fh_protocol_version = kProtocolVersion, fh_message_type = word_of_nat (message_type_value type), fh_flags = 0,
      fh_sequence = sequence, fh_payload_bytes = word_of_nat (length payload), fh_payload_crc = 0\<rparr>"

lemma encode_header_for:
  assumes "length payload \<le> kMaxPayloadBytes"
  obtains frame where "encode_frame (header_for type sequence payload) payload = Inr frame"
    and "length frame = kFrameHeaderBytes + length payload"
    and "get_be (field_at (take kFrameHeaderBytes frame) 0 4) = kFrameMagic"
    and "unat (get_be (field_at (take kFrameHeaderBytes frame) 20 4) :: u32) = length payload"
    and "decode_frame frame = Inr (payload, (header_for type sequence payload)\<lparr>fh_payload_crc := crc32c payload 0\<rparr>)"
proof -
  let ?h = "header_for type sequence payload" and ?n = "word_of_nat (length payload) :: u32"
  obtain frame where frame: "encode_frame ?h payload = Inr frame" using assms by (simp add: encode_frame_def Let_def)
  have small: "unat ?n = length payload" using assms by (simp add: kMaxPayloadBytes_def small_count)
  have same: "encode_frame (?h\<lparr>fh_payload_crc := crc32c payload 0\<rparr>) payload = Inr frame"
    using frame assms by (simp add: encode_frame_def frame_prefix_def Let_def)
  have bytes: "frame = put_be 4 kFrameMagic @ put_be 2 (fh_protocol_version ?h) @ put_be 2 (fh_message_type ?h) @
      put_be 4 (fh_flags ?h) @ put_be 8 (fh_sequence ?h) @ put_be 4 ?n @
      put_be 4 (crc32c (frame_prefix ?h (length payload)) 0) @ put_be 4 (crc32c payload 0) @ payload"
    using frame assms by (auto simp: encode_frame_def frame_prefix_def Let_def)
  show thesis
    by (rule that [OF frame])
      (simp_all add: decode_frame_iff same, simp_all add: bytes kFrameHeaderBytes_def get_put_be small header_for_def)
qed

lemma send_message_calm:
  assumes "length payload \<le> kMaxPayloadBytes" and "sk_valid (ch_socket c)" and "calm_sends (sk_sends (ch_socket c))"
    and "encode_frame (header_for type (ch_send_sequence c + 1) payload) payload = Inr frame"
  obtains es where "calm_sends es" and
    "send_message type payload c = (EC_Ok, c\<lparr>ch_send_sequence := ch_send_sequence c + 1,
       ch_socket := (ch_socket c)\<lparr>sk_sends := es, sk_written := sk_written (ch_socket c) @ frame\<rparr>\<rparr>)"
proof -
  obtain es where "send_loop frame (sk_sends (ch_socket c)) = (EC_Ok, frame, es)" "calm_sends es"
    using send_loop_calm [OF assms(3)] by blast
  then show thesis
    using assms(2,4) by (intro that [of es]) (simp_all add: send_message_def header_for_def [symmetric] Let_def write_all_def)
qed

lemma receive_message_calm:
  assumes "length payload \<le> kMaxPayloadBytes" and "encode_frame (header_for type sequence payload) payload = Inr frame"
    and "sk_valid (ch_socket c)" and "calm_arrivals (sk_arrivals (ch_socket c))"
    and "arriving (sk_arrivals (ch_socket c)) = frame @ rest"
    and "ch_received_any c \<Longrightarrow> ch_last_received_sequence c < sequence"
  obtains c' where "receive_message c = (Inr \<lparr>ms_type = type, ms_sequence = sequence, ms_payload = payload\<rparr>, c')"
    and "sk_valid (ch_socket c')" "calm_arrivals (sk_arrivals (ch_socket c'))" "arriving (sk_arrivals (ch_socket c')) = rest"
    and "ch_received_any c'" "ch_last_received_sequence c' = sequence"
proof -
  let ?s = "ch_socket c" and ?h = "(header_for type sequence payload)\<lparr>fh_payload_crc := crc32c payload 0\<rparr>"
  note frame = encode_header_for [OF assms(1), of type sequence, unfolded assms(2) sum.inject]
  have len: "length frame = kFrameHeaderBytes + length payload" by (rule frame) auto
  have magic: "get_be (field_at (take kFrameHeaderBytes frame) 0 4) = kFrameMagic" by (rule frame) auto
  have size: "unat (get_be (field_at (take kFrameHeaderBytes frame) 20 4) :: u32) = length payload" by (rule frame) auto
  have decode: "decode_frame frame = Inr (payload, ?h)" by (rule frame) auto
  have arr: "arriving (sk_arrivals ?s) = take kFrameHeaderBytes frame @ drop kFrameHeaderBytes frame @ rest"
    using assms(5) by simp
  obtain es where head: "read_exactly kFrameHeaderBytes ?s = (Inr (take kFrameHeaderBytes frame), ?s\<lparr>sk_arrivals := es\<rparr>)"
    "calm_arrivals es" "arriving es = drop kFrameHeaderBytes frame @ rest"
    using read_exactly_calm [OF assms(3,4), of kFrameHeaderBytes] by (auto simp: assms(5) len)
  obtain es' where body: "read_exactly (length payload) (?s\<lparr>sk_arrivals := es\<rparr>) =
      (Inr (drop kFrameHeaderBytes frame), ?s\<lparr>sk_arrivals := es'\<rparr>)" "calm_arrivals es'" "arriving es' = rest"
    using read_exactly_calm [of "?s\<lparr>sk_arrivals := es\<rparr>" "length payload"] assms(3) head(2,3) len by auto
  show thesis
    by (rule that [of "c\<lparr>ch_socket := ?s\<lparr>sk_arrivals := es'\<rparr>, ch_received_any := True, ch_last_received_sequence := sequence\<rparr>"])
      (use head(1) body magic size assms(1,3,6) decode in
        \<open>auto simp: receive_message_def accept_frame_def header_for_def Let_def not_less split: if_splits\<close>)
qed

definition delivers :: "(message_type \<times> bytes) list \<Rightarrow> u64 \<Rightarrow> bytes \<Rightarrow> bool" where
  "delivers ms sequence sent \<longleftrightarrow>
     (\<forall>d. sk_valid (ch_socket d) \<and> calm_arrivals (sk_arrivals (ch_socket d)) \<and> arriving (sk_arrivals (ch_socket d)) = sent \<and>
        (ch_received_any d \<longrightarrow> ch_last_received_sequence d \<le> sequence) \<longrightarrow>
        map (\<lambda>m. (ms_type m, ms_payload m)) (fst (receive_messages (length ms) d)) = ms)"

lemma u64_less_Suc: "unat x + 1 < 2 ^ 64 \<Longrightarrow> (x :: u64) < x + 1"
  by (simp add: word_less_nat_alt unat_add_u64)

lemma delivers_Cons:
  assumes "length (snd m) \<le> kMaxPayloadBytes" and "unat sequence + 1 < 2 ^ 64"
    and "encode_frame (header_for (fst m) (sequence + 1) (snd m)) (snd m) = Inr frame" and "delivers ms (sequence + 1) sent"
  shows "delivers (m # ms) sequence (frame @ sent)"
  unfolding delivers_def
proof (intro allI impI, elim conjE)
  fix d :: message_channel
  assume d: "sk_valid (ch_socket d)" "calm_arrivals (sk_arrivals (ch_socket d))" "arriving (sk_arrivals (ch_socket d)) = frame @ sent"
    "ch_received_any d \<longrightarrow> ch_last_received_sequence d \<le> sequence"
  obtain d' where "receive_message d = (Inr \<lparr>ms_type = fst m, ms_sequence = sequence + 1, ms_payload = snd m\<rparr>, d')"
    "sk_valid (ch_socket d')" "calm_arrivals (sk_arrivals (ch_socket d'))" "arriving (sk_arrivals (ch_socket d')) = sent"
    "ch_received_any d'" "ch_last_received_sequence d' = sequence + 1"
    by (rule receive_message_calm [OF assms(1,3) d(1-3)]) (use d(4) u64_less_Suc [OF assms(2)] in auto)
  moreover from this have "map (\<lambda>m. (ms_type m, ms_payload m)) (fst (receive_messages (length ms) d')) = ms"
    using assms(4) by (simp add: delivers_def)
  ultimately show "map (\<lambda>m. (ms_type m, ms_payload m)) (fst (receive_messages (length (m # ms)) d)) = m # ms"
    by (auto split: prod.splits)
qed

lemma send_messages_deliver:
  assumes "list_all (\<lambda>m. length (snd m) \<le> kMaxPayloadBytes) ms" and "unat (ch_send_sequence c) + length ms < 2 ^ 64"
    and "sk_valid (ch_socket c)" and "calm_sends (sk_sends (ch_socket c))"
  shows "\<exists>c' sent. send_messages ms c = (EC_Ok, c') \<and> sk_written (ch_socket c') = sk_written (ch_socket c) @ sent \<and>
    delivers ms (ch_send_sequence c) sent"
  using assms
proof (induction ms arbitrary: c)
  case Nil
  then show ?case by (simp add: delivers_def)
next
  case (Cons m ms)
  let ?n = "ch_send_sequence c"
  have small: "length (snd m) \<le> kMaxPayloadBytes" and room: "unat ?n + 1 < 2 ^ 64" using Cons.prems by simp_all
  obtain frame where frame: "encode_frame (header_for (fst m) (?n + 1) (snd m)) (snd m) = Inr frame"
    by (rule encode_header_for [OF small])
  obtain es where es: "calm_sends es" "send_message (fst m) (snd m) c = (EC_Ok, c\<lparr>ch_send_sequence := ?n + 1,
      ch_socket := (ch_socket c)\<lparr>sk_sends := es, sk_written := sk_written (ch_socket c) @ frame\<rparr>\<rparr>)" (is "_ = (_, ?c)")
    by (rule send_message_calm [OF small Cons.prems(3,4) frame])
  have "unat (?n + 1) = unat ?n + 1" using room by (simp add: unat_add_u64)
  then obtain c' sent where rest: "send_messages ms ?c = (EC_Ok, c')"
    "sk_written (ch_socket c') = sk_written (ch_socket ?c) @ sent" "delivers ms (?n + 1) sent"
    using Cons.IH [of ?c] Cons.prems es(1) by auto
  show ?case
    using rest es(2) delivers_Cons [OF small room frame rest(3)]
    by (intro exI [of _ c'] exI [of _ "frame @ sent"]) simp
qed

text \<open>
  C22. The message channel delivers: messages sent on a fresh channel over a working socket are
  received on the other end, in order, with their types and payloads, however the sent and the
  received bytes are cut into pieces and however often the calls are interrupted.
\<close>

theorem channel_delivers:
  assumes "list_all (\<lambda>m. length (snd m) \<le> kMaxPayloadBytes) ms" and "length ms < 2 ^ 64"
    and "sk_valid s" and "calm_sends (sk_sends s)" and "sk_written s = []"
    and "sk_valid r" and "calm_arrivals (sk_arrivals r)"
    and "arriving (sk_arrivals r) = sk_written (ch_socket (snd (send_messages ms (new_channel s))))"
  shows "fst (send_messages ms (new_channel s)) = EC_Ok \<and>
    map (\<lambda>m. (ms_type m, ms_payload m)) (fst (receive_messages (length ms) (new_channel r))) = ms"
proof -
  obtain c' sent where "send_messages ms (new_channel s) = (EC_Ok, c')" "sk_written (ch_socket c') = sent" "delivers ms 0 sent"
    using send_messages_deliver [of ms "new_channel s"] assms(1-5) by (auto simp: new_channel_def)
  then show ?thesis using assms(6-8) by (simp add: delivers_def new_channel_def)
qed

definition sample_messages :: "(message_type \<times> bytes) list" where
  "sample_messages = [(MT_QueryAccounting, []), (MT_ShardData, [1, 2, 3])]"

definition sample_sender :: tcp_socket where
  "sample_sender = \<lparr>sk_valid = True, sk_arrivals = [], sk_sends = [Sent 3, SendInterrupted, Sent 40], sk_written = []\<rparr>"

definition sample_receiver :: tcp_socket where
  "sample_receiver =
     (let sent = sk_written (ch_socket (snd (send_messages sample_messages (new_channel sample_sender)))) in
      \<lparr>sk_valid = True, sk_arrivals = RecvInterrupted # map (\<lambda>b. Arrived [b]) sent, sk_sends = [], sk_written = []\<rparr>)"

lemma arriving_bytes: "arriving (map (\<lambda>b. Arrived [b]) bs) = bs"
  by (induction bs) simp_all

theorem channel_delivers_witness:
  "map (\<lambda>m. (ms_type m, ms_payload m)) (fst (receive_messages 2 (new_channel sample_receiver))) = sample_messages"
  using channel_delivers [of sample_messages sample_sender sample_receiver]
  by (simp add: sample_receiver_def sample_sender_def arriving_bytes calm_arrivals_def calm_sends_def list_all_iff Let_def)
    (simp add: sample_messages_def kMaxPayloadBytes_def numeral_2_eq_2)

text \<open>
  C24. Whatever bytes arrive, the messages a channel accepts have strictly increasing sequence
  numbers: a repeated or rewound frame is refused.
\<close>

theorem channel_refuses_replay: "sorted_wrt (<) (map ms_sequence (fst (receive_messages n (new_channel s))))"
  using received_increasing [of n "new_channel s"] by (cases "receive_messages n (new_channel s)") simp

end
