(* ===== verification/Store_Codecs.thy ===== *)
theory Store_Codecs
  imports Protocol_Messages
begin

text \<open>
  The codecs of the persisted state in \<^verbatim>\<open>src/store.cpp\<close>: shards, attempts, sessions and the
  whole engine snapshot.
\<close>

definition encode_persisted_shard :: "persisted_shard \<Rightarrow> encoder \<Rightarrow> encoder" where
  "encode_persisted_shard v = enc_all [
     enc_scalar32 (ps_index v), encode_shard_state (ps_state v), enc_u64 (ps_sequence v),
     enc_u64 (ps_granted_bytes v), enc_u64 (ps_transferred_bytes v), enc_u64 (ps_verified_bytes v),
     encode_digest (ps_observed_digest v), enc_bool (ps_has_observed_digest v),
     enc_option enc_uuid (ps_attempt v), enc_bool (ps_source_complete v), enc_u64 (ps_source_bytes v)]"

definition decode_persisted_shard :: "persisted_shard reader" where
  "decode_persisted_shard = do {
     index \<leftarrow> dec_scalar32; state \<leftarrow> decode_shard_state; sequence \<leftarrow> dec_u64;
     granted_bytes \<leftarrow> dec_u64; transferred_bytes \<leftarrow> dec_u64;
     verified_bytes \<leftarrow> dec_u64; observed_digest \<leftarrow> decode_digest;
     has_observed_digest \<leftarrow> dec_bool; attempt \<leftarrow> dec_option dec_uuid;
     source_complete \<leftarrow> dec_bool; source_bytes \<leftarrow> dec_u64;
     State_Monad.return \<lparr>
       ps_index = index, ps_state = state, ps_sequence = sequence, ps_granted_bytes = granted_bytes,
       ps_transferred_bytes = transferred_bytes, ps_verified_bytes = verified_bytes,
       ps_observed_digest = observed_digest, ps_has_observed_digest = has_observed_digest,
       ps_attempt = attempt, ps_source_complete = source_complete, ps_source_bytes = source_bytes\<rparr>
   }"

definition fits_persisted_shard :: "limits \<Rightarrow> persisted_shard \<Rightarrow> bool" where
  "fits_persisted_shard lim v \<longleftrightarrow>
     (\<forall>x. ps_attempt v = Some x \<longrightarrow> wf_uuid x)"

lemma items_persisted_shard: "items encode_persisted_shard decode_persisted_shard fits_persisted_shard"
  unfolding encode_persisted_shard_def [abs_def] decode_persisted_shard_def
  by (rule items_record, (rule codecs [THEN spells_field] codecs)+, rule spells_return, simp, rule persisted_shard.equality)
    (simp_all add: fits_persisted_shard_def)

lemmas codes_persisted_shard [codecs] = items_persisted_shard [THEN items_codes]

definition encode_persisted_attempt :: "persisted_attempt \<Rightarrow> encoder \<Rightarrow> encoder" where
  "encode_persisted_attempt v = enc_all [
     enc_uuid (pa_id v), enc_u64 (pa_sequence v), enc_scalar32 (pa_shard v), enc_scalar32 (pa_wave v),
     encode_attempt_outcome (pa_outcome v), enc_u64 (pa_granted_bytes v), enc_u64 (pa_delivered_bytes v),
     encode_digest (pa_observed_digest v), enc_bool (pa_has_observed_digest v),
     enc_bool (pa_outstanding v), enc_i64 (pa_granted_at v), enc_i64 (pa_updated_at v)]"

definition decode_persisted_attempt :: "persisted_attempt reader" where
  "decode_persisted_attempt = do {
     id \<leftarrow> dec_uuid; sequence \<leftarrow> dec_u64; shard \<leftarrow> dec_scalar32;
     wave \<leftarrow> dec_scalar32; outcome \<leftarrow> decode_attempt_outcome;
     granted_bytes \<leftarrow> dec_u64; delivered_bytes \<leftarrow> dec_u64;
     observed_digest \<leftarrow> decode_digest; has_observed_digest \<leftarrow> dec_bool;
     outstanding \<leftarrow> dec_bool; granted_at \<leftarrow> dec_i64; updated_at \<leftarrow> dec_i64;
     State_Monad.return \<lparr>
       pa_id = id, pa_sequence = sequence, pa_shard = shard, pa_wave = wave, pa_outcome = outcome,
       pa_granted_bytes = granted_bytes, pa_delivered_bytes = delivered_bytes,
       pa_observed_digest = observed_digest, pa_has_observed_digest = has_observed_digest,
       pa_outstanding = outstanding, pa_granted_at = granted_at, pa_updated_at = updated_at\<rparr>
   }"

definition fits_persisted_attempt :: "limits \<Rightarrow> persisted_attempt \<Rightarrow> bool" where
  "fits_persisted_attempt lim v \<longleftrightarrow>
     wf_uuid (pa_id v) \<and> wire_nanos (pa_granted_at v) \<and> wire_nanos (pa_updated_at v)"

lemma items_persisted_attempt: "items encode_persisted_attempt decode_persisted_attempt fits_persisted_attempt"
  unfolding encode_persisted_attempt_def [abs_def] decode_persisted_attempt_def
  by (rule items_record, (rule codecs [THEN spells_field] codecs)+, rule spells_return, simp, rule persisted_attempt.equality)
    (simp_all add: fits_persisted_attempt_def)

lemmas codes_persisted_attempt [codecs] = items_persisted_attempt [THEN items_codes]

lemma codes_persisted_shard_list [codecs]:
  "codes (enc_list encode_persisted_shard) (dec_list bound decode_persisted_shard) (\<lambda>lim vs. length vs \<le> kMaxCollectionElements \<and> length vs \<le> bound lim \<and> list_all (fits_persisted_shard lim) vs)"
  by (rule items_list [OF items_persisted_shard])

lemma codes_persisted_attempt_list [codecs]:
  "codes (enc_list encode_persisted_attempt) (dec_list bound decode_persisted_attempt) (\<lambda>lim vs. length vs \<le> kMaxCollectionElements \<and> length vs \<le> bound lim \<and> list_all (fits_persisted_attempt lim) vs)"
  by (rule items_list [OF items_persisted_attempt])

definition encode_persisted_session :: "persisted_session \<Rightarrow> encoder \<Rightarrow> encoder" where
  "encode_persisted_session v = enc_all [
     enc_uuid (pe_session v), encode_session_request (pe_request v), encode_session_state (pe_state v),
     encode_evidence_level (pe_evidence v), encode_traffic_envelope (pe_envelope v),
     enc_u64 (pe_envelope_sequence v), enc_u64 (pe_attempt_counter v),
     enc_list encode_persisted_shard (pe_shards v), enc_list encode_persisted_attempt (pe_attempts v),
     enc_list enc_str (pe_timeline v), enc_u64 (pe_admitted_bytes v), enc_u64 (pe_transferred_bytes v),
     enc_u64 (pe_verified_bytes v), enc_u64 (pe_cancelled_bytes v), enc_u64 (pe_wasted_bytes v),
     enc_u64 (pe_unproven_bytes v), enc_u64 (pe_outstanding_bytes v), enc_u32 (pe_active_attempts v),
     enc_bool (pe_source_complete v), enc_bool (pe_paused v), enc_i64 (pe_created_at v),
     enc_i64 (pe_updated_at v), encode_reason_code (pe_last_reason v), enc_str (pe_last_detail v),
     enc_str (pe_stale_reason v), enc_option enc_uuid (pe_superseded_by v)]"

definition decode_persisted_session :: "persisted_session reader" where
  "decode_persisted_session = do {
     session \<leftarrow> dec_uuid; request \<leftarrow> decode_session_request;
     state \<leftarrow> decode_session_state; evidence \<leftarrow> decode_evidence_level;
     envelope \<leftarrow> decode_traffic_envelope; envelope_sequence \<leftarrow> dec_u64;
     attempt_counter \<leftarrow> dec_u64;
     shards \<leftarrow> dec_list (\<lambda>lim. unat (lim_max_shards_per_checkpoint lim)) decode_persisted_shard;
     attempts \<leftarrow> dec_list (\<lambda>lim. unat (lim_max_retained_history lim)) decode_persisted_attempt;
     timeline \<leftarrow> dec_list (\<lambda>lim. unat (lim_max_retained_history lim)) dec_str;
     admitted_bytes \<leftarrow> dec_u64; transferred_bytes \<leftarrow> dec_u64;
     verified_bytes \<leftarrow> dec_u64; cancelled_bytes \<leftarrow> dec_u64;
     wasted_bytes \<leftarrow> dec_u64; unproven_bytes \<leftarrow> dec_u64;
     outstanding_bytes \<leftarrow> dec_u64; active_attempts \<leftarrow> dec_u32;
     source_complete \<leftarrow> dec_bool; paused \<leftarrow> dec_bool; created_at \<leftarrow> dec_i64;
     updated_at \<leftarrow> dec_i64; last_reason \<leftarrow> decode_reason_code;
     last_detail \<leftarrow> dec_str; stale_reason \<leftarrow> dec_str;
     superseded_by \<leftarrow> dec_option dec_uuid;
     State_Monad.return \<lparr>
       pe_session = session, pe_request = request, pe_state = state, pe_evidence = evidence,
       pe_envelope = envelope, pe_envelope_sequence = envelope_sequence,
       pe_attempt_counter = attempt_counter, pe_shards = shards, pe_attempts = attempts,
       pe_timeline = timeline, pe_admitted_bytes = admitted_bytes,
       pe_transferred_bytes = transferred_bytes, pe_verified_bytes = verified_bytes,
       pe_cancelled_bytes = cancelled_bytes, pe_wasted_bytes = wasted_bytes,
       pe_unproven_bytes = unproven_bytes, pe_outstanding_bytes = outstanding_bytes,
       pe_active_attempts = active_attempts, pe_source_complete = source_complete, pe_paused = paused,
       pe_created_at = created_at, pe_updated_at = updated_at, pe_last_reason = last_reason,
       pe_last_detail = last_detail, pe_stale_reason = stale_reason, pe_superseded_by = superseded_by\<rparr>
   }"

definition fits_persisted_session :: "limits \<Rightarrow> persisted_session \<Rightarrow> bool" where
  "fits_persisted_session lim v \<longleftrightarrow>
     wf_uuid (pe_session v) \<and> fits_session_request lim (pe_request v) \<and>
     fits_traffic_envelope lim (pe_envelope v) \<and>
     length (pe_shards v) \<le> kMaxCollectionElements \<and> length (pe_shards v) \<le> unat (lim_max_shards_per_checkpoint lim) \<and> list_all (fits_persisted_shard lim) (pe_shards v) \<and>
     length (pe_attempts v) \<le> kMaxCollectionElements \<and> length (pe_attempts v) \<le> unat (lim_max_retained_history lim) \<and> list_all (fits_persisted_attempt lim) (pe_attempts v) \<and>
     length (pe_timeline v) \<le> kMaxCollectionElements \<and> length (pe_timeline v) \<le> unat (lim_max_retained_history lim) \<and> list_all wire_string (pe_timeline v) \<and>
     wire_nanos (pe_created_at v) \<and> wire_nanos (pe_updated_at v) \<and>
     wire_string (pe_last_detail v) \<and> wire_string (pe_stale_reason v) \<and>
     (\<forall>x. pe_superseded_by v = Some x \<longrightarrow> wf_uuid x)"

lemma items_persisted_session: "items encode_persisted_session decode_persisted_session fits_persisted_session"
  unfolding encode_persisted_session_def [abs_def] decode_persisted_session_def
  by (rule items_record, (rule codecs [THEN spells_field] codecs)+, rule spells_return, simp, rule persisted_session.equality)
    (simp_all add: fits_persisted_session_def)

lemmas codes_persisted_session [codecs] = items_persisted_session [THEN items_codes]

lemma codes_persisted_session_list [codecs]:
  "codes (enc_list encode_persisted_session) (dec_list bound decode_persisted_session) (\<lambda>lim vs. length vs \<le> kMaxCollectionElements \<and> length vs \<le> bound lim \<and> list_all (fits_persisted_session lim) vs)"
  by (rule items_list [OF items_persisted_session])

definition encode_engine_snapshot :: "engine_snapshot \<Rightarrow> encoder \<Rightarrow> encoder" where
  "encode_engine_snapshot v = enc_all [
     encode_coordinator_epoch (es_epoch v), enc_u64 (es_policy_generation v),
     enc_u64 (es_topology_generation v), enc_list encode_contract_generation (es_contract_generations v),
     enc_list encode_persisted_session (es_sessions v), encode_accounting_snapshot (es_accounting v),
     enc_u64 (es_commands_processed v)]"

definition decode_engine_snapshot :: "engine_snapshot reader" where
  "decode_engine_snapshot = do {
     epoch \<leftarrow> decode_coordinator_epoch; policy_generation \<leftarrow> dec_u64;
     topology_generation \<leftarrow> dec_u64;
     contract_generations \<leftarrow> dec_list (\<lambda>lim. unat (lim_max_workloads lim)) decode_contract_generation;
     sessions \<leftarrow> dec_list (\<lambda>lim. unat (lim_max_sessions lim)) decode_persisted_session;
     accounting \<leftarrow> decode_accounting_snapshot; commands_processed \<leftarrow> dec_u64;
     State_Monad.return \<lparr>
       es_epoch = epoch, es_policy_generation = policy_generation,
       es_topology_generation = topology_generation, es_contract_generations = contract_generations,
       es_sessions = sessions, es_accounting = accounting, es_commands_processed = commands_processed\<rparr>
   }"

definition fits_engine_snapshot :: "limits \<Rightarrow> engine_snapshot \<Rightarrow> bool" where
  "fits_engine_snapshot lim v \<longleftrightarrow>
     length (es_contract_generations v) \<le> kMaxCollectionElements \<and> length (es_contract_generations v) \<le> unat (lim_max_workloads lim) \<and> list_all (fits_contract_generation lim) (es_contract_generations v) \<and>
     length (es_sessions v) \<le> kMaxCollectionElements \<and> length (es_sessions v) \<le> unat (lim_max_sessions lim) \<and> list_all (fits_persisted_session lim) (es_sessions v)"

lemma items_engine_snapshot: "items encode_engine_snapshot decode_engine_snapshot fits_engine_snapshot"
  unfolding encode_engine_snapshot_def [abs_def] decode_engine_snapshot_def
  by (rule items_record, (rule codecs [THEN spells_field] codecs)+, rule spells_return, simp, rule engine_snapshot.equality)
    (simp_all add: fits_engine_snapshot_def)

lemmas codes_engine_snapshot [codecs] = items_engine_snapshot [THEN items_codes]

definition encode_snapshot :: "engine_snapshot \<Rightarrow> limits \<Rightarrow> bytes" where
  "encode_snapshot snapshot lim = encode_payload encode_engine_snapshot snapshot"

definition decode_snapshot :: "bytes \<Rightarrow> limits \<Rightarrow> engine_snapshot result" where
  "decode_snapshot data lim = decode_payload decode_engine_snapshot data lim"

lemma encode_snapshot_nonempty: "fits_engine_snapshot lim s \<Longrightarrow> encode_snapshot s lim \<noteq> []"
  using items_engine_snapshot by (simp add: items_def encode_snapshot_def encode_payload_def written_def)

interpretation snapshot_codec: wire_codec encode_engine_snapshot decode_engine_snapshot fits_engine_snapshot
  by unfold_locales (rule codes_engine_snapshot)

text \<open>
  C25. Snapshot coding is exact. Bytes decode to a snapshot exactly when the snapshot is within the
  bounds of the decoder, every string of it valid and short and every collection within its limit,
  and the bytes are the encoding of that snapshot: nothing is lost, two snapshots never share an
  encoding, and neither a truncated, an extended nor a re-spelt encoding is accepted.
\<close>

theorem snapshot_exact:
  "decode_snapshot data lim = Inr s \<longleftrightarrow> fits_engine_snapshot lim s \<and> data = encode_snapshot s lim"
  unfolding decode_snapshot_def encode_snapshot_def by (rule snapshot_codec.exact)

end
