(* ===== verification/Store.thy ===== *)
theory Store
  imports Store_Codecs Frame
begin

text \<open>
  The persistent store, \<^verbatim>\<open>src/store.cpp\<close>: journal records with their checksum, recovery from a
  snapshot file and a journal, and the operations that write them. The files are part of the
  state. Every write consumes one \<open>io_outcome\<close> that says how far the operating system got; an
  empty list means that everything succeeds. A crash during an operation leaves the files as
  the failed outcome of one of its writes leaves them.
\<close>

section \<open>Journal records\<close>

record journal_record =
  jr_sequence :: u64
  jr_label :: string
  jr_payload :: bytes

definition kJournalMagic :: u32 where
  "kJournalMagic = 0x4A465443"

definition kJournalHeaderBytes :: nat where
  "kJournalHeaderBytes = 28"

definition kMaxLabelBytes :: nat where
  "kMaxLabelBytes = 64"

definition kPersistenceFormatVersion :: u16 where
  "kPersistenceFormatVersion = 1"

definition journal_prefix :: "journal_record \<Rightarrow> bytes" where
  "journal_prefix r =
     put_be 4 kJournalMagic @ put_be 2 kPersistenceFormatVersion @ [0, 0] @ put_be 8 (jr_sequence r) @
     put_be 4 (word_of_nat (length (jr_payload r)) :: u32) @ put_be 2 (word_of_nat (length (jr_label r)) :: u16) @ [0, 0]"

definition encode_journal_record :: "journal_record \<Rightarrow> bytes" where
  "encode_journal_record r =
     (if length (jr_label r) > kMaxLabelBytes \<or> length (jr_payload r) > kMaxPayloadBytes then []
      else let header = journal_prefix r;
               crc = crc32c (jr_payload r) (crc32c (bytes_from_string (jr_label r)) (crc32c header 0)) in
        header @ put_be 4 crc @ bytes_from_string (jr_label r) @ jr_payload r)"

definition decode_journal_record :: "bytes \<Rightarrow> (journal_record \<times> nat) result" where
  "decode_journal_record data =
     (let payload_bytes = get_be (field_at data 16 4) :: u32;
          label_bytes = get_be (field_at data 20 2) :: u16;
          total = kJournalHeaderBytes + unat label_bytes + unat payload_bytes;
          label = field_at data kJournalHeaderBytes (unat label_bytes);
          payload = field_at data (kJournalHeaderBytes + unat label_bytes) (unat payload_bytes) in
      if length data < kJournalHeaderBytes then Inl EC_TruncatedInput
      else if get_be (field_at data 0 4) \<noteq> kJournalMagic then Inl EC_InvalidSyntax
      else if get_be (field_at data 4 2) \<noteq> kPersistenceFormatVersion then Inl EC_VersionIncompatible
      else if field_at data 6 2 \<noteq> [0, 0] \<or> field_at data 22 2 \<noteq> [0, 0] then Inl EC_NonCanonicalEncoding
      else if unat label_bytes > kMaxLabelBytes then Inl EC_StringTooLong
      else if unat payload_bytes > kMaxPayloadBytes then Inl EC_PayloadTooLarge
      else if total > length data then Inl EC_TruncatedInput
      else if crc32c payload (crc32c label (crc32c (field_at data 0 24) 0)) \<noteq> get_be (field_at data 24 4)
        then Inl EC_IntegrityFailure
      else Inr (\<lparr>jr_sequence = get_be (field_at data 8 8), jr_label = string_from_bytes label, jr_payload = payload\<rparr>, total))"

section \<open>Files\<close>

datatype io_outcome = IO_Done | IO_OpenFailed | IO_Short nat | IO_FlushFailed

definition contents :: "bytes option \<Rightarrow> bytes" where
  "contents file = (case file of None \<Rightarrow> [] | Some bs \<Rightarrow> bs)"

definition write_file_flushed :: "io_outcome \<Rightarrow> bytes \<Rightarrow> bool \<Rightarrow> bytes option \<Rightarrow> status \<times> bytes option" where
  "write_file_flushed io data at_end file =
     (let base = if at_end then contents file else [] in
      case io of
        IO_OpenFailed \<Rightarrow> (EC_IoFailure, file)
      | IO_Short n \<Rightarrow> (EC_IoFailure, Some (base @ take n data))
      | IO_FlushFailed \<Rightarrow> (EC_IoFailure, Some (base @ data))
      | IO_Done \<Rightarrow> (EC_Ok, Some (base @ data)))"

definition read_file_bytes :: "bool \<Rightarrow> bytes \<Rightarrow> bytes result" where
  "read_file_bytes readable file =
     (if \<not> readable then Inl EC_IoFailure
      else if length file > kMaxPayloadBytes + 4096 then Inl EC_PayloadTooLarge
      else Inr file)"

record store_config =
  so_directory :: string
  so_limits :: limits
  so_max_journal_bytes :: u64
  so_max_journal_records :: u32

record persistent_store =
  pr_config :: store_config
  pr_sequence :: u64
  pr_journal_records :: u32
  pr_journal_bytes :: u64
  pr_snapshot_file :: "bytes option"
  pr_journal_file :: "bytes option"
  pr_temp_file :: "bytes option"
  pr_readable :: bool
  pr_io :: "io_outcome list"

definition next_io :: "persistent_store \<Rightarrow> io_outcome \<times> persistent_store" where
  "next_io p = (case pr_io p of [] \<Rightarrow> (IO_Done, p) | io # ios \<Rightarrow> (io, p\<lparr>pr_io := ios\<rparr>))"

definition store_open :: "persistent_store \<Rightarrow> status \<times> persistent_store" where
  "store_open p =
     (if so_directory (pr_config p) = [] then (EC_InvalidArgument, p)
      else case next_io p of
        (io, p) \<Rightarrow>
          if io \<noteq> IO_Done then (EC_IoFailure, p)
          else (EC_Ok, p\<lparr>pr_sequence := 0, pr_journal_records := 0, pr_journal_bytes := 0\<rparr>))"

definition has_state :: "persistent_store \<Rightarrow> bool" where
  "has_state p \<longleftrightarrow> pr_snapshot_file p \<noteq> None \<or> pr_journal_file p \<noteq> None"

section \<open>Recovery\<close>

record load_report =
  ld_snapshot_present :: bool
  ld_journal_present :: bool
  ld_torn_tail :: bool
  ld_corrupt_prefix :: bool
  ld_version_mismatch :: bool
  ld_snapshot_sequence :: u64
  ld_journal_records_applied :: u64
  ld_discarded_bytes :: nat

definition empty_report :: load_report where
  "empty_report =
     \<lparr>ld_snapshot_present = False, ld_journal_present = False, ld_torn_tail = False, ld_corrupt_prefix = False,
      ld_version_mismatch = False, ld_snapshot_sequence = 0, ld_journal_records_applied = 0, ld_discarded_bytes = 0\<rparr>"

definition empty_snapshot :: engine_snapshot where
  "empty_snapshot =
     \<lparr>es_epoch = CoordinatorEpoch 0 0, es_policy_generation = 0, es_topology_generation = 0, es_contract_generations = [],
      es_sessions = [], es_accounting = zero_accounting, es_commands_processed = 0\<rparr>"

definition discard_tail :: "bytes \<Rightarrow> load_report \<Rightarrow> load_report" where
  "discard_tail raw report =
     report\<lparr>ld_torn_tail := True, ld_discarded_bytes := ld_discarded_bytes report + length raw\<rparr>"

lemma journal_record_consumes: "decode_journal_record data = Inr (r, n) \<Longrightarrow> 0 < n \<and> n \<le> length data"
  by (auto simp: decode_journal_record_def kJournalHeaderBytes_def Let_def split: if_splits)

function replay_journal :: "limits \<Rightarrow> bytes \<Rightarrow> u64 \<Rightarrow> engine_snapshot \<Rightarrow> load_report \<Rightarrow> engine_snapshot \<times> load_report" where
  "replay_journal lim raw last_sequence state report =
     (if raw = [] then (state, report)
      else case decode_journal_record raw of
        Inl code \<Rightarrow> (state, discard_tail raw report)
      | Inr (record, consumed) \<Rightarrow>
          if jr_sequence record \<le> last_sequence then (state, discard_tail raw report)
          else (case decode_snapshot (jr_payload record) lim of
             Inl code \<Rightarrow> (state, discard_tail raw report)
           | Inr decoded \<Rightarrow>
               replay_journal lim (drop consumed raw) (jr_sequence record) decoded
                 (report\<lparr>ld_journal_records_applied := ld_journal_records_applied report + 1\<rparr>)))"
  by auto
termination
  by (relation "measure (\<lambda>(lim, raw, l, s, r). length raw)") (auto dest: journal_record_consumes)

declare replay_journal.simps [simp del]

definition load_snapshot :: "persistent_store \<Rightarrow> bytes \<Rightarrow> (engine_snapshot \<times> u64) result \<times> load_report option" where
  "load_snapshot p file =
     (let rejected = empty_report\<lparr>ld_snapshot_present := True, ld_corrupt_prefix := True\<rparr> in
      case read_file_bytes (pr_readable p) file of
        Inl code \<Rightarrow> (Inl code, None)
      | Inr raw \<Rightarrow>
          (case decode_journal_record raw of
             Inl code \<Rightarrow> (Inl code, Some (rejected\<lparr>ld_version_mismatch := code = EC_VersionIncompatible\<rparr>))
           | Inr (record, consumed) \<Rightarrow>
               if consumed \<noteq> length raw then (Inl EC_TrailingGarbage, Some rejected)
               else (case decode_snapshot (jr_payload record) (so_limits (pr_config p)) of
                  Inl code \<Rightarrow> (Inl code, Some (rejected\<lparr>ld_snapshot_sequence := jr_sequence record,
                    ld_version_mismatch := code = EC_VersionIncompatible\<rparr>))
                | Inr decoded \<Rightarrow> (Inr (decoded, jr_sequence record),
                    Some (empty_report\<lparr>ld_snapshot_present := True, ld_snapshot_sequence := jr_sequence record\<rparr>)))))"

definition load_journal ::
    "persistent_store \<Rightarrow> bytes \<Rightarrow> engine_snapshot \<Rightarrow> load_report \<Rightarrow> engine_snapshot result \<times> load_report option" where
  "load_journal p file state report =
     (case read_file_bytes (pr_readable p) file of
        Inl code \<Rightarrow> (Inl code, None)
      | Inr raw \<Rightarrow>
          let (state', report') = replay_journal (so_limits (pr_config p)) raw (ld_snapshot_sequence report) state
                (report\<lparr>ld_journal_present := True\<rparr>) in
          (Inr state', Some report'))"

definition store_load :: "persistent_store \<Rightarrow> engine_snapshot result \<times> load_report option" where
  "store_load p =
     (case pr_snapshot_file p of
        None \<Rightarrow>
          (case pr_journal_file p of
             None \<Rightarrow> (Inl EC_NotFound, Some empty_report)
           | Some journal \<Rightarrow> load_journal p journal empty_snapshot empty_report)
      | Some file \<Rightarrow>
          (case load_snapshot p file of
             (Inl code, report) \<Rightarrow> (Inl code, report)
           | (Inr (state, sequence), report) \<Rightarrow>
               (case pr_journal_file p of
                  None \<Rightarrow> (Inr state, report)
                | Some journal \<Rightarrow> load_journal p journal state (the report))))"

section \<open>Writing\<close>

definition write_journal :: "bytes \<Rightarrow> bool \<Rightarrow> persistent_store \<Rightarrow> status \<times> persistent_store" where
  "write_journal data at_end p =
     (case next_io p of
        (io, p) \<Rightarrow>
          let (st, file) = write_file_flushed io data at_end (pr_journal_file p) in (st, p\<lparr>pr_journal_file := file\<rparr>))"

definition write_temp :: "bytes \<Rightarrow> persistent_store \<Rightarrow> status \<times> persistent_store" where
  "write_temp data p =
     (case next_io p of
        (io, p) \<Rightarrow>
          let (st, file) = write_file_flushed io data False (pr_temp_file p) in (st, p\<lparr>pr_temp_file := file\<rparr>))"

definition atomic_replace :: "persistent_store \<Rightarrow> status \<times> persistent_store" where
  "atomic_replace p =
     (case next_io p of
        (io, p) \<Rightarrow>
          if io \<noteq> IO_Done then (EC_IoFailure, p)
          else (EC_Ok, p\<lparr>pr_snapshot_file := pr_temp_file p, pr_temp_file := None\<rparr>))"

definition store_persist :: "engine_snapshot \<Rightarrow> persistent_store \<Rightarrow> status \<times> persistent_store" where
  "store_persist snapshot p =
     (let p = p\<lparr>pr_sequence := pr_sequence p + 1\<rparr>;
          payload = encode_snapshot snapshot (so_limits (pr_config p));
          encoded = encode_journal_record \<lparr>jr_sequence = pr_sequence p, jr_label = ''snapshot'', jr_payload = payload\<rparr> in
      if payload = [] \<and> es_sessions snapshot \<noteq> [] then (EC_Internal, p)
      else if encoded = [] then (EC_Internal, p)
      else case write_temp encoded p of
        (st, p) \<Rightarrow>
          if st \<noteq> EC_Ok then (st, p)
          else (case atomic_replace p of
            (st, p) \<Rightarrow>
              if st \<noteq> EC_Ok then (st, p)
              else
                let p = p\<lparr>pr_sequence := pr_sequence p + 1\<rparr>;
                    rotated = encode_journal_record
                      \<lparr>jr_sequence = pr_sequence p, jr_label = ''snapshot'', jr_payload = payload\<rparr> in
                if rotated = [] then (EC_Internal, p)
                else (case write_journal rotated False p of
                  (st, p) \<Rightarrow>
                    if st \<noteq> EC_Ok then (st, p)
                    else (EC_Ok, p\<lparr>pr_journal_records := 1, pr_journal_bytes := word_of_nat (length rotated)\<rparr>))))"

definition store_append :: "string \<Rightarrow> engine_snapshot \<Rightarrow> persistent_store \<Rightarrow> status \<times> persistent_store" where
  "store_append label snapshot p =
     (let payload = encode_snapshot snapshot (so_limits (pr_config p));
          p' = p\<lparr>pr_sequence := pr_sequence p + 1\<rparr>;
          encoded = encode_journal_record \<lparr>jr_sequence = pr_sequence p', jr_label = label, jr_payload = payload\<rparr> in
      if encoded = [] then (EC_Internal, p'\<lparr>pr_sequence := pr_sequence p' - 1\<rparr>)
      else case write_journal encoded True p' of
        (st, p) \<Rightarrow>
          if st \<noteq> EC_Ok then (st, p)
          else
            let p = p\<lparr>pr_journal_records := pr_journal_records p + 1,
                  pr_journal_bytes := pr_journal_bytes p + word_of_nat (length encoded)\<rparr> in
            if pr_journal_bytes p > so_max_journal_bytes (pr_config p) \<or>
               pr_journal_records p > so_max_journal_records (pr_config p)
            then store_persist snapshot p
            else (EC_Ok, p))"

section \<open>Records are exact\<close>

lemma length_journal_prefix [simp]: "length (journal_prefix r) = 24"
  by (simp add: journal_prefix_def)

definition storable :: "journal_record \<Rightarrow> bool" where
  "storable r \<longleftrightarrow> length (jr_label r) \<le> kMaxLabelBytes \<and> length (jr_payload r) \<le> kMaxPayloadBytes"

lemma encode_journal_empty [simp]: "encode_journal_record r = [] \<longleftrightarrow> \<not> storable r"
proof -
  have "journal_prefix r \<noteq> []" using length_journal_prefix [of r] by (metis list.size(3) zero_neq_numeral)
  then show ?thesis by (auto simp: encode_journal_record_def storable_def Let_def)
qed

lemma journal_parts:
  assumes "28 \<le> length (data :: bytes)"
  obtains m v z q l k y c p where "data = m @ v @ z @ q @ l @ k @ y @ c @ p" and
    "length m = 4" "length v = 2" "length z = 2" "length q = 8" "length l = 4" "length k = 2" "length y = 2" "length c = 4"
proof -
  have 1: "data = field_at data 0 4 @ field_at data 4 2 @ field_at data 6 2 @ field_at data 8 8 @ field_at data 16 4 @
      field_at data 20 2 @ field_at data 22 2 @ field_at data 24 4 @ drop 28 data"
    using append_take_drop_id [of 2 "drop 4 data"] append_take_drop_id [of 2 "drop 6 data"]
      append_take_drop_id [of 8 "drop 8 data"] append_take_drop_id [of 4 "drop 16 data"]
      append_take_drop_id [of 2 "drop 20 data"] append_take_drop_id [of 2 "drop 22 data"]
      append_take_drop_id [of 4 "drop 24 data"]
    by (simp add: field_at_def)
  show thesis by (rule that [OF 1]) (use assms in \<open>simp_all add: field_at_def\<close>)
qed

lemma field_at_Cons [simp]:
  "field_at (x # xs) 0 n = (if n = 0 then [] else x # field_at xs 0 (n - 1))"
  "0 < i \<Longrightarrow> field_at (x # xs) i n = field_at xs (i - 1) n"
  by (cases n; simp add: field_at_def) (cases i; simp add: field_at_def)

lemma encode_journal_storable:
  "storable r \<Longrightarrow> encode_journal_record r = journal_prefix r @
     put_be 4 (crc32c (jr_payload r) (crc32c (bytes_from_string (jr_label r)) (crc32c (journal_prefix r) 0))) @
     bytes_from_string (jr_label r) @ jr_payload r"
  by (simp add: storable_def encode_journal_record_def Let_def)

lemma decode_encode_journal:
  assumes "storable r"
  shows "decode_journal_record (encode_journal_record r @ rest) = Inr (r, length (encode_journal_record r))"
proof -
  let ?n = "word_of_nat (length (jr_payload r)) :: u32" and ?k = "word_of_nat (length (jr_label r)) :: u16"
  let ?label = "bytes_from_string (jr_label r)"
  let ?crc = "crc32c (jr_payload r) (crc32c ?label (crc32c (journal_prefix r) 0))"
  let ?m = "put_be 4 kJournalMagic" and ?v = "put_be 2 kPersistenceFormatVersion" and ?q = "put_be 8 (jr_sequence r)"
  have n: "unat ?n = length (jr_payload r)" and k: "unat ?k = length (jr_label r)"
    using assms by (simp_all add: storable_def kMaxPayloadBytes_def kMaxLabelBytes_def small_count unat_of_nat)
  let ?data = "?m @ ?v @ [0, 0] @ ?q @ put_be 4 ?n @ put_be 2 ?k @ [0, 0] @ put_be 4 ?crc @ ?label @ jr_payload r @ rest"
  have data: "encode_journal_record r @ rest = ?data"
    by (simp add: encode_journal_storable [OF assms] journal_prefix_def)
  have head: "field_at ?data 0 24 = journal_prefix r" by (simp add: journal_prefix_def)
  have split: "?data = (journal_prefix r @ put_be 4 ?crc) @ ?label @ jr_payload r @ rest" by (simp add: journal_prefix_def)
  have body: "field_at ?data 28 (length (jr_label r)) = ?label"
    "field_at ?data (28 + length (jr_label r)) (length (jr_payload r)) = jr_payload r"
    unfolding split by (simp_all add: field_at_def del: append_assoc)
  show ?thesis
    unfolding data decode_journal_record_def kJournalHeaderBytes_def Let_def head
    using assms body by (simp add: n k get_put_be storable_def encode_journal_storable)
qed

lemma decode_journal_canonical:
  assumes "decode_journal_record data = Inr (r, n)"
  shows "storable r \<and> n = length (encode_journal_record r) \<and> data = encode_journal_record r @ drop n data"
proof -
  have "28 \<le> length data"
    using assms by (auto simp: decode_journal_record_def kJournalHeaderBytes_def Let_def split: if_splits)
  then obtain m v z q l k y c p where data: "data = m @ v @ z @ q @ l @ k @ y @ c @ p" and
    len: "length m = 4" "length v = 2" "length z = 2" "length q = 8" "length l = 4" "length k = 2" "length y = 2" "length c = 4"
    by (rule journal_parts)
  let ?lb = "unat (get_be k :: u16)" and ?pb = "unat (get_be l :: u32)"
  let ?label = "take ?lb p" and ?payload = "take ?pb (drop ?lb p)"
  have fields: "field_at data 0 4 = m" "field_at data 4 2 = v" "field_at data 6 2 = z" "field_at data 8 8 = q"
    "field_at data 16 4 = l" "field_at data 20 2 = k" "field_at data 22 2 = y" "field_at data 24 4 = c"
    "field_at data 0 24 = m @ v @ z @ q @ l @ k @ y" "field_at data 28 ?lb = ?label" "field_at data (28 + ?lb) ?pb = ?payload"
    "length data = 28 + length p"
    using len by (simp_all add: data field_at_def)
  have run: "get_be m = kJournalMagic" "get_be v = kPersistenceFormatVersion" "z = [0, 0]" "y = [0, 0]"
    "?lb \<le> kMaxLabelBytes" "?pb \<le> kMaxPayloadBytes" "?lb + ?pb \<le> length p" "n = 28 + ?lb + ?pb"
    "get_be c = crc32c ?payload (crc32c ?label (crc32c (m @ v @ z @ q @ l @ k @ y) 0))"
    "r = \<lparr>jr_sequence = get_be q, jr_label = string_from_bytes ?label, jr_payload = ?payload\<rparr>"
    using assms unfolding decode_journal_record_def Let_def kJournalHeaderBytes_def fields
    by (auto split: if_splits)
  have puts: "m = put_be 4 kJournalMagic" "v = put_be 2 kPersistenceFormatVersion" "q = put_be 8 (get_be q :: u64)"
    "l = put_be 4 (word_of_nat ?pb :: u32)" "k = put_be 2 (word_of_nat ?lb :: u16)"
    "c = put_be 4 (crc32c ?payload (crc32c ?label (crc32c (m @ v @ z @ q @ l @ k @ y) 0)))"
    using run(1,2,9) len by (simp_all add: put_get_word put_get_be)
  have sizes: "length ?label = ?lb" "length ?payload = ?pb" using run(7) by simp_all
  have prefix: "journal_prefix r = m @ v @ z @ q @ l @ k @ y"
    using run(3,4) puts(1-5) sizes by (simp add: journal_prefix_def run(10) string_from_bytes_def)
  have ok: "storable r" using run(5,6) sizes by (simp add: storable_def run(10) string_from_bytes_def)
  have enc: "encode_journal_record r = m @ v @ z @ q @ l @ k @ y @ c @ ?label @ ?payload"
    using puts(6) by (simp add: encode_journal_storable [OF ok] prefix) (simp add: run(10))
  have "n = length (encode_journal_record r)" using run(8) len sizes by (simp add: enc)
  moreover have "data = encode_journal_record r @ drop n data"
    using append_take_drop_id [of ?lb p] append_take_drop_id [of ?pb "drop ?lb p"] len run(8)
    by (simp add: enc data add.commute)
  ultimately show ?thesis using ok by blast
qed

text \<open>A proper prefix of a record is refused.\<close>

lemma torn_record:
  assumes "storable r" and "n < length (encode_journal_record r)"
  shows "\<exists>e. decode_journal_record (take n (encode_journal_record r)) = Inl e"
proof (rule ccontr)
  let ?b = "take n (encode_journal_record r)"
  assume "\<nexists>e. decode_journal_record ?b = Inl e"
  then obtain r' k where dec: "decode_journal_record ?b = Inr (r', k)" by (metis sum.exhaust surj_pair)
  note canon = decode_journal_canonical [OF dec]
  then have "encode_journal_record r = encode_journal_record r' @ drop k ?b @ drop n (encode_journal_record r)"
    by (metis append.assoc append_take_drop_id)
  then have "decode_journal_record (encode_journal_record r) = Inr (r', k)"
    using canon decode_encode_journal [of r'] by metis
  then have "k = length (encode_journal_record r)" using decode_encode_journal [OF assms(1), of "[]"] by simp
  then show False using journal_record_consumes [OF dec] assms(2) by simp
qed

end
