(* ===== verification/Store_Recovery.thy ===== *)
theory Store_Recovery
  imports Store
begin

text \<open>
  What the store guarantees across failures: which state recovery yields after any number of
  state versions was written and a write was cut anywhere, and the three situations in which
  the guarantee ends.
\<close>

section \<open>What a log holds\<close>

text \<open>
  A log is the list of state versions in a journal, with their sequence numbers and labels.
\<close>

type_synonym log_entry = "u64 \<times> string \<times> engine_snapshot"

definition record_of :: "limits \<Rightarrow> log_entry \<Rightarrow> journal_record" where
  "record_of lim e = \<lparr>jr_sequence = fst e, jr_label = fst (snd e), jr_payload = encode_snapshot (snd (snd e)) lim\<rparr>"

definition good_entry :: "limits \<Rightarrow> log_entry \<Rightarrow> bool" where
  "good_entry lim e \<longleftrightarrow> storable (record_of lim e) \<and> fits_engine_snapshot lim (snd (snd e))"

definition journal_of :: "limits \<Rightarrow> log_entry list \<Rightarrow> bytes" where
  "journal_of lim es = concat (map (\<lambda>e. encode_journal_record (record_of lim e)) es)"

fun follows :: "u64 \<Rightarrow> log_entry list \<Rightarrow> bool" where
  "follows q [] = True"
| "follows q (e # es) = (q < fst e \<and> follows (fst e) es)"

definition last_of :: "log_entry \<Rightarrow> log_entry list \<Rightarrow> log_entry" where
  "last_of e es = (if es = [] then e else last es)"

lemma last_of_simps [simp]: "last_of e [] = e" "last_of e (f # es) = last_of f es" "last_of e (es @ [f]) = f"
  by (simp_all add: last_of_def)

lemma decode_encode_snapshot: "fits_engine_snapshot lim s \<Longrightarrow> decode_snapshot (encode_snapshot s lim) lim = Inr s"
  unfolding decode_snapshot_def encode_snapshot_def by (rule snapshot_codec.roundtrip)

lemma replay_entry:
  assumes "good_entry lim e" and "q < fst e"
  shows "replay_journal lim (encode_journal_record (record_of lim e) @ tail) q state report =
    replay_journal lim tail (fst e) (snd (snd e)) (report\<lparr>ld_journal_records_applied := ld_journal_records_applied report + 1\<rparr>)"
proof -
  let ?r = "record_of lim e"
  have ok: "storable ?r" "fits_engine_snapshot lim (snd (snd e))" using assms(1) by (simp_all add: good_entry_def)
  then have "encode_journal_record ?r \<noteq> []" by simp
  moreover have "decode_snapshot (jr_payload ?r) lim = Inr (snd (snd e))"
    using ok(2) by (simp add: record_of_def decode_encode_snapshot)
  moreover have "jr_sequence ?r = fst e" by (simp add: record_of_def)
  moreover have "\<not> fst e \<le> q" using assms(2) by (simp only: not_le)
  ultimately show ?thesis
    using decode_encode_journal [OF ok(1), of tail] by (subst replay_journal.simps) (simp del: not_le)
qed

lemma replay_log:
  "list_all (good_entry lim) es \<Longrightarrow> follows (fst e) es \<Longrightarrow>
   \<exists>report'. replay_journal lim (journal_of lim es @ tail) (fst e) (snd (snd e)) report =
     replay_journal lim tail (fst (last_of e es)) (snd (snd (last_of e es))) report'"
proof (induction es arbitrary: e report)
  case Nil
  then show ?case by (auto simp: journal_of_def)
next
  case (Cons f es)
  then show ?case using replay_entry [of lim f "fst e"] by (simp add: journal_of_def)
qed

definition refused :: "limits \<Rightarrow> u64 \<Rightarrow> bytes \<Rightarrow> bool" where
  "refused lim q tail \<longleftrightarrow>
     tail = [] \<or> (\<exists>e. decode_journal_record tail = Inl e) \<or>
     (\<exists>r n. decode_journal_record tail = Inr (r, n) \<and> jr_sequence r \<le> q)"

lemma replay_refused: "refused lim q tail \<Longrightarrow> fst (replay_journal lim tail q state report) = state"
  by (subst replay_journal.simps) (auto simp: refused_def split: sum.splits)

abbreviation lim_of :: "persistent_store \<Rightarrow> limits" where
  "lim_of p \<equiv> so_limits (pr_config p)"

definition kMaxFileBytes :: nat where
  "kMaxFileBytes = kMaxPayloadBytes + 4096"

lemma storable_size: "storable r \<Longrightarrow> length (encode_journal_record r) \<le> kMaxFileBytes"
  by (simp add: encode_journal_storable) (simp add: storable_def kMaxFileBytes_def kMaxLabelBytes_def)

definition recovers :: "persistent_store \<Rightarrow> engine_snapshot \<Rightarrow> bool" where
  "recovers p s \<longleftrightarrow> fst (store_load p) = Inr s"

definition snapshot_report :: "log_entry \<Rightarrow> load_report" where
  "snapshot_report e = empty_report\<lparr>ld_snapshot_present := True, ld_snapshot_sequence := fst e\<rparr>"

lemma load_snapshot_entry:
  assumes "pr_readable p" and "good_entry (lim_of p) e"
  shows "load_snapshot p (encode_journal_record (record_of (lim_of p) e)) = (Inr (snd (snd e), fst e), Some (snapshot_report e))"
proof -
  let ?r = "record_of (lim_of p) e"
  have ok: "storable ?r" "decode_snapshot (jr_payload ?r) (lim_of p) = Inr (snd (snd e))"
    using assms(2) by (simp_all add: good_entry_def record_of_def decode_encode_snapshot)
  have "decode_journal_record (encode_journal_record ?r) = Inr (?r, length (encode_journal_record ?r))"
    using decode_encode_journal [OF ok(1), of "[]"] by simp
  moreover have "jr_sequence ?r = fst e" by (simp add: record_of_def)
  ultimately show ?thesis
    using storable_size [OF ok(1)] ok(2) assms(1)
    by (simp add: load_snapshot_def read_file_bytes_def kMaxFileBytes_def snapshot_report_def)
qed

lemma load_log:
  assumes "pr_readable p" and "pr_snapshot_file p = Some (encode_journal_record (record_of (lim_of p) e))"
    and "good_entry (lim_of p) e" and "pr_journal_file p = Some (journal_of (lim_of p) es @ tail)"
    and "list_all (good_entry (lim_of p)) es" and "follows (fst e) es"
    and "refused (lim_of p) (fst (last_of e es)) tail"
    and "length (journal_of (lim_of p) es @ tail) \<le> kMaxFileBytes"
  shows "recovers p (snd (snd (last_of e es)))"
proof -
  let ?raw = "journal_of (lim_of p) es @ tail"
  obtain report' where "replay_journal (lim_of p) ?raw (fst e) (snd (snd e)) ((snapshot_report e)\<lparr>ld_journal_present := True\<rparr>) =
      replay_journal (lim_of p) tail (fst (last_of e es)) (snd (snd (last_of e es))) report'"
    using replay_log [OF assms(5,6)] by blast
  then have "fst (load_journal p ?raw (snd (snd e)) (snapshot_report e)) = Inr (snd (snd (last_of e es)))"
    using assms(1,8) replay_refused [OF assms(7), of "snd (snd (last_of e es))" report']
    by (auto simp: load_journal_def read_file_bytes_def kMaxFileBytes_def snapshot_report_def split: prod.splits)
  then show ?thesis by (simp add: recovers_def store_load_def assms(2,4) load_snapshot_entry [OF assms(1,3)])
qed

definition in_sync :: "persistent_store \<Rightarrow> engine_snapshot \<Rightarrow> bool" where
  "in_sync p s \<longleftrightarrow> pr_readable p \<and>
     (\<exists>e es. pr_snapshot_file p = Some (encode_journal_record (record_of (lim_of p) e)) \<and>
        pr_journal_file p = Some (journal_of (lim_of p) es) \<and> good_entry (lim_of p) e \<and>
        list_all (good_entry (lim_of p)) es \<and> follows (fst e) es \<and> fst (last_of e es) \<le> pr_sequence p \<and>
        snd (snd (last_of e es)) = s)"

lemma in_sync_recovers: "in_sync p s \<Longrightarrow> length (contents (pr_journal_file p)) \<le> kMaxFileBytes \<Longrightarrow> recovers p s"
  using load_log [where tail = "[]"] unfolding in_sync_def by (auto simp: refused_def contents_def)

lemma same_files_recovers:
  assumes "recovers p s" and "pr_config q = pr_config p" and "pr_readable q = pr_readable p"
    and "pr_snapshot_file q = pr_snapshot_file p" and "pr_journal_file q = pr_journal_file p"
  shows "recovers q s"
proof -
  have snapshot: "load_snapshot q = load_snapshot p" unfolding load_snapshot_def [abs_def] assms(2,3) ..
  have journal: "load_journal q = load_journal p" unfolding load_journal_def [abs_def] assms(2,3) ..
  have "store_load q = store_load p" unfolding store_load_def assms(4,5) snapshot journal ..
  then show ?thesis using assms(1) by (simp add: recovers_def)
qed

lemma next_io_fields:
  assumes "next_io p = (io, q)"
  shows "pr_config q = pr_config p" "pr_readable q = pr_readable p" "pr_snapshot_file q = pr_snapshot_file p"
    "pr_journal_file q = pr_journal_file p" "pr_temp_file q = pr_temp_file p" "pr_sequence q = pr_sequence p"
    "pr_journal_bytes q = pr_journal_bytes p" "pr_journal_records q = pr_journal_records p"
  using assms by (auto simp: next_io_def split: list.splits)

lemma write_temp_fields:
  assumes "write_temp data p = (st, q)"
  shows "pr_config q = pr_config p" "pr_readable q = pr_readable p" "pr_snapshot_file q = pr_snapshot_file p"
    "pr_journal_file q = pr_journal_file p" "pr_sequence q = pr_sequence p" "st = EC_Ok \<Longrightarrow> pr_temp_file q = Some data"
proof -
  obtain io p1 where io: "next_io p = (io, p1)" by fastforce
  note f = next_io_fields [OF io]
  show "pr_config q = pr_config p" "pr_readable q = pr_readable p" "pr_snapshot_file q = pr_snapshot_file p"
    "pr_journal_file q = pr_journal_file p" "pr_sequence q = pr_sequence p" "st = EC_Ok \<Longrightarrow> pr_temp_file q = Some data"
    using assms f by (cases io; auto simp: write_temp_def io write_file_flushed_def Let_def)+
qed

lemma atomic_replace_fields:
  assumes "atomic_replace p = (st, q)"
  shows "pr_config q = pr_config p" "pr_readable q = pr_readable p" "pr_journal_file q = pr_journal_file p"
    "pr_sequence q = pr_sequence p" "pr_snapshot_file q = (if st = EC_Ok then pr_temp_file p else pr_snapshot_file p)"
proof -
  obtain io p1 where io: "next_io p = (io, p1)" by fastforce
  note f = next_io_fields [OF io]
  show "pr_config q = pr_config p" "pr_readable q = pr_readable p" "pr_journal_file q = pr_journal_file p"
    "pr_sequence q = pr_sequence p" "pr_snapshot_file q = (if st = EC_Ok then pr_temp_file p else pr_snapshot_file p)"
    using assms f by (auto simp: atomic_replace_def io split: if_splits)
qed

text \<open>A journal write leaves the file as it was, or the old contents and a prefix of the data.\<close>

lemma write_journal_fields:
  assumes "write_journal data at_end p = (st, q)"
  shows "pr_config q = pr_config p" "pr_readable q = pr_readable p" "pr_snapshot_file q = pr_snapshot_file p"
    "pr_sequence q = pr_sequence p" "pr_journal_records q = pr_journal_records p" "pr_journal_bytes q = pr_journal_bytes p"
    "st = EC_Ok \<Longrightarrow> pr_journal_file q = Some ((if at_end then contents (pr_journal_file p) else []) @ data)"
    "pr_journal_file q = pr_journal_file p \<or>
      (\<exists>n. pr_journal_file q = Some ((if at_end then contents (pr_journal_file p) else []) @ take n data))"
proof -
  obtain io p1 where io: "next_io p = (io, p1)" by fastforce
  note f = next_io_fields [OF io]
  show "pr_config q = pr_config p" "pr_readable q = pr_readable p" "pr_snapshot_file q = pr_snapshot_file p"
    "pr_sequence q = pr_sequence p" "pr_journal_records q = pr_journal_records p" "pr_journal_bytes q = pr_journal_bytes p"
    "st = EC_Ok \<Longrightarrow> pr_journal_file q = Some ((if at_end then contents (pr_journal_file p) else []) @ data)"
    "pr_journal_file q = pr_journal_file p \<or>
      (\<exists>n. pr_journal_file q = Some ((if at_end then contents (pr_journal_file p) else []) @ take n data))"
    using assms f
    by (cases io; auto simp: write_journal_def io write_file_flushed_def Let_def intro: exI [of _ "length data"])+
qed

lemma persist_cases:
  fixes p s
  defines "e1 \<equiv> (pr_sequence p + 1, ''snapshot'', s)" and "e2 \<equiv> (pr_sequence p + 2, ''snapshot'', s)"
  assumes "store_persist s p = (st, q)"
  shows "pr_config q = pr_config p \<and> pr_readable q = pr_readable p \<and>
    (st \<noteq> EC_Ok \<and> pr_snapshot_file q = pr_snapshot_file p \<and> pr_journal_file q = pr_journal_file p \<or>
     storable (record_of (lim_of p) e1) \<and> pr_snapshot_file q = Some (encode_journal_record (record_of (lim_of p) e1)) \<and>
     (if st = EC_Ok then pr_sequence q = pr_sequence p + 2 \<and>
        pr_journal_file q = Some (encode_journal_record (record_of (lim_of p) e2))
      else pr_journal_file q = pr_journal_file p \<or>
        (\<exists>n. pr_journal_file q = Some (take n (encode_journal_record (record_of (lim_of p) e2))))))"
proof -
  let ?p = "p\<lparr>pr_sequence := pr_sequence p + 1\<rparr>" and ?enc = "\<lambda>e. encode_journal_record (record_of (lim_of p) e)"
  have recs: "record_of (lim_of p) e1 = \<lparr>jr_sequence = pr_sequence p + 1, jr_label = ''snapshot'', jr_payload = encode_snapshot s (lim_of p)\<rparr>"
    "record_of (lim_of p) e2 = \<lparr>jr_sequence = pr_sequence p + 2, jr_label = ''snapshot'', jr_payload = encode_snapshot s (lim_of p)\<rparr>"
    by (simp_all add: record_of_def e1_def e2_def)
  obtain st1 p1 where t: "write_temp (?enc e1) ?p = (st1, p1)" by fastforce
  obtain st2 p2 where r: "atomic_replace p1 = (st2, p2)" by fastforce
  let ?p2 = "p2\<lparr>pr_sequence := pr_sequence p2 + 1\<rparr>"
  obtain st3 p3 where w: "write_journal (?enc e2) False ?p2 = (st3, p3)" by fastforce
  note tf = write_temp_fields [OF t] and rf = atomic_replace_fields [OF r] and wf = write_journal_fields [OF w]
  have seq: "pr_sequence p2 + 1 = pr_sequence p + 2" using tf rf by (simp add: add.assoc)
  have same: "storable (record_of (lim_of p) e1) \<longleftrightarrow> storable (record_of (lim_of p) e2)" by (simp add: storable_def recs)
  consider "\<not> storable (record_of (lim_of p) e1) \<or> encode_snapshot s (lim_of p) = [] \<and> es_sessions s \<noteq> []" "st = EC_Internal" "q = ?p"
    | "storable (record_of (lim_of p) e1)" "st1 \<noteq> EC_Ok" "st = st1" "q = p1"
    | "storable (record_of (lim_of p) e1)" "st1 = EC_Ok" "st2 \<noteq> EC_Ok" "st = st2" "q = p2"
    | "storable (record_of (lim_of p) e1)" "st1 = EC_Ok" "st2 = EC_Ok" "st3 \<noteq> EC_Ok" "st = st3" "q = p3"
    | "storable (record_of (lim_of p) e1)" "st1 = EC_Ok" "st2 = EC_Ok" "st3 = EC_Ok" "st = EC_Ok"
      "q = p3\<lparr>pr_journal_records := 1, pr_journal_bytes := word_of_nat (length (?enc e2))\<rparr>"
    using assms(3) t r w same unfolding store_persist_def Let_def
    by (auto simp: recs [symmetric] seq tf(1) rf(1) split: if_splits)
  then show ?thesis
    by cases (use tf rf wf seq in auto)
qed

lemma follows_last: "follows (fst e) es \<Longrightarrow> fst e \<le> fst (last_of e es)"
  by (induction es arbitrary: e) (auto intro: order.strict_implies_order order.trans)

lemma old_journal_refused:
  assumes "list_all (good_entry lim) es" and "follows q0 es" and "fst (last_of e es) \<le> q"
  shows "refused lim q (journal_of lim es)"
proof (cases es)
  case Nil
  then show ?thesis by (simp add: refused_def journal_of_def)
next
  case (Cons f fs)
  let ?r = "record_of lim f"
  have "decode_journal_record (journal_of lim es) = Inr (?r, length (encode_journal_record ?r))"
    using assms(1) decode_encode_journal [of ?r] by (simp add: Cons journal_of_def good_entry_def)
  moreover have "jr_sequence ?r \<le> q"
    using follows_last [of f fs] assms(2,3) Cons by (auto simp: record_of_def intro: order.trans)
  ultimately show ?thesis by (auto simp: refused_def)
qed

lemma torn_refused: "storable r \<Longrightarrow> n < length (encode_journal_record r) \<Longrightarrow> refused lim q (take n (encode_journal_record r))"
  using torn_record by (auto simp: refused_def)

text \<open>A snapshot file with a journal that starts with (a prefix of) the next version.\<close>

lemma rotated_recovers:
  assumes "pr_readable p" and "pr_snapshot_file p = Some (encode_journal_record (record_of (lim_of p) e))"
    and "good_entry (lim_of p) e" and "good_entry (lim_of p) f" and "fst e < fst f" and "snd (snd f) = snd (snd e)"
    and "pr_journal_file p = Some (take n (encode_journal_record (record_of (lim_of p) f)))"
  shows "recovers p (snd (snd e))"
proof -
  let ?r = "record_of (lim_of p) f"
  have ok: "storable ?r" using assms(4) by (simp add: good_entry_def)
  note size = storable_size [OF ok]
  show ?thesis
  proof (cases "n < length (encode_journal_record ?r)")
    case True
    show ?thesis
      using load_log [OF assms(1-3), of "[]" "take n (encode_journal_record ?r)"] torn_refused [OF ok True] assms(7) size
      by (simp add: journal_of_def)
  next
    case False
    then show ?thesis
      using load_log [OF assms(1-3), of "[f]" "[]"] assms(4-7) size by (simp add: journal_of_def refused_def)
  qed
qed

lemma sequence_steps:
  assumes "unat (q :: u64) + 2 < 2 ^ 64" shows "q < q + 1" "q + 1 < q + 2"
proof -
  have "unat (q + 1) = unat q + 1" "unat (q + 2) = unat q + 2" using assms by (simp_all add: unat_add_u64)
  then show "q < q + 1" "q + 1 < q + 2" by (simp_all add: word_less_nat_alt)
qed

lemma persist_safe:
  assumes "in_sync p s0" and "fits_engine_snapshot (lim_of p) s" and "unat (pr_sequence p) + 2 < 2 ^ 64"
    and "store_persist s p = (st, q)" and "length (contents (pr_journal_file q)) \<le> kMaxFileBytes"
  shows "recovers q s0 \<or> recovers q s"
proof -
  let ?e1 = "(pr_sequence p + 1, ''snapshot'', s)" and ?e2 = "(pr_sequence p + 2, ''snapshot'', s)"
  obtain e es where old: "pr_journal_file p = Some (journal_of (lim_of p) es)" "list_all (good_entry (lim_of p)) es"
    "follows (fst e) es" "fst (last_of e es) \<le> pr_sequence p"
    using assms(1) by (auto simp: in_sync_def)
  note steps = sequence_steps [OF assms(3)] and cases = persist_cases [OF assms(4)]
  have conf: "pr_config q = pr_config p" "pr_readable q" using cases assms(1) by (auto simp: in_sync_def)
  consider "pr_snapshot_file q = pr_snapshot_file p" "pr_journal_file q = pr_journal_file p"
    | "storable (record_of (lim_of p) ?e1)" "pr_snapshot_file q = Some (encode_journal_record (record_of (lim_of p) ?e1))"
      "pr_journal_file q = pr_journal_file p"
    | n where "storable (record_of (lim_of p) ?e1)" "pr_snapshot_file q = Some (encode_journal_record (record_of (lim_of p) ?e1))"
      "pr_journal_file q = Some (take n (encode_journal_record (record_of (lim_of p) ?e2)))"
    using cases by (metis take_all_iff order.refl)
  then show ?thesis
  proof cases
    case 1
    then show ?thesis
      using same_files_recovers [OF in_sync_recovers [OF assms(1)]] conf assms(5) cases by auto
  next
    case 2
    have "refused (lim_of p) (pr_sequence p + 1) (journal_of (lim_of p) es)"
      using old_journal_refused [OF old(2,3)] old(4) steps(1) by (meson order.trans order.strict_implies_order)
    then show ?thesis
      using load_log [of q ?e1 "[]" "journal_of (lim_of p) es"] 2 conf old(1) assms(2,5)
      by (simp add: good_entry_def journal_of_def contents_def)
  next
    case 3
    then have "good_entry (lim_of p) ?e1" "good_entry (lim_of p) ?e2"
      using assms(2) by (simp_all add: good_entry_def storable_def record_of_def)
    then show ?thesis using rotated_recovers [of q ?e1 ?e2 n] 3 conf steps(2) by simp
  qed
qed

lemma persist_ok:
  assumes "store_persist s p = (EC_Ok, q)" and "pr_readable p" and "fits_engine_snapshot (lim_of p) s"
    and "unat (pr_sequence p) + 2 < 2 ^ 64"
  shows "in_sync q s \<and> pr_config q = pr_config p \<and> pr_sequence q = pr_sequence p + 2"
proof -
  let ?e1 = "(pr_sequence p + 1, ''snapshot'', s)" and ?e2 = "(pr_sequence p + 2, ''snapshot'', s)"
  have q: "pr_config q = pr_config p" "pr_readable q" "pr_sequence q = pr_sequence p + 2"
    "storable (record_of (lim_of p) ?e1)" "pr_snapshot_file q = Some (encode_journal_record (record_of (lim_of p) ?e1))"
    "pr_journal_file q = Some (encode_journal_record (record_of (lim_of p) ?e2))"
    using persist_cases [OF assms(1)] assms(2) by auto
  moreover have "good_entry (lim_of p) ?e1" "good_entry (lim_of p) ?e2"
    using assms(3) q(4) by (simp_all add: good_entry_def storable_def record_of_def)
  ultimately show ?thesis
    using sequence_steps [OF assms(4)] unfolding in_sync_def
    by (intro conjI exI [of _ ?e1] exI [of _ "[?e2]"]) (simp_all add: journal_of_def)
qed

lemma follows_snoc: "follows (fst e0) es \<Longrightarrow> fst (last_of e0 es) < fst e \<Longrightarrow> follows (fst e0) (es @ [e])"
  by (induction es arbitrary: e0) simp_all

lemma in_sync_extend:
  assumes "in_sync p s0" and "good_entry (lim_of p) e" and "pr_sequence p < fst e" and "fst e \<le> pr_sequence q"
    and "pr_config q = pr_config p" and "pr_readable q = pr_readable p" and "pr_snapshot_file q = pr_snapshot_file p"
    and "pr_journal_file q = Some (contents (pr_journal_file p) @ encode_journal_record (record_of (lim_of p) e))"
  shows "in_sync q (snd (snd e))"
proof -
  obtain e0 es where old: "pr_snapshot_file p = Some (encode_journal_record (record_of (lim_of p) e0))"
    "pr_journal_file p = Some (journal_of (lim_of p) es)" "good_entry (lim_of p) e0" "list_all (good_entry (lim_of p)) es"
    "follows (fst e0) es" "fst (last_of e0 es) \<le> pr_sequence p"
    using assms(1) by (auto simp: in_sync_def)
  have "follows (fst e0) (es @ [e])"
    by (rule follows_snoc [OF old(5)]) (rule order.strict_trans1 [OF old(6) assms(3)])
  moreover have "pr_readable q" using assms(1,6) by (simp add: in_sync_def)
  ultimately show ?thesis
    using old assms(2,4-8) unfolding in_sync_def
    by (intro conjI exI [of _ e0] exI [of _ "es @ [e]"]) (simp_all add: journal_of_def contents_def)
qed

text \<open>A failed append leaves a journal whose tail is refused, or the whole record.\<close>

lemma append_cut:
  assumes "in_sync p s0" and "good_entry (lim_of p) e" and "pr_sequence p < fst e"
    and "pr_config q = pr_config p" and "pr_readable q = pr_readable p" and "pr_snapshot_file q = pr_snapshot_file p"
    and "pr_journal_file q = pr_journal_file p \<or>
      (\<exists>n. pr_journal_file q = Some (contents (pr_journal_file p) @ take n (encode_journal_record (record_of (lim_of p) e))))"
    and "length (contents (pr_journal_file q)) \<le> kMaxFileBytes"
  shows "recovers q s0 \<or> recovers q (snd (snd e))"
  using assms(7)
proof (elim disjE exE)
  assume "pr_journal_file q = pr_journal_file p"
  then show ?thesis using same_files_recovers [OF in_sync_recovers [OF assms(1)]] assms(4-6,8) by auto
next
  let ?r = "record_of (lim_of p) e"
  fix n assume n: "pr_journal_file q = Some (contents (pr_journal_file p) @ take n (encode_journal_record ?r))"
  have ok: "storable ?r" using assms(2) by (simp add: good_entry_def)
  show ?thesis
  proof (cases "n < length (encode_journal_record ?r)")
    case True
    obtain e0 es where "pr_snapshot_file p = Some (encode_journal_record (record_of (lim_of p) e0))"
      "pr_journal_file p = Some (journal_of (lim_of p) es)" "good_entry (lim_of p) e0" "list_all (good_entry (lim_of p)) es"
      "follows (fst e0) es" "snd (snd (last_of e0 es)) = s0" "pr_readable p"
      using assms(1) by (auto simp: in_sync_def)
    then show ?thesis
      using load_log [of q e0 es "take n (encode_journal_record ?r)"] torn_refused [OF ok True] n assms(4-6,8)
      by (simp add: contents_def)
  next
    case False
    let ?q = "q\<lparr>pr_sequence := fst e\<rparr>"
    have "in_sync ?q (snd (snd e))" using n False assms(4-6) by (intro in_sync_extend [OF assms(1-3)]) simp_all
    then have "recovers ?q (snd (snd e))" using assms(8) by (simp add: in_sync_recovers)
    then have "recovers q (snd (snd e))" by (rule same_files_recovers) simp_all
    then show ?thesis ..
  qed
qed

lemma append_cases:
  fixes p s label
  defines "e \<equiv> (pr_sequence p + 1, label, s)"
  assumes "store_append label s p = (st, q)"
  shows "\<not> storable (record_of (lim_of p) e) \<and> st \<noteq> EC_Ok \<and> q = p \<or>
    storable (record_of (lim_of p) e) \<and>
    (\<exists>st1 p1. write_journal (encode_journal_record (record_of (lim_of p) e)) True (p\<lparr>pr_sequence := pr_sequence p + 1\<rparr>) = (st1, p1) \<and>
      (st1 \<noteq> EC_Ok \<and> st \<noteq> EC_Ok \<and> q = p1 \<or>
       st1 = EC_Ok \<and> (\<exists>n b. let p2 = p1\<lparr>pr_journal_records := n, pr_journal_bytes := b\<rparr> in
         st = EC_Ok \<and> q = p2 \<or> store_persist s p2 = (st, q))))"
proof -
  have rec: "record_of (lim_of p) e = \<lparr>jr_sequence = pr_sequence p + 1, jr_label = label, jr_payload = encode_snapshot s (lim_of p)\<rparr>"
    by (simp add: record_of_def e_def)
  obtain st1 p1 where w: "write_journal (encode_journal_record (record_of (lim_of p) e)) True (p\<lparr>pr_sequence := pr_sequence p + 1\<rparr>) = (st1, p1)"
    by fastforce
  show ?thesis
    using assms(2) w unfolding store_append_def Let_def by (auto simp: rec [symmetric] split: if_splits)
qed

lemma append_effect:
  assumes "in_sync p s0" and "fits_engine_snapshot (lim_of p) s" and "unat (pr_sequence p) + 3 < 2 ^ 64"
    and "store_append label s p = (st, q)"
  shows "(length (contents (pr_journal_file q)) \<le> kMaxFileBytes \<longrightarrow> recovers q s0 \<or> recovers q s) \<and>
    (st = EC_Ok \<longrightarrow> in_sync q s \<and> pr_config q = pr_config p \<and> unat (pr_sequence q) \<le> unat (pr_sequence p) + 3)"
proof -
  let ?e = "(pr_sequence p + 1, label, s)" and ?p = "p\<lparr>pr_sequence := pr_sequence p + 1\<rparr>"
  have incr: "pr_sequence p < pr_sequence p + 1" using sequence_steps [of "pr_sequence p"] assms(3) by simp
  show ?thesis
  proof (cases "storable (record_of (lim_of p) ?e)")
    case False
    then have "q = p" "st \<noteq> EC_Ok" using append_cases [OF assms(4)] by auto
    then show ?thesis using in_sync_recovers [OF assms(1)] by simp
  next
    case True
    then have good: "good_entry (lim_of p) ?e" using assms(2) by (simp add: good_entry_def)
    obtain st1 p1 n b where w: "write_journal (encode_journal_record (record_of (lim_of p) ?e)) True ?p = (st1, p1)"
      and rest: "st1 \<noteq> EC_Ok \<and> st \<noteq> EC_Ok \<and> q = p1 \<or> st1 = EC_Ok \<and>
        (st = EC_Ok \<and> q = p1\<lparr>pr_journal_records := n, pr_journal_bytes := b\<rparr> \<or>
         store_persist s (p1\<lparr>pr_journal_records := n, pr_journal_bytes := b\<rparr>) = (st, q))"
      using append_cases [OF assms(4)] True by (auto simp: Let_def)
    note f = write_journal_fields [OF w]
    let ?p2 = "p1\<lparr>pr_journal_records := n, pr_journal_bytes := b\<rparr>"
    from rest show ?thesis
    proof (elim disjE conjE)
      assume "st \<noteq> EC_Ok" "q = p1"
      then show ?thesis using append_cut [OF assms(1) good, of q] f incr by simp
    next
      assume "st1 = EC_Ok" "st = EC_Ok" "q = ?p2"
      then have "in_sync q s" using in_sync_extend [OF assms(1) good, of q] f incr by simp
      with \<open>q = ?p2\<close> show ?thesis using in_sync_recovers f(1,4) assms(3) by (auto simp: unat_add_u64)
    next
      assume ok: "st1 = EC_Ok" and persist: "store_persist s ?p2 = (st, q)"
      have sync: "in_sync ?p2 s" using in_sync_extend [OF assms(1) good, of ?p2] f incr ok by simp
      have seq: "unat (pr_sequence ?p2) + 2 < 2 ^ 64" using assms(3) f(4) by (simp add: unat_add_u64)
      have readable: "pr_readable ?p2" using sync by (simp add: in_sync_def)
      have "in_sync q s \<and> pr_config q = pr_config p \<and> unat (pr_sequence q) \<le> unat (pr_sequence p) + 3" if "st = EC_Ok"
        using persist_ok [of s ?p2 q] persist that seq assms(2,3) f(1,4) readable by (simp add: unat_add_u64)
      then show ?thesis using persist_safe [OF sync _ seq persist] assms(2) f(1) by simp
    qed
  qed
qed

section \<open>The durable cell\<close>

text \<open>
  What the coordinator relies on is a cell holding one state. A run is the states handed to it in
  order, each with whether the write was acknowledged; after a write that was not, the process
  stops, and the cell holds either the state before it or the state that was being written.
\<close>

inductive cell_run :: "'s \<Rightarrow> ('s \<times> bool) list \<Rightarrow> 's \<Rightarrow> bool" where
  cell_idle: "cell_run c [] c"
| cell_acknowledged: "cell_run s outcomes c' \<Longrightarrow> cell_run c ((s, True) # outcomes) c'"
| cell_kept: "cell_run c [(s, False)] s"
| cell_lost: "cell_run c [(s, False)] c"

inductive_simps cell_run_simps [simp]: "cell_run c [] c'" "cell_run c ((s, b) # outcomes) c'"

lemma acknowledged_last: "cell_run c outcomes c' \<Longrightarrow> list_all snd outcomes \<Longrightarrow> c' = last (c # map fst outcomes)"
  by (induction rule: cell_run.induct) auto

fun write_run :: "('l \<Rightarrow> 's \<Rightarrow> 'p \<Rightarrow> status \<times> 'p) \<Rightarrow> ('l \<times> 's) list \<Rightarrow> 'p \<Rightarrow> ('s \<times> bool) list \<times> 'p" where
  "write_run put [] p = ([], p)"
| "write_run put ((l, s) # ws) p =
     (case put l s p of
        (st, q) \<Rightarrow>
          if st = EC_Ok then (case write_run put ws q of (outcomes, r) \<Rightarrow> ((s, True) # outcomes, r))
          else ([(s, False)], q))"

locale durable_cell =
  fixes put :: "'l \<Rightarrow> 's \<Rightarrow> 'p \<Rightarrow> status \<times> 'p"
    and holds :: "nat \<Rightarrow> 'p \<Rightarrow> 's \<Rightarrow> bool"
    and admits :: "'p \<Rightarrow> 's \<Rightarrow> bool"
    and readable :: "'p \<Rightarrow> bool"
    and recovered :: "'p \<Rightarrow> 's \<Rightarrow> bool"
  assumes holds_recovered: "holds n p s \<Longrightarrow> readable p \<Longrightarrow> recovered p s"
    and write_kept: "holds (Suc n) p s0 \<Longrightarrow> admits p s \<Longrightarrow> put l s p = (EC_Ok, q) \<Longrightarrow> holds n q s \<and> admits q = admits p"
    and write_cut: "holds (Suc n) p s0 \<Longrightarrow> admits p s \<Longrightarrow> put l s p = (st, q) \<Longrightarrow> readable q \<Longrightarrow>
      recovered q s0 \<or> recovered q s"
begin

lemma run_refines:
  "holds (length ws) p s0 \<Longrightarrow> list_all (admits p \<circ> snd) ws \<Longrightarrow> write_run put ws p = (outcomes, q) \<Longrightarrow> readable q \<Longrightarrow>
    \<exists>c. cell_run s0 outcomes c \<and> recovered q c"
proof (induction ws arbitrary: p s0 outcomes)
  case Nil
  then show ?case using holds_recovered by auto
next
  case (Cons w ws)
  obtain l s where w: "w = (l, s)" by fastforce
  obtain st p1 where step: "put l s p = (st, p1)" by fastforce
  have holds: "holds (Suc (length ws)) p s0" and admits: "admits p s" using Cons.prems(1,2) w by auto
  show ?case
  proof (cases "st = EC_Ok")
    case True
    obtain os where os: "write_run put ws p1 = (os, q)" "outcomes = (s, True) # os"
      using Cons.prems(3) w step True by (auto split: prod.splits)
    have "holds (length ws) p1 s \<and> admits p1 = admits p" using write_kept [OF holds admits] step True by blast
    then show ?thesis using Cons.IH [OF _ _ os(1) Cons.prems(4)] Cons.prems(2) os(2) by auto
  next
    case False
    then have "outcomes = [(s, False)]" "q = p1" using Cons.prems(3) w step by auto
    then show ?thesis using write_cut [OF holds admits step] Cons.prems(4) by auto
  qed
qed

end

definition holds_for :: "nat \<Rightarrow> persistent_store \<Rightarrow> engine_snapshot \<Rightarrow> bool" where
  "holds_for n p s \<longleftrightarrow> in_sync p s \<and> unat (pr_sequence p) + 3 * n < 2 ^ 64"

definition readable_size :: "persistent_store \<Rightarrow> bool" where
  "readable_size p \<longleftrightarrow> length (contents (pr_journal_file p)) \<le> kMaxFileBytes"

interpretation store_cell: durable_cell store_append holds_for "\<lambda>p. fits_engine_snapshot (lim_of p)" readable_size recovers
proof unfold_locales
  show "recovers p s" if "holds_for n p s" "readable_size p" for n p s
    using that in_sync_recovers by (simp add: holds_for_def readable_size_def)
  show "holds_for n q s \<and> fits_engine_snapshot (lim_of q) = fits_engine_snapshot (lim_of p)"
    if "holds_for (Suc n) p s0" "fits_engine_snapshot (lim_of p) s" "store_append l s p = (EC_Ok, q)" for n p s0 s l q
    using append_effect [of p s0 s l EC_Ok q] that by (auto simp: holds_for_def)
  show "recovers q s0 \<or> recovers q s"
    if "holds_for (Suc n) p s0" "fits_engine_snapshot (lim_of p) s" "store_append l s p = (st, q)" "readable_size q" for n p s0 s l st q
    using append_effect [of p s0 s l st q] that by (auto simp: holds_for_def readable_size_def)
qed


definition sample_log :: persistent_store where
  "sample_log =
     (let c = \<lparr>so_directory = ''state'', so_limits = kHardLimits, so_max_journal_bytes = 4194304, so_max_journal_records = 2048\<rparr> in
      \<lparr>pr_config = c, pr_sequence = 1, pr_journal_records = 0, pr_journal_bytes = 0,
       pr_snapshot_file = Some (encode_journal_record (record_of kHardLimits (1, ''snapshot'', empty_snapshot))),
       pr_journal_file = Some [], pr_temp_file = None, pr_readable = True, pr_io = [IO_Short 10]\<rparr>)"

lemma sample_payload: "length (encode_snapshot empty_snapshot kHardLimits) \<le> 1000"
  by code_simp

lemma sample_fits: "fits_engine_snapshot kHardLimits empty_snapshot"
  by (simp add: fits_engine_snapshot_def empty_snapshot_def)

lemma sample_in_sync: "in_sync sample_log empty_snapshot"
  unfolding in_sync_def using sample_payload sample_fits
  by (intro conjI exI [of _ "(1, ''snapshot'', empty_snapshot)"] exI [of _ "[]"])
    (simp_all add: sample_log_def good_entry_def storable_def record_of_def kMaxLabelBytes_def kMaxPayloadBytes_def journal_of_def)

lemma sample_storable: "storable (record_of kHardLimits (2, ''wave'', empty_snapshot))"
  using sample_payload by (simp add: storable_def record_of_def kMaxLabelBytes_def kMaxPayloadBytes_def)


section \<open>Limits of what the store guarantees\<close>

lemma append_plain:
  assumes "good_entry (lim_of p) (pr_sequence p + 1, label, s)" and "next_io p = (io, p1)"
    and "\<And>b r. io = IO_Done \<Longrightarrow> b = pr_journal_bytes p + word_of_nat (length (encode_journal_record (record_of (lim_of p) (pr_sequence p + 1, label, s)))) \<Longrightarrow>
      b \<le> so_max_journal_bytes (pr_config p) \<and> pr_journal_records p + 1 \<le> so_max_journal_records (pr_config p)"
  shows "\<exists>q. store_append label s p = (fst (write_file_flushed io [] True None), q) \<and> pr_config q = pr_config p \<and>
    pr_readable q = pr_readable p \<and> pr_snapshot_file q = pr_snapshot_file p \<and> pr_sequence q = pr_sequence p + 1 \<and> pr_io q = pr_io p1 \<and>
    pr_journal_records q = pr_journal_records p + (if io = IO_Done then 1 else 0) \<and>
    pr_journal_bytes q = pr_journal_bytes p + (if io = IO_Done then word_of_nat (length (encode_journal_record (record_of (lim_of p) (pr_sequence p + 1, label, s)))) else 0) \<and>
    pr_journal_file q = snd (write_file_flushed io (encode_journal_record (record_of (lim_of p) (pr_sequence p + 1, label, s))) True (pr_journal_file p))"
proof -
  let ?e = "(pr_sequence p + 1, label, s)"
  have rec: "record_of (lim_of p) ?e = \<lparr>jr_sequence = pr_sequence p + 1, jr_label = label, jr_payload = encode_snapshot s (lim_of p)\<rparr>"
    by (simp add: record_of_def)
  have ok: "storable (record_of (lim_of p) ?e)" using assms(1) by (simp add: good_entry_def)
  have io: "next_io (p\<lparr>pr_sequence := pr_sequence p + 1\<rparr>) = (io, p1\<lparr>pr_sequence := pr_sequence p + 1\<rparr>)"
    using assms(2) by (auto simp: next_io_def split: list.splits)
  note f = next_io_fields [OF assms(2)]
  show ?thesis
    using ok f assms(3)
    by (cases io) (auto simp: store_append_def write_journal_def io rec [symmetric] write_file_flushed_def Let_def not_less)
qed

definition sample_next :: engine_snapshot where
  "sample_next = empty_snapshot\<lparr>es_commands_processed := 1\<rparr>"

lemma sample_next_payload: "length (encode_snapshot sample_next kHardLimits) \<le> 1000"
  by code_simp

lemma sample_next_fits: "fits_engine_snapshot kHardLimits sample_next"
  by (simp add: fits_engine_snapshot_def sample_next_def empty_snapshot_def)

lemma sample_next_distinct: "sample_next \<noteq> empty_snapshot"
  by (simp add: sample_next_def empty_snapshot_def)

lemma sample_storable_next: "storable (record_of kHardLimits (n, ''wave'', sample_next))"
  using sample_next_payload by (simp add: storable_def record_of_def kMaxLabelBytes_def kMaxPayloadBytes_def)

lemma doubled_magic_refused:
  assumes "storable r" and "storable r'"
  shows "\<exists>e. decode_journal_record (take 1 (encode_journal_record r') @ encode_journal_record r) = Inl e"
proof -
  have "get_be [0x4A, 0x46, 0x54, 0x43] = kJournalMagic" and wrong: "get_be [0x4A, 0x4A, 0x46, 0x54] \<noteq> kJournalMagic"
    by (simp_all add: word_unat_eq_iff unat_get_be bytes_value_def kJournalMagic_def)
  then have "put_be 4 kJournalMagic = [0x4A, 0x46, 0x54, 0x43]" using put_get_word [of "[0x4A, 0x46, 0x54, 0x43]" 4 kJournalMagic] by simp
  then obtain xs ys where "encode_journal_record r = [0x4A, 0x46, 0x54, 0x43] @ xs" "encode_journal_record r' = [0x4A, 0x46, 0x54, 0x43] @ ys"
    using encode_journal_storable [OF assms(1)] encode_journal_storable [OF assms(2)] by (simp add: journal_prefix_def)
  then have "field_at (take 1 (encode_journal_record r') @ encode_journal_record r) 0 4 = [0x4A, 0x4A, 0x46, 0x54]"
    by (simp add: field_at_def)
  then show ?thesis using wrong by (simp add: decode_journal_record_def Let_def)
qed

text \<open>
  C28. An acknowledged append can be lost. When an append is cut after its first byte and the
  process goes on, the next append reports success and writes its record behind the remains;
  recovery stops at the remains and yields the state from before both.
\<close>

theorem append_after_cut_lost:
  assumes "in_sync p s0" and "pr_io p = [IO_Short 1]"
    and "good_entry (lim_of p) (pr_sequence p + 1, label1, s1)" and "good_entry (lim_of p) (pr_sequence p + 2, label2, s2)"
    and "pr_journal_bytes p + word_of_nat (length (encode_journal_record (record_of (lim_of p) (pr_sequence p + 2, label2, s2))))
      \<le> so_max_journal_bytes (pr_config p)"
    and "pr_journal_records p + 1 \<le> so_max_journal_records (pr_config p)"
    and "store_append label1 s1 p = (st1, p1)" and "store_append label2 s2 p1 = (st2, p2)"
    and "length (contents (pr_journal_file p)) + length (encode_journal_record (record_of (lim_of p) (pr_sequence p + 2, label2, s2)))
      < kMaxFileBytes"
  shows "st1 = EC_IoFailure \<and> st2 = EC_Ok \<and> fst (store_load p2) = Inr s0"
proof -
  let ?r1 = "record_of (lim_of p) (pr_sequence p + 1, label1, s1)" and ?r2 = "record_of (lim_of p) (pr_sequence p + 2, label2, s2)"
  obtain e es where old: "pr_snapshot_file p = Some (encode_journal_record (record_of (lim_of p) e))"
    "pr_journal_file p = Some (journal_of (lim_of p) es)" "good_entry (lim_of p) e" "list_all (good_entry (lim_of p)) es"
    "follows (fst e) es" "snd (snd (last_of e es)) = s0" "pr_readable p"
    using assms(1) by (auto simp: in_sync_def)
  have io1: "next_io p = (IO_Short 1, p\<lparr>pr_io := []\<rparr>)" by (simp add: next_io_def assms(2))
  have p1: "st1 = EC_IoFailure" "pr_config p1 = pr_config p" "pr_readable p1" "pr_snapshot_file p1 = pr_snapshot_file p"
    "pr_sequence p1 = pr_sequence p + 1" "pr_io p1 = []" "pr_journal_records p1 = pr_journal_records p" "pr_journal_bytes p1 = pr_journal_bytes p"
    "pr_journal_file p1 = Some (journal_of (lim_of p) es @ take 1 (encode_journal_record ?r1))"
    using append_plain [OF assms(3) io1] assms(7) old(2,7) by (auto simp: write_file_flushed_def contents_def)
  have io2: "next_io p1 = (IO_Done, p1)" by (simp add: next_io_def p1(6))
  have seq: "pr_sequence p1 + 1 = pr_sequence p + 2" by (simp add: p1(5) add.assoc)
  have p2: "st2 = EC_Ok" "pr_config p2 = pr_config p" "pr_readable p2" "pr_snapshot_file p2 = pr_snapshot_file p"
    "pr_journal_file p2 = Some (journal_of (lim_of p) es @ take 1 (encode_journal_record ?r1) @ encode_journal_record ?r2)"
    using append_plain [of p1 label2 s2, OF _ io2, unfolded seq] assms(4-6,8) p1(2-4,7-9)
    by (auto simp: write_file_flushed_def contents_def)
  have "refused (lim_of p) (fst (last_of e es)) (take 1 (encode_journal_record ?r1) @ encode_journal_record ?r2)"
    using doubled_magic_refused [of ?r2 ?r1] assms(3,4) by (simp add: refused_def good_entry_def)
  then have "recovers p2 s0"
    using load_log [of p2 e es "take 1 (encode_journal_record ?r1) @ encode_journal_record ?r2"] old p2 assms(9)
    by (simp add: contents_def)
  then show ?thesis using p1(1) p2(1) by (simp add: recovers_def)
qed

theorem append_after_cut_lost_witness:
  "let p = sample_log\<lparr>pr_io := [IO_Short 1]\<rparr>; (st1, p1) = store_append ''wave'' sample_next p;
       (st2, p2) = store_append ''wave'' sample_next p1 in
   st1 = EC_IoFailure \<and> st2 = EC_Ok \<and> sample_next \<noteq> empty_snapshot \<and> fst (store_load p2) = Inr empty_snapshot"
proof -
  let ?p = "sample_log\<lparr>pr_io := [IO_Short 1]\<rparr>" and ?r = "\<lambda>n. record_of kHardLimits (n, ''wave'', sample_next)"
  obtain st1 p1 st2 p2 where runs: "store_append ''wave'' sample_next ?p = (st1, p1)" "store_append ''wave'' sample_next p1 = (st2, p2)"
    by fastforce
  have lim: "lim_of sample_log = kHardLimits" by (simp add: sample_log_def)
  have sync: "in_sync ?p empty_snapshot" using sample_in_sync by (simp add: in_sync_def)
  have size: "length (encode_journal_record (?r n)) \<le> 2000" for n
    using sample_storable_next [of n] sample_next_payload by (simp add: encode_journal_storable record_of_def)
  have good: "good_entry (lim_of ?p) (pr_sequence ?p + n, ''wave'', sample_next)" for n
    using sample_storable_next sample_next_fits by (simp add: good_entry_def lim)
  have "pr_journal_bytes ?p + word_of_nat (length (encode_journal_record (?r (pr_sequence ?p + 2)))) \<le> so_max_journal_bytes (pr_config ?p)"
    using size [of "pr_sequence ?p + 2"] by (simp add: sample_log_def word_le_nat_alt unat_of_nat)
  then show ?thesis
    using append_after_cut_lost [OF sync _ good good _ _ runs] size [of "pr_sequence ?p + 2"] sample_next_distinct runs
    by (simp add: lim) (simp add: sample_log_def contents_def kMaxFileBytes_def kMaxPayloadBytes_def)
qed

text \<open>
  A journal that is within its growth bound and larger than the largest file recovery reads
  makes recovery fail, although every append reported success.
\<close>

theorem grown_journal_unreadable:
  assumes "in_sync p s0" and "pr_io p = []" and "good_entry (lim_of p) (pr_sequence p + 1, label, s)"
    and "pr_journal_bytes p + word_of_nat (length (encode_journal_record (record_of (lim_of p) (pr_sequence p + 1, label, s))))
      \<le> so_max_journal_bytes (pr_config p)"
    and "pr_journal_records p + 1 \<le> so_max_journal_records (pr_config p)"
    and "store_append label s p = (st, q)" and "kMaxFileBytes < length (contents (pr_journal_file q))"
  shows "st = EC_Ok \<and> fst (store_load q) = Inl EC_PayloadTooLarge"
proof -
  have io: "next_io p = (IO_Done, p)" by (simp add: next_io_def assms(2))
  obtain e es where old: "pr_snapshot_file p = Some (encode_journal_record (record_of (lim_of p) e))"
    "pr_journal_file p = Some (journal_of (lim_of p) es)" "good_entry (lim_of p) e" "pr_readable p"
    using assms(1) by (auto simp: in_sync_def)
  have q: "st = EC_Ok" "pr_config q = pr_config p" "pr_readable q" "pr_snapshot_file q = pr_snapshot_file p" "pr_journal_file q \<noteq> None"
    using append_plain [OF assms(3) io] assms(4-6) old(4) by (auto simp: write_file_flushed_def)
  then show ?thesis
    using load_snapshot_entry [of q e] old assms(7)
    by (auto simp: store_load_def load_journal_def read_file_bytes_def contents_def kMaxFileBytes_def)
qed

text \<open>
  After a restart the sequence numbers start again at zero. If the process stops after the
  snapshot file was replaced and before the journal was rewritten, the records of the previous
  run are newer by their numbers, and recovery returns to the state of the previous run.
\<close>

theorem restart_snapshot_undone:
  assumes "in_sync p s0" and "decode_journal_record (contents (pr_snapshot_file p)) = Inr (r, n)" and "1 \<le> jr_sequence r"
    and "contents (pr_journal_file p) \<noteq> []"
    and "fits_engine_snapshot (lim_of p) s" and "storable (record_of (lim_of p) (1, ''snapshot'', s))"
    and "store_persist s (p\<lparr>pr_sequence := 0, pr_io := [IO_Done, IO_Done, IO_OpenFailed]\<rparr>) = (st, q)"
    and "length (contents (pr_journal_file q)) \<le> kMaxFileBytes"
  shows "pr_snapshot_file q = Some (encode_journal_record (record_of (lim_of p) (1, ''snapshot'', s))) \<and> recovers q s0"
proof -
  let ?e = "(1, ''snapshot'', s)"
  obtain e es where old: "pr_snapshot_file p = Some (encode_journal_record (record_of (lim_of p) e))"
    "pr_journal_file p = Some (journal_of (lim_of p) es)" "good_entry (lim_of p) e" "list_all (good_entry (lim_of p)) es"
    "follows (fst e) es" "snd (snd (last_of e es)) = s0" "pr_readable p"
    using assms(1) by (auto simp: in_sync_def)
  have "r = record_of (lim_of p) e"
    using assms(2) decode_encode_journal [of "record_of (lim_of p) e" "[]"] old(1,3) by (simp add: contents_def good_entry_def)
  then have first: "1 \<le> fst e" using assms(3) by (simp add: record_of_def)
  have ne: "es \<noteq> []" using assms(4) old(2) by (auto simp: contents_def journal_of_def)
  then have follows: "follows (fst ?e) es" "last_of ?e es = last_of e es"
    using old(5) first by (auto simp: neq_Nil_conv intro: order.strict_trans1)
  have rec: "record_of (lim_of p) ?e = \<lparr>jr_sequence = 1, jr_label = ''snapshot'', jr_payload = encode_snapshot s (lim_of p)\<rparr>"
    by (simp add: record_of_def)
  have "encode_snapshot s (lim_of p) \<noteq> []" by (rule encode_snapshot_nonempty [OF assms(5)])
  then have q: "pr_config q = pr_config p" "pr_readable q" "pr_snapshot_file q = Some (encode_journal_record (record_of (lim_of p) ?e))"
    "pr_journal_file q = pr_journal_file p"
    using assms(6,7) old(7)
    by (auto simp: store_persist_def write_temp_def atomic_replace_def write_journal_def next_io_def write_file_flushed_def
        rec Let_def split: if_splits)
  have "recovers q s0"
    using load_log [of q ?e es "[]"] q old(2,4,6) follows assms(5,6,8) by (simp add: good_entry_def refused_def contents_def)
  with q(3) show ?thesis ..
qed

text \<open>
  The service accepts connections before its first snapshot is written. An append made then
  carries the first sequence number of the new process behind the records of the previous one; it
  reports success, and recovery ignores it.
\<close>

theorem early_append_lost:
  assumes "in_sync p s0" and "pr_io p = []" and "decode_journal_record (contents (pr_snapshot_file p)) = Inr (r, n)"
    and "1 \<le> jr_sequence r" and "good_entry (lim_of p) (1, label, s)" and "1 \<le> so_max_journal_records (pr_config p)"
    and "word_of_nat (length (encode_journal_record (record_of (lim_of p) (1, label, s)))) \<le> so_max_journal_bytes (pr_config p)"
    and "store_append label s (p\<lparr>pr_sequence := 0, pr_journal_records := 0, pr_journal_bytes := 0\<rparr>) = (st, q)"
    and "length (contents (pr_journal_file q)) \<le> kMaxFileBytes"
  shows "st = EC_Ok \<and> recovers q s0"
proof -
  let ?e = "(1 :: u64, label, s)" and ?p = "p\<lparr>pr_sequence := 0, pr_journal_records := 0, pr_journal_bytes := 0\<rparr>"
  obtain e es where old: "pr_snapshot_file p = Some (encode_journal_record (record_of (lim_of p) e))"
    "pr_journal_file p = Some (journal_of (lim_of p) es)" "good_entry (lim_of p) e" "list_all (good_entry (lim_of p)) es"
    "follows (fst e) es" "snd (snd (last_of e es)) = s0" "pr_readable p"
    using assms(1) by (auto simp: in_sync_def)
  have "r = record_of (lim_of p) e"
    using assms(3) decode_encode_journal [of "record_of (lim_of p) e" "[]"] old(1,3) by (simp add: contents_def good_entry_def)
  then have "1 \<le> fst (last_of e es)" using assms(4) follows_last [OF old(5)] by (simp add: record_of_def)
  then have stale: "refused (lim_of p) (fst (last_of e es)) (encode_journal_record (record_of (lim_of p) ?e))"
    using decode_encode_journal [of "record_of (lim_of p) ?e" "[]"] assms(5) by (auto simp: refused_def good_entry_def record_of_def)
  have "next_io ?p = (IO_Done, ?p)" by (simp add: next_io_def assms(2))
  then have q: "st = EC_Ok" "pr_config q = pr_config p" "pr_readable q" "pr_snapshot_file q = pr_snapshot_file p"
    "pr_journal_file q = Some (journal_of (lim_of p) es @ encode_journal_record (record_of (lim_of p) ?e))"
    using append_plain [of ?p label s IO_Done ?p] assms(5-8) old(2,7) by (auto simp: write_file_flushed_def contents_def)
  then have "recovers q s0"
    using load_log [of q e es "encode_journal_record (record_of (lim_of p) ?e)"] old stale assms(9) by (simp add: contents_def)
  with q(1) show ?thesis ..
qed

end
