(* ===== verification/Service.thy ===== *)
theory Service
  imports Protocol Store_Recovery Engine_Revalidation
begin

text \<open>
  The coordinator service of \<^verbatim>\<open>src/service.cpp\<close>: it answers the messages of its connections with
  operations of the engine and makes each change durable before it acknowledges it. A message is
  handled in two parts, as in \<^verbatim>\<open>dispatch\<close>: decoding and the engine operation, which yields an
  \<open>action\<close>, and what the action asks for, which is writing the journal and sending the answer.
  The diagnostic text that the engine attaches to an answer is an argument of the definitions.
\<close>

section \<open>State\<close>

record coordinator_config =
  cc_bind_host :: string
  cc_port :: u16
  cc_data_directory :: string
  cc_policy :: policy_snapshot
  cc_topology :: topology_snapshot
  cc_contracts :: "workload_contract list"
  cc_limits :: limits
  cc_worker_threads :: nat
  cc_max_pending_connections :: nat
  cc_persist :: bool
  cc_identity_seed :: u64
  cc_label :: string

record service_stats =
  ss_connections_accepted :: u64
  ss_connections_rejected :: u64
  ss_messages_processed :: u64
  ss_protocol_errors :: u64
  ss_durable_writes :: u64
  ss_durable_write_failures :: u64
  ss_sessions_served :: u64

record service =
  sv_config :: coordinator_config
  sv_engine :: engine
  sv_store :: "persistent_store option"
  sv_load_report :: "load_report option"
  sv_stats :: service_stats
  sv_active_connections :: nat
  sv_running :: bool
  sv_stop_requested :: bool
  sv_peer_shutdown :: bool

definition note_connection_accepted :: "service \<Rightarrow> service" where
  "note_connection_accepted sv = sv\<lparr>sv_stats := (sv_stats sv)\<lparr>ss_connections_accepted := ss_connections_accepted (sv_stats sv) + 1\<rparr>\<rparr>"

definition note_connection_rejected :: "service \<Rightarrow> service" where
  "note_connection_rejected sv = sv\<lparr>sv_stats := (sv_stats sv)\<lparr>ss_connections_rejected := ss_connections_rejected (sv_stats sv) + 1\<rparr>\<rparr>"

definition note_message :: "service \<Rightarrow> service" where
  "note_message sv = sv\<lparr>sv_stats := (sv_stats sv)\<lparr>ss_messages_processed := ss_messages_processed (sv_stats sv) + 1\<rparr>\<rparr>"

definition note_protocol_error :: "service \<Rightarrow> service" where
  "note_protocol_error sv = sv\<lparr>sv_stats := (sv_stats sv)\<lparr>ss_protocol_errors := ss_protocol_errors (sv_stats sv) + 1\<rparr>\<rparr>"

definition note_durable :: "bool \<Rightarrow> service \<Rightarrow> service" where
  "note_durable ok sv =
     sv\<lparr>sv_stats :=
       (if ok then (sv_stats sv)\<lparr>ss_durable_writes := ss_durable_writes (sv_stats sv) + 1\<rparr>
        else (sv_stats sv)\<lparr>ss_durable_write_failures := ss_durable_write_failures (sv_stats sv) + 1\<rparr>)\<rparr>"

definition persist :: "string \<Rightarrow> service \<Rightarrow> status \<times> service" where
  "persist label sv =
     (case sv_store sv of
        None \<Rightarrow> (EC_Ok, sv)
      | Some p \<Rightarrow>
          if \<not> cc_persist (sv_config sv) then (EC_Ok, sv)
          else let (st, q) = store_append label (export_snapshot (sv_engine sv)) p in
            (st, note_durable (st = EC_Ok) (sv\<lparr>sv_store := Some q\<rparr>)))"

definition persist_snapshot :: "service \<Rightarrow> status \<times> service" where
  "persist_snapshot sv =
     (case sv_store sv of
        None \<Rightarrow> (EC_Ok, sv)
      | Some p \<Rightarrow>
          if \<not> cc_persist (sv_config sv) then (EC_Ok, sv)
          else let (st, q) = store_persist (export_snapshot (sv_engine sv)) p in
            (st, note_durable (st = EC_Ok) (sv\<lparr>sv_store := Some q\<rparr>)))"

definition request_stop :: "service \<Rightarrow> service" where
  "request_stop sv = sv\<lparr>sv_stop_requested := True\<rparr>"

section \<open>Answers\<close>

definition respond :: "status_payload \<Rightarrow> message_channel \<Rightarrow> status \<times> message_channel" where
  "respond payload c = send_message MT_StatusResponse (encode_payload encode_status_payload payload) c"

definition fail_request ::
    "error_code \<Rightarrow> string \<Rightarrow> reason_code \<Rightarrow> service \<Rightarrow> message_channel \<Rightarrow> status \<times> service \<times> message_channel" where
  "fail_request code detail reason sv c =
     (let (st, c) = respond \<lparr>st_code = code, st_reason = reason, st_detail = detail\<rparr> c in (st, note_protocol_error sv, c))"

datatype action =
    Refuse error_code string reason_code
  | Answer message_type bytes
  | Commit string message_type bytes
  | StopService

definition with_payload ::
    "'a reader \<Rightarrow> message \<Rightarrow> limits \<Rightarrow> string \<Rightarrow> ('a \<Rightarrow> engine \<Rightarrow> action \<times> engine) \<Rightarrow> engine \<Rightarrow> action \<times> engine" where
  "with_payload dec m lim note f e =
     (case decode_payload dec (ms_payload m) lim of
        Inl code \<Rightarrow> (Refuse code note RC_Internal, e)
      | Inr v \<Rightarrow> f v e)"

definition finish_command :: "string \<Rightarrow> string \<Rightarrow> status \<times> engine \<Rightarrow> action \<times> engine" where
  "finish_command label note r =
     (case r of
        (st, e) \<Rightarrow>
          (if st \<noteq> EC_Ok then Refuse st note (reason_for_fence_code st)
           else Commit label MT_StatusResponse
             (encode_payload encode_status_payload \<lparr>st_code = EC_Ok, st_reason = RC_Admitted, st_detail = label @ '' accepted''\<rparr>), e))"

definition finish_decision :: "string \<Rightarrow> string \<Rightarrow> admission_decision result \<times> engine \<Rightarrow> action \<times> engine" where
  "finish_decision label note r =
     (case r of
        (Inl code, e) \<Rightarrow> (Refuse code note (reason_for_fence_code code), e)
      | (Inr d, e) \<Rightarrow>
          (Commit label MT_DecisionResponse
             (encode_payload encode_decision (admission_decision.extend d (decision_message.fields note))), e))"

definition finish_wave :: "string \<Rightarrow> wave_outcome result \<times> engine \<Rightarrow> action \<times> engine" where
  "finish_wave note r =
     (case r of
        (Inl code, e) \<Rightarrow> (Refuse code note (reason_for_fence_code code), e)
      | (Inr w, e) \<Rightarrow>
          let payload = encode_payload encode_wave_outcome (wave_outcome.extend w (outcome_message.fields note)) in
          (if wo_granted w then Commit ''wave-grant'' MT_WaveResponse payload else Answer MT_WaveResponse payload, e))"

section \<open>Commands\<close>

definition handle_decision :: "nanos \<Rightarrow> string \<Rightarrow> limits \<Rightarrow> message \<Rightarrow> engine \<Rightarrow> action \<times> engine" where
  "handle_decision at note lim m =
     (if ms_type m = MT_SubmitSession
      then with_payload decode_submit_request m lim note
        (\<lambda>q e. finish_decision ''submit-session'' note (submit_session (sq_request q) (sq_fence q) at e))
      else with_payload decode_revalidate_request m lim note
        (\<lambda>q e. finish_decision ''revalidate-session'' note (revalidate_session (rv_session q) (rv_fence q) at e)))"

definition handle_wave :: "nanos \<Rightarrow> string \<Rightarrow> limits \<Rightarrow> client_kind \<Rightarrow> message \<Rightarrow> engine \<Rightarrow> action \<times> engine" where
  "handle_wave at note lim kind m =
     with_payload decode_wave_request m lim note
       (\<lambda>q e.
          if kind \<noteq> CK_Sender
          then (Refuse EC_NotAuthorized ''only a sender may request checkpoint traffic credit'' RC_AuthorityStale, e)
          else finish_wave note (request_wave (wq_session q) (wq_shard q) (wq_fence q) at e))"

definition handle_verification ::
    "nanos \<Rightarrow> string \<Rightarrow> limits \<Rightarrow> client_kind \<Rightarrow> string \<Rightarrow> message \<Rightarrow> engine \<Rightarrow> action \<times> engine" where
  "handle_verification at note lim kind identity m =
     with_payload decode_verification_report m lim note
       (\<lambda>q e.
          if kind \<noteq> CK_Sink
          then (Refuse EC_NotAuthorized ''only a sink may report destination verification evidence'' RC_AuthorityStale, e)
          else finish_command ''verification-evidence'' note
            (report_verification ((vq_evidence q)\<lparr>vf_verifier_identity := identity\<rparr>) (vq_fence q) at e))"

definition handle_session_query :: "string \<Rightarrow> limits \<Rightarrow> message \<Rightarrow> engine \<Rightarrow> action \<times> engine" where
  "handle_session_query note lim m =
     with_payload decode_session_query m lim note
       (\<lambda>q e.
          (if ms_type m = MT_QuerySession
           then (case view_session (qs_session q) e of
                   Inl code \<Rightarrow> Refuse code note RC_SessionNotFound
                 | Inr v \<Rightarrow> Answer MT_SessionViewResponse (encode_payload encode_session_view v))
           else (case explain (qs_session q) e of
                   Inl code \<Rightarrow> Refuse code note RC_SessionNotFound
                 | Inr x \<Rightarrow> Answer MT_ExplanationResponse (encode_payload encode_explanation x)), e))"

definition handle_sessions_query :: "string \<Rightarrow> limits \<Rightarrow> message \<Rightarrow> engine \<Rightarrow> action \<times> engine" where
  "handle_sessions_query note lim m =
     with_payload decode_sessions_query m lim note
       (\<lambda>q e.
          (Answer MT_SessionListResponse
             (encode_payload encode_session_list_response
                \<lparr>lr_sessions = list_sessions (if ql_has_workload q then Some (ql_workload q) else None) (unat (ql_limit q)) e\<rparr>), e))"

definition handle_shutdown :: "nanos \<Rightarrow> client_kind \<Rightarrow> engine \<Rightarrow> action \<times> engine" where
  "handle_shutdown at kind e =
     (if kind \<noteq> CK_Operator \<and> kind \<noteq> CK_Observer
      then (Refuse EC_NotAuthorized ''only an operator connection may request shutdown'' RC_Internal, e)
      else (StopService, snd (begin_shutdown at e)))"

definition handle_message ::
    "nanos \<Rightarrow> string \<Rightarrow> limits \<Rightarrow> client_kind \<Rightarrow> string \<Rightarrow> message \<Rightarrow> engine \<Rightarrow> action \<times> engine" where
  "handle_message at note lim kind identity m e =
     (case ms_type m of
        MT_HelloRequest \<Rightarrow>
          (Refuse EC_InvalidStateTransition ''hello was already completed on this connection'' RC_Internal, e)
      | MT_SubmitSession \<Rightarrow> handle_decision at note lim m e
      | MT_RevalidateSession \<Rightarrow> handle_decision at note lim m e
      | MT_RequestWave \<Rightarrow> handle_wave at note lim kind m e
      | MT_ReportSourceComplete \<Rightarrow>
          with_payload decode_source_complete_request m lim note
            (\<lambda>q e. finish_command ''source-complete'' note (report_source_complete (cq_evidence q) (cq_fence q) at e)) e
      | MT_ReportTransfer \<Rightarrow>
          with_payload decode_transfer_report m lim note
            (\<lambda>q e. finish_command ''transfer-evidence'' note (report_transfer (tq_evidence q) (tq_fence q) at e)) e
      | MT_ReportVerification \<Rightarrow> handle_verification at note lim kind identity m e
      | MT_ReportAmbiguous \<Rightarrow>
          with_payload decode_ambiguity_request m lim note
            (\<lambda>q e. finish_command ''ambiguity'' note
              (report_ambiguous (aq_session q) (aq_attempt q) (aq_sequence q) (aq_cause q) (aq_fence q) at e)) e
      | MT_CancelSession \<Rightarrow>
          with_payload decode_cancel_request m lim note
            (\<lambda>q e. finish_command ''cancel'' note (cancel_session (cn_session q) (cn_fence q) (cn_reason q) (cn_detail q) at e)) e
      | MT_PauseSession \<Rightarrow>
          with_payload decode_pause_request m lim note
            (\<lambda>q e. finish_command ''pause'' note (pause_session (pz_session q) (pz_fence q) (pz_reason q) at e)) e
      | MT_ResumeSession \<Rightarrow>
          with_payload decode_resume_request m lim note
            (\<lambda>q e. finish_command ''resume'' note (resume_session (rs_session q) (rs_fence q) at e)) e
      | MT_RecordDurability \<Rightarrow>
          with_payload decode_durability_request m lim note
            (\<lambda>q e. finish_command ''durability-assertion'' note
              (record_durability_assertion (dq_session q) (dq_assertion q) (dq_fence q) at e)) e
      | MT_QuerySession \<Rightarrow> handle_session_query note lim m e
      | MT_QuerySessions \<Rightarrow> handle_sessions_query note lim m e
      | MT_QueryAccounting \<Rightarrow>
          (Answer MT_AccountingResponse (encode_payload encode_accounting_snapshot (en_accounting e)), e)
      | MT_QueryExplain \<Rightarrow> handle_session_query note lim m e
      | MT_QueryInvariants \<Rightarrow>
          (Answer MT_StatusResponse
             (encode_payload encode_status_payload
                \<lparr>st_code = check_invariants e, st_reason = RC_Internal, st_detail = note\<rparr>), e)
      | MT_ShutdownRequest \<Rightarrow> handle_shutdown at kind e
      | MT_ShardBegin \<Rightarrow> (Refuse EC_UnknownMessageType ''message type is not handled'' RC_Internal, e)
      | MT_ShardData \<Rightarrow> (Refuse EC_UnknownMessageType ''message type is not handled'' RC_Internal, e)
      | MT_ShardEnd \<Rightarrow> (Refuse EC_UnknownMessageType ''message type is not handled'' RC_Internal, e)
      | MT_ShardAck \<Rightarrow> (Refuse EC_UnknownMessageType ''message type is not handled'' RC_Internal, e)
      | _ \<Rightarrow> (Refuse EC_InvalidStateTransition ''peer sent a response where a request was expected'' RC_Internal, e))"

definition perform :: "string \<Rightarrow> action \<Rightarrow> service \<Rightarrow> message_channel \<Rightarrow> status \<times> service \<times> message_channel" where
  "perform note act sv c =
     (case act of
        Refuse code detail reason \<Rightarrow> fail_request code detail reason sv c
      | Answer type payload \<Rightarrow> let (st, c) = send_message type payload c in (st, sv, c)
      | Commit label type payload \<Rightarrow>
          let (durable, sv) = persist label sv in
          if durable \<noteq> EC_Ok then fail_request durable note RC_Internal sv c
          else let (st, c) = send_message type payload c in (st, sv, c)
      | StopService \<Rightarrow>
          let (durable, sv) = persist ''shutdown'' sv;
              (st, c) = respond \<lparr>st_code = durable, st_reason = RC_FabricShuttingDown, st_detail = note\<rparr> c in
          (st, request_stop (sv\<lparr>sv_peer_shutdown := True\<rparr>), c))"

definition dispatch ::
    "nanos \<Rightarrow> string \<Rightarrow> client_kind \<Rightarrow> string \<Rightarrow> message \<Rightarrow> service \<Rightarrow> message_channel \<Rightarrow> status \<times> service \<times> message_channel" where
  "dispatch at note kind identity m sv c =
     (let (act, e) = handle_message at note (cc_limits (sv_config sv)) kind identity m (sv_engine sv) in
      perform note act (sv\<lparr>sv_engine := e\<rparr>) c)"

section \<open>Connections\<close>

definition close_channel :: "message_channel \<Rightarrow> message_channel" where
  "close_channel c = c\<lparr>ch_socket := (ch_socket c)\<lparr>sk_valid := False\<rparr>\<rparr>"

definition connection_bound :: "coordinator_config \<Rightarrow> nat" where
  "connection_bound cfg =
     max (if cc_max_pending_connections cfg = 0 then 64 else cc_max_pending_connections cfg) (cc_worker_threads cfg)"

definition dispatch_connection :: "service \<Rightarrow> bool \<times> service" where
  "dispatch_connection sv =
     (if sv_active_connections sv \<ge> connection_bound (sv_config sv) then (False, note_connection_rejected sv)
      else (True, sv\<lparr>sv_active_connections := sv_active_connections sv + 1\<rparr>))"

definition engine_contracts :: "engine \<Rightarrow> workload_contract list" where
  "engine_contracts e = sort_key wc_workload (map snd (en_contracts e))"

definition hello_answer :: "service \<Rightarrow> hello_response" where
  "hello_answer sv =
     (let e = sv_engine sv in
      \<lparr>hr_epoch = en_epoch e, hr_policy_generation = po_generation (en_policy e),
       hr_topology_generation = to_generation (en_topology e),
       hr_contracts = map (\<lambda>k. \<lparr>cg_workload = wc_workload k, cg_generation = wc_generation k\<rparr>) (engine_contracts e),
       hr_limits = en_limits e, hr_server_label = cc_label (sv_config sv)\<rparr>)"

text \<open>
  The loop of a connection ends when the service stops, the peer closes the connection or a frame
  is refused. It may run for as long as messages arrive; the \<open>n\<close>th message of the connection is
  handled at \<open>clock n\<close>.
\<close>

partial_function (option) serve_messages ::
    "(nat \<Rightarrow> nanos) \<Rightarrow> (nat \<Rightarrow> string) \<Rightarrow> client_kind \<Rightarrow> string \<Rightarrow> nat \<Rightarrow> service \<Rightarrow> message_channel \<Rightarrow>
     (service \<times> message_channel) option" where
  "serve_messages clock note kind identity n sv c =
     (if sv_stop_requested sv then Some (sv, c)
      else case receive_message c of
        (Inl code, c) \<Rightarrow>
          if code = EC_PeerClosed \<or> code = EC_ShuttingDown then Some (sv, c)
          else Some (snd (fail_request code (note n) RC_Internal sv c))
      | (Inr m, c) \<Rightarrow>
          (case dispatch (clock n) (note n) kind identity m (note_message sv) c of
             (st, sv, c) \<Rightarrow>
               if st = EC_ShuttingDown then Some (sv, c)
               else serve_messages clock note kind identity (Suc n) sv c))"

definition handle_connection ::
    "(nat \<Rightarrow> nanos) \<Rightarrow> (nat \<Rightarrow> string) \<Rightarrow> tcp_socket \<Rightarrow> service \<Rightarrow> (service \<times> message_channel) option" where
  "handle_connection clock note s sv =
     (case receive_message (new_channel s) of
        (Inl code, c) \<Rightarrow> Some (note_protocol_error sv, c)
      | (Inr m, c) \<Rightarrow>
          if ms_type m \<noteq> MT_HelloRequest
          then Some (map_prod id close_channel (snd (fail_request EC_InvalidStateTransition
            ''first message on a connection must be a hello request'' RC_Internal sv c)))
          else (case decode_payload decode_hello_request (ms_payload m) (cc_limits (sv_config sv)) of
            Inl code \<Rightarrow> Some (map_prod id close_channel (snd (fail_request code (note 0) RC_Internal sv c)))
          | Inr hello \<Rightarrow>
              let identity = (if hq_identity hello = [] then ''anonymous'' else hq_identity hello);
                  sv = note_message sv;
                  (sent, c) = send_message MT_HelloResponse (encode_payload encode_hello_response (hello_answer sv)) c in
              if sent \<noteq> EC_Ok then Some (sv, close_channel c)
              else map_option (map_prod id close_channel) (serve_messages clock note (hq_kind hello) identity 1 sv c)))"

section \<open>Start and stop\<close>

definition empty_stats :: service_stats where
  "empty_stats =
     \<lparr>ss_connections_accepted = 0, ss_connections_rejected = 0, ss_messages_processed = 0, ss_protocol_errors = 0,
      ss_durable_writes = 0, ss_durable_write_failures = 0, ss_sessions_served = 0\<rparr>"

definition new_store :: "coordinator_config \<Rightarrow> persistent_store \<Rightarrow> persistent_store" where
  "new_store cfg disk =
     disk\<lparr>pr_config := \<lparr>so_directory = cc_data_directory cfg, so_limits = cc_limits cfg,
            so_max_journal_bytes = 4194304, so_max_journal_records = 2048\<rparr>,
          pr_sequence := 0, pr_journal_records := 0, pr_journal_bytes := 0\<rparr>"

definition new_engine :: "coordinator_config \<Rightarrow> nanos \<Rightarrow> engine" where
  "new_engine cfg at =
     engine_new \<lparr>ec_policy = cc_policy cfg, ec_topology = cc_topology cfg, ec_contracts = cc_contracts cfg,
       ec_epoch = CoordinatorEpoch 1 1, ec_limits = cc_limits cfg, ec_identity_seed = cc_identity_seed cfg\<rparr> at"

definition recover_engine ::
    "nanos \<Rightarrow> engine \<Rightarrow> persistent_store \<Rightarrow> error_code + engine \<times> load_report option" where
  "recover_engine at e p =
     (if \<not> has_state p then Inr (e, None)
      else case store_load p of
        (Inl code, report) \<Rightarrow> Inl code
      | (Inr snapshot, report) \<Rightarrow>
          (case restore snapshot at e of
             (st, e) \<Rightarrow>
               if st \<noteq> EC_Ok then Inl st
               else case advance_epoch (CoordinatorEpoch (incarnation (es_epoch snapshot) + 1) 1) at e of
                 (st, e) \<Rightarrow> if st \<noteq> EC_Ok then Inl st else Inr (e, report)))"

definition wait_stopped :: "service \<Rightarrow> status \<times> service" where
  "wait_stopped sv =
     (case persist_snapshot sv of
        (st, sv) \<Rightarrow> if st \<noteq> EC_Ok then (st, sv) else (EC_Ok, sv\<lparr>sv_running := False\<rparr>))"

definition shutdown :: "service \<Rightarrow> status \<times> service" where
  "shutdown sv = wait_stopped (request_stop sv)"

text \<open>
  \<^verbatim>\<open>start\<close> on what a disk holds. \<open>bound\<close> is the result of binding the listener. A refused
  start yields the error and the store as it is left behind, when one was opened.
\<close>

definition start ::
    "coordinator_config \<Rightarrow> nanos \<Rightarrow> error_code \<Rightarrow> persistent_store \<Rightarrow> (error_code \<times> persistent_store) + service" where
  "start cfg at bound disk =
     (let e = new_engine cfg at in
      if en_config_status e \<noteq> EC_Ok then Inl (en_config_status e, disk)
      else case (if cc_persist cfg then store_open (new_store cfg disk) else (EC_Ok, disk)) of
        (opened, p) \<Rightarrow>
          if opened \<noteq> EC_Ok then Inl (opened, p)
          else case (if cc_persist cfg then recover_engine at e p else Inr (e, None)) of
            Inl code \<Rightarrow> Inl (code, p)
          | Inr (e, report) \<Rightarrow>
              if bound \<noteq> EC_Ok then Inl (bound, p)
              else
                let sv = \<lparr>sv_config = cfg, sv_engine = e, sv_store = (if cc_persist cfg then Some p else None),
                          sv_load_report = report, sv_stats = empty_stats, sv_active_connections = 0,
                          sv_running = True, sv_stop_requested = False, sv_peer_shutdown = False\<rparr> in
                case persist_snapshot sv of
                  (durable, sv) \<Rightarrow>
                    if durable \<noteq> EC_Ok
                    then Inl (durable, case sv_store (snd (shutdown sv)) of None \<Rightarrow> p | Some q \<Rightarrow> q)
                    else Inr sv)"

section \<open>A connection ends\<close>

definition pending_input :: "recv_event list \<Rightarrow> nat" where
  "pending_input es = sum_list (map (\<lambda>ev. case ev of Arrived bs \<Rightarrow> Suc (length bs) | _ \<Rightarrow> 1) es)"

lemma recv_loop_consumes:
  "recv_loop n es = (r, es') \<Longrightarrow> pending_input es' \<le> pending_input es \<and>
    (\<forall>bs. 0 < n \<longrightarrow> r = Inr bs \<longrightarrow> bs \<noteq> [] \<longrightarrow> pending_input es' < pending_input es)"
  by (induction n es rule: recv_loop.induct) (fastforce simp: pending_input_def split: if_splits)+

lemma read_some_consumes:
  "read_some n s = (r, s') \<Longrightarrow> pending_input (sk_arrivals s') \<le> pending_input (sk_arrivals s) \<and>
    (\<forall>bs. r = Inr bs \<longrightarrow> bs \<noteq> [] \<longrightarrow> pending_input (sk_arrivals s') < pending_input (sk_arrivals s))"
  using recv_loop_consumes [of n "sk_arrivals s"] by (auto simp: read_some_def Let_def split: if_splits prod.splits)

lemma read_exactly_consumes:
  "read_exactly n s = (r, s') \<Longrightarrow> pending_input (sk_arrivals s') \<le> pending_input (sk_arrivals s) \<and>
    (\<forall>bs. r = Inr bs \<longrightarrow> 0 < n \<longrightarrow> pending_input (sk_arrivals s') < pending_input (sk_arrivals s))"
proof (induction n s arbitrary: r s' rule: read_exactly.induct)
  case (2 v s)
  obtain q s1 where some: "read_some (Suc v) s = (q, s1)" by fastforce
  note first = read_some_consumes [OF some]
  show ?case
  proof (cases "\<exists>bs. q = Inr bs \<and> bs \<noteq> []")
    case True
    then obtain bs where bs: "q = Inr bs" "bs \<noteq> []" by blast
    obtain q2 s2 where rest: "read_exactly (Suc v - length bs) s1 = (q2, s2)" by fastforce
    have "pending_input (sk_arrivals s2) \<le> pending_input (sk_arrivals s1)"
      using "2.IH" [of q s1 bs] some bs rest by auto
    moreover have "s' = s2" using "2.prems" some bs rest by (auto split: sum.splits)
    ultimately show ?thesis using first bs by auto
  next
    case False
    then have "s' = s1" "\<exists>code. r = Inl code" using "2.prems" some by (auto split: sum.splits if_splits)
    then show ?thesis using first by auto
  qed
qed simp

lemma receive_consumes:
  assumes "receive_message c = (Inr m, c')"
  shows "pending_input (sk_arrivals (ch_socket c')) < pending_input (sk_arrivals (ch_socket c))"
proof -
  obtain r s where head: "read_exactly kFrameHeaderBytes (ch_socket c) = (r, s)" by fastforce
  with assms obtain hb where r: "r = Inr hb" by (auto simp: receive_message_def split: sum.splits)
  obtain r2 s2 where body: "read_exactly (unat (get_be (field_at hb 20 4) :: u32)) s = (r2, s2)" by fastforce
  have "ch_socket c' = s2"
    using assms head r body by (auto simp: receive_message_def accept_frame_def Let_def split: sum.splits if_splits option.splits)
  then show ?thesis
    using read_exactly_consumes [OF head] read_exactly_consumes [OF body] r by (auto simp: kFrameHeaderBytes_def)
qed

lemma send_keeps_arrivals: "send_message type payload c = (st, c') \<Longrightarrow> sk_arrivals (ch_socket c') = sk_arrivals (ch_socket c)"
  by (auto simp: send_message_def write_all_def Let_def split: sum.splits prod.splits if_splits)

lemma dispatch_keeps_arrivals:
  "dispatch at note kind identity m sv c = (st, sv', c') \<Longrightarrow> sk_arrivals (ch_socket c') = sk_arrivals (ch_socket c)"
  by (auto simp: dispatch_def perform_def fail_request_def respond_def Let_def dest: send_keeps_arrivals
      split: prod.splits action.splits if_splits)


end
