(* ===== verification/Service_Durability.thy ===== *)
theory Service_Durability
  imports Service Engine_Sample
begin

text \<open>
  What the service guarantees across a stop. A restart fences off everything the previous process
  issued. While it runs, its connections interleave: each executes its commands on the one engine,
  and writes the engine as it then is to the journal before it answers. A step relation over all
  connections, with the engine states so far as its history, shows that an acknowledged command is
  never lost while no write fails.
\<close>

section \<open>The epoch of a restarted service\<close>

lemma foldl_epoch: "(\<And>e x. en_epoch (f e x) = en_epoch e) \<Longrightarrow> en_epoch (foldl f e xs) = en_epoch e"
  by (induction xs arbitrary: e) simp_all

lemma epoch_of_authority: "authority a = authority e \<Longrightarrow> en_epoch a = en_epoch e"
  by (simp add: authority_def)

lemma epoch_fields [simp]:
  "en_epoch (mark_unproven sid n e) = en_epoch e"
  "en_epoch (emit k sid r at e) = en_epoch e"
  "en_epoch (account g e) = en_epoch e"
  "en_epoch (activate s e) = en_epoch e"
  "en_epoch (index_deadline s e) = en_epoch e"
  "en_epoch (rebuild_indexes e) = en_epoch e"
  "en_epoch (on_session sid (\<lambda>s. account (h s)) e) = en_epoch e"
  by (auto intro!: epoch_of_authority simp: on_session_def mark_unproven_def Let_def split: option.splits)

lemma restart_one_epoch: "en_epoch (restart_one at e sid) = en_epoch e"
  by (simp add: restart_one_def Let_def split: option.splits)

lemma reopen_one_epoch: "en_epoch (reopen_one at e sid) = en_epoch e"
  by (simp add: reopen_one_def Let_def split: option.splits)

lemma recount_epoch: "en_epoch (recount e) = en_epoch e"
  unfolding recount_def by (subst foldl_epoch) (auto simp: count_one_def Let_def)

lemma reindex_epoch: "en_epoch (reindex_deadlines e) = en_epoch e"
  unfolding reindex_deadlines_def by (subst foldl_epoch) auto

lemma load_sessions_error: "load_sessions lim restored ps \<noteq> Inl EC_Ok"
  by (induction lim restored ps rule: load_sessions.induct) auto

lemma restore_epoch: "restore snap at e = (EC_Ok, e') \<Longrightarrow> en_epoch e' = es_epoch snap"
  using load_sessions_error
  by (auto simp: restore_def Let_def reindex_epoch recount_epoch foldl_epoch reopen_one_epoch split: if_splits sum.splits)

lemma advance_epoch_epoch: "advance_epoch ep at e = (EC_Ok, e') \<Longrightarrow> en_epoch e < ep \<and> en_epoch e' = ep"
  by (auto simp: advance_epoch_def Let_def foldl_epoch restart_one_epoch split: if_splits)

section \<open>What start leaves behind\<close>

lemma start_cases:
  assumes "start cfg at bound disk = Inr sv" and "cc_persist cfg"
  shows "\<exists>p report q. store_open (new_store cfg disk) = (EC_Ok, p) \<and>
    recover_engine at (new_engine cfg at) p = Inr (sv_engine sv, report) \<and>
    store_persist (export_snapshot (sv_engine sv)) p = (EC_Ok, q) \<and> sv_store sv = Some q \<and> sv_config sv = cfg"
  using assms
  by (auto simp: start_def persist_snapshot_def note_durable_def Let_def split: if_splits prod.splits sum.splits)

lemma open_fields:
  assumes "store_open (new_store cfg disk) = (EC_Ok, p)"
  shows "pr_sequence p = 0" "so_limits (pr_config p) = cc_limits cfg" "pr_readable p = pr_readable disk"
    "pr_snapshot_file p = pr_snapshot_file disk" "pr_journal_file p = pr_journal_file disk"
  using assms by (auto simp: store_open_def new_store_def next_io_def split: if_splits list.splits prod.splits)

lemma start_holds:
  assumes "start cfg at bound disk = Inr sv" and "cc_persist cfg" and "pr_readable disk"
    and "fits_engine_snapshot (cc_limits cfg) (export_snapshot (sv_engine sv))" and "2 + 3 * n < 2 ^ 64"
  shows "\<exists>q. sv_store sv = Some q \<and> sv_config sv = cfg \<and> so_limits (pr_config q) = cc_limits cfg \<and>
    holds_for n q (export_snapshot (sv_engine sv))"
proof -
  obtain p q where p: "store_open (new_store cfg disk) = (EC_Ok, p)"
    and q: "store_persist (export_snapshot (sv_engine sv)) p = (EC_Ok, q)" "sv_store sv = Some q" "sv_config sv = cfg"
    using start_cases [OF assms(1,2)] by blast
  note f = open_fields [OF p]
  have "in_sync q (export_snapshot (sv_engine sv))" "pr_config q = pr_config p" "pr_sequence q = 2"
    using persist_ok [OF q(1)] assms(3,4) f by simp_all
  then show ?thesis using q f(2) assms(5) by (simp add: holds_for_def)
qed

text \<open>
  C3. A restart fences off the previous process. When a start on persisted state succeeds, the
  epoch of the engine is later than the epoch of the state that was recovered; every session is
  terminal or must be revalidated, without an outstanding attempt, and every fence of an epoch up to
  the recovered one is refused.
\<close>

theorem restart_fences:
  assumes "start cfg at bound disk = Inr sv" and "cc_persist cfg" and "has_state disk"
  shows "\<exists>p snap. store_open (new_store cfg disk) = (EC_Ok, p) \<and> fst (store_load p) = Inr snap \<and>
    es_epoch snap < en_epoch (sv_engine sv) \<and>
    (\<forall>k s. lookup_session k (sv_engine sv) = Some s \<longrightarrow> restarted s) \<and>
    (\<forall>f gen. cf_epoch f \<le> es_epoch snap \<longrightarrow> fv_status (validate_fence f (fabric_context gen (sv_engine sv))) \<noteq> EC_Ok)"
proof -
  obtain p report where p: "store_open (new_store cfg disk) = (EC_Ok, p)"
    and r: "recover_engine at (new_engine cfg at) p = Inr (sv_engine sv, report)"
    using start_cases [OF assms(1,2)] by blast
  have "has_state p" using assms(3) open_fields(4,5) [OF p] by (simp add: has_state_def)
  with r obtain snap e where snap: "fst (store_load p) = Inr snap" "restore snap at (new_engine cfg at) = (EC_Ok, e)"
    "advance_epoch (CoordinatorEpoch (incarnation (es_epoch snap) + 1) 1) at e = (EC_Ok, sv_engine sv)"
    by (auto simp: recover_engine_def split: prod.splits sum.splits if_splits)
  have later: "es_epoch snap < en_epoch (sv_engine sv)"
    using advance_epoch_epoch [OF snap(3)] restore_epoch [OF snap(2)] by simp
  have "fv_status (validate_fence f (fabric_context gen (sv_engine sv))) \<noteq> EC_Ok" if "cf_epoch f \<le> es_epoch snap" for f gen
    using that later validate_fence_ok_iff [of f "fabric_context gen (sv_engine sv)"] by (auto simp: fabric_context_def)
  then show ?thesis using p snap(1) later epoch_sweep [OF snap(3)] by blast
qed

section \<open>Interleaved connections\<close>

datatype phase = Closed | Waiting | Performing action nat

text \<open>
  The history holds the engine after every command, the latest first; the position of an entry
  counts from the oldest. A connection that performs an action remembers the position of the engine
  its command left. \<open>fl_saved\<close> is the position of the engine of the last successful write.
\<close>

record fleet =
  fl_service :: service
  fl_phases :: "nat \<Rightarrow> phase"
  fl_history :: "engine list"
  fl_acknowledged :: "nat list"
  fl_saved :: nat
  fl_writes :: nat
  fl_healthy :: bool

definition new_fleet :: "service \<Rightarrow> fleet" where
  "new_fleet sv =
     \<lparr>fl_service = sv, fl_phases = (\<lambda>_. Closed), fl_history = [sv_engine sv], fl_acknowledged = [], fl_saved = 1,
      fl_writes = 0, fl_healthy = True\<rparr>"

definition state_at :: "engine list \<Rightarrow> nat \<Rightarrow> engine" where
  "state_at history k = history ! (length history - k)"

primrec commit_label :: "action \<Rightarrow> string option" where
  "commit_label (Refuse code detail reason) = None"
| "commit_label (Answer type payload) = None"
| "commit_label (Commit label type payload) = Some label"
| "commit_label StopService = Some ''shutdown''"

definition record_outcome :: "action \<Rightarrow> nat \<Rightarrow> fleet \<Rightarrow> fleet" where
  "record_outcome act k f =
     (case commit_label act of
        None \<Rightarrow> f
      | Some label \<Rightarrow>
          if fst (persist label (fl_service f)) = EC_Ok
          then f\<lparr>fl_writes := Suc (fl_writes f), fl_saved := length (fl_history f), fl_acknowledged := k # fl_acknowledged f\<rparr>
          else f\<lparr>fl_writes := Suc (fl_writes f), fl_healthy := False\<rparr>)"

inductive fleet_step :: "fleet \<Rightarrow> fleet \<Rightarrow> bool" where
  connect: "fl_phases f i = Closed \<Longrightarrow> dispatch_connection (note_connection_accepted (fl_service f)) = (True, sv) \<Longrightarrow>
    fleet_step f (f\<lparr>fl_service := sv, fl_phases := (fl_phases f)(i := Waiting)\<rparr>)"
| turn_away: "dispatch_connection (note_connection_accepted (fl_service f)) = (False, sv) \<Longrightarrow>
    fleet_step f (f\<lparr>fl_service := sv\<rparr>)"
| command: "fl_phases f i = Waiting \<Longrightarrow>
    handle_message at note (cc_limits (sv_config (fl_service f))) kind identity m (sv_engine (fl_service f)) = (act, e) \<Longrightarrow>
    fleet_step f (f\<lparr>fl_service := (note_message (fl_service f))\<lparr>sv_engine := e\<rparr>, fl_history := e # fl_history f,
      fl_phases := (fl_phases f)(i := Performing act (Suc (length (fl_history f))))\<rparr>)"
| perform: "fl_phases f i = Performing act k \<Longrightarrow> perform note act (fl_service f) c = (st, sv, c') \<Longrightarrow>
    fleet_step f ((record_outcome act k f)\<lparr>fl_service := sv, fl_phases := (fl_phases f)(i := Waiting)\<rparr>)"
| disconnect: "fl_phases f i = Waiting \<Longrightarrow>
    fleet_step f (f\<lparr>fl_service := (fl_service f)\<lparr>sv_active_connections := sv_active_connections (fl_service f) - 1\<rparr>,
      fl_phases := (fl_phases f)(i := Closed)\<rparr>)"

lemma state_at_Cons: "0 < k \<Longrightarrow> k \<le> length history \<Longrightarrow> state_at (e # history) k = state_at history k"
  by (cases k) (simp_all add: state_at_def Suc_diff_Suc nth_Cons')

lemma state_at_last: "history \<noteq> [] \<Longrightarrow> state_at history (length history) = hd history"
  by (simp add: state_at_def hd_conv_nth)

abbreviation storable_engine :: "limits \<Rightarrow> engine \<Rightarrow> bool" where
  "storable_engine lim e \<equiv> fits_engine_snapshot lim (export_snapshot e)"

definition secured :: "coordinator_config \<Rightarrow> nat \<Rightarrow> fleet \<Rightarrow> bool" where
  "secured cfg n f \<longleftrightarrow>
     sv_config (fl_service f) = cfg \<and> (\<exists>es. fl_history f = sv_engine (fl_service f) # es) \<and>
     (\<forall>i act k. fl_phases f i = Performing act k \<longrightarrow> k \<le> length (fl_history f)) \<and>
     (fl_healthy f \<longrightarrow> list_all (storable_engine (cc_limits cfg)) (fl_history f) \<longrightarrow> fl_writes f \<le> n \<longrightarrow>
       0 < fl_saved f \<and> fl_saved f \<le> length (fl_history f) \<and> list_all (\<lambda>a. a \<le> fl_saved f) (fl_acknowledged f) \<and>
       (\<exists>p. sv_store (fl_service f) = Some p \<and> so_limits (pr_config p) = cc_limits cfg \<and>
          holds_for (n - fl_writes f) p (export_snapshot (state_at (fl_history f) (fl_saved f)))))"

lemma perform_effect:
  assumes "perform note act sv c = (st, sv', c')"
  shows "sv_config sv' = sv_config sv \<and> sv_engine sv' = sv_engine sv \<and>
    sv_store sv' = (case commit_label act of None \<Rightarrow> sv_store sv | Some label \<Rightarrow> sv_store (snd (persist label sv)))"
  using assms
  by (cases act) (auto simp: perform_def fail_request_def persist_def note_protocol_error_def note_durable_def request_stop_def Let_def
      split: prod.splits if_splits option.splits)

lemma persist_holds:
  assumes "cc_persist (sv_config sv)" and "sv_store sv = Some p" and "holds_for (Suc n) p s0"
    and "storable_engine (so_limits (pr_config p)) (sv_engine sv)" and "fst (persist label sv) = EC_Ok"
  shows "\<exists>q. sv_store (snd (persist label sv)) = Some q \<and> so_limits (pr_config q) = so_limits (pr_config p) \<and>
    holds_for n q (export_snapshot (sv_engine sv))"
proof -
  obtain q where q: "store_append label (export_snapshot (sv_engine sv)) p = (EC_Ok, q)"
    using assms(1,2,5) by (auto simp: persist_def Let_def split: prod.splits)
  have "in_sync q (export_snapshot (sv_engine sv))" "pr_config q = pr_config p" "unat (pr_sequence q) \<le> unat (pr_sequence p) + 3"
    using append_effect [of p s0, OF _ assms(4) _ q] assms(3) by (simp_all add: holds_for_def)
  then show ?thesis
    using assms(1-3) q by (auto simp: persist_def note_durable_def holds_for_def)
qed

lemma dispatch_connection_fields:
  "dispatch_connection (note_connection_accepted sv) = (b, sv') \<Longrightarrow>
    sv_config sv' = sv_config sv \<and> sv_engine sv' = sv_engine sv \<and> sv_store sv' = sv_store sv"
  by (auto simp: dispatch_connection_def note_connection_accepted_def note_connection_rejected_def split: if_splits)

lemma secured_same:
  assumes "secured cfg n f" and "sv_config sv = sv_config (fl_service f)" and "sv_engine sv = sv_engine (fl_service f)"
    and "sv_store sv = sv_store (fl_service f)" and "ph = fl_phases f i \<or> ph = Waiting \<or> ph = Closed"
  shows "secured cfg n (f\<lparr>fl_service := sv, fl_phases := (fl_phases f)(i := ph)\<rparr>)"
proof -
  have "k \<le> length (fl_history f)" if "((fl_phases f)(i := ph)) j = Performing act k" for j act k
  proof -
    have "\<exists>j. fl_phases f j = Performing act k" using that assms(5) by (cases "j = i") auto
    then show ?thesis using assms(1) unfolding secured_def by blast
  qed
  then show ?thesis using assms(1-4) by (simp add: secured_def)
qed

lemma secured_command:
  assumes "secured cfg n f" and "sv_config sv = sv_config (fl_service f)" and "sv_store sv = sv_store (fl_service f)"
  shows "secured cfg n (f\<lparr>fl_service := sv, fl_history := sv_engine sv # fl_history f,
    fl_phases := (fl_phases f)(i := Performing act (Suc (length (fl_history f))))\<rparr>)"
  using assms unfolding secured_def by (auto simp: state_at_Cons intro: le_SucI)

lemma secured_perform:
  assumes "cc_persist cfg" and "secured cfg n f" and "fl_phases f i = Performing act k"
    and "perform note act (fl_service f) c = (st, sv, c')"
  shows "secured cfg n ((record_outcome act k f)\<lparr>fl_service := sv, fl_phases := (fl_phases f)(i := Waiting)\<rparr>)"
proof (cases "commit_label act")
  case None
  then show ?thesis
    using secured_same [OF assms(2), of sv Waiting i] perform_effect [OF assms(4)] by (simp add: record_outcome_def)
next
  case (Some label)
  let ?sv = "fl_service f" and ?g = "record_outcome act k f"
  have eff: "sv_config sv = cfg" "sv_engine sv = sv_engine ?sv" "sv_store sv = sv_store (snd (persist label ?sv))"
    using perform_effect [OF assms(4)] Some assms(2) by (auto simp: secured_def)
  obtain es where hist: "fl_history f = sv_engine ?sv # es" using assms(2) by (auto simp: secured_def)
  have k: "k \<le> length (fl_history f)" using assms(2,3) by (auto simp: secured_def)
  show ?thesis
  proof (cases "fst (persist label ?sv) = EC_Ok")
    case False
    then show ?thesis using assms(2) eff hist by (auto simp: secured_def record_outcome_def Some)
  next
    case True
    have "\<exists>q. sv_store sv = Some q \<and> so_limits (pr_config q) = cc_limits cfg \<and>
        holds_for (n - Suc (fl_writes f)) q (export_snapshot (sv_engine ?sv)) \<and> list_all (\<lambda>a. a \<le> length (fl_history f)) (fl_acknowledged f)"
      if room: "fl_healthy f" "list_all (storable_engine (cc_limits cfg)) (fl_history f)" "Suc (fl_writes f) \<le> n"
    proof -
      obtain p where p: "sv_store ?sv = Some p" "so_limits (pr_config p) = cc_limits cfg"
        "holds_for (n - fl_writes f) p (export_snapshot (state_at (fl_history f) (fl_saved f)))"
        and acked: "fl_saved f \<le> length (fl_history f)" "list_all (\<lambda>a. a \<le> fl_saved f) (fl_acknowledged f)"
        using assms(2) room by (auto simp: secured_def)
      have "holds_for (Suc (n - Suc (fl_writes f))) p (export_snapshot (state_at (fl_history f) (fl_saved f)))"
        using p(3) room(3) by (simp add: Suc_diff_Suc)
      from persist_holds [OF _ p(1) this _ True] show ?thesis
        using assms(1,2) eff(3) p(2) hist room(2) acked by (fastforce simp: secured_def list_all_iff)
    qed
    then show ?thesis
      using True Some assms(2) eff hist k state_at_last [of "fl_history f"]
      by (auto simp: secured_def record_outcome_def split: if_splits)
  qed
qed

lemma secured_step: "fleet_step f g \<Longrightarrow> cc_persist cfg \<Longrightarrow> secured cfg n f \<Longrightarrow> secured cfg n g"
proof (induction rule: fleet_step.induct)
  case (connect f i sv)
  then show ?case
    using secured_same [of cfg n f sv Waiting i] dispatch_connection_fields [OF connect.hyps(2)] by simp
next
  case (turn_away f sv)
  then show ?case using secured_same [of cfg n f sv "fl_phases f 0" 0] dispatch_connection_fields [OF turn_away.hyps] by simp
next
  case (command f i t detail kind identity m act e)
  then show ?case using secured_command [of cfg n f "(note_message (fl_service f))\<lparr>sv_engine := e\<rparr>" i act]
    by (simp add: note_message_def)
next
  case (perform f i act k detail c st sv c')
  then show ?case using secured_perform by blast
next
  case (disconnect f i)
  then show ?case
    using secured_same [of cfg n f "(fl_service f)\<lparr>sv_active_connections := sv_active_connections (fl_service f) - 1\<rparr>" Closed i]
    by simp
qed

lemma secured_run: "fleet_step\<^sup>*\<^sup>* f g \<Longrightarrow> cc_persist cfg \<Longrightarrow> secured cfg n f \<Longrightarrow> secured cfg n g"
  by (induction rule: rtranclp_induct) (auto intro: secured_step)

lemma secured_start:
  assumes "start cfg at bound disk = Inr sv" and "cc_persist cfg" and "pr_readable disk" and "2 + 3 * n < 2 ^ 64"
  shows "secured cfg n (new_fleet sv)"
  using start_cases [OF assms(1,2)] start_holds [OF assms(1-3) _ assms(4)]
  by (auto simp: secured_def new_fleet_def state_at_def)


section \<open>A small coordinator\<close>

definition sample_coordinator :: coordinator_config where
  "sample_coordinator =
     \<lparr>cc_bind_host = ''127.0.0.1'', cc_port = 0, cc_data_directory = ''state'', cc_policy = sample_policy,
      cc_topology = sample_paths, cc_contracts = [sample_contract], cc_limits = sample_limits, cc_worker_threads = 4,
      cc_max_pending_connections = 64, cc_persist = True, cc_identity_seed = 1, cc_label = ''ctf-coordinator''\<rparr>"

definition sample_disk :: persistent_store where
  "sample_disk =
     \<lparr>pr_config = \<lparr>so_directory = [], so_limits = sample_limits, so_max_journal_bytes = 0, so_max_journal_records = 0\<rparr>,
      pr_sequence = 0, pr_journal_records = 0, pr_journal_bytes = 0, pr_snapshot_file = None, pr_journal_file = None,
      pr_temp_file = None, pr_readable = True, pr_io = []\<rparr>"

definition sample_export :: "u64 \<Rightarrow> engine_snapshot" where
  "sample_export n =
     \<lparr>es_epoch = CoordinatorEpoch n 1, es_policy_generation = 1, es_topology_generation = 1,
      es_contract_generations = [\<lparr>cg_workload = sample_id 1, cg_generation = 1\<rparr>], es_sessions = [],
      es_accounting = zero_accounting, es_commands_processed = 0\<rparr>"

lemma sample_export_size: "length (encode_snapshot (sample_export 1) sample_limits) \<le> 1000"
    "length (encode_snapshot (sample_export 2) sample_limits) \<le> 1000"
  by code_simp+

lemma sample_export_fits: "fits_engine_snapshot sample_limits (sample_export n)"
  by (simp add: fits_engine_snapshot_def sample_export_def fits_contract_generation_def kMaxCollectionElements_def sample_id_def wf_uuid_def)

lemma sample_exported: "export_snapshot sample_engine = sample_export 1"
  by (simp add: export_snapshot_def sample_engine_eq sample_export_def note_generation_def sample_policy_def sample_paths_def sample_contract_def)

lemma sample_new_engine: "new_engine sample_coordinator 0 = sample_engine"
  by (simp add: new_engine_def sample_coordinator_def sample_engine_def sample_config_def)

lemma sample_record_fits: "n \<in> {1, 2} \<Longrightarrow> length label \<le> 64 \<Longrightarrow> storable (record_of sample_limits (k, label, sample_export n))"
  using sample_export_size by (auto simp: storable_def record_of_def kMaxLabelBytes_def kMaxPayloadBytes_def)

lemma sample_record_size: "n \<in> {1, 2} \<Longrightarrow> length label \<le> 64 \<Longrightarrow> length (encode_journal_record (record_of sample_limits (k, label, sample_export n))) \<le> 1092"
  using sample_record_fits [of n label k] sample_export_size by (auto simp: encode_journal_storable record_of_def)

lemma persist_plain:
  assumes "pr_io p = []" and "storable (record_of (lim_of p) (pr_sequence p + 1, ''snapshot'', s))" and "es_sessions s = []"
  shows "store_persist s p = (EC_Ok, p\<lparr>pr_sequence := pr_sequence p + 2,
    pr_snapshot_file := Some (encode_journal_record (record_of (lim_of p) (pr_sequence p + 1, ''snapshot'', s))),
    pr_journal_file := Some (encode_journal_record (record_of (lim_of p) (pr_sequence p + 2, ''snapshot'', s))), pr_temp_file := None,
    pr_journal_records := 1,
    pr_journal_bytes := word_of_nat (length (encode_journal_record (record_of (lim_of p) (pr_sequence p + 2, ''snapshot'', s))))\<rparr>)"
  using assms
  by (simp add: store_persist_def write_temp_def atomic_replace_def write_journal_def next_io_def write_file_flushed_def
      storable_def record_of_def Let_def contents_def add.assoc)

lemma sample_open: "pr_io disk = [] \<Longrightarrow> store_open (new_store sample_coordinator disk) = (EC_Ok, new_store sample_coordinator disk)"
  by (simp add: store_open_def new_store_def next_io_def sample_coordinator_def)

lemma start_plain:
  assumes "pr_io disk = []" and "recover_engine 0 sample_engine (new_store sample_coordinator disk) = Inr (e, report)"
    and "export_snapshot e = sample_export n" and "n \<in> {1, 2}"
  shows "\<exists>sv q. start sample_coordinator 0 EC_Ok disk = Inr sv \<and> sv_engine sv = e \<and> sv_store sv = Some q \<and>
    sv_config sv = sample_coordinator \<and> sv_active_connections sv = 0 \<and>
    pr_config q = pr_config (new_store sample_coordinator disk) \<and> pr_io q = [] \<and> pr_sequence q = 2 \<and> pr_readable q = pr_readable disk \<and>
    pr_snapshot_file q \<noteq> None \<and> pr_journal_records q = 1 \<and>
    pr_journal_file q = Some (encode_journal_record (record_of sample_limits (2, ''snapshot'', sample_export n))) \<and>
    pr_journal_bytes q = word_of_nat (length (encode_journal_record (record_of sample_limits (2, ''snapshot'', sample_export n))))"
proof -
  let ?p = "new_store sample_coordinator disk"
  have f: "pr_io ?p = []" "lim_of ?p = sample_limits" "pr_sequence ?p = 0" "cc_persist sample_coordinator"
    using assms(1) by (simp_all add: new_store_def sample_coordinator_def)
  have "es_sessions (sample_export n) = []" by (simp add: sample_export_def)
  then have "store_persist (export_snapshot e) ?p = (EC_Ok, ?p\<lparr>pr_sequence := 2,
    pr_snapshot_file := Some (encode_journal_record (record_of sample_limits (1, ''snapshot'', sample_export n))),
    pr_journal_file := Some (encode_journal_record (record_of sample_limits (2, ''snapshot'', sample_export n))), pr_temp_file := None,
    pr_journal_records := 1,
    pr_journal_bytes := word_of_nat (length (encode_journal_record (record_of sample_limits (2, ''snapshot'', sample_export n))))\<rparr>)"
    using persist_plain [OF f(1), of "sample_export n"] sample_record_fits [OF assms(4), of "''snapshot''" 1] f assms(3) by simp
  moreover have "en_config_status sample_engine = EC_Ok" by (simp add: sample_engine_eq)
  ultimately show ?thesis
    using f assms(2) sample_open [OF assms(1)]
    by (simp add: start_def sample_new_engine persist_snapshot_def note_durable_def Let_def) (simp add: new_store_def)
qed

lemma sample_first_start:
  obtains sv q where "start sample_coordinator 0 EC_Ok sample_disk = Inr sv" "sv_store sv = Some q" "sv_engine sv = sample_engine"
    "pr_config q = pr_config (new_store sample_coordinator sample_disk)"
    "pr_journal_file q = Some (encode_journal_record (record_of sample_limits (2, ''snapshot'', sample_export 1)))" "pr_io q = []"
    "sv_config sv = sample_coordinator" "sv_active_connections sv = 0" "pr_sequence q = 2" "pr_journal_records q = 1"
    "pr_journal_bytes q = word_of_nat (length (encode_journal_record (record_of sample_limits (2, ''snapshot'', sample_export 1))))"
proof -
  have "recover_engine 0 sample_engine (new_store sample_coordinator sample_disk) = Inr (sample_engine, None)" "pr_io sample_disk = []"
    by (simp_all add: recover_engine_def has_state_def new_store_def sample_disk_def)
  then show thesis using start_plain [of sample_disk sample_engine None 1] sample_exported that by auto
qed

lemma sample_restore:
  "\<exists>e. restore (sample_export 1) 0 sample_engine = (EC_Ok, e) \<and>
     (\<exists>e'. advance_epoch (CoordinatorEpoch 2 1) 0 e = (EC_Ok, e') \<and> export_snapshot e' = sample_export 2)"
  by (simp add: restore_def sample_export_def conserves_def zero_accounting_def sample_engine_eq sample_policy_def sample_paths_def
      rebuild_indexes_def recount_def reindex_deadlines_def advance_epoch_def less_coordinator_epoch_def account_def
      export_snapshot_def note_generation_def sample_contract_def Let_def)

lemma sample_recovery:
  assumes "start sample_coordinator 0 EC_Ok sample_disk = Inr sv" and "sv_store sv = Some q" and "sv_engine sv = sample_engine"
    and "pr_config q = pr_config (new_store sample_coordinator sample_disk)"
    and "pr_journal_file q = Some (encode_journal_record (record_of sample_limits (2, ''snapshot'', sample_export 1)))"
  shows "recovers (new_store sample_coordinator q) (sample_export 1)"
proof -
  have "holds_for 0 q (sample_export 1)"
    using start_holds [OF assms(1), of 0] assms(2,3) sample_exported sample_export_fits
    by (auto simp: sample_coordinator_def sample_disk_def)
  moreover have "length (contents (pr_journal_file q)) \<le> kMaxFileBytes"
    using sample_record_size [of 1 "''snapshot''" 2] assms(5) by (simp add: contents_def kMaxFileBytes_def kMaxPayloadBytes_def)
  ultimately have "recovers q (sample_export 1)" using in_sync_recovers by (simp add: holds_for_def)
  then show ?thesis
    by (rule same_files_recovers) (simp_all add: new_store_def assms(4))
qed

theorem restart_fences_witness:
  "\<exists>disk sv (snap :: engine_snapshot). start sample_coordinator 0 EC_Ok disk = Inr sv \<and> has_state disk \<and> es_epoch snap < en_epoch (sv_engine sv) \<and>
     (\<forall>f gen. cf_epoch f \<le> es_epoch snap \<longrightarrow> fv_status (validate_fence f (fabric_context gen (sv_engine sv))) \<noteq> EC_Ok)"
proof -
  obtain sv q where first: "start sample_coordinator 0 EC_Ok sample_disk = Inr sv" "sv_store sv = Some q" "sv_engine sv = sample_engine"
    "pr_config q = pr_config (new_store sample_coordinator sample_disk)"
    "pr_journal_file q = Some (encode_journal_record (record_of sample_limits (2, ''snapshot'', sample_export 1)))" and io: "pr_io q = []"
    by (rule sample_first_start)
  obtain e e' where e: "restore (sample_export 1) 0 sample_engine = (EC_Ok, e)" "advance_epoch (CoordinatorEpoch 2 1) 0 e = (EC_Ok, e')"
    "export_snapshot e' = sample_export 2"
    using sample_restore by blast
  have state: "has_state q" by (simp add: has_state_def first(5))
  then have "has_state (new_store sample_coordinator q)" by (simp add: has_state_def new_store_def)
  moreover obtain report where "store_load (new_store sample_coordinator q) = (Inr (sample_export 1), report)"
    using sample_recovery [OF first] by (metis recovers_def prod.collapse)
  moreover have "incarnation (es_epoch (sample_export 1)) + 1 = 2" by (simp add: sample_export_def)
  ultimately have "recover_engine 0 sample_engine (new_store sample_coordinator q) = Inr (e', report)"
    using e by (simp add: recover_engine_def)
  then obtain sv' where "start sample_coordinator 0 EC_Ok q = Inr sv'"
    using start_plain [OF io _ e(3)] by fastforce
  moreover have "cc_persist sample_coordinator" by (simp add: sample_coordinator_def)
  ultimately show ?thesis
    using restart_fences [of sample_coordinator 0 EC_Ok q sv'] state by (intro exI [of _ q] exI [of _ sv']) auto
qed

definition stop_message :: message where
  "stop_message = \<lparr>ms_type = MT_ShutdownRequest, ms_sequence = 2, ms_payload = []\<rparr>"

lemma sample_shutdown_exported: "export_snapshot (snd (begin_shutdown 5 sample_engine)) = sample_export 1"
  by (simp add: begin_shutdown_def emit_def export_snapshot_def sample_engine_eq sample_export_def note_generation_def sample_policy_def
      sample_paths_def sample_contract_def)

lemma sample_append:
  assumes "pr_config q = pr_config (new_store sample_coordinator sample_disk)" and "pr_io q = []" and "pr_sequence q = 2"
    and "pr_journal_records q = 1"
    and "pr_journal_file q = Some (encode_journal_record (record_of sample_limits (2, ''snapshot'', sample_export 1)))"
    and "pr_journal_bytes q = word_of_nat (length (encode_journal_record (record_of sample_limits (2, ''snapshot'', sample_export 1))))"
  shows "\<exists>r. store_append ''shutdown'' (sample_export 1) q = (EC_Ok, r) \<and> length (contents (pr_journal_file r)) \<le> kMaxFileBytes"
proof -
  let ?r = "\<lambda>k l. encode_journal_record (record_of sample_limits (k, l, sample_export 1))"
  have f: "lim_of q = sample_limits" "so_max_journal_bytes (pr_config q) = 4194304" "so_max_journal_records (pr_config q) = 2048"
    "next_io q = (IO_Done, q)"
    using assms(1,2) by (simp_all add: new_store_def sample_coordinator_def next_io_def)
  have size: "length (?r 2 ''snapshot'') \<le> 1092" "length (?r 3 ''shutdown'') \<le> 1092"
    using sample_record_size [of 1] by simp_all
  then have "pr_journal_bytes q + word_of_nat (length (?r 3 ''shutdown'')) \<le> 4194304"
    by (simp add: assms(6) word_le_nat_alt unat_word_ariths unat_of_nat)
  moreover have "good_entry (lim_of q) (pr_sequence q + 1, ''shutdown'', sample_export 1)"
    using sample_record_fits [of 1 "''shutdown''" 3] sample_export_fits f(1) assms(3) by (simp add: good_entry_def)
  ultimately obtain r where "store_append ''shutdown'' (sample_export 1) q = (EC_Ok, r)"
    "pr_journal_file r = snd (write_file_flushed IO_Done (?r 3 ''shutdown'') True (pr_journal_file q))"
    using append_plain [OF _ f(4)] f assms(3,4) by (fastforce simp: write_file_flushed_def)
  then show ?thesis
    using size assms(5) by (simp add: write_file_flushed_def contents_def kMaxFileBytes_def kMaxPayloadBytes_def)
qed


end
