(* ===== verification/Client.thy ===== *)
theory Client
  imports Service_Durability
begin

text \<open>
  The coordinator client of \<^verbatim>\<open>src/client.cpp\<close>: the handshake, the fence built from it, and one
  operation per request, each a round trip over the message channel. The theorem joins it to the
  service: a command issued through a client, framed, sent, decoded, executed by the engine, made
  durable, answered and decoded again, reports exactly what the engine and the journal returned.
\<close>

section \<open>Connecting\<close>

record client_config =
  cx_kind :: client_kind
  cx_identity :: string
  cx_limits :: limits

record coordinator_client =
  cl_channel :: message_channel
  cl_hello :: hello_response
  cl_identity :: string
  cl_limits :: limits

text \<open>\<open>socket\<close> is what \<^verbatim>\<open>TcpSocket::connect\<close> returns for the host and port.\<close>

definition client_connect :: "client_config \<Rightarrow> tcp_socket result \<Rightarrow> coordinator_client result" where
  "client_connect cfg socket =
     (if cx_identity cfg = [] \<or> length (cx_identity cfg) > lim_max_string_bytes (cx_limits cfg) then Inl EC_InvalidArgument
      else case socket of
        Inl code \<Rightarrow> Inl code
      | Inr s \<Rightarrow>
          (case send_message MT_HelloRequest
                  (encode_payload encode_hello_request \<lparr>hq_kind = cx_kind cfg, hq_identity = cx_identity cfg\<rparr>) (new_channel s) of
             (sent, c) \<Rightarrow>
               if sent \<noteq> EC_Ok then Inl sent
               else case receive_message c of
                 (Inl code, c) \<Rightarrow> Inl code
               | (Inr m, c) \<Rightarrow>
                   if ms_type m = MT_StatusResponse
                   then (case decode_payload decode_status_payload (ms_payload m) (cx_limits cfg) of
                           Inl code \<Rightarrow> Inl code | Inr status \<Rightarrow> Inl (st_code status))
                   else if ms_type m \<noteq> MT_HelloResponse then Inl EC_InvalidStateTransition
                   else case decode_payload decode_hello_response (ms_payload m) (cx_limits cfg) of
                     Inl code \<Rightarrow> Inl code
                   | Inr hello \<Rightarrow>
                       if incarnation (hr_epoch hello) = 0 \<or> epoch_term (hr_epoch hello) = 0 then Inl EC_CorruptState
                       else Inr \<lparr>cl_channel = c, cl_hello = hello, cl_identity = cx_identity cfg, cl_limits = hr_limits hello\<rparr>))"

definition client_fence ::
    "workload_id \<Rightarrow> generation option \<Rightarrow> attempt_sequence option \<Rightarrow> coordinator_client \<Rightarrow> command_fence" where
  "client_fence workload checkpoint_generation sequence cl =
     (let hello = cl_hello cl in
      \<lparr>cf_epoch = hr_epoch hello, cf_policy_generation = hr_policy_generation hello,
       cf_topology_generation = hr_topology_generation hello,
       cf_contract_generation =
         (case find (\<lambda>r. cg_workload r = workload) (hr_contracts hello) of None \<Rightarrow> 0 | Some r \<Rightarrow> cg_generation r),
       cf_checkpoint_generation = checkpoint_generation, cf_attempt_sequence = sequence\<rparr>)"

section \<open>Round trips\<close>

definition round_trip ::
    "message_type \<Rightarrow> bytes \<Rightarrow> message_type \<Rightarrow> coordinator_client \<Rightarrow> message result \<times> coordinator_client" where
  "round_trip type payload expected cl =
     (case send_message type payload (cl_channel cl) of
        (sent, c) \<Rightarrow>
          if sent \<noteq> EC_Ok then (Inl sent, cl\<lparr>cl_channel := c\<rparr>)
          else case receive_message c of
            (Inl code, c) \<Rightarrow> (Inl code, cl\<lparr>cl_channel := c\<rparr>)
          | (Inr m, c) \<Rightarrow>
              (if ms_type m = MT_StatusResponse \<and> expected \<noteq> MT_StatusResponse
               then (case decode_payload decode_status_payload (ms_payload m) (cl_limits cl) of
                       Inl code \<Rightarrow> Inl code | Inr status \<Rightarrow> Inl (st_code status))
               else if ms_type m \<noteq> expected then Inl EC_InvalidStateTransition
               else Inr m,
               cl\<lparr>cl_channel := c\<rparr>))"

definition send_command :: "message_type \<Rightarrow> bytes \<Rightarrow> coordinator_client \<Rightarrow> status_payload result \<times> coordinator_client" where
  "send_command type payload cl =
     (case round_trip type payload MT_StatusResponse cl of
        (Inl code, cl) \<Rightarrow> (Inl code, cl)
      | (Inr m, cl) \<Rightarrow>
          (case decode_payload decode_status_payload (ms_payload m) (cl_limits cl) of
             Inl code \<Rightarrow> (Inl code, cl)
           | Inr status \<Rightarrow> (if st_code status \<noteq> EC_Ok then Inl (st_code status) else Inr status, cl)))"

definition status_call :: "message_type \<Rightarrow> bytes \<Rightarrow> coordinator_client \<Rightarrow> status \<times> coordinator_client" where
  "status_call type payload cl = (case send_command type payload cl of (r, cl) \<Rightarrow> (result_status r, cl))"

definition value_call ::
    "'a reader \<Rightarrow> message_type \<Rightarrow> bytes \<Rightarrow> message_type \<Rightarrow> coordinator_client \<Rightarrow> 'a result \<times> coordinator_client" where
  "value_call dec type payload expected cl =
     (case round_trip type payload expected cl of
        (Inl code, cl) \<Rightarrow> (Inl code, cl)
      | (Inr m, cl) \<Rightarrow> (decode_payload dec (ms_payload m) (cl_limits cl), cl))"

section \<open>Operations\<close>

definition client_submit_session where
  "client_submit_session request f =
     value_call decode_decision MT_SubmitSession
       (encode_payload encode_submit_request \<lparr>sq_request = request, sq_fence = f\<rparr>) MT_DecisionResponse"

definition client_revalidate_session where
  "client_revalidate_session sid f =
     value_call decode_decision MT_RevalidateSession
       (encode_payload encode_revalidate_request \<lparr>rv_session = sid, rv_fence = f\<rparr>) MT_DecisionResponse"

definition client_request_wave where
  "client_request_wave sid shard f =
     value_call decode_wave_outcome MT_RequestWave
       (encode_payload encode_wave_request \<lparr>wq_session = sid, wq_shard = shard, wq_fence = f\<rparr>) MT_WaveResponse"

definition client_report_source_complete where
  "client_report_source_complete evidence f =
     status_call MT_ReportSourceComplete
       (encode_payload encode_source_complete_request \<lparr>cq_evidence = evidence, cq_fence = f\<rparr>)"

definition client_report_transfer where
  "client_report_transfer evidence f =
     status_call MT_ReportTransfer (encode_payload encode_transfer_report \<lparr>tq_evidence = evidence, tq_fence = f\<rparr>)"

definition client_report_verification where
  "client_report_verification evidence f =
     status_call MT_ReportVerification (encode_payload encode_verification_report \<lparr>vq_evidence = evidence, vq_fence = f\<rparr>)"

definition client_report_ambiguous where
  "client_report_ambiguous request = status_call MT_ReportAmbiguous (encode_payload encode_ambiguity_request request)"

definition client_cancel_session where
  "client_cancel_session sid f reason detail =
     status_call MT_CancelSession
       (encode_payload encode_cancel_request \<lparr>cn_session = sid, cn_fence = f, cn_reason = reason, cn_detail = detail\<rparr>)"

definition client_pause_session where
  "client_pause_session sid f reason =
     status_call MT_PauseSession (encode_payload encode_pause_request \<lparr>pz_session = sid, pz_fence = f, pz_reason = reason\<rparr>)"

definition client_resume_session where
  "client_resume_session sid f =
     status_call MT_ResumeSession (encode_payload encode_resume_request \<lparr>rs_session = sid, rs_fence = f\<rparr>)"

definition client_record_durability where
  "client_record_durability sid assertion f =
     status_call MT_RecordDurability
       (encode_payload encode_durability_request \<lparr>dq_session = sid, dq_assertion = assertion, dq_fence = f\<rparr>)"

definition client_view_session where
  "client_view_session sid =
     value_call decode_session_view MT_QuerySession (encode_payload encode_session_query \<lparr>qs_session = sid\<rparr>) MT_SessionViewResponse"

definition client_list_sessions where
  "client_list_sessions workload limit cl =
     (case value_call decode_session_list_response MT_QuerySessions
             (encode_payload encode_sessions_query
                \<lparr>ql_has_workload = workload \<noteq> None, ql_workload = (case workload of None \<Rightarrow> nil_uuid | Some w \<Rightarrow> w), ql_limit = limit\<rparr>)
             MT_SessionListResponse cl of
        (r, cl) \<Rightarrow> (map_sum id lr_sessions r, cl))"

definition client_accounting where
  "client_accounting =
     value_call decode_accounting_snapshot MT_QueryAccounting (encode_payload enc_u8 0) MT_AccountingResponse"

definition client_explain where
  "client_explain sid =
     value_call decode_explanation MT_QueryExplain (encode_payload encode_session_query \<lparr>qs_session = sid\<rparr>) MT_ExplanationResponse"

definition client_check_invariants where
  "client_check_invariants = status_call MT_QueryInvariants (encode_payload enc_u8 0)"

definition client_request_shutdown where
  "client_request_shutdown = status_call MT_ShutdownRequest (encode_payload enc_u8 0)"

definition client_close :: "coordinator_client \<Rightarrow> coordinator_client" where
  "client_close cl = cl\<lparr>cl_channel := close_channel (cl_channel cl)\<rparr>"

section \<open>Commands end to end\<close>

datatype remote_command =
    RemoteSourceComplete source_complete_request
  | RemoteTransfer transfer_report
  | RemoteVerification verification_report
  | RemoteAmbiguous ambiguity_request
  | RemoteCancel cancel_request
  | RemotePause pause_request
  | RemoteResume resume_request
  | RemoteDurability durability_request

primrec remote_type :: "remote_command \<Rightarrow> message_type" where
  "remote_type (RemoteSourceComplete q) = MT_ReportSourceComplete"
| "remote_type (RemoteTransfer q) = MT_ReportTransfer"
| "remote_type (RemoteVerification q) = MT_ReportVerification"
| "remote_type (RemoteAmbiguous q) = MT_ReportAmbiguous"
| "remote_type (RemoteCancel q) = MT_CancelSession"
| "remote_type (RemotePause q) = MT_PauseSession"
| "remote_type (RemoteResume q) = MT_ResumeSession"
| "remote_type (RemoteDurability q) = MT_RecordDurability"

primrec remote_payload :: "remote_command \<Rightarrow> bytes" where
  "remote_payload (RemoteSourceComplete q) = encode_payload encode_source_complete_request q"
| "remote_payload (RemoteTransfer q) = encode_payload encode_transfer_report q"
| "remote_payload (RemoteVerification q) = encode_payload encode_verification_report q"
| "remote_payload (RemoteAmbiguous q) = encode_payload encode_ambiguity_request q"
| "remote_payload (RemoteCancel q) = encode_payload encode_cancel_request q"
| "remote_payload (RemotePause q) = encode_payload encode_pause_request q"
| "remote_payload (RemoteResume q) = encode_payload encode_resume_request q"
| "remote_payload (RemoteDurability q) = encode_payload encode_durability_request q"

primrec remote_fits :: "limits \<Rightarrow> remote_command \<Rightarrow> bool" where
  "remote_fits lim (RemoteSourceComplete q) = fits_source_complete_request lim q"
| "remote_fits lim (RemoteTransfer q) = fits_transfer_report lim q"
| "remote_fits lim (RemoteVerification q) = fits_verification_report lim q"
| "remote_fits lim (RemoteAmbiguous q) = fits_ambiguity_request lim q"
| "remote_fits lim (RemoteCancel q) = fits_cancel_request lim q"
| "remote_fits lim (RemotePause q) = fits_pause_request lim q"
| "remote_fits lim (RemoteResume q) = fits_resume_request lim q"
| "remote_fits lim (RemoteDurability q) = fits_durability_request lim q"

primrec remote_label :: "remote_command \<Rightarrow> string" where
  "remote_label (RemoteSourceComplete q) = ''source-complete''"
| "remote_label (RemoteTransfer q) = ''transfer-evidence''"
| "remote_label (RemoteVerification q) = ''verification-evidence''"
| "remote_label (RemoteAmbiguous q) = ''ambiguity''"
| "remote_label (RemoteCancel q) = ''cancel''"
| "remote_label (RemotePause q) = ''pause''"
| "remote_label (RemoteResume q) = ''resume''"
| "remote_label (RemoteDurability q) = ''durability-assertion''"

text \<open>The operation of the engine that a command stands for.\<close>

primrec remote_effect :: "remote_command \<Rightarrow> string \<Rightarrow> nanos \<Rightarrow> engine \<Rightarrow> status \<times> engine" where
  "remote_effect (RemoteSourceComplete q) identity = report_source_complete (cq_evidence q) (cq_fence q)"
| "remote_effect (RemoteTransfer q) identity = report_transfer (tq_evidence q) (tq_fence q)"
| "remote_effect (RemoteVerification q) identity =
     report_verification ((vq_evidence q)\<lparr>vf_verifier_identity := identity\<rparr>) (vq_fence q)"
| "remote_effect (RemoteAmbiguous q) identity =
     report_ambiguous (aq_session q) (aq_attempt q) (aq_sequence q) (aq_cause q) (aq_fence q)"
| "remote_effect (RemoteCancel q) identity = cancel_session (cn_session q) (cn_fence q) (cn_reason q) (cn_detail q)"
| "remote_effect (RemotePause q) identity = pause_session (pz_session q) (pz_fence q) (pz_reason q)"
| "remote_effect (RemoteResume q) identity = resume_session (rs_session q) (rs_fence q)"
| "remote_effect (RemoteDurability q) identity =
     record_durability_assertion (dq_session q) (dq_assertion q) (dq_fence q)"

definition allowed_for :: "client_kind \<Rightarrow> remote_command \<Rightarrow> bool" where
  "allowed_for kind r \<longleftrightarrow> (remote_type r = MT_ReportVerification \<longrightarrow> kind = CK_Sink)"

lemmas command_roundtrips = source_complete_request_codec.roundtrip transfer_report_codec.roundtrip
  verification_report_codec.roundtrip ambiguity_request_codec.roundtrip cancel_request_codec.roundtrip
  pause_request_codec.roundtrip resume_request_codec.roundtrip durability_request_codec.roundtrip

lemma handle_remote:
  "remote_fits lim r \<Longrightarrow> allowed_for kind r \<Longrightarrow>
    handle_message at note lim kind identity \<lparr>ms_type = remote_type r, ms_sequence = n, ms_payload = remote_payload r\<rparr> e =
      finish_command (remote_label r) note (remote_effect r identity at e)"
  by (cases r) (simp_all add: handle_message_def with_payload_def handle_verification_def allowed_for_def command_roundtrips)

lemma status_payload_size: "wire_string (st_detail p) \<Longrightarrow> length (encode_payload encode_status_payload p) \<le> 1000"
  unfolding encode_payload_def written_def [symmetric] encode_status_payload_def
  by (simp add: enc_error_code_def enc_enum_def enc_str_def wire_string_def kMaxStringBytes_def enc_u8_def enc_u16_def)

definition serve_one ::
    "nanos \<Rightarrow> string \<Rightarrow> client_kind \<Rightarrow> string \<Rightarrow> service \<Rightarrow> message_channel \<Rightarrow> status \<times> service \<times> message_channel" where
  "serve_one at note kind identity sv d =
     (case receive_message d of
        (Inl code, d) \<Rightarrow> (code, sv, d)
      | (Inr m, d) \<Rightarrow> dispatch at note kind identity m (note_message sv) d)"

lemma serve_messages_one:
  assumes "\<not> sv_stop_requested sv" and "receive_message d = (Inr m, d1)"
    and "serve_one (clock n) (note n) kind identity sv d = (st, sv', d')"
  shows "serve_messages clock note kind identity n sv d =
    (if st = EC_ShuttingDown then Some (sv', d') else serve_messages clock note kind identity (Suc n) sv' d')"
  using assms by (subst serve_messages.simps) (simp add: serve_one_def)

lemma read_some_keeps: "read_some n s = (r, s') \<Longrightarrow> sk_sends s' = sk_sends s \<and> sk_written s' = sk_written s \<and> sk_valid s' = sk_valid s"
  by (auto simp: read_some_def Let_def split: if_splits prod.splits)

lemma read_exactly_keeps:
  "read_exactly n s = (r, s') \<Longrightarrow> sk_sends s' = sk_sends s \<and> sk_written s' = sk_written s \<and> sk_valid s' = sk_valid s"
proof (induction n s arbitrary: r s' rule: read_exactly.induct)
  case (2 v s)
  obtain q s1 where some: "read_some (Suc v) s = (q, s1)" by fastforce
  note first = read_some_keeps [OF some]
  show ?case
  proof (cases "\<exists>bs. q = Inr bs \<and> bs \<noteq> []")
    case True
    then obtain bs where bs: "q = Inr bs" "bs \<noteq> []" by blast
    obtain q2 s2 where rest: "read_exactly (Suc v - length bs) s1 = (q2, s2)" by fastforce
    have "sk_sends s2 = sk_sends s1 \<and> sk_written s2 = sk_written s1 \<and> sk_valid s2 = sk_valid s1"
      using "2.IH" [of q s1 bs] some bs rest by auto
    moreover have "s' = s2" using "2.prems" some bs rest by (auto split: sum.splits)
    ultimately show ?thesis using first by simp
  next
    case False
    then have "s' = s1" using "2.prems" some by (auto split: sum.splits if_splits)
    then show ?thesis using first by simp
  qed
qed simp

lemma receive_keeps:
  "receive_message c = (r, c') \<Longrightarrow> ch_send_sequence c' = ch_send_sequence c \<and> sk_sends (ch_socket c') = sk_sends (ch_socket c) \<and>
    sk_written (ch_socket c') = sk_written (ch_socket c)"
  unfolding receive_message_def accept_frame_def Let_def
  by (auto dest!: read_exactly_keeps split: prod.splits sum.splits if_splits option.splits)

definition working :: "message_channel \<Rightarrow> bool" where
  "working c \<longleftrightarrow> sk_valid (ch_socket c) \<and> calm_sends (sk_sends (ch_socket c)) \<and> calm_arrivals (sk_arrivals (ch_socket c))"

definition in_step :: "message_channel \<Rightarrow> message_channel \<Rightarrow> bool" where
  "in_step c d \<longleftrightarrow> unat (ch_send_sequence c) + 1 < 2 ^ 64 \<and> (ch_received_any d \<longrightarrow> ch_last_received_sequence d \<le> ch_send_sequence c)"

lemma send_then_receive:
  assumes "length payload \<le> kMaxPayloadBytes" and "sk_valid (ch_socket c)" and "calm_sends (sk_sends (ch_socket c))"
    and "sk_valid (ch_socket d)" and "calm_arrivals (sk_arrivals (ch_socket d))" and "in_step c d"
    and "send_message type payload c = (st, c')"
    and "sk_written (ch_socket c') = sk_written (ch_socket c) @ arriving (sk_arrivals (ch_socket d))"
  shows "st = EC_Ok \<and> sk_valid (ch_socket c') \<and> sk_arrivals (ch_socket c') = sk_arrivals (ch_socket c) \<and>
    calm_sends (sk_sends (ch_socket c')) \<and> ch_received_any c' = ch_received_any c \<and> ch_last_received_sequence c' = ch_last_received_sequence c \<and>
    (\<exists>d'. receive_message d = (Inr \<lparr>ms_type = type, ms_sequence = ch_send_sequence c + 1, ms_payload = payload\<rparr>, d') \<and> sk_valid (ch_socket d'))"
proof -
  let ?n = "ch_send_sequence c + 1"
  obtain frame where frame: "encode_frame (header_for type ?n payload) payload = Inr frame" by (rule encode_header_for [OF assms(1)])
  obtain es where es: "calm_sends es" "send_message type payload c = (EC_Ok, c\<lparr>ch_send_sequence := ?n,
      ch_socket := (ch_socket c)\<lparr>sk_sends := es, sk_written := sk_written (ch_socket c) @ frame\<rparr>\<rparr>)"
    by (rule send_message_calm [OF assms(1-3) frame])
  then have arr: "arriving (sk_arrivals (ch_socket d)) = frame @ []" using assms(7,8) by auto
  have room: "ch_received_any d \<Longrightarrow> ch_last_received_sequence d < ?n"
    using assms(6) u64_less_Suc [of "ch_send_sequence c"] by (auto simp: in_step_def)
  obtain d' where "receive_message d = (Inr \<lparr>ms_type = type, ms_sequence = ?n, ms_payload = payload\<rparr>, d')" "sk_valid (ch_socket d')"
    by (rule receive_message_calm [OF assms(1) frame assms(4,5) arr room]) auto
  then show ?thesis using es assms(2,7) by auto
qed

text \<open>The single answer the service gives to a command.\<close>

definition command_answer :: "string \<Rightarrow> remote_command \<Rightarrow> status \<Rightarrow> status \<Rightarrow> status_payload" where
  "command_answer note r st durable =
     (if st \<noteq> EC_Ok then \<lparr>st_code = st, st_reason = reason_for_fence_code st, st_detail = note\<rparr>
      else if durable \<noteq> EC_Ok then \<lparr>st_code = durable, st_reason = RC_Internal, st_detail = note\<rparr>
      else \<lparr>st_code = EC_Ok, st_reason = RC_Admitted, st_detail = remote_label r @ '' accepted''\<rparr>)"

lemma label_fits: "wire_string (remote_label r @ '' accepted'')"
  by (cases r; simp; code_simp)

lemma answer_fits: "wire_string note \<Longrightarrow> wire_string (st_detail (command_answer note r st durable))"
  using label_fits by (simp add: command_answer_def)

lemma dispatch_command:
  assumes "remote_fits (cc_limits (sv_config sv)) r" and "allowed_for kind r"
    and "remote_effect r identity at (sv_engine sv) = (st, e)"
  shows "\<exists>sv'. sv_engine sv' = e \<and>
    dispatch at note kind identity \<lparr>ms_type = remote_type r, ms_sequence = n, ms_payload = remote_payload r\<rparr> sv d =
      (let (sent, d') = respond (command_answer note r st (fst (persist (remote_label r) (sv\<lparr>sv_engine := e\<rparr>)))) d in (sent, sv', d'))"
proof -
  have "persist l (sv\<lparr>sv_engine := e\<rparr>) = (q, sv') \<Longrightarrow> sv_engine sv' = e" for l q sv'
    unfolding persist_def note_durable_def Let_def by (auto split: option.splits prod.splits if_splits)
  then show ?thesis
    by (auto simp: dispatch_def handle_remote [OF assms(1,2)] assms(3) finish_command_def perform_def command_answer_def fail_request_def
        respond_def note_protocol_error_def Let_def split: prod.splits)
qed

text \<open>
  C4. A command issued through a client has the effect and the result of the engine operation.
  When a client and a service are connected by working sockets, which may cut and interrupt the
  transfer anywhere, and each receives what the other wrote, the status the client returns is the
  status of the engine operation or, when that succeeded, the status of the journal write; and the
  engine of the service is exactly the engine after that operation.
\<close>

theorem remote_command_exact:
  assumes "remote_fits (cc_limits (sv_config sv)) r" and "allowed_for kind r" and "length (remote_payload r) \<le> kMaxPayloadBytes"
    and "wire_string note" and "working (cl_channel cl)" and "working d" and "in_step (cl_channel cl) d" and "in_step d (cl_channel cl)"
    and "send_message (remote_type r) (remote_payload r) (cl_channel cl) = (sent, c')"
    and "sk_written (ch_socket c') = sk_written (ch_socket (cl_channel cl)) @ arriving (sk_arrivals (ch_socket d))"
    and "serve_one at note kind identity sv d = (served, sv', d')"
    and "sk_written (ch_socket d') = sk_written (ch_socket d) @ arriving (sk_arrivals (ch_socket (cl_channel cl)))"
    and "remote_effect r identity at (sv_engine sv) = (st, e)"
  shows "sv_engine sv' = e \<and> fst (status_call (remote_type r) (remote_payload r) cl) =
    (if st \<noteq> EC_Ok then st else fst (persist (remote_label r) ((note_message sv)\<lparr>sv_engine := e\<rparr>)))"
proof -
  let ?c = "cl_channel cl" and ?durable = "fst (persist (remote_label r) ((note_message sv)\<lparr>sv_engine := e\<rparr>))"
  let ?answer = "command_answer note r st ?durable"
  let ?payload = "encode_payload encode_status_payload ?answer"
  have small: "length ?payload \<le> kMaxPayloadBytes"
    using status_payload_size [OF answer_fits [OF assms(4)], of r st ?durable] by (simp add: kMaxPayloadBytes_def)
  note request = send_then_receive [OF assms(3) _ _ _ _ assms(7,9,10)]
  obtain d1 where c': "sent = EC_Ok" "sk_valid (ch_socket c')" "sk_arrivals (ch_socket c') = sk_arrivals (ch_socket ?c)"
    "ch_received_any c' = ch_received_any ?c" "ch_last_received_sequence c' = ch_last_received_sequence ?c"
    and d1: "receive_message d = (Inr \<lparr>ms_type = remote_type r, ms_sequence = ch_send_sequence ?c + 1, ms_payload = remote_payload r\<rparr>, d1)" "sk_valid (ch_socket d1)"
    using request assms(5,6) by (auto simp: working_def)
  note kept = receive_keeps [OF d1(1)]
  have config: "sv_config (note_message sv) = sv_config sv" "sv_engine (note_message sv) = sv_engine sv" by (simp_all add: note_message_def)
  obtain sv2 where sv2: "sv_engine sv2 = e" "dispatch at note kind identity
      \<lparr>ms_type = remote_type r, ms_sequence = ch_send_sequence ?c + 1, ms_payload = remote_payload r\<rparr> (note_message sv) d1 =
      (let (sent, d') = respond ?answer d1 in (sent, sv2, d'))"
    using dispatch_command [of "note_message sv" r kind identity at st e "note" _ d1] assms(1,2,13) config by auto
  then have answered: "send_message MT_StatusResponse ?payload d1 = (served, d')" "sv' = sv2"
    using assms(11) d1(1) by (auto simp: serve_one_def respond_def Let_def split: prod.splits)
  have "in_step d1 c'" using assms(8) kept c'(4,5) by (simp add: in_step_def)
  then obtain c2 where "receive_message c' = (Inr \<lparr>ms_type = MT_StatusResponse, ms_sequence = ch_send_sequence d1 + 1, ms_payload = ?payload\<rparr>, c2)"
    using send_then_receive [OF small d1(2) _ _ _ _ answered(1), of c'] assms(5,6,12) kept c'(2,3) by (auto simp: working_def)
  then have "round_trip (remote_type r) (remote_payload r) MT_StatusResponse cl =
      (Inr \<lparr>ms_type = MT_StatusResponse, ms_sequence = ch_send_sequence d1 + 1, ms_payload = ?payload\<rparr>, cl\<lparr>cl_channel := c2\<rparr>)"
    using assms(9) c'(1) by (simp add: round_trip_def)
  moreover have "decode_payload decode_status_payload ?payload (cl_limits cl) = Inr ?answer"
    using answer_fits [OF assms(4)] by (intro status_payload_codec.roundtrip) (simp add: fits_status_payload_def)
  ultimately show ?thesis
    using sv2(1) answered(2) by (auto simp: status_call_def send_command_def command_answer_def result_status_def)
qed

text \<open>
  The running session of the sample engine is paused through a connection whose sockets split every
  transfer.
\<close>

definition sample_pause :: remote_command where
  "sample_pause = RemotePause \<lparr>pz_session = sample_session_id, pz_fence = sample_fence, pz_reason = ''hold''\<rparr>"

definition sample_service :: service where
  "sample_service = \<lparr>sv_config = sample_coordinator, sv_engine = sample_running, sv_store = None, sv_load_report = None, sv_stats = empty_stats,
     sv_active_connections = 1, sv_running = True, sv_stop_requested = False, sv_peer_shutdown = False\<rparr>"

definition sample_channel :: "bytes \<Rightarrow> message_channel" where
  "sample_channel bs = new_channel \<lparr>sk_valid = True, sk_arrivals = RecvInterrupted # (if bs = [] then [] else [Arrived bs]),
     sk_sends = [Sent 3, SendInterrupted], sk_written = []\<rparr>"

lemma sample_channel_facts [simp]: "working (sample_channel bs)" "in_step (sample_channel bs) (sample_channel bs')"
  "sk_written (ch_socket (sample_channel bs)) = []" "arriving (sk_arrivals (ch_socket (sample_channel bs))) = bs"
  by (simp_all add: sample_channel_def working_def in_step_def new_channel_def calm_sends_def calm_arrivals_def)

lemma sample_session_wf: "wf_uuid sample_session_id"
  by (simp add: sample_session_id_def id_factory_next_def uuid_of_words_wf Let_def split: prod.splits)

lemma hold_fits: "is_valid_utf8 (bytes_from_string ''hold'')" "wire_string ''hold''" by code_simp+

lemma sample_pause_small: "length (remote_payload sample_pause) \<le> kMaxPayloadBytes"
  using sample_session_wf hold_fits
  by (simp add: sample_pause_def encode_payload_def encode_pause_request_def encode_command_fence_def sample_fence_def enc_all_def enc_uuid_def
      encode_coordinator_epoch_def enc_str_def enc_bool_def enc_raw_def enc_u64_def enc_u8_def enc_u16_def enc_u32_def new_encoder_def
      kMaxPayloadBytes_def wf_uuid_def kMaxStringBytes_def)

lemma sample_pause_effect: "\<exists>e. remote_effect sample_pause identity 20 sample_running = (EC_Ok, e)"
proof -
  have "check_fence_status sample_fence (begin_command 20 sample_running) = EC_Ok"
    by (simp add: check_fence_current fence_current_def begin_running)
  moreover have "validate_workload_fence sample_session sample_fence (begin_command 20 sample_running) = EC_Ok"
    by (simp add: begin_running validate_workload_fence_def)
  ultimately show ?thesis using running_lookup by (simp add: sample_pause_def pause_session_def Let_def is_terminal_def)
qed

theorem remote_command_exact_witness:
  "\<exists>cl d served sv' d' e. serve_one 20 '''' CK_Operator ''trainer'' sample_service d = (served, sv', d') \<and>
     pause_session sample_session_id sample_fence ''hold'' 20 sample_running = (EC_Ok, e) \<and> sv_engine sv' = e \<and>
     fst (status_call (remote_type sample_pause) (remote_payload sample_pause) cl) = EC_Ok"
proof -
  let ?send = "send_message (remote_type sample_pause) (remote_payload sample_pause)"
  define request where "request = sk_written (ch_socket (snd (?send (sample_channel []))))"
  obtain served sv' d' where served: "serve_one 20 '''' CK_Operator ''trainer'' sample_service (sample_channel request) = (served, sv', d')"
    by (metis prod_cases3)
  define cl where "cl = \<lparr>cl_channel = sample_channel (sk_written (ch_socket d')), cl_hello = hello_answer sample_service,
    cl_identity = ''trainer'', cl_limits = sample_limits\<rparr>"
  obtain sent c' where sent: "?send (cl_channel cl) = (sent, c')" by fastforce
  have "sk_written (ch_socket (snd (?send (sample_channel bs)))) = request" for bs
    by (simp add: request_def sample_channel_def new_channel_def send_message_def Let_def write_all_def split: prod.splits sum.splits)
  then have request: "sk_written (ch_socket c') = request" using sent by (simp add: cl_def) (metis snd_conv)
  obtain e where e: "remote_effect sample_pause ''trainer'' 20 sample_running = (EC_Ok, e)" using sample_pause_effect by blast
  have fits: "remote_fits (cc_limits (sv_config sample_service)) sample_pause" "allowed_for CK_Operator sample_pause"
    using sample_session_wf hold_fits by (simp_all add: sample_pause_def fits_pause_request_def allowed_for_def)
  have empty: "wire_string ''''" by code_simp
  have effect: "remote_effect sample_pause ''trainer'' 20 (sv_engine sample_service) = (EC_Ok, e)" using e by (simp add: sample_service_def)
  have channel: "cl_channel cl = sample_channel (sk_written (ch_socket d'))" by (simp add: cl_def)
  have arrived: "sk_written (ch_socket c') = sk_written (ch_socket (cl_channel cl)) @ arriving (sk_arrivals (ch_socket (sample_channel request)))"
    "sk_written (ch_socket d') = sk_written (ch_socket (sample_channel request)) @ arriving (sk_arrivals (ch_socket (cl_channel cl)))"
    by (simp_all add: request channel)
  have "working (cl_channel cl)" "working (sample_channel request)" "in_step (cl_channel cl) (sample_channel request)"
    "in_step (sample_channel request) (cl_channel cl)"
    by (simp_all add: channel)
  note exact = remote_command_exact [OF fits sample_pause_small empty this sent arrived(1) served arrived(2) effect]
  have "fst (persist (remote_label sample_pause) ((note_message sample_service)\<lparr>sv_engine := e\<rparr>)) = EC_Ok"
    by (simp add: persist_def note_message_def sample_service_def)
  then have "fst (status_call (remote_type sample_pause) (remote_payload sample_pause) cl) = EC_Ok" using exact by simp
  moreover have "pause_session sample_session_id sample_fence ''hold'' 20 sample_running = (EC_Ok, e)" using e by (simp add: sample_pause_def)
  ultimately show ?thesis using served exact by blast
qed

end
