(* ===== verification/Config.thy ===== *)
theory Config
  imports Service "HOL-Library.Multiset" "HOL-Library.AList_Mapping" "HOL-Library.List_Lexorder" "HOL-Library.Char_ord"
begin

text \<open>
  The configuration parser, \<^verbatim>\<open>src/config.cpp\<close>. A text is a sequence of \<^verbatim>\<open>key = value\<close> lines.
  A recognised key with an acceptable value is a function that updates the configuration under
  construction, the \<open>config_draft\<close>, whose envelopes, paths and contracts are ordered maps keyed by
  the text that names them. The theorem is that only the bindings of a text count: their order,
  comments, blank lines and spacing do not.
\<close>

section \<open>Lines\<close>

definition is_space :: "char \<Rightarrow> bool" where
  "is_space c \<longleftrightarrow> c \<in> {CHR '' '', CHR 0x09, CHR 0x0D, CHR 0x0A}"

definition trim :: "string \<Rightarrow> string" where
  "trim text = rev (dropWhile is_space (rev (dropWhile is_space text)))"

fun split_lines :: "string \<Rightarrow> string list" where
  "split_lines [] = []"
| "split_lines (c # cs) =
     (if c = CHR 0x0A then [] # split_lines cs
      else case split_lines cs of [] \<Rightarrow> [[c]] | l # ls \<Rightarrow> (c # l) # ls)"

definition parse_line :: "string \<Rightarrow> (string \<times> string) option result" where
  "parse_line line_text =
     (let line = trim (takeWhile (\<lambda>c. c \<noteq> CHR ''#'') line_text);
          key = trim (takeWhile (\<lambda>c. c \<noteq> CHR ''='') line);
          value = trim (drop 1 (dropWhile (\<lambda>c. c \<noteq> CHR ''='') line)) in
      if line = [] then Inr None
      else if CHR ''='' \<notin> set line then Inl EC_InvalidSyntax
      else if key = [] \<or> value = [] then Inl EC_InvalidSyntax
      else Inr (Some (key, value)))"

section \<open>Values\<close>

definition with_u64 :: "string \<Rightarrow> (u64 \<Rightarrow> 'a) \<Rightarrow> 'a result" where
  "with_u64 value f = (case scalar_parse 0xFFFFFFFFFFFFFFFF value of None \<Rightarrow> Inl EC_InvalidSyntax | Some n \<Rightarrow> Inr (f n))"

definition with_u32 :: "string \<Rightarrow> (u32 \<Rightarrow> 'a) \<Rightarrow> 'a result" where
  "with_u32 value f = (case scalar_parse 0xFFFFFFFF value of None \<Rightarrow> Inl EC_InvalidSyntax | Some n \<Rightarrow> Inr (f (ucast n)))"

definition with_bool :: "string \<Rightarrow> (bool \<Rightarrow> 'a) \<Rightarrow> 'a result" where
  "with_bool value f =
     (if value = ''true'' then Inr (f True) else if value = ''false'' then Inr (f False) else Inl EC_InvalidSyntax)"

section \<open>The default configuration\<close>

definition default_limits :: limits where
  "default_limits =
     \<lparr>lim_max_shards_per_checkpoint = 4096, lim_max_checkpoint_bytes = 1099511627776, lim_max_sessions = 65536,
      lim_max_attempts_in_flight = 8192, lim_max_retained_history = 4096, lim_max_wave_width = 64,
      lim_max_path_classes = 64, lim_max_sessions_per_workload = 64, lim_max_workloads = 4096,
      lim_max_identity_text_bytes = 128, lim_max_string_bytes = 256, lim_max_supersession_chain = 8\<rparr>"

definition default_policy :: policy_snapshot where
  "default_policy =
     \<lparr>po_generation = 1,
      po_envelopes =
        [\<lparr>ie_isolation = IC_TrainingCritical, ie_ceiling_bps = 33554432, ie_burst_window_ns = 50000000, ie_max_in_flight_sessions = 8\<rparr>,
         \<lparr>ie_isolation = IC_ServingLatency, ie_ceiling_bps = 16777216, ie_burst_window_ns = 50000000, ie_max_in_flight_sessions = 8\<rparr>,
         \<lparr>ie_isolation = IC_TrainingBulk, ie_ceiling_bps = 8388608, ie_burst_window_ns = 100000000, ie_max_in_flight_sessions = 4\<rparr>,
         \<lparr>ie_isolation = IC_BestEffort, ie_ceiling_bps = 2097152, ie_burst_window_ns = 100000000, ie_max_in_flight_sessions = 2\<rparr>],
      po_max_wave_width = 8, po_max_session_bytes = 4294967296, po_max_sessions = 256, po_max_attempts_in_flight = 64,
      po_retained_history = 128, po_require_destination_verification = True, po_defer_horizon_ns = 250000000,
      po_default_deadline_ns = 120 * kNanosPerSecond, po_minimum_rate_bps_for_admission = 0, po_limits = default_limits\<rparr>"

definition default_topology :: topology_snapshot where
  "default_topology =
     \<lparr>to_generation = 1,
      to_path_classes =
        [\<lparr>pc_id = 1, pc_destination = DC_LocalAttachedStore, pc_capacity_bps = 67108864, pc_synthetic = True, pc_label = ''synthetic-local''\<rparr>,
         \<lparr>pc_id = 2, pc_destination = DC_RemoteObjectStore, pc_capacity_bps = 33554432, pc_synthetic = True, pc_label = ''synthetic-remote''\<rparr>,
         \<lparr>pc_id = 3, pc_destination = DC_PeerNodeMemory, pc_capacity_bps = 33554432, pc_synthetic = True, pc_label = ''synthetic-peer''\<rparr>,
         \<lparr>pc_id = 4, pc_destination = DC_SyntheticLab, pc_capacity_bps = 67108864, pc_synthetic = True, pc_label = ''synthetic-lab''\<rparr>]\<rparr>"

definition default_contract :: workload_contract where
  "default_contract =
     \<lparr>wc_workload = (case uuid_parse ''11111111-2222-4333-8444-555555555555'' of None \<Rightarrow> nil_uuid | Some w \<Rightarrow> w),
      wc_generation = 1, wc_isolation = IC_TrainingBulk, wc_ceiling_bps = 8388608, wc_floor_bps = 0,
      wc_max_in_flight_sessions = 4, wc_max_shards_per_wave = 4, wc_allow_supersession = True,
      wc_deadline_budget_ns = 120 * kNanosPerSecond\<rparr>"

definition default_coordinator_config :: coordinator_config where
  "default_coordinator_config =
     \<lparr>cc_bind_host = ''127.0.0.1'', cc_port = 0, cc_data_directory = [], cc_policy = default_policy,
      cc_topology = default_topology, cc_contracts = [default_contract], cc_limits = default_limits, cc_worker_threads = 4,
      cc_max_pending_connections = 64, cc_persist = False, cc_identity_seed = 0x5DEECE66D, cc_label = ''ctf-coordinator''\<rparr>"

section \<open>Keys\<close>

definition top_setting :: "string \<Rightarrow> string \<Rightarrow> (coordinator_config \<Rightarrow> coordinator_config) result" where
  "top_setting key value =
     (if key = ''label'' then Inr (cc_label_update (\<lambda>_. value))
      else if key = ''bind_host'' then Inr (cc_bind_host_update (\<lambda>_. value))
      else if key = ''port'' then
        (case with_u32 value id of
           Inl code \<Rightarrow> Inl code
         | Inr n \<Rightarrow> if n > 65535 then Inl EC_InvalidArgument else Inr (cc_port_update (\<lambda>_. ucast n)))
      else if key = ''data_directory'' then Inr (cc_data_directory_update (\<lambda>_. value))
      else if key = ''worker_threads'' then with_u32 value (\<lambda>n. cc_worker_threads_update (\<lambda>_. unat n))
      else if key = ''max_pending_connections'' then with_u32 value (\<lambda>n. cc_max_pending_connections_update (\<lambda>_. unat n))
      else if key = ''persist'' then with_bool value (\<lambda>b. cc_persist_update (\<lambda>_. b))
      else if key = ''identity_seed'' then with_u64 value (\<lambda>n. cc_identity_seed_update (\<lambda>_. n))
      else Inl EC_InvalidArgument)"

definition envelope_setting ::
    "string \<Rightarrow> string \<Rightarrow> (isolation_envelope_config \<Rightarrow> isolation_envelope_config) result" where
  "envelope_setting field value =
     (if field = ''ceiling_bps'' then with_u64 value (\<lambda>n. ie_ceiling_bps_update (\<lambda>_. n))
      else if field = ''burst_window_ns'' then with_u64 value (\<lambda>n. ie_burst_window_ns_update (\<lambda>_. n))
      else if field = ''max_in_flight_sessions'' then with_u32 value (\<lambda>n. ie_max_in_flight_sessions_update (\<lambda>_. n))
      else Inl EC_InvalidArgument)"

definition policy_setting :: "string \<Rightarrow> string \<Rightarrow> (policy_snapshot \<Rightarrow> policy_snapshot) result" where
  "policy_setting field value =
     (if field = ''generation'' then with_u64 value (\<lambda>n. po_generation_update (\<lambda>_. n))
      else if field = ''max_wave_width'' then with_u32 value (\<lambda>n. po_max_wave_width_update (\<lambda>_. n))
      else if field = ''max_session_bytes'' then with_u64 value (\<lambda>n. po_max_session_bytes_update (\<lambda>_. n))
      else if field = ''max_sessions'' then with_u32 value (\<lambda>n. po_max_sessions_update (\<lambda>_. n))
      else if field = ''max_attempts_in_flight'' then with_u32 value (\<lambda>n. po_max_attempts_in_flight_update (\<lambda>_. n))
      else if field = ''retained_history'' then with_u32 value (\<lambda>n. po_retained_history_update (\<lambda>_. n))
      else if field = ''require_destination_verification'' then with_bool value (\<lambda>b. po_require_destination_verification_update (\<lambda>_. b))
      else if field = ''defer_horizon_ns'' then with_u64 value (\<lambda>n. po_defer_horizon_ns_update (\<lambda>_. sint n))
      else if field = ''default_deadline_ns'' then with_u64 value (\<lambda>n. po_default_deadline_ns_update (\<lambda>_. sint n))
      else Inl EC_InvalidArgument)"

definition path_setting :: "string \<Rightarrow> string \<Rightarrow> (path_class \<Rightarrow> path_class) result" where
  "path_setting field value =
     (if field = ''destination'' then
        (case destination_class_from_string value of None \<Rightarrow> Inl EC_InvalidArgument | Some c \<Rightarrow> Inr (pc_destination_update (\<lambda>_. c)))
      else if field = ''capacity_bps'' then with_u64 value (\<lambda>n. pc_capacity_bps_update (\<lambda>_. n))
      else if field = ''synthetic'' then with_bool value (\<lambda>b. pc_synthetic_update (\<lambda>_. b))
      else if field = ''label'' then Inr (pc_label_update (\<lambda>_. value))
      else Inl EC_InvalidArgument)"

definition contract_setting :: "string \<Rightarrow> string \<Rightarrow> (workload_contract \<Rightarrow> workload_contract) result" where
  "contract_setting field value =
     (if field = ''generation'' then with_u64 value (\<lambda>n. wc_generation_update (\<lambda>_. n))
      else if field = ''isolation'' then
        (case isolation_class_from_string value of None \<Rightarrow> Inl EC_InvalidArgument | Some c \<Rightarrow> Inr (wc_isolation_update (\<lambda>_. c)))
      else if field = ''ceiling_bps'' then with_u64 value (\<lambda>n. wc_ceiling_bps_update (\<lambda>_. n))
      else if field = ''floor_bps'' then with_u64 value (\<lambda>n. wc_floor_bps_update (\<lambda>_. n))
      else if field = ''max_in_flight_sessions'' then with_u32 value (\<lambda>n. wc_max_in_flight_sessions_update (\<lambda>_. n))
      else if field = ''max_shards_per_wave'' then with_u32 value (\<lambda>n. wc_max_shards_per_wave_update (\<lambda>_. n))
      else if field = ''allow_supersession'' then with_bool value (\<lambda>b. wc_allow_supersession_update (\<lambda>_. b))
      else if field = ''deadline_budget_ns'' then with_u64 value (\<lambda>n. wc_deadline_budget_ns_update (\<lambda>_. sint n))
      else Inl EC_InvalidArgument)"

definition limits_update :: "string \<Rightarrow> u64 \<Rightarrow> (limits \<Rightarrow> limits) result" where
  "limits_update field raw =
     (if field = ''max_shards_per_checkpoint'' then Inr (lim_max_shards_per_checkpoint_update (\<lambda>_. ucast raw))
      else if field = ''max_checkpoint_bytes'' then Inr (lim_max_checkpoint_bytes_update (\<lambda>_. raw))
      else if field = ''max_sessions'' then Inr (lim_max_sessions_update (\<lambda>_. ucast raw))
      else if field = ''max_attempts_in_flight'' then Inr (lim_max_attempts_in_flight_update (\<lambda>_. ucast raw))
      else if field = ''max_retained_history'' then Inr (lim_max_retained_history_update (\<lambda>_. ucast raw))
      else if field = ''max_wave_width'' then Inr (lim_max_wave_width_update (\<lambda>_. ucast raw))
      else if field = ''max_path_classes'' then Inr (lim_max_path_classes_update (\<lambda>_. ucast raw))
      else if field = ''max_sessions_per_workload'' then Inr (lim_max_sessions_per_workload_update (\<lambda>_. ucast raw))
      else if field = ''max_workloads'' then Inr (lim_max_workloads_update (\<lambda>_. ucast raw))
      else if field = ''max_string_bytes'' then Inr (lim_max_string_bytes_update (\<lambda>_. unat raw))
      else if field = ''max_supersession_chain'' then Inr (lim_max_supersession_chain_update (\<lambda>_. ucast raw))
      else Inl EC_InvalidArgument)"

definition limits_setting :: "string \<Rightarrow> string \<Rightarrow> (limits \<Rightarrow> limits) result" where
  "limits_setting field value =
     (case with_u64 value id of Inl code \<Rightarrow> Inl code | Inr raw \<Rightarrow> limits_update field raw)"

section \<open>The configuration under construction\<close>

record config_draft =
  dr_top :: coordinator_config
  dr_policy :: policy_snapshot
  dr_topology_generation :: generation
  dr_limits :: limits
  dr_envelopes :: "(string, isolation_envelope_config) mapping"
  dr_paths :: "(string, path_class) mapping"
  dr_contracts :: "(string, workload_contract) mapping"
  dr_policy_generation_seen :: bool
  dr_topology_generation_seen :: bool

definition touch :: "string \<Rightarrow> 'a \<Rightarrow> ('a \<Rightarrow> 'a) \<Rightarrow> (string, 'a) mapping \<Rightarrow> (string, 'a) mapping" where
  "touch k d u m = Mapping.update k (u (case Mapping.lookup m k of None \<Rightarrow> d | Some v \<Rightarrow> v)) m"

definition new_envelope :: "isolation_class \<Rightarrow> isolation_envelope_config" where
  "new_envelope c = \<lparr>ie_isolation = c, ie_ceiling_bps = 0, ie_burst_window_ns = 100000000, ie_max_in_flight_sessions = 16\<rparr>"

definition new_path :: "path_class_id \<Rightarrow> path_class" where
  "new_path i = \<lparr>pc_id = i, pc_destination = DC_LocalAttachedStore, pc_capacity_bps = 0, pc_synthetic = False, pc_label = []\<rparr>"

definition new_contract :: "workload_id \<Rightarrow> workload_contract" where
  "new_contract w =
     \<lparr>wc_workload = w, wc_generation = 0, wc_isolation = IC_TrainingBulk, wc_ceiling_bps = 0, wc_floor_bps = 0,
      wc_max_in_flight_sessions = 8, wc_max_shards_per_wave = 8, wc_allow_supersession = True,
      wc_deadline_budget_ns = 300 * kNanosPerSecond\<rparr>"

definition named_setting ::
    "(string \<Rightarrow> 'b option) \<Rightarrow> (string \<Rightarrow> string \<Rightarrow> ('a \<Rightarrow> 'a) result) \<Rightarrow> string \<Rightarrow> string \<Rightarrow> (string \<times> 'b \<times> ('a \<Rightarrow> 'a)) result" where
  "named_setting name_of set_field rest value =
     (let name = takeWhile (\<lambda>c. c \<noteq> CHR ''.'') rest; field = drop 1 (dropWhile (\<lambda>c. c \<noteq> CHR ''.'') rest) in
      if CHR ''.'' \<notin> set rest then Inl EC_InvalidArgument
      else case name_of name of
        None \<Rightarrow> Inl EC_InvalidArgument
      | Some x \<Rightarrow> map_sum id (\<lambda>u. (name, x, u)) (set_field field value))"

definition path_id_parse :: "string \<Rightarrow> path_class_id option" where
  "path_id_parse text =
     (case scalar_parse 0xFFFFFFFF text of None \<Rightarrow> None | Some n \<Rightarrow> if n = 0 then None else Some (ucast n))"

definition has_prefix :: "string \<Rightarrow> string \<Rightarrow> bool" where
  "has_prefix p key \<longleftrightarrow> take (length p) key = p"

definition setting :: "string \<Rightarrow> string \<Rightarrow> (config_draft \<Rightarrow> config_draft) result" where
  "setting key value =
     (if has_prefix ''policy.envelope.'' key then
        map_sum id (\<lambda>(name, c, u). dr_envelopes_update (touch name (new_envelope c) u))
          (named_setting isolation_class_from_string envelope_setting (drop 16 key) value)
      else if has_prefix ''policy.'' key then
        map_sum id (\<lambda>u d. d\<lparr>dr_policy := u (dr_policy d), dr_policy_generation_seen := dr_policy_generation_seen d \<or> key = ''policy.generation''\<rparr>)
          (policy_setting (drop 7 key) value)
      else if has_prefix ''topology.path.'' key then
        map_sum id (\<lambda>(name, i, u). dr_paths_update (touch name (new_path i) u))
          (named_setting path_id_parse path_setting (drop 14 key) value)
      else if key = ''topology.generation'' then
        with_u64 value (\<lambda>n d. d\<lparr>dr_topology_generation := n, dr_topology_generation_seen := True\<rparr>)
      else if has_prefix ''contract.'' key then
        map_sum id (\<lambda>(name, w, u). dr_contracts_update (touch name (new_contract w) u))
          (named_setting uuid_parse contract_setting (drop 9 key) value)
      else if has_prefix ''limits.'' key then map_sum id dr_limits_update (limits_setting (drop 7 key) value)
      else map_sum id dr_top_update (top_setting key value))"

section \<open>Parsing\<close>

definition new_draft :: config_draft where
  "new_draft =
     \<lparr>dr_top = default_coordinator_config, dr_policy = default_policy\<lparr>po_generation := 0\<rparr>, dr_topology_generation = 0,
      dr_limits = default_limits, dr_envelopes = Mapping.empty, dr_paths = Mapping.empty, dr_contracts = Mapping.empty,
      dr_policy_generation_seen = False, dr_topology_generation_seen = False\<rparr>"

fun parse_lines :: "string list \<Rightarrow> string set \<Rightarrow> config_draft \<Rightarrow> config_draft result" where
  "parse_lines [] seen d = Inr d"
| "parse_lines (l # ls) seen d =
     (case parse_line l of
        Inl code \<Rightarrow> Inl code
      | Inr None \<Rightarrow> parse_lines ls seen d
      | Inr (Some (key, value)) \<Rightarrow>
          if key \<in> seen then Inl EC_DuplicateIdentity
          else case setting key value of
            Inl code \<Rightarrow> Inl code
          | Inr f \<Rightarrow> parse_lines ls (insert key seen) (f d))"

definition in_key_order :: "(string, 'a) mapping \<Rightarrow> 'a list" where
  "in_key_order m = map (\<lambda>k. the (Mapping.lookup m k)) (Mapping.ordered_keys m)"

record file_config =
  fg_coordinator :: coordinator_config
  fg_source :: string

definition finish_config :: "config_draft \<Rightarrow> string \<Rightarrow> file_config result" where
  "finish_config d source =
     (let envelopes = in_key_order (dr_envelopes d); paths = in_key_order (dr_paths d); contracts = in_key_order (dr_contracts d) in
      if \<not> dr_policy_generation_seen d then Inl EC_MissingField
      else if \<not> dr_topology_generation_seen d then Inl EC_MissingField
      else if envelopes = [] then Inl EC_MissingField
      else if paths = [] then Inl EC_MissingField
      else if contracts = [] then Inl EC_MissingField
      else if cc_persist (dr_top d) \<and> cc_data_directory (dr_top d) = [] then Inl EC_InvalidArgument
      else Inr \<lparr>fg_coordinator = (dr_top d)\<lparr>cc_policy := (dr_policy d)\<lparr>po_envelopes := envelopes\<rparr>,
                  cc_topology := \<lparr>to_generation = dr_topology_generation d, to_path_classes = paths\<rparr>,
                  cc_contracts := contracts, cc_limits := dr_limits d\<rparr>,
                fg_source = source\<rparr>)"

definition parse_config :: "string \<Rightarrow> string \<Rightarrow> file_config result" where
  "parse_config text source =
     (case parse_lines (split_lines text) {} new_draft of Inl code \<Rightarrow> Inl code | Inr d \<Rightarrow> finish_config d source)"

definition load_config_file :: "string option \<Rightarrow> string \<Rightarrow> file_config result" where
  "load_config_file file path = (case file of None \<Rightarrow> Inl EC_NotFound | Some text \<Rightarrow> parse_config text path)"

definition bool_text :: "bool \<Rightarrow> string" where
  "bool_text b = (if b then ''true'' else ''false'')"

definition describe_config :: "coordinator_config \<Rightarrow> string" where
  "describe_config c =
     (let line = (\<lambda>key value. key @ ''='' @ value @ [CHR 0x0A]); number = (\<lambda>n. dec_string n) in
      line ''label'' (cc_label c) @ line ''bind_host'' (cc_bind_host c) @ line ''port'' (number (unat (cc_port c))) @
      line ''data_directory'' (cc_data_directory c) @ line ''persist'' (bool_text (cc_persist c)) @
      line ''worker_threads'' (number (cc_worker_threads c)) @
      line ''policy.generation'' (number (unat (po_generation (cc_policy c)))) @
      line ''policy.max_wave_width'' (number (unat (po_max_wave_width (cc_policy c)))) @
      line ''policy.max_sessions'' (number (unat (po_max_sessions (cc_policy c)))) @
      line ''policy.require_destination_verification'' (bool_text (po_require_destination_verification (cc_policy c))) @
      concat (map (\<lambda>v. line (''policy.envelope.'' @ isolation_class_to_string (ie_isolation v) @ ''.ceiling_bps'')
        (number (unat (ie_ceiling_bps v)))) (po_envelopes (cc_policy c))) @
      line ''topology.generation'' (number (unat (to_generation (cc_topology c)))) @
      concat (map (\<lambda>p. let path = ''topology.path.'' @ number (unat (pc_id p)) in
        line (path @ ''.destination'') (destination_class_to_string (pc_destination p)) @
        line (path @ ''.capacity_bps'') (number (unat (pc_capacity_bps p))) @
        line (path @ ''.synthetic'') (bool_text (pc_synthetic p))) (to_path_classes (cc_topology c))) @
      concat (map (\<lambda>k. let contract = ''contract.'' @ uuid_to_string (wc_workload k) in
        line (contract @ ''.generation'') (number (unat (wc_generation k))) @
        line (contract @ ''.isolation'') (isolation_class_to_string (wc_isolation k)) @
        line (contract @ ''.ceiling_bps'') (number (unat (wc_ceiling_bps k)))) (cc_contracts c)))"

section \<open>Settings commute\<close>

lemmas with_values = with_u64_def with_u32_def with_bool_def

lemma top_cases:
  "top_setting k v = Inr f \<Longrightarrow>
    k = ''label'' \<and> (\<exists>x. f = cc_label_update (\<lambda>_. x)) \<or>
    k = ''bind_host'' \<and> (\<exists>x. f = cc_bind_host_update (\<lambda>_. x)) \<or>
    k = ''port'' \<and> (\<exists>x. f = cc_port_update (\<lambda>_. x)) \<or>
    k = ''data_directory'' \<and> (\<exists>x. f = cc_data_directory_update (\<lambda>_. x)) \<or>
    k = ''worker_threads'' \<and> (\<exists>x. f = cc_worker_threads_update (\<lambda>_. x)) \<or>
    k = ''max_pending_connections'' \<and> (\<exists>x. f = cc_max_pending_connections_update (\<lambda>_. x)) \<or>
    k = ''persist'' \<and> (\<exists>x. f = cc_persist_update (\<lambda>_. x)) \<or>
    k = ''identity_seed'' \<and> (\<exists>x. f = cc_identity_seed_update (\<lambda>_. x))"
  by (auto simp: top_setting_def with_values split: if_splits option.splits sum.splits)

lemma top_commutes: "top_setting k v = Inr f \<Longrightarrow> top_setting l w = Inr g \<Longrightarrow> k \<noteq> l \<Longrightarrow> f (g c) = g (f c)"
  by (drule top_cases, drule top_cases, elim disjE conjE exE) simp_all

lemma envelope_cases:
  "envelope_setting k v = Inr f \<Longrightarrow>
    k = ''ceiling_bps'' \<and> (\<exists>x. f = ie_ceiling_bps_update (\<lambda>_. x)) \<or>
    k = ''burst_window_ns'' \<and> (\<exists>x. f = ie_burst_window_ns_update (\<lambda>_. x)) \<or>
    k = ''max_in_flight_sessions'' \<and> (\<exists>x. f = ie_max_in_flight_sessions_update (\<lambda>_. x))"
  by (auto simp: envelope_setting_def with_values split: if_splits option.splits sum.splits)

lemma envelope_commutes: "envelope_setting k v = Inr f \<Longrightarrow> envelope_setting l w = Inr g \<Longrightarrow> k \<noteq> l \<Longrightarrow> f (g c) = g (f c)"
  by (drule envelope_cases, drule envelope_cases, elim disjE conjE exE) simp_all

lemma policy_cases:
  "policy_setting k v = Inr f \<Longrightarrow>
    k = ''generation'' \<and> (\<exists>x. f = po_generation_update (\<lambda>_. x)) \<or>
    k = ''max_wave_width'' \<and> (\<exists>x. f = po_max_wave_width_update (\<lambda>_. x)) \<or>
    k = ''max_session_bytes'' \<and> (\<exists>x. f = po_max_session_bytes_update (\<lambda>_. x)) \<or>
    k = ''max_sessions'' \<and> (\<exists>x. f = po_max_sessions_update (\<lambda>_. x)) \<or>
    k = ''max_attempts_in_flight'' \<and> (\<exists>x. f = po_max_attempts_in_flight_update (\<lambda>_. x)) \<or>
    k = ''retained_history'' \<and> (\<exists>x. f = po_retained_history_update (\<lambda>_. x)) \<or>
    k = ''require_destination_verification'' \<and> (\<exists>x. f = po_require_destination_verification_update (\<lambda>_. x)) \<or>
    k = ''defer_horizon_ns'' \<and> (\<exists>x. f = po_defer_horizon_ns_update (\<lambda>_. x)) \<or>
    k = ''default_deadline_ns'' \<and> (\<exists>x. f = po_default_deadline_ns_update (\<lambda>_. x))"
  by (auto simp: policy_setting_def with_values split: if_splits option.splits sum.splits)

lemma policy_commutes: "policy_setting k v = Inr f \<Longrightarrow> policy_setting l w = Inr g \<Longrightarrow> k \<noteq> l \<Longrightarrow> f (g c) = g (f c)"
  by (drule policy_cases, drule policy_cases, elim disjE conjE exE) simp_all

lemma path_cases:
  "path_setting k v = Inr f \<Longrightarrow>
    k = ''destination'' \<and> (\<exists>x. f = pc_destination_update (\<lambda>_. x)) \<or>
    k = ''capacity_bps'' \<and> (\<exists>x. f = pc_capacity_bps_update (\<lambda>_. x)) \<or>
    k = ''synthetic'' \<and> (\<exists>x. f = pc_synthetic_update (\<lambda>_. x)) \<or>
    k = ''label'' \<and> (\<exists>x. f = pc_label_update (\<lambda>_. x))"
  by (auto simp: path_setting_def with_values split: if_splits option.splits sum.splits)

lemma path_commutes: "path_setting k v = Inr f \<Longrightarrow> path_setting l w = Inr g \<Longrightarrow> k \<noteq> l \<Longrightarrow> f (g c) = g (f c)"
  by (drule path_cases, drule path_cases, elim disjE conjE exE) simp_all

lemma contract_cases:
  "contract_setting k v = Inr f \<Longrightarrow>
    k = ''generation'' \<and> (\<exists>x. f = wc_generation_update (\<lambda>_. x)) \<or>
    k = ''isolation'' \<and> (\<exists>x. f = wc_isolation_update (\<lambda>_. x)) \<or>
    k = ''ceiling_bps'' \<and> (\<exists>x. f = wc_ceiling_bps_update (\<lambda>_. x)) \<or>
    k = ''floor_bps'' \<and> (\<exists>x. f = wc_floor_bps_update (\<lambda>_. x)) \<or>
    k = ''max_in_flight_sessions'' \<and> (\<exists>x. f = wc_max_in_flight_sessions_update (\<lambda>_. x)) \<or>
    k = ''max_shards_per_wave'' \<and> (\<exists>x. f = wc_max_shards_per_wave_update (\<lambda>_. x)) \<or>
    k = ''allow_supersession'' \<and> (\<exists>x. f = wc_allow_supersession_update (\<lambda>_. x)) \<or>
    k = ''deadline_budget_ns'' \<and> (\<exists>x. f = wc_deadline_budget_ns_update (\<lambda>_. x))"
  by (auto simp: contract_setting_def with_values split: if_splits option.splits sum.splits)

lemma contract_commutes: "contract_setting k v = Inr f \<Longrightarrow> contract_setting l w = Inr g \<Longrightarrow> k \<noteq> l \<Longrightarrow> f (g c) = g (f c)"
  by (drule contract_cases, drule contract_cases, elim disjE conjE exE) simp_all

lemma limits_cases:
  "limits_setting k v = Inr f \<Longrightarrow>
    k = ''max_shards_per_checkpoint'' \<and> (\<exists>x. f = lim_max_shards_per_checkpoint_update (\<lambda>_. x)) \<or>
    k = ''max_checkpoint_bytes'' \<and> (\<exists>x. f = lim_max_checkpoint_bytes_update (\<lambda>_. x)) \<or>
    k = ''max_sessions'' \<and> (\<exists>x. f = lim_max_sessions_update (\<lambda>_. x)) \<or>
    k = ''max_attempts_in_flight'' \<and> (\<exists>x. f = lim_max_attempts_in_flight_update (\<lambda>_. x)) \<or>
    k = ''max_retained_history'' \<and> (\<exists>x. f = lim_max_retained_history_update (\<lambda>_. x)) \<or>
    k = ''max_wave_width'' \<and> (\<exists>x. f = lim_max_wave_width_update (\<lambda>_. x)) \<or>
    k = ''max_path_classes'' \<and> (\<exists>x. f = lim_max_path_classes_update (\<lambda>_. x)) \<or>
    k = ''max_sessions_per_workload'' \<and> (\<exists>x. f = lim_max_sessions_per_workload_update (\<lambda>_. x)) \<or>
    k = ''max_workloads'' \<and> (\<exists>x. f = lim_max_workloads_update (\<lambda>_. x)) \<or>
    k = ''max_string_bytes'' \<and> (\<exists>x. f = lim_max_string_bytes_update (\<lambda>_. x)) \<or>
    k = ''max_supersession_chain'' \<and> (\<exists>x. f = lim_max_supersession_chain_update (\<lambda>_. x))"
  by (auto simp: limits_setting_def limits_update_def with_values split: if_splits option.splits sum.splits)

lemma limits_commutes: "limits_setting k v = Inr f \<Longrightarrow> limits_setting l w = Inr g \<Longrightarrow> k \<noteq> l \<Longrightarrow> f (g c) = g (f c)"
  by (drule limits_cases, drule limits_cases, elim disjE conjE exE) simp_all

lemma touch_commutes: "k \<noteq> l \<or> f \<circ> g = g \<circ> f \<and> d = e \<Longrightarrow> touch k d f (touch l e g m) = touch l e g (touch k d f m)"
  unfolding touch_def
  by (rule mapping_eqI) (auto simp: Mapping.lookup_update' fun_eq_iff split: option.splits)

lemma named_setting_cases:
  "named_setting name_of set_field rest v = Inr (name, x, u) \<Longrightarrow>
    \<exists>field. rest = name @ CHR ''.'' # field \<and> name_of name = Some x \<and> set_field field v = Inr u"
proof -
  assume named: "named_setting name_of set_field rest v = Inr (name, x, u)"
  then have dot: "CHR ''.'' \<in> set rest" and name: "name = takeWhile (\<lambda>c. c \<noteq> CHR ''.'') rest" "name_of name = Some x"
    and u: "set_field (drop 1 (dropWhile (\<lambda>c. c \<noteq> CHR ''.'') rest)) v = Inr u"
    by (auto simp: named_setting_def Let_def map_sum_def split: if_splits option.splits sum.splits)
  have "dropWhile (\<lambda>c. c \<noteq> CHR ''.'') rest \<noteq> []" using dot by (auto simp: dropWhile_eq_Nil_conv)
  then obtain field where field: "dropWhile (\<lambda>c. c \<noteq> CHR ''.'') rest = CHR ''.'' # field"
    using hd_dropWhile [of "\<lambda>c. c \<noteq> CHR ''.''" rest] by (cases "dropWhile (\<lambda>c. c \<noteq> CHR ''.'') rest") auto
  then have "rest = name @ CHR ''.'' # field" using takeWhile_dropWhile_id [of "\<lambda>c. c \<noteq> CHR ''.''" rest] name(1) by simp
  then show ?thesis using name(2) u field by auto
qed

lemma setting_cases:
  assumes "setting k v = Inr F"
  obtains
    (envelope) name field c u where "k = ''policy.envelope.'' @ name @ CHR ''.'' # field" "isolation_class_from_string name = Some c"
      "envelope_setting field v = Inr u" "F = dr_envelopes_update (touch name (new_envelope c) u)"
  | (policy) field u b where "k = ''policy.'' @ field" "policy_setting field v = Inr u"
      "F = (\<lambda>d. d\<lparr>dr_policy := u (dr_policy d), dr_policy_generation_seen := dr_policy_generation_seen d \<or> b\<rparr>)"
  | (path) name field i u where "k = ''topology.path.'' @ name @ CHR ''.'' # field" "path_id_parse name = Some i"
      "path_setting field v = Inr u" "F = dr_paths_update (touch name (new_path i) u)"
  | (topology) n where "k = ''topology.generation''" "F = (\<lambda>d. d\<lparr>dr_topology_generation := n, dr_topology_generation_seen := True\<rparr>)"
  | (contract) name field w u where "k = ''contract.'' @ name @ CHR ''.'' # field" "uuid_parse name = Some w"
      "contract_setting field v = Inr u" "F = dr_contracts_update (touch name (new_contract w) u)"
  | (limits) field u where "k = ''limits.'' @ field" "limits_setting field v = Inr u" "F = dr_limits_update u"
  | (top) u where "top_setting k v = Inr u" "F = dr_top_update u"
proof -
  have inr: "\<exists>y. r = Inr y \<and> F = h y" if "map_sum id h r = Inr F" for h r
    using that by (cases r) auto
  have prefix: "k = p @ drop n k" if "has_prefix p k" "n = length p" for p n
    using that by (metis append_take_drop_id has_prefix_def)
  let ?P = "\<lambda>p. has_prefix p k"
  consider "?P ''policy.envelope.''" | "\<not> ?P ''policy.envelope.''" "?P ''policy.''" | "\<not> ?P ''policy.envelope.''" "\<not> ?P ''policy.''" "?P ''topology.path.''"
    | "\<not> ?P ''policy.envelope.''" "\<not> ?P ''policy.''" "\<not> ?P ''topology.path.''" "k = ''topology.generation''"
    | "\<not> ?P ''policy.envelope.''" "\<not> ?P ''policy.''" "\<not> ?P ''topology.path.''" "k \<noteq> ''topology.generation''" "?P ''contract.''"
    | "\<not> ?P ''policy.envelope.''" "\<not> ?P ''policy.''" "\<not> ?P ''topology.path.''" "k \<noteq> ''topology.generation''" "\<not> ?P ''contract.''" "?P ''limits.''"
    | "\<not> ?P ''policy.envelope.''" "\<not> ?P ''policy.''" "\<not> ?P ''topology.path.''" "k \<noteq> ''topology.generation''" "\<not> ?P ''contract.''" "\<not> ?P ''limits.''"
    by blast
  then show thesis
  proof cases
    case 1
    then obtain name c u where "named_setting isolation_class_from_string envelope_setting (drop 16 k) v = Inr (name, c, u)"
      "F = dr_envelopes_update (touch name (new_envelope c) u)"
      using inr assms by (fastforce simp: setting_def)
    then show thesis using named_setting_cases envelope prefix [OF 1, of 16] by fastforce
  next
    case 2
    then show thesis using inr assms policy prefix [OF 2(2), of 7] by (fastforce simp: setting_def)
  next
    case 3
    then obtain name i u where "named_setting path_id_parse path_setting (drop 14 k) v = Inr (name, i, u)"
      "F = dr_paths_update (touch name (new_path i) u)"
      using inr assms by (fastforce simp: setting_def)
    then show thesis using named_setting_cases path prefix [OF 3(3), of 14] by fastforce
  next
    case 4
    then show thesis using assms topology by (auto simp: setting_def with_u64_def split: option.splits)
  next
    case 5
    then obtain name w u where "named_setting uuid_parse contract_setting (drop 9 k) v = Inr (name, w, u)"
      "F = dr_contracts_update (touch name (new_contract w) u)"
      using inr assms by (fastforce simp: setting_def)
    then show thesis using named_setting_cases contract prefix [OF 5(5), of 9] by fastforce
  next
    case 6
    then show thesis using inr assms limits prefix [OF 6(6), of 7] by (fastforce simp: setting_def)
  next
    case 7
    then show thesis using inr assms top by (fastforce simp: setting_def)
  qed
qed

lemma named_commutes:
  assumes "new_of name = Some x" "new_of name' = Some y" and "name @ CHR ''.'' # field \<noteq> name' @ CHR ''.'' # field'"
    and "field \<noteq> field' \<Longrightarrow> \<forall>c. u (u' c) = u' (u c)"
  shows "touch name (new x) u (touch name' (new y) u' m) = touch name' (new y) u' (touch name (new x) u m)"
  using assms by (intro touch_commutes) (auto simp: fun_eq_iff)

lemma settings_commute:
  assumes "setting k v = Inr F" and "setting l w = Inr G" and "k \<noteq> l"
  shows "F (G d) = G (F d)"
  using assms(1)
proof (cases rule: setting_cases)
  case (envelope name field c u)
  note first = envelope
  from assms(2) show ?thesis
  proof (cases rule: setting_cases)
    case (envelope name' field' c' u')
    then show ?thesis
      using first assms(3) envelope_commutes named_commutes [of isolation_class_from_string name c name' c' field field' u u'] by simp
  qed (simp_all add: first)
next
  case (policy field u b)
  note first = policy
  from assms(2) show ?thesis
  proof (cases rule: setting_cases)
    case (policy field' u' b')
    then show ?thesis using first assms(3) policy_commutes [of field v u field' w u'] by (auto simp: disj_commute disj_left_commute)
  qed (simp_all add: first)
next
  case (path name field i u)
  note first = path
  from assms(2) show ?thesis
  proof (cases rule: setting_cases)
    case (path name' field' i' u')
    then show ?thesis using first assms(3) path_commutes named_commutes [of path_id_parse name i name' i' field field' u u'] by simp
  qed (simp_all add: first)
next
  case (topology n)
  note first = topology
  from assms(2) show ?thesis by (cases rule: setting_cases) (use first assms(3) in simp_all)
next
  case (contract name field x u)
  note first = contract
  from assms(2) show ?thesis
  proof (cases rule: setting_cases)
    case (contract name' field' x' u')
    then show ?thesis using first assms(3) contract_commutes named_commutes [of uuid_parse name x name' x' field field' u u'] by simp
  qed (simp_all add: first)
next
  case (limits field u)
  note first = limits
  from assms(2) show ?thesis
  proof (cases rule: setting_cases)
    case (limits field' u')
    then show ?thesis using first assms(3) limits_commutes [of field v u field' w u'] by auto
  qed (simp_all add: first)
next
  case (top u)
  note first = top
  from assms(2) show ?thesis
  proof (cases rule: setting_cases)
    case (top u')
    then show ?thesis using first assms(3) top_commutes [of k v u l w u'] by auto
  qed (simp_all add: first)
qed

section \<open>Only the bindings count\<close>

definition entries :: "string \<Rightarrow> (string \<times> string) option result list" where
  "entries text = filter (\<lambda>x. x \<noteq> Inr None) (map parse_line (split_lines text))"

definition accepted :: "(string \<times> string) list \<Rightarrow> string set \<Rightarrow> bool" where
  "accepted kvs seen \<longleftrightarrow> distinct (map fst kvs) \<and> seen \<inter> set (map fst kvs) = {} \<and> list_all (\<lambda>(k, v). isl (setting k v) = False) kvs"

definition apply_binding :: "string \<times> string \<Rightarrow> config_draft \<Rightarrow> config_draft" where
  "apply_binding kv = projr (setting (fst kv) (snd kv))"

lemma parse_lines_accepted:
  "parse_lines ls seen d = Inr d' \<longleftrightarrow>
    (\<exists>kvs. filter (\<lambda>x. x \<noteq> Inr None) (map parse_line ls) = map (\<lambda>kv. Inr (Some kv)) kvs \<and> accepted kvs seen \<and>
      d' = fold apply_binding kvs d)"
proof (induction ls arbitrary: seen d)
  case Nil
  then show ?case by (auto simp: accepted_def)
next
  case (Cons l ls)
  show ?case
  proof (cases "\<exists>k v. parse_line l = Inr (Some (k, v))")
    case False
    then show ?thesis using Cons.IH by (auto split: sum.splits option.splits)
  next
    case True
    then obtain k v where kv: "parse_line l = Inr (Some (k, v))" by blast
    show ?thesis
    proof (cases "k \<in> seen \<or> isl (setting k v)")
      case True
      then show ?thesis using kv by (auto simp: accepted_def Cons_eq_map_conv split: sum.splits)
    next
      case False
      then obtain f where f: "setting k v = Inr f" "k \<notin> seen" by (cases "setting k v") auto
      have "accepted ((k, v) # kvs) seen \<longleftrightarrow> accepted kvs (insert k seen)" for kvs
        using f by (auto simp: accepted_def)
      then show ?thesis using kv f Cons.IH [of "insert k seen" "f d"] by (auto simp: Cons_eq_map_conv apply_binding_def)
    qed
  qed
qed

lemma accepted_setting: "accepted kvs seen \<Longrightarrow> x \<in> set kvs \<Longrightarrow> \<exists>F. setting (fst x) (snd x) = Inr F"
  by (cases "setting (fst x) (snd x)") (auto simp: accepted_def list_all_iff)

lemma bindings_commute:
  assumes "accepted kvs seen" and "mset kvs = mset kvs'"
  shows "accepted kvs' seen \<and> fold apply_binding kvs d = fold apply_binding kvs' d"
proof -
  have keys: "mset (map fst kvs) = mset (map fst kvs')" and members: "set kvs = set kvs'" using assms(2) by (simp, metis set_mset_mset)
  then have "accepted kvs' seen"
    using assms(1) mset_eq_imp_distinct_iff [OF keys] by (auto simp: accepted_def list_all_iff)
  moreover have "apply_binding x \<circ> apply_binding y = apply_binding y \<circ> apply_binding x" if "x \<in> set kvs" "y \<in> set kvs" for x y
  proof (cases "fst x = fst y")
    case True
    then have "x = y" using assms(1) that by (metis accepted_def eq_key_imp_eq_value prod.collapse)
    then show ?thesis by simp
  next
    case False
    have "\<exists>F. setting (fst x) (snd x) = Inr F" "\<exists>G. setting (fst y) (snd y) = Inr G"
      using accepted_setting [OF assms(1)] that by blast+
    then show ?thesis using settings_commute [OF _ _ False] by (auto simp: apply_binding_def fun_eq_iff)
  qed
  then have "fold apply_binding kvs = fold apply_binding kvs'" using assms(2) by (rule fold_multiset_equiv)
  ultimately show ?thesis by simp
qed

lemma order_irrelevant:
  assumes "mset (entries t) = mset (entries t')" and "parse_config t source = Inr c"
  shows "parse_config t' source = Inr c"
proof -
  obtain d where d: "parse_lines (split_lines t) {} new_draft = Inr d" "finish_config d source = Inr c"
    using assms(2) by (auto simp: parse_config_def split: sum.splits)
  then obtain kvs where kvs: "entries t = map (\<lambda>kv. Inr (Some kv)) kvs" "accepted kvs {}" "d = fold apply_binding kvs new_draft"
    unfolding parse_lines_accepted entries_def by blast
  have "set (entries t') = (\<lambda>kv. Inr (Some kv)) ` set kvs" using mset_eq_setD [OF assms(1)] kvs(1) by simp
  then have "\<forall>x \<in> set (entries t'). \<exists>kv. x = Inr (Some kv)" by blast
  then obtain kvs' where kvs': "entries t' = map (\<lambda>kv. Inr (Some kv)) kvs'" by (metis ex_map_conv)
  have "mset kvs = mset kvs'"
    using assms(1) injD [OF multiset.inj_map, of "\<lambda>kv. Inr (Some kv)" "mset kvs" "mset kvs'"] kvs(1) kvs' by (simp add: inj_def)
  then have "parse_lines (split_lines t') {} new_draft = Inr d"
    using bindings_commute [OF kvs(2), of kvs' new_draft] kvs(3) kvs' unfolding parse_lines_accepted entries_def by auto
  then show ?thesis using d(2) by (simp add: parse_config_def)
qed

text \<open>
  C29. Only the bindings of a configuration count. Two texts whose lines have the same
  bindings, in any order and with any comments, blank lines and spacing, are accepted alike and
  yield the same configuration.
\<close>

theorem config_order_irrelevant:
  assumes "mset (entries t) = mset (entries t')"
  shows "parse_config t source = Inr c \<longleftrightarrow> parse_config t' source = Inr c"
  using order_irrelevant [OF assms] order_irrelevant [OF assms [symmetric]] by blast

definition sample_lines :: "string list" where
  "sample_lines =
     [''policy.generation = 1'', ''policy.envelope.TrainingBulk.ceiling_bps = 1000'', ''topology.generation = 1'',
      ''topology.path.1.capacity_bps = 2000'', ''contract.11111111-2222-4333-8444-555555555555.generation = 1'']"

definition text_of_lines :: "string list \<Rightarrow> string" where
  "text_of_lines ls = concat (map (\<lambda>l. l @ [CHR 0x0A]) ls)"

lemma sample_entries:
  "mset (entries (text_of_lines sample_lines)) = mset (entries (text_of_lines (''# the same, backwards'' # rev sample_lines)))"
  by code_simp

lemma sample_accepted: "\<not> isl (parse_config (text_of_lines sample_lines) ''sample'')"
  by code_simp

theorem config_order_irrelevant_witness:
  "\<exists>c. parse_config (text_of_lines sample_lines) ''sample'' = Inr c \<and>
     parse_config (text_of_lines (''# the same, backwards'' # rev sample_lines)) ''sample'' = Inr c"
  using config_order_irrelevant [OF sample_entries, of "''sample''"] sample_accepted by (metis isl_def obj_sumE)

text \<open>
  The limits are read as 64-bit numbers and narrowed without a check: a bound just above the
  32-bit range is accepted as a bound of one.
\<close>

lemma limits_truncated:
  "map_sum id (\<lambda>u. lim_max_sessions (u default_limits)) (limits_setting ''max_sessions'' ''4294967297'') = Inr 1"
  by code_simp

end
