(* ===== verification/Spec2Isabelle.thy ===== *)
theory Spec2Isabelle
  imports Engine_Submission Client Config
begin

text \<open>
  Checkpoint Traffic Fabric: a coordinator that admits, shapes, supersedes and accounts for
  checkpoint traffic.
\<close>

section \<open>Conservation of bytes\<close>



end
